(* ===== verification/Prelude.thy ===== *)
theory Prelude
  imports Main "HOL-Library.AList" "HOL-Library.Char_ord" "HOL-Library.List_Lexorder"
begin

text \<open>
  Shared vocabulary of the development: results (an error or a value), association lists
  that stand for Go maps, the string functions of the Go standard library that the program
  calls (restricted to ASCII case folding and white space), instants and durations in
  nanoseconds, and generic lemmas about filters, updates and folds on tables.
\<close>

named_theorems result_simps "rewrite rules for results"
named_theorems table_simps "rewrite rules for tables of rows"
named_theorems inv_intros "introduction rules for component invariants"

section \<open>Results\<close>

type_synonym ('e, 'a) result = "'e + 'a"

fun bindR :: "('e, 'a) result \<Rightarrow> ('a \<Rightarrow> ('e, 'b) result) \<Rightarrow> ('e, 'b) result" where
  "bindR (Inl e) f = Inl e"
| "bindR (Inr x) f = f x"

definition is_ok :: "('e, 'a) result \<Rightarrow> bool" where
  "is_ok r = (case r of Inl _ \<Rightarrow> False | Inr _ \<Rightarrow> True)"

lemma is_ok_simps [simp, result_simps]:
  "is_ok (Inl e) = False" "is_ok (Inr x) = True"
  by (simp_all add: is_ok_def)

lemma bindR_Inr_iff [result_simps]: "bindR r f = Inr y \<longleftrightarrow> (\<exists>x. r = Inr x \<and> f x = Inr y)"
  by (cases r) auto

lemma bindR_Inl_iff [result_simps]:
  "bindR r f = Inl e \<longleftrightarrow> r = Inl e \<or> (\<exists>x. r = Inr x \<and> f x = Inl e)"
  by (cases r) auto

lemma bindR_assoc: "bindR (bindR r f) g = bindR r (\<lambda>x. bindR (f x) g)"
  by (cases r) auto

text \<open>A guard: the early \<open>return err\<close> of a validation step.\<close>

definition guardR :: "bool \<Rightarrow> 'e \<Rightarrow> ('e, unit) result" where
  "guardR b e = (if b then Inr () else Inl e)"

lemma guardR_iff [simp, result_simps]:
  "guardR b e = Inr u \<longleftrightarrow> b" "guardR b e = Inl e' \<longleftrightarrow> \<not> b \<and> e' = e"
  by (auto simp: guardR_def)

text \<open>A loop over a list that returns at the first error.\<close>

fun forR :: "('a \<Rightarrow> ('e, unit) result) \<Rightarrow> 'a list \<Rightarrow> ('e, unit) result" where
  "forR f [] = Inr ()"
| "forR f (x # xs) = (case f x of Inl e \<Rightarrow> Inl e | Inr _ \<Rightarrow> forR f xs)"

lemma forR_ok [result_simps]: "forR f xs = Inr u \<longleftrightarrow> (\<forall>x \<in> set xs. f x = Inr ())"
  by (induction xs) (auto split: sum.splits)

lemma forR_err: "forR f xs = Inl e \<Longrightarrow> \<exists>x \<in> set xs. f x = Inl e"
  by (induction xs) (auto split: sum.splits)

fun foldR :: "('a \<Rightarrow> 's \<Rightarrow> ('e, 's) result) \<Rightarrow> 'a list \<Rightarrow> 's \<Rightarrow> ('e, 's) result" where
  "foldR f [] s = Inr s"
| "foldR f (x # xs) s = (case f x s of Inl e \<Rightarrow> Inl e | Inr s' \<Rightarrow> foldR f xs s')"

lemma foldR_append: "foldR f (xs @ ys) s = bindR (foldR f xs s) (foldR f ys)"
  by (induction xs arbitrary: s) (auto split: sum.splits)

lemma foldR_invariant:
  assumes "\<And>x s s'. x \<in> set xs \<Longrightarrow> P s \<Longrightarrow> f x s = Inr s' \<Longrightarrow> P s'"
    and "P s" and "foldR f xs s = Inr s'"
  shows "P s'"
  using assms
proof (induction xs arbitrary: s)
  case (Cons x xs)
  then obtain s1 where s1: "f x s = Inr s1" "foldR f xs s1 = Inr s'"
    by (auto split: sum.splits)
  show ?case
    by (rule Cons.IH [of s1]) (use Cons.prems s1 in auto)
qed simp

text \<open>A statement whose error the caller drops.\<close>

definition ignore_err :: "('e, 's) result \<Rightarrow> 's \<Rightarrow> 's" where
  "ignore_err r s = (case r of Inl _ \<Rightarrow> s | Inr s' \<Rightarrow> s')"

text \<open>A loop that threads a state and may fail without a message.\<close>

fun foldO :: "('a \<Rightarrow> 's \<Rightarrow> 's option) \<Rightarrow> 'a list \<Rightarrow> 's \<Rightarrow> 's option" where
  "foldO f [] s = Some s"
| "foldO f (x # xs) s = (case f x s of None \<Rightarrow> None | Some s' \<Rightarrow> foldO f xs s')"

lemma foldO_append: "foldO f (xs @ ys) s = (case foldO f xs s of None \<Rightarrow> None | Some s' \<Rightarrow> foldO f ys s')"
  by (induction xs arbitrary: s) (auto split: option.splits)

lemma foldO_if:
  "foldO f (if b then xs else []) s = (if b then foldO f xs s else Some s)"
  by simp

section \<open>Strings\<close>

definition is_space :: "char \<Rightarrow> bool" where
  "is_space c = (c \<in> {CHR '' '', CHR 0x09, CHR 0x0A, CHR 0x0B, CHR 0x0C, CHR 0x0D})"

fun trim_left :: "string \<Rightarrow> string" where
  "trim_left [] = []"
| "trim_left (c # cs) = (if is_space c then trim_left cs else c # cs)"

definition TrimSpace :: "string \<Rightarrow> string" where
  "TrimSpace s = rev (trim_left (rev (trim_left s)))"

definition upper_char :: "char \<Rightarrow> char" where
  "upper_char c = (if CHR ''a'' \<le> c \<and> c \<le> CHR ''z'' then char_of (of_char c - (32 :: nat)) else c)"

definition lower_char :: "char \<Rightarrow> char" where
  "lower_char c = (if CHR ''A'' \<le> c \<and> c \<le> CHR ''Z'' then char_of (of_char c + (32 :: nat)) else c)"

definition ToUpper :: "string \<Rightarrow> string" where
  "ToUpper s = map upper_char s"

definition ToLower :: "string \<Rightarrow> string" where
  "ToLower s = map lower_char s"

fun HasPrefix :: "string \<Rightarrow> string \<Rightarrow> bool" where
  "HasPrefix s [] = True"
| "HasPrefix [] (p # ps) = False"
| "HasPrefix (c # cs) (p # ps) = (c = p \<and> HasPrefix cs ps)"

definition HasSuffix :: "string \<Rightarrow> string \<Rightarrow> bool" where
  "HasSuffix s p = HasPrefix (rev s) (rev p)"

fun Contains :: "string \<Rightarrow> string \<Rightarrow> bool" where
  "Contains [] p = (p = [])"
| "Contains (c # cs) p = (HasPrefix (c # cs) p \<or> Contains cs p)"

definition TrimPrefix :: "string \<Rightarrow> string \<Rightarrow> string" where
  "TrimPrefix s p = (if HasPrefix s p then drop (length p) s else s)"

text \<open>\<open>strings.Split\<close> at a one-character separator: always at least one field.\<close>

fun SplitOn :: "char \<Rightarrow> string \<Rightarrow> string list" where
  "SplitOn d [] = [[]]"
| "SplitOn d (c # cs) =
     (if c = d then [] # SplitOn d cs
      else (case SplitOn d cs of [] \<Rightarrow> [[c]] | f # fs \<Rightarrow> (c # f) # fs))"

fun Join :: "string list \<Rightarrow> string \<Rightarrow> string" where
  "Join [] sep = []"
| "Join [x] sep = x"
| "Join (x # y # ys) sep = x @ sep @ Join (y # ys) sep"

lemma HasPrefix_iff: "HasPrefix s p \<longleftrightarrow> (\<exists>t. s = p @ t)"
  by (induction s p rule: HasPrefix.induct) auto

lemma HasPrefix_append [simp]: "HasPrefix (p @ t) p"
  by (auto simp: HasPrefix_iff)

lemma HasSuffix_iff: "HasSuffix s p \<longleftrightarrow> (\<exists>t. s = t @ p)"
  unfolding HasSuffix_def HasPrefix_iff by (metis rev_append rev_rev_ident)

lemma Contains_iff: "Contains s p \<longleftrightarrow> (\<exists>a b. s = a @ p @ b)"
proof (induction s p rule: Contains.induct)
  case (2 c cs p)
  have "(\<exists>a b. c # cs = a @ p @ b) \<longleftrightarrow> (\<exists>b. c # cs = p @ b) \<or> (\<exists>a b. cs = a @ p @ b)"
    by (metis append_Cons append_Nil list.exhaust list.inject)
  then show ?case
    using "2" by (simp add: HasPrefix_iff)
qed auto

lemma SplitOn_nonempty [simp]: "SplitOn d s \<noteq> []"
  by (cases s) (auto split: list.splits)

lemma SplitOn_no_sep: "d \<notin> set s \<Longrightarrow> SplitOn d s = [s]"
  by (induction s) auto

lemma SplitOn_append: "d \<notin> set a \<Longrightarrow> SplitOn d (a @ d # b) = a # SplitOn d b"
  by (induction a) auto

lemma SplitOn_Join:
  "xs \<noteq> [] \<Longrightarrow> \<forall>x \<in> set xs. d \<notin> set x \<Longrightarrow> SplitOn d (Join xs [d]) = xs"
  by (induction xs "[d]" rule: Join.induct) (auto simp: SplitOn_no_sep SplitOn_append)

text \<open>Decimal rendering of integers, \<open>strconv.Itoa\<close> and the verb \<open>%d\<close>.\<close>

definition digit :: "nat \<Rightarrow> char" where
  "digit d = char_of (48 + d)"

fun show_nat :: "nat \<Rightarrow> string" where
  "show_nat n = (if n < 10 then [digit n] else show_nat (n div 10) @ [digit (n mod 10)])"

declare show_nat.simps [simp del]

definition Itoa :: "int \<Rightarrow> string" where
  "Itoa i = (if i < 0 then ''-'' @ show_nat (nat (- i)) else show_nat (nat i))"

text \<open>Decimal parsing of an optionally signed number, \<open>strconv.Atoi\<close>.\<close>

definition is_digit :: "char \<Rightarrow> bool" where
  "is_digit c = (CHR ''0'' \<le> c \<and> c \<le> CHR ''9'')"

definition digit_val :: "char \<Rightarrow> nat" where
  "digit_val c = of_char c - 48"

fun parse_digits :: "nat \<Rightarrow> string \<Rightarrow> nat option" where
  "parse_digits acc [] = Some acc"
| "parse_digits acc (c # cs) =
     (if is_digit c then parse_digits (10 * acc + digit_val c) cs else None)"

definition in_int64 :: "int \<Rightarrow> bool" where
  "in_int64 i = (- (2 ^ 63) \<le> i \<and> i < 2 ^ 63)"

definition checked64 :: "int option \<Rightarrow> int option" where
  "checked64 r = (case r of None \<Rightarrow> None | Some i \<Rightarrow> if in_int64 i then Some i else None)"

fun Atoi :: "string \<Rightarrow> int option" where
  "Atoi [] = None"
| "Atoi (c # cs) = checked64
     (if c = CHR ''-'' then (if cs = [] then None else map_option (\<lambda>n. - int n) (parse_digits 0 cs))
      else if c = CHR ''+'' then (if cs = [] then None else map_option int (parse_digits 0 cs))
      else map_option int (parse_digits 0 (c # cs)))"

section \<open>Go maps as association lists\<close>

lemma map_of_update [simp]: "map_of (AList.update k v al) = (map_of al)(k \<mapsto> v)"
  by (rule ext) (simp add: update_conv')

lemma distinct_fst_update [simp]:
  "distinct (map fst al) \<Longrightarrow> distinct (map fst (AList.update k v al))"
  by (rule distinct_update)

lemma set_AList_update: "set (AList.update k v al) \<subseteq> insert (k, v) (set al)"
  by (induction al) auto

text \<open>Writing every pair of a list into a map, in order: later pairs win.\<close>

definition put_all :: "('k \<times> 'v) list \<Rightarrow> ('k \<times> 'v) list \<Rightarrow> ('k \<times> 'v) list" where
  "put_all ps al = fold (\<lambda>(k, v) m. AList.update k v m) ps al"

lemma map_of_put_all:
  "map_of (put_all ps al) k = (case map_of (rev ps) k of None \<Rightarrow> map_of al k | Some v \<Rightarrow> Some v)"
proof (induction ps arbitrary: al)
  case (Cons p ps)
  obtain k' v' where "p = (k', v')" by (cases p)
  then show ?case
    using Cons.IH [of "AList.update k' v' al"]
    by (auto simp: put_all_def map_add_def split: option.splits)
qed (simp add: put_all_def)

lemma distinct_put_all [simp]:
  "distinct (map fst al) \<Longrightarrow> distinct (map fst (put_all ps al))"
  by (induction ps arbitrary: al) (auto simp: put_all_def)

lemma map_of_rev_distinct: "distinct (map fst ps) \<Longrightarrow> map_of (rev ps) = map_of ps"
  by (rule map_of_inject_set [THEN iffD2]) (simp_all add: rev_map [symmetric])

section \<open>Instants and durations\<close>

type_synonym time = int
type_synonym duration = int

definition second :: duration where "second = 1000000000"
definition minute :: duration where "minute = 60 * second"
definition hour :: duration where "hour = 60 * minute"
definition day :: duration where "day = 24 * hour"

lemma duration_pos [simp]: "0 < second" "0 < minute" "0 < hour" "0 < day"
  by (simp_all add: second_def minute_def hour_def day_def)

lemma duration_nonneg [simp]: "0 \<le> second" "0 \<le> minute" "0 \<le> hour" "0 \<le> day"
  by (simp_all add: second_def minute_def hour_def day_def)

lemmas duration_defs = second_def minute_def hour_def day_def

text \<open>Storage keeps instants with a resolution of one second (RFC 3339 text).\<close>

definition trunc_sec :: "time \<Rightarrow> time" where
  "trunc_sec t = second * (t div second)"

lemma trunc_sec_idem [simp]: "trunc_sec (trunc_sec t) = trunc_sec t"
  by (simp add: trunc_sec_def)

lemma trunc_sec_le: "trunc_sec t \<le> t"
proof -
  have "second * (t div second) + t mod second = t" by (rule mult_div_mod_eq)
  moreover have "0 \<le> t mod second" by simp
  ultimately show ?thesis unfolding trunc_sec_def by linarith
qed

lemma trunc_sec_gt: "t - second < trunc_sec t"
proof -
  have "second * (t div second) + t mod second = t" by (rule mult_div_mod_eq)
  moreover have "t mod second < second" by simp
  ultimately show ?thesis unfolding trunc_sec_def by linarith
qed

lemma trunc_sec_mono: "s \<le> t \<Longrightarrow> trunc_sec s \<le> trunc_sec t"
  by (simp add: trunc_sec_def zdiv_mono1)

text \<open>Durations are int64 counts of nanoseconds: products wrap around.\<close>

definition wrap64 :: "int \<Rightarrow> int" where
  "wrap64 i = (i + 2 ^ 63) mod 2 ^ 64 - 2 ^ 63"

lemma wrap64_id: "in_int64 i \<Longrightarrow> wrap64 i = i"
  by (simp add: wrap64_def in_int64_def)

definition seconds :: "int \<Rightarrow> duration" where
  "seconds n = wrap64 (n * second)"

lemma seconds_eq: "0 \<le> n \<Longrightarrow> n < 9000000000 \<Longrightarrow> seconds n = n * second"
  by (simp add: seconds_def second_def wrap64_id in_int64_def)

section \<open>Tables of rows\<close>

text \<open>An \<open>UPDATE ... WHERE id = ?\<close> rewrites the rows with the key and keeps the others.\<close>

definition update_where :: "('r \<Rightarrow> bool) \<Rightarrow> ('r \<Rightarrow> 'r) \<Rightarrow> 'r list \<Rightarrow> 'r list" where
  "update_where P f rs = map (\<lambda>r. if P r then f r else r) rs"

lemma length_update_where [simp]: "length (update_where P f rs) = length rs"
  by (simp add: update_where_def)

lemma set_update_where [table_simps]:
  "set (update_where P f rs) = f ` {r \<in> set rs. P r} \<union> {r \<in> set rs. \<not> P r}"
  by (auto simp: update_where_def)

lemma update_where_none: "(\<And>r. r \<in> set rs \<Longrightarrow> \<not> P r) \<Longrightarrow> update_where P f rs = rs"
  by (induction rs) (auto simp: update_where_def)

lemma map_update_where:
  "(\<And>r. r \<in> set rs \<Longrightarrow> P r \<Longrightarrow> g (f r) = g r) \<Longrightarrow> map g (update_where P f rs) = map g rs"
  by (induction rs) (auto simp: update_where_def)

lemma find_update_where_other:
  "(\<And>r. r \<in> set rs \<Longrightarrow> P r \<Longrightarrow> \<not> Q r \<and> \<not> Q (f r)) \<Longrightarrow> find Q (update_where P f rs) = find Q rs"
  by (induction rs) (auto simp: update_where_def)

lemma find_update_where_same:
  "(\<And>r. Q (f r) = Q r) \<Longrightarrow>
   find Q (update_where Q f rs) = map_option f (find Q rs)"
  by (induction rs) (auto simp: update_where_def)

lemma find_append: "find P (xs @ ys) = (case find P xs of None \<Rightarrow> find P ys | Some x \<Rightarrow> Some x)"
  by (induction xs) auto

lemma find_filter: "find P (filter Q xs) = find (\<lambda>x. Q x \<and> P x) xs"
  by (induction xs) auto

lemma find_SomeD: "find P xs = Some x \<Longrightarrow> x \<in> set xs \<and> P x"
  by (auto simp: find_Some_iff)

lemma find_cong_pred: "(\<And>x. x \<in> set xs \<Longrightarrow> P x = Q x) \<Longrightarrow> find P xs = find Q xs"
  by (induction xs) auto

text \<open>The rows of a query, capped by \<open>LIMIT\<close> and skipping \<open>OFFSET\<close>.\<close>

definition page :: "nat \<Rightarrow> nat \<Rightarrow> 'r list \<Rightarrow> 'r list" where
  "page lim off rs = take lim (drop off rs)"

lemma set_page: "set (page lim off rs) \<subseteq> set rs"
  unfolding page_def by (meson set_drop_subset set_take_subset subset_trans)

lemma length_page: "length (page lim off rs) \<le> lim"
  by (simp add: page_def)

lemma option_le_cases: "(x :: 'a option) = None \<or> (\<exists>y. x = Some y)"
  by (cases x) auto

end
