(* ===== verification/Model.thy ===== *)
theory Model
  imports Prelude
begin

text \<open>
  The schedule data model (\<open>internal/model/schedule.go\<close>, \<open>tool_params.go\<close>,
  \<open>cascade.go\<close>): records for schedules, templates, blackouts and defaults, the JSON
  values of a tool configuration with the decoders and encoders of the five registered
  parameter structs, and the cascade that resolves the effective configuration of a
  schedule. A Go map is an association list, a pointer an option; a nil map and an empty
  one are told apart only inside \<open>shallowMergeJSONObjects\<close>, where it matters.
\<close>

section \<open>JSON values\<close>

text \<open>\<open>JDec\<close> is a number literal that is not an integer; \<open>JBad\<close> stands for raw bytes that
  are not JSON.\<close>

datatype json =
    JNull
  | JBool bool
  | JInt int
  | JDec string
  | JStr string
  | JArr "json list"
  | JObj "(string \<times> json) list"
  | JBad string

type_synonym ToolConfig = "(string \<times> json) list"

text \<open>Decoding of one struct field by \<open>json.Unmarshal\<close>; \<open>null\<close> leaves a scalar unchanged.\<close>

fun dec_str :: "json \<Rightarrow> string \<Rightarrow> string option" where
  "dec_str JNull old = Some old"
| "dec_str (JStr s) old = Some s"
| "dec_str _ old = None"

fun dec_int :: "json \<Rightarrow> int \<Rightarrow> int option" where
  "dec_int JNull old = Some old"
| "dec_int (JInt i) old = (if in_int64 i then Some i else None)"
| "dec_int _ old = None"

fun dec_bool :: "json \<Rightarrow> bool \<Rightarrow> bool option" where
  "dec_bool JNull old = Some old"
| "dec_bool (JBool b) old = Some b"
| "dec_bool _ old = None"

fun dec_strs :: "json \<Rightarrow> string list option" where
  "dec_strs JNull = Some []"
| "dec_strs (JArr js) = those (map (\<lambda>j. dec_str j []) js)"
| "dec_strs _ = None"

text \<open>Decoding a struct: the members in order, each matched to a field by its name without
  regard to case, unknown names ignored.\<close>

definition decode_struct :: "(string \<Rightarrow> json \<Rightarrow> 'p \<Rightarrow> 'p option) \<Rightarrow> 'p \<Rightarrow> json \<Rightarrow> 'p option" where
  "decode_struct fld zero j =
     (case j of
        JNull \<Rightarrow> Some zero
      | JObj kvs \<Rightarrow> foldO (\<lambda>(k, v) p. fld (ToLower k) v p) kvs zero
      | _ \<Rightarrow> None)"

text \<open>\<open>omitempty\<close>: a member is written only when its value is not the zero value.\<close>

definition opt_strs :: "string \<Rightarrow> string list \<Rightarrow> (string \<times> json) list" where
  "opt_strs k xs = (if xs = [] then [] else [(k, JArr (map JStr xs))])"

definition opt_int :: "string \<Rightarrow> int \<Rightarrow> (string \<times> json) list" where
  "opt_int k i = (if i = 0 then [] else [(k, JInt i)])"

definition opt_str :: "string \<Rightarrow> string \<Rightarrow> (string \<times> json) list" where
  "opt_str k s = (if s = [] then [] else [(k, JStr s)])"

definition opt_bool :: "string \<Rightarrow> bool \<Rightarrow> (string \<times> json) list" where
  "opt_bool k b = (if b then [(k, JBool b)] else [])"

section \<open>Tool parameters\<close>

record NucleiParams =
  nu_Templates :: "string list"
  nu_Severity :: "string list"
  nu_Tags :: "string list"
  nu_ExcludeTags :: "string list"
  nu_RateLimit :: int
  nu_Timeout :: duration

record NaabuParams =
  na_Ports :: string
  na_Rate :: int
  na_Retries :: int
  na_ScanType :: string
  na_BannerGrab :: bool

record HttpxParams =
  hx_Threads :: int
  hx_Probes :: "string list"
  hx_FollowRedirects :: bool
  hx_Timeout :: duration

record SubfinderParams =
  sf_Sources :: "string list"
  sf_AllSources :: bool
  sf_Recursive :: bool
  sf_Resolvers :: "string list"

record DnsxParams =
  dx_RecordTypes :: "string list"
  dx_Resolvers :: "string list"
  dx_Retries :: int

definition nuclei_zero :: NucleiParams where
  "nuclei_zero = \<lparr>nu_Templates = [], nu_Severity = [], nu_Tags = [], nu_ExcludeTags = [],
                  nu_RateLimit = 0, nu_Timeout = 0\<rparr>"

definition nuclei_field :: "string \<Rightarrow> json \<Rightarrow> NucleiParams \<Rightarrow> NucleiParams option" where
  "nuclei_field k v p =
     (if k = ''templates'' then map_option (\<lambda>x. p\<lparr>nu_Templates := x\<rparr>) (dec_strs v)
      else if k = ''severity'' then map_option (\<lambda>x. p\<lparr>nu_Severity := x\<rparr>) (dec_strs v)
      else if k = ''tags'' then map_option (\<lambda>x. p\<lparr>nu_Tags := x\<rparr>) (dec_strs v)
      else if k = ''exclude_tags'' then map_option (\<lambda>x. p\<lparr>nu_ExcludeTags := x\<rparr>) (dec_strs v)
      else if k = ''rate_limit'' then map_option (\<lambda>x. p\<lparr>nu_RateLimit := x\<rparr>) (dec_int v (nu_RateLimit p))
      else if k = ''timeout'' then map_option (\<lambda>x. p\<lparr>nu_Timeout := x\<rparr>) (dec_int v (nu_Timeout p))
      else Some p)"

definition decode_nuclei :: "json \<Rightarrow> NucleiParams option" where
  "decode_nuclei = decode_struct nuclei_field nuclei_zero"

definition encode_nuclei :: "NucleiParams \<Rightarrow> json" where
  "encode_nuclei p = JObj (opt_strs ''templates'' (nu_Templates p) @ opt_strs ''severity'' (nu_Severity p)
     @ opt_strs ''tags'' (nu_Tags p) @ opt_strs ''exclude_tags'' (nu_ExcludeTags p)
     @ opt_int ''rate_limit'' (nu_RateLimit p) @ opt_int ''timeout'' (nu_Timeout p))"

definition naabu_zero :: NaabuParams where
  "naabu_zero = \<lparr>na_Ports = [], na_Rate = 0, na_Retries = 0, na_ScanType = [], na_BannerGrab = False\<rparr>"

definition naabu_field :: "string \<Rightarrow> json \<Rightarrow> NaabuParams \<Rightarrow> NaabuParams option" where
  "naabu_field k v p =
     (if k = ''ports'' then map_option (\<lambda>x. p\<lparr>na_Ports := x\<rparr>) (dec_str v (na_Ports p))
      else if k = ''rate'' then map_option (\<lambda>x. p\<lparr>na_Rate := x\<rparr>) (dec_int v (na_Rate p))
      else if k = ''retries'' then map_option (\<lambda>x. p\<lparr>na_Retries := x\<rparr>) (dec_int v (na_Retries p))
      else if k = ''scan_type'' then map_option (\<lambda>x. p\<lparr>na_ScanType := x\<rparr>) (dec_str v (na_ScanType p))
      else if k = ''banner_grab'' then map_option (\<lambda>x. p\<lparr>na_BannerGrab := x\<rparr>) (dec_bool v (na_BannerGrab p))
      else Some p)"

definition decode_naabu :: "json \<Rightarrow> NaabuParams option" where
  "decode_naabu = decode_struct naabu_field naabu_zero"

definition encode_naabu :: "NaabuParams \<Rightarrow> json" where
  "encode_naabu p = JObj (opt_str ''ports'' (na_Ports p) @ opt_int ''rate'' (na_Rate p)
     @ opt_int ''retries'' (na_Retries p) @ opt_str ''scan_type'' (na_ScanType p)
     @ opt_bool ''banner_grab'' (na_BannerGrab p))"

definition httpx_zero :: HttpxParams where
  "httpx_zero = \<lparr>hx_Threads = 0, hx_Probes = [], hx_FollowRedirects = False, hx_Timeout = 0\<rparr>"

definition httpx_field :: "string \<Rightarrow> json \<Rightarrow> HttpxParams \<Rightarrow> HttpxParams option" where
  "httpx_field k v p =
     (if k = ''threads'' then map_option (\<lambda>x. p\<lparr>hx_Threads := x\<rparr>) (dec_int v (hx_Threads p))
      else if k = ''probes'' then map_option (\<lambda>x. p\<lparr>hx_Probes := x\<rparr>) (dec_strs v)
      else if k = ''follow_redirects'' then map_option (\<lambda>x. p\<lparr>hx_FollowRedirects := x\<rparr>) (dec_bool v (hx_FollowRedirects p))
      else if k = ''timeout'' then map_option (\<lambda>x. p\<lparr>hx_Timeout := x\<rparr>) (dec_int v (hx_Timeout p))
      else Some p)"

definition decode_httpx :: "json \<Rightarrow> HttpxParams option" where
  "decode_httpx = decode_struct httpx_field httpx_zero"

definition encode_httpx :: "HttpxParams \<Rightarrow> json" where
  "encode_httpx p = JObj (opt_int ''threads'' (hx_Threads p) @ opt_strs ''probes'' (hx_Probes p)
     @ opt_bool ''follow_redirects'' (hx_FollowRedirects p) @ opt_int ''timeout'' (hx_Timeout p))"

definition subfinder_zero :: SubfinderParams where
  "subfinder_zero = \<lparr>sf_Sources = [], sf_AllSources = False, sf_Recursive = False, sf_Resolvers = []\<rparr>"

definition subfinder_field :: "string \<Rightarrow> json \<Rightarrow> SubfinderParams \<Rightarrow> SubfinderParams option" where
  "subfinder_field k v p =
     (if k = ''sources'' then map_option (\<lambda>x. p\<lparr>sf_Sources := x\<rparr>) (dec_strs v)
      else if k = ''all_sources'' then map_option (\<lambda>x. p\<lparr>sf_AllSources := x\<rparr>) (dec_bool v (sf_AllSources p))
      else if k = ''recursive'' then map_option (\<lambda>x. p\<lparr>sf_Recursive := x\<rparr>) (dec_bool v (sf_Recursive p))
      else if k = ''resolvers'' then map_option (\<lambda>x. p\<lparr>sf_Resolvers := x\<rparr>) (dec_strs v)
      else Some p)"

definition decode_subfinder :: "json \<Rightarrow> SubfinderParams option" where
  "decode_subfinder = decode_struct subfinder_field subfinder_zero"

definition encode_subfinder :: "SubfinderParams \<Rightarrow> json" where
  "encode_subfinder p = JObj (opt_strs ''sources'' (sf_Sources p) @ opt_bool ''all_sources'' (sf_AllSources p)
     @ opt_bool ''recursive'' (sf_Recursive p) @ opt_strs ''resolvers'' (sf_Resolvers p))"

definition dnsx_zero :: DnsxParams where
  "dnsx_zero = \<lparr>dx_RecordTypes = [], dx_Resolvers = [], dx_Retries = 0\<rparr>"

definition dnsx_field :: "string \<Rightarrow> json \<Rightarrow> DnsxParams \<Rightarrow> DnsxParams option" where
  "dnsx_field k v p =
     (if k = ''record_types'' then map_option (\<lambda>x. p\<lparr>dx_RecordTypes := x\<rparr>) (dec_strs v)
      else if k = ''resolvers'' then map_option (\<lambda>x. p\<lparr>dx_Resolvers := x\<rparr>) (dec_strs v)
      else if k = ''retries'' then map_option (\<lambda>x. p\<lparr>dx_Retries := x\<rparr>) (dec_int v (dx_Retries p))
      else Some p)"

definition decode_dnsx :: "json \<Rightarrow> DnsxParams option" where
  "decode_dnsx = decode_struct dnsx_field dnsx_zero"

definition encode_dnsx :: "DnsxParams \<Rightarrow> json" where
  "encode_dnsx p = JObj (opt_strs ''record_types'' (dx_RecordTypes p)
     @ opt_strs ''resolvers'' (dx_Resolvers p) @ opt_int ''retries'' (dx_Retries p))"

definition DefaultNucleiParams :: NucleiParams where
  "DefaultNucleiParams = \<lparr>nu_Templates = [],
     nu_Severity = [''critical'', ''high'', ''medium'', ''low'', ''info''],
     nu_Tags = [], nu_ExcludeTags = [], nu_RateLimit = 150, nu_Timeout = 5 * second\<rparr>"

definition DefaultNaabuParams :: NaabuParams where
  "DefaultNaabuParams = \<lparr>na_Ports = ''top100'', na_Rate = 20, na_Retries = 1,
     na_ScanType = ''connect'', na_BannerGrab = True\<rparr>"

definition DefaultHttpxParams :: HttpxParams where
  "DefaultHttpxParams = \<lparr>hx_Threads = 50, hx_Probes = [''http'', ''https''],
     hx_FollowRedirects = True, hx_Timeout = 10 * second\<rparr>"

definition DefaultSubfinderParams :: SubfinderParams where
  "DefaultSubfinderParams = subfinder_zero\<lparr>sf_AllSources := True\<rparr>"

definition DefaultDnsxParams :: DnsxParams where
  "DefaultDnsxParams = \<lparr>dx_RecordTypes = [''A'', ''AAAA'', ''CNAME''], dx_Resolvers = [], dx_Retries = 1\<rparr>"

text \<open>The registry maps a tool name to the decoder of its params struct.\<close>

definition RegisteredToolParams :: "(string \<times> (json \<Rightarrow> bool)) list" where
  "RegisteredToolParams =
     [(''nuclei'', \<lambda>j. decode_nuclei j \<noteq> None),
      (''naabu'', \<lambda>j. decode_naabu j \<noteq> None),
      (''httpx'', \<lambda>j. decode_httpx j \<noteq> None),
      (''subfinder'', \<lambda>j. decode_subfinder j \<noteq> None),
      (''dnsx'', \<lambda>j. decode_dnsx j \<noteq> None)]"

datatype tool_error = ErrUnknownTool string | ErrInvalidToolParams string

definition validate_tool :: "string \<times> json \<Rightarrow> (tool_error, unit) result" where
  "validate_tool e =
     (case map_of RegisteredToolParams (fst e) of
        None \<Rightarrow> Inl (ErrUnknownTool (fst e))
      | Some decodes \<Rightarrow> if decodes (snd e) then Inr () else Inl (ErrInvalidToolParams (fst e)))"

definition ValidateToolConfig :: "ToolConfig \<Rightarrow> (tool_error, unit) result" where
  "ValidateToolConfig tc = forR validate_tool tc"

definition GetTool :: "(json \<Rightarrow> 'p option) \<Rightarrow> ToolConfig \<Rightarrow> string \<Rightarrow> 'p option" where
  "GetTool decode tc toolName = Option.bind (map_of tc toolName) decode"

definition SetTool :: "('p \<Rightarrow> json) \<Rightarrow> ToolConfig \<Rightarrow> string \<Rightarrow> 'p \<Rightarrow> ToolConfig" where
  "SetTool encode tc toolName params = AList.update toolName (encode params) tc"

section \<open>Schedules, templates, blackouts, defaults, ad-hoc runs\<close>

record MaintenanceWindow =
  mw_RRule :: string
  mw_DurationSec :: int
  mw_Timezone :: string

datatype ScheduleRunStatus =
    ScheduleRunSuccess | ScheduleRunFailed | ScheduleRunPausedBlackout
  | ScheduleRunSkippedOverlap | ScheduleRunSkippedBlackout

record Schedule =
  sch_ID :: string
  sch_TargetID :: string
  sch_Name :: string
  sch_RRule :: string
  sch_DTStart :: time
  sch_Timezone :: string
  sch_TemplateID :: "string option"
  sch_ToolConfig :: ToolConfig
  sch_Overrides :: "string list"
  sch_MaintenanceWindow :: "MaintenanceWindow option"
  sch_Enabled :: bool
  sch_NextRunAt :: "time option"
  sch_LastRunAt :: "time option"
  sch_LastRunStatus :: "ScheduleRunStatus option"
  sch_LastScanID :: "string option"
  sch_CreatedAt :: time
  sch_UpdatedAt :: time

record Template =
  tm_ID :: string
  tm_Name :: string
  tm_Description :: string
  tm_RRule :: string
  tm_Timezone :: string
  tm_ToolConfig :: ToolConfig
  tm_MaintenanceWindow :: "MaintenanceWindow option"
  tm_IsSystem :: bool
  tm_CreatedAt :: time
  tm_UpdatedAt :: time

datatype BlackoutScope = BlackoutScopeGlobal | BlackoutScopeTarget

record BlackoutWindow =
  bo_ID :: string
  bo_Scope :: BlackoutScope
  bo_TargetID :: "string option"
  bo_Name :: string
  bo_RRule :: string
  bo_DurationSec :: int
  bo_Timezone :: string
  bo_Enabled :: bool
  bo_CreatedAt :: time
  bo_UpdatedAt :: time

record ScheduleDefaults =
  sd_DefaultTemplateID :: "string option"
  sd_DefaultRRule :: string
  sd_DefaultTimezone :: string
  sd_DefaultToolConfig :: ToolConfig
  sd_DefaultMaintenanceWindow :: "MaintenanceWindow option"
  sd_MaxConcurrentScans :: int
  sd_RunOnStart :: bool
  sd_JitterSeconds :: int
  sd_UpdatedAt :: time

datatype AdHocRunStatus = AdHocPending | AdHocRunning | AdHocCompleted | AdHocFailed | AdHocCanceled

record AdHocScanRun =
  ah_ID :: string
  ah_TargetID :: string
  ah_TemplateID :: "string option"
  ah_ToolConfig :: ToolConfig
  ah_InitiatedBy :: string
  ah_Reason :: string
  ah_ScanID :: "string option"
  ah_Status :: AdHocRunStatus
  ah_RequestedAt :: time
  ah_StartedAt :: "time option"
  ah_CompletedAt :: "time option"

text \<open>The zero value of \<open>time.Time\<close>, the instant 0001-01-01T00:00:00Z.\<close>

definition zero_time :: time where
  "zero_time = - 62135596800 * second"

section \<open>The configuration cascade\<close>

record EffectiveConfig =
  ec_RRule :: string
  ec_Timezone :: string
  ec_ToolConfig :: ToolConfig
  ec_MaintenanceWindow :: "MaintenanceWindow option"

text \<open>\<open>NilMapPanic\<close> is the run-time panic of an assignment to an entry of a nil map.\<close>

datatype cascade_error = ErrRequiredFieldUnresolved string | NilMapPanic

definition overrideSet :: "string list \<Rightarrow> string \<Rightarrow> bool" where
  "overrideSet overrides name = (name \<in> set overrides)"

definition pickString :: "string \<Rightarrow> (string \<Rightarrow> bool) \<Rightarrow> string \<Rightarrow> string \<Rightarrow> string \<Rightarrow> string" where
  "pickString field overridden sched tmpl def =
     (if overridden field \<and> sched \<noteq> [] then sched
      else if tmpl \<noteq> [] then tmpl
      else if def \<noteq> [] then def
      else if sched \<noteq> [] then sched
      else [])"

definition tmplRRule :: "Template option \<Rightarrow> string" where
  "tmplRRule t = (case t of None \<Rightarrow> [] | Some t \<Rightarrow> tm_RRule t)"

definition tmplTimezone :: "Template option \<Rightarrow> string" where
  "tmplTimezone t = (case t of None \<Rightarrow> [] | Some t \<Rightarrow> tm_Timezone t)"

definition resolveMaintenanceWindow ::
  "(string \<Rightarrow> bool) \<Rightarrow> Schedule \<Rightarrow> Template option \<Rightarrow> ScheduleDefaults \<Rightarrow> MaintenanceWindow option" where
  "resolveMaintenanceWindow overridden s tmpl defaults =
     (if overridden ''maintenance_window'' \<and> sch_MaintenanceWindow s \<noteq> None then sch_MaintenanceWindow s
      else case Option.bind tmpl tm_MaintenanceWindow of
        Some w \<Rightarrow> Some w
      | None \<Rightarrow>
          (case sd_DefaultMaintenanceWindow defaults of
             Some w \<Rightarrow> Some w
           | None \<Rightarrow> sch_MaintenanceWindow s))"

text \<open>\<open>json.Unmarshal\<close> into a map: \<open>null\<close> succeeds and leaves the nil map.\<close>

datatype 'v gomap = NilMap | GoMap "(string \<times> 'v) list"

fun unmarshal_map :: "json \<Rightarrow> json gomap option" where
  "unmarshal_map JNull = Some NilMap"
| "unmarshal_map (JObj kvs) = Some (GoMap (put_all kvs []))"
| "unmarshal_map _ = None"

fun entries :: "'v gomap \<Rightarrow> (string \<times> 'v) list" where
  "entries NilMap = []"
| "entries (GoMap al) = al"

text \<open>\<open>json.Marshal\<close> of a map: the nil map is \<open>null\<close>, otherwise the keys are sorted.\<close>

fun marshal_map :: "json gomap \<Rightarrow> json" where
  "marshal_map NilMap = JNull"
| "marshal_map (GoMap al) = JObj (sort_key fst al)"

definition shallowMergeJSONObjects :: "json \<Rightarrow> json \<Rightarrow> (cascade_error, json) result" where
  "shallowMergeJSONObjects base overlay =
     (case unmarshal_map base of
        None \<Rightarrow> Inr overlay
      | Some baseMap \<Rightarrow>
          (case unmarshal_map overlay of
             None \<Rightarrow> Inr overlay
           | Some overlayMap \<Rightarrow>
               (case baseMap of
                  NilMap \<Rightarrow> if entries overlayMap = [] then Inr (marshal_map NilMap) else Inl NilMapPanic
                | GoMap al \<Rightarrow> Inr (marshal_map (GoMap (put_all (entries overlayMap) al))))))"

definition merge_entry :: "string \<times> json \<Rightarrow> ToolConfig \<Rightarrow> (cascade_error, ToolConfig) result" where
  "merge_entry e out =
     (case map_of out (fst e) of
        None \<Rightarrow> Inr (AList.update (fst e) (snd e) out)
      | Some existing \<Rightarrow>
          (case shallowMergeJSONObjects existing (snd e) of
             Inl x \<Rightarrow> Inl x
           | Inr v \<Rightarrow> Inr (AList.update (fst e) v out)))"

definition merge_layer :: "ToolConfig \<Rightarrow> ToolConfig \<Rightarrow> (cascade_error, ToolConfig) result" where
  "merge_layer layer out = foldR merge_entry layer out"

definition resolveToolConfig ::
  "Schedule \<Rightarrow> Template option \<Rightarrow> ScheduleDefaults \<Rightarrow> (cascade_error, ToolConfig) result" where
  "resolveToolConfig s tmpl defaults =
     foldR merge_layer
       ([sd_DefaultToolConfig defaults]
        @ (case tmpl of None \<Rightarrow> [] | Some t \<Rightarrow> [tm_ToolConfig t])
        @ [sch_ToolConfig s]) []"

definition ResolveEffectiveConfig ::
  "Schedule \<Rightarrow> Template option \<Rightarrow> ScheduleDefaults \<Rightarrow> (cascade_error, EffectiveConfig) result" where
  "ResolveEffectiveConfig s tmpl defaults =
     (let overridden = overrideSet (sch_Overrides s);
          rrule = pickString ''rrule'' overridden (sch_RRule s) (tmplRRule tmpl) (sd_DefaultRRule defaults)
      in if rrule = [] then Inl (ErrRequiredFieldUnresolved ''rrule'') else
      let tz = pickString ''timezone'' overridden (sch_Timezone s) (tmplTimezone tmpl) (sd_DefaultTimezone defaults)
      in if tz = [] then Inl (ErrRequiredFieldUnresolved ''timezone'') else
      let mw = resolveMaintenanceWindow overridden s tmpl defaults
      in case resolveToolConfig s tmpl defaults of
           Inl e \<Rightarrow> Inl e
         | Inr tc \<Rightarrow> Inr \<lparr>ec_RRule = rrule, ec_Timezone = tz, ec_ToolConfig = tc,
                           ec_MaintenanceWindow = mw\<rparr>)"

section \<open>Lemmas: decoding and encoding\<close>

lemma decode_struct_simps [simp]:
  "decode_struct fld z JNull = Some z"
  "decode_struct fld z (JObj kvs) = foldO (\<lambda>(k, v) p. fld (ToLower k) v p) kvs z"
  by (simp_all add: decode_struct_def)

lemma those_JStr [simp]: "those (map ((\<lambda>j. dec_str j []) \<circ> JStr) xs) = Some xs"
  by (induction xs) auto

lemma dec_strs_JStr [simp]: "dec_strs (JArr (map JStr xs)) = Some xs"
  by simp

lemma foldO_opt [simp]:
  "foldO (\<lambda>(k, v) p. f k v p) (opt_strs k xs) s = (if xs = [] then Some s else f k (JArr (map JStr xs)) s)"
  "foldO (\<lambda>(k, v) p. f k v p) (opt_int k i) s = (if i = 0 then Some s else f k (JInt i) s)"
  "foldO (\<lambda>(k, v) p. f k v p) (opt_str k t) s = (if t = [] then Some s else f k (JStr t) s)"
  "foldO (\<lambda>(k, v) p. f k v p) (opt_bool k b) s = (if b then f k (JBool b) s else Some s)"
  by (auto simp: opt_strs_def opt_int_def opt_str_def opt_bool_def split: option.splits)

lemma ToLower_fields [simp]:
  "ToLower ''templates'' = ''templates''" "ToLower ''severity'' = ''severity''"
  "ToLower ''tags'' = ''tags''" "ToLower ''exclude_tags'' = ''exclude_tags''"
  "ToLower ''rate_limit'' = ''rate_limit''" "ToLower ''timeout'' = ''timeout''"
  "ToLower ''ports'' = ''ports''" "ToLower ''rate'' = ''rate''" "ToLower ''retries'' = ''retries''"
  "ToLower ''scan_type'' = ''scan_type''" "ToLower ''banner_grab'' = ''banner_grab''"
  "ToLower ''threads'' = ''threads''" "ToLower ''probes'' = ''probes''"
  "ToLower ''follow_redirects'' = ''follow_redirects''" "ToLower ''sources'' = ''sources''"
  "ToLower ''all_sources'' = ''all_sources''" "ToLower ''recursive'' = ''recursive''"
  "ToLower ''resolvers'' = ''resolvers''" "ToLower ''record_types'' = ''record_types''"
  by code_simp+

lemma decode_encode_nuclei:
  assumes "in_int64 (nu_RateLimit p)" "in_int64 (nu_Timeout p)"
  shows "decode_nuclei (encode_nuclei p) = Some p"
  using assms by (cases p) (simp add: decode_nuclei_def encode_nuclei_def foldO_append nuclei_zero_def nuclei_field_def)

lemma decode_encode_naabu:
  assumes "in_int64 (na_Rate p)" "in_int64 (na_Retries p)"
  shows "decode_naabu (encode_naabu p) = Some p"
  using assms by (cases p) (simp add: decode_naabu_def encode_naabu_def foldO_append naabu_zero_def naabu_field_def)

lemma decode_encode_httpx:
  assumes "in_int64 (hx_Threads p)" "in_int64 (hx_Timeout p)"
  shows "decode_httpx (encode_httpx p) = Some p"
  using assms by (cases p) (simp add: decode_httpx_def encode_httpx_def foldO_append httpx_zero_def httpx_field_def)

lemma decode_encode_subfinder: "decode_subfinder (encode_subfinder p) = Some p"
  by (cases p) (simp add: decode_subfinder_def encode_subfinder_def foldO_append subfinder_zero_def subfinder_field_def)

lemma decode_encode_dnsx:
  assumes "in_int64 (dx_Retries p)"
  shows "decode_dnsx (encode_dnsx p) = Some p"
  using assms by (cases p) (simp add: decode_dnsx_def encode_dnsx_def foldO_append dnsx_zero_def dnsx_field_def)

lemma GetTool_SetTool: "decode (encode p) = Some p \<Longrightarrow> GetTool decode (SetTool encode tc n p) n = Some p"
  by (simp add: GetTool_def SetTool_def)

lemma GetTool_SetTool_other: "m \<noteq> n \<Longrightarrow> GetTool decode (SetTool encode tc n p) m = GetTool decode tc m"
  by (simp add: GetTool_def SetTool_def)

section \<open>Lemmas: the tool-config cascade\<close>

text \<open>The value of one parameter of one tool; of duplicate members the last one counts.\<close>

definition param :: "ToolConfig \<Rightarrow> string \<Rightarrow> string \<Rightarrow> json option" where
  "param tc tool p =
     (case map_of tc tool of Some (JObj kvs) \<Rightarrow> map_of (rev kvs) p | _ \<Rightarrow> None)"

definition is_obj :: "json \<Rightarrow> bool" where
  "is_obj j = (case j of JObj _ \<Rightarrow> True | _ \<Rightarrow> False)"

text \<open>A tool configuration as the Go map holds it (one entry per key), every payload an object.\<close>

definition obj_config :: "ToolConfig \<Rightarrow> bool" where
  "obj_config tc = (distinct (map fst tc) \<and> (\<forall>e \<in> set tc. is_obj (snd e)))"

definition first_some :: "'a option \<Rightarrow> 'a option \<Rightarrow> 'a option" where
  "first_some a b = (case a of Some x \<Rightarrow> Some x | None \<Rightarrow> b)"

lemma first_some_simps [simp]:
  "first_some (Some x) b = Some x" "first_some None b = b" "first_some a None = a"
  "first_some (first_some a b) c = first_some a (first_some b c)"
  by (auto simp: first_some_def split: option.splits)

lemma map_of_sort_key: "distinct (map fst al) \<Longrightarrow> map_of (rev (sort_key fst al)) = map_of al"
proof -
  assume d: "distinct (map fst al)"
  have "distinct (map fst (sort_key fst al))"
    using d by (simp add: distinct_map)
  then show ?thesis
    using d by (subst map_of_inject_set) (auto simp: rev_map [symmetric])
qed

lemma merge_objects:
  "shallowMergeJSONObjects (JObj b) (JObj v) = Inr (JObj (sort_key fst (put_all (put_all v []) (put_all b []))))"
  by (simp add: shallowMergeJSONObjects_def)

lemma map_of_put_all_put_all:
  "map_of (put_all (put_all v []) al) p = first_some (map_of (rev v) p) (map_of al p)"
proof -
  have "map_of (rev (put_all v [])) = map_of (put_all v [])"
    by (rule map_of_rev_distinct) simp
  then show ?thesis
    by (simp add: map_of_put_all first_some_def split: option.splits)
qed

lemma map_of_rev_put_all [simp]: "map_of (rev (put_all v [])) = map_of (rev v)"
  by (rule ext) (simp add: map_of_rev_distinct map_of_put_all split: option.splits)

lemma is_objE: "is_obj j \<Longrightarrow> (\<And>kvs. j = JObj kvs \<Longrightarrow> P) \<Longrightarrow> P"
  by (cases j) (auto simp: is_obj_def)

lemma obj_config_update:
  "obj_config out \<Longrightarrow> is_obj v \<Longrightarrow> obj_config (AList.update k v out)"
  using set_AList_update [of k v out] by (fastforce simp: obj_config_def)

lemma obj_config_lookup: "obj_config tc \<Longrightarrow> map_of tc k = Some j \<Longrightarrow> is_obj j"
  by (auto simp: obj_config_def dest: map_of_SomeD)

lemma param_update:
  "param (AList.update k (JObj kvs) out) tool p =
     (if tool = k then map_of (rev kvs) p else param out tool p)"
  by (simp add: param_def)

lemma merge_entry_ok:
  assumes out: "obj_config out"
  obtains out' where "merge_entry (k, JObj kvs) out = Inr out'" "obj_config out'"
    "\<And>tool p. param out' tool p =
       (if tool = k then first_some (map_of (rev kvs) p) (param out k p) else param out tool p)"
proof (cases "map_of out k")
  case None
  show ?thesis
    by (rule that [of "AList.update k (JObj kvs) out"])
       (use None out in \<open>auto simp: merge_entry_def param_update obj_config_update is_obj_def param_def\<close>)
next
  case (Some j)
  obtain old where j: "j = JObj old"
    by (rule is_objE [OF obj_config_lookup [OF out Some]])
  show ?thesis
    by (rule that [of "AList.update k (JObj (sort_key fst (put_all (put_all kvs []) (put_all old [])))) out"])
       (use Some j out in \<open>auto simp: merge_entry_def merge_objects param_update obj_config_update
          is_obj_def map_of_sort_key map_of_put_all_put_all param_def map_of_put_all first_some_def
          split: option.splits\<close>)
qed

lemma merge_layer_ok:
  assumes "obj_config layer" "obj_config out"
  obtains out' where "merge_layer layer out = Inr out'" "obj_config out'"
    "\<And>tool p. param out' tool p = first_some (param layer tool p) (param out tool p)"
proof -
  have "\<exists>out'. merge_layer layer out = Inr out' \<and> obj_config out' \<and>
          (\<forall>tool p. param out' tool p = first_some (param layer tool p) (param out tool p))"
    using assms
  proof (induction layer arbitrary: out)
    case Nil
    then show ?case by (simp add: merge_layer_def param_def)
  next
    case (Cons e layer)
    obtain k kvs where e: "e = (k, JObj kvs)"
      using Cons.prems(1) by (cases e) (auto simp: obj_config_def elim: is_objE)
    have k: "k \<notin> fst ` set layer" and layer: "obj_config layer"
      using Cons.prems(1) e by (auto simp: obj_config_def)
    obtain out1 where out1: "merge_entry e out = Inr out1" "obj_config out1"
        "\<And>tool p. param out1 tool p =
           (if tool = k then first_some (map_of (rev kvs) p) (param out k p) else param out tool p)"
      using merge_entry_ok [OF Cons.prems(2), of k kvs] e by metis
    obtain out' where out': "merge_layer layer out1 = Inr out'" "obj_config out'"
        "\<And>tool p. param out' tool p = first_some (param layer tool p) (param out1 tool p)"
      using Cons.IH [OF layer out1(2)] by blast
    have "param layer k p = None" for p
      using k by (auto simp: param_def map_of_eq_None_iff [symmetric] split: option.splits)
    then have "param out' tool p = first_some (param (e # layer) tool p) (param out tool p)" for tool p
      using out' out1 e by (auto simp: param_def)
    then show ?case
      using out' out1 by (auto simp: merge_layer_def)
  qed
  then show ?thesis using that by blast
qed

lemma param_Nil [simp]: "param [] tool p = None" "obj_config []"
  by (simp_all add: param_def obj_config_def)

definition tmpl_config :: "Template option \<Rightarrow> ToolConfig" where
  "tmpl_config t = (case t of None \<Rightarrow> [] | Some t \<Rightarrow> tm_ToolConfig t)"

lemma resolveToolConfig_alt:
  "resolveToolConfig s tmpl d = foldR merge_layer [sd_DefaultToolConfig d, tmpl_config tmpl, sch_ToolConfig s] []"
  by (cases tmpl) (auto simp: resolveToolConfig_def tmpl_config_def merge_layer_def split: sum.splits)

lemma resolveToolConfig_objects:
  assumes "obj_config (sd_DefaultToolConfig d)" "obj_config (tmpl_config tmpl)" "obj_config (sch_ToolConfig s)"
  obtains tc where "resolveToolConfig s tmpl d = Inr tc" "obj_config tc"
    "\<And>tool p. param tc tool p = first_some (param (sch_ToolConfig s) tool p)
        (first_some (param (tmpl_config tmpl) tool p) (param (sd_DefaultToolConfig d) tool p))"
proof -
  obtain o1 where o1: "merge_layer (sd_DefaultToolConfig d) [] = Inr o1" "obj_config o1"
      "\<And>tool p. param o1 tool p = first_some (param (sd_DefaultToolConfig d) tool p) (param [] tool p)"
    using merge_layer_ok [OF assms(1), of "[]"] by (auto simp: obj_config_def)
  obtain o2 where o2: "merge_layer (tmpl_config tmpl) o1 = Inr o2" "obj_config o2"
      "\<And>tool p. param o2 tool p = first_some (param (tmpl_config tmpl) tool p) (param o1 tool p)"
    using merge_layer_ok [OF assms(2) o1(2)] by blast
  obtain o3 where o3: "merge_layer (sch_ToolConfig s) o2 = Inr o3" "obj_config o3"
      "\<And>tool p. param o3 tool p = first_some (param (sch_ToolConfig s) tool p) (param o2 tool p)"
    using merge_layer_ok [OF assms(3) o2(2)] by blast
  show ?thesis
    by (rule that [of o3]) (use o1 o2 o3 in \<open>simp_all add: resolveToolConfig_alt\<close>)
qed

lemma shallowMerge_errors: "shallowMergeJSONObjects b v = Inl e \<Longrightarrow> e = NilMapPanic"
  by (auto simp: shallowMergeJSONObjects_def split: option.splits gomap.splits if_splits)

lemma foldR_error_source:
  "foldR f xs s = Inl e \<Longrightarrow> (\<And>x t. x \<in> set xs \<Longrightarrow> f x t = Inl e \<Longrightarrow> e = e0) \<Longrightarrow> e = e0"
proof (induction xs arbitrary: s)
  case (Cons x xs)
  show ?case
  proof (cases "f x s")
    case (Inl e')
    then show ?thesis using Cons.prems by auto
  next
    case (Inr s')
    then show ?thesis using Cons.prems Cons.IH [of s'] by auto
  qed
qed simp

lemma put_all_empty_iff [simp]: "put_all kvs [] = [] \<longleftrightarrow> kvs = []"
proof
  assume e: "put_all kvs [] = []"
  show "kvs = []"
  proof (rule ccontr)
    assume "kvs \<noteq> []"
    then obtain k v where "(k, v) \<in> set (rev kvs)" by (cases kvs) auto
    then have "map_of (rev kvs) k \<noteq> None" by (metis map_of_eq_None_iff fst_conv imageI)
    moreover have "map_of (put_all kvs []) k = None" by (simp add: e)
    ultimately show False by (auto simp: map_of_put_all split: option.splits)
  qed
qed (simp add: put_all_def)

lemma shallowMerge_panic_iff:
  "shallowMergeJSONObjects b v = Inl NilMapPanic \<longleftrightarrow> b = JNull \<and> (\<exists>kv kvs. v = JObj (kv # kvs))"
  by (cases b; cases v) (auto simp: shallowMergeJSONObjects_def neq_Nil_conv)

lemma merge_layer_errors: "merge_layer l out = Inl e \<Longrightarrow> e = NilMapPanic"
  unfolding merge_layer_def
  by (erule foldR_error_source)
    (auto simp: merge_entry_def split: option.splits sum.splits dest: shallowMerge_errors)

lemma resolveToolConfig_no_field_error: "resolveToolConfig s tmpl d \<noteq> Inl (ErrRequiredFieldUnresolved f)"
proof
  assume "resolveToolConfig s tmpl d = Inl (ErrRequiredFieldUnresolved f)"
  then have "ErrRequiredFieldUnresolved f = NilMapPanic"
    unfolding resolveToolConfig_alt by (rule foldR_error_source) (rule merge_layer_errors)
  then show False by simp
qed

lemma pickString_empty_iff: "pickString f ov s t d = [] \<longleftrightarrow> s = [] \<and> t = [] \<and> d = []"
  by (auto simp: pickString_def)

section \<open>Properties\<close>


definition ex_schedule :: Schedule where
  "ex_schedule = \<lparr>sch_ID = ''s1'', sch_TargetID = ''t1'', sch_Name = ''nightly'',
     sch_RRule = ''FREQ=DAILY'', sch_DTStart = 0, sch_Timezone = ''UTC'', sch_TemplateID = None,
     sch_ToolConfig = [(''nuclei'', JObj [(''rate_limit'', JInt 5)])], sch_Overrides = [],
     sch_MaintenanceWindow = None, sch_Enabled = True, sch_NextRunAt = Some 0, sch_LastRunAt = None,
     sch_LastRunStatus = None, sch_LastScanID = None, sch_CreatedAt = 0, sch_UpdatedAt = 0\<rparr>"

definition ex_defaults :: ScheduleDefaults where
  "ex_defaults = \<lparr>sd_DefaultTemplateID = None, sd_DefaultRRule = ''FREQ=DAILY;BYHOUR=2'',
     sd_DefaultTimezone = ''UTC'', sd_DefaultToolConfig = [(''nuclei'', JObj [(''timeout'', JInt 9)])],
     sd_DefaultMaintenanceWindow = None, sd_MaxConcurrentScans = 4, sd_RunOnStart = False,
     sd_JitterSeconds = 60, sd_UpdatedAt = 0\<rparr>"


text \<open>Resolution of the recurrence and the time zone. The cascade reports an unresolved
  field exactly when all three layers leave it empty, the recurrence first; otherwise the
  resolved values are the overriding schedule's, else the template's, else the default's,
  else the schedule's own.\<close>

theorem cascade_required_fields:
  "ResolveEffectiveConfig s tmpl d = Inl (ErrRequiredFieldUnresolved f) \<longleftrightarrow>
     (f = ''rrule'' \<and> sch_RRule s = [] \<and> tmplRRule tmpl = [] \<and> sd_DefaultRRule d = []) \<or>
     (f = ''timezone'' \<and> \<not> (sch_RRule s = [] \<and> tmplRRule tmpl = [] \<and> sd_DefaultRRule d = []) \<and>
        sch_Timezone s = [] \<and> tmplTimezone tmpl = [] \<and> sd_DefaultTimezone d = [])"
proof -
  have panic: "resolveToolConfig s tmpl d \<noteq> Inl (ErrRequiredFieldUnresolved f)"
    by (rule resolveToolConfig_no_field_error)
  show ?thesis
    using panic by (auto simp: ResolveEffectiveConfig_def pickString_empty_iff Let_def split: sum.splits)
qed

text \<open>A \<open>null\<close> payload crashes the cascade. \<open>ValidateToolConfig\<close> accepts \<open>null\<close> for any
  registered tool, but when a lower layer holds \<open>null\<close> for a tool and a higher layer a
  non-empty object for it, the merge assigns to an entry of a nil map and panics.\<close>

theorem null_payload_panics:
  "ValidateToolConfig [(''nuclei'', JNull)] = Inr () \<and>
   (shallowMergeJSONObjects b v = Inl NilMapPanic \<longleftrightarrow> b = JNull \<and> (\<exists>kv kvs. v = JObj (kv # kvs))) \<and>
   ResolveEffectiveConfig ex_schedule None
     (ex_defaults\<lparr>sd_DefaultToolConfig := [(''nuclei'', JNull)]\<rparr>) = Inl NilMapPanic"
proof (intro conjI)
  show "ValidateToolConfig [(''nuclei'', JNull)] = Inr ()"
    by (simp add: ValidateToolConfig_def validate_tool_def RegisteredToolParams_def decode_nuclei_def)
  show "ResolveEffectiveConfig ex_schedule None
     (ex_defaults\<lparr>sd_DefaultToolConfig := [(''nuclei'', JNull)]\<rparr>) = Inl NilMapPanic"
    by (simp add: ResolveEffectiveConfig_def ex_schedule_def ex_defaults_def Let_def pickString_def
        overrideSet_def tmplRRule_def tmplTimezone_def resolveToolConfig_def merge_layer_def
        merge_entry_def shallowMergeJSONObjects_def put_all_def)
qed (rule shallowMerge_panic_iff)



end
