(* ===== verification/RRule.thy ===== *)
theory RRule
  imports Model
begin

text \<open>
  Recurrence rules. The RFC 5545 library \<open>teambition/rrule-go\<close> and the time-zone database
  are not part of the sources: they are the parameter \<open>rrule_lib\<close> of the definitions, and
  \<open>rrule_lib_ok\<close> states the documented behaviour the scheduler relies on. Modelled here:
  \<open>internal/rrule/validator.go\<close> (\<open>ValidateRRule\<close>, \<open>containsToken\<close>, \<open>Warnings.Empty\<close>).
\<close>

section \<open>The recurrence library as a parameter\<close>

text \<open>A location is its offset from UTC at each instant.\<close>

type_synonym loc = "time \<Rightarrow> duration"

datatype freq = YEARLY | MONTHLY | WEEKLY | DAILY | HOURLY | MINUTELY | SECONDLY

text \<open>The fields of \<open>rrule.ROption\<close> the program reads or writes; \<open>ro_Rest\<close> holds the others.\<close>

record ROption =
  ro_Freq :: freq
  ro_Interval :: int
  ro_Until :: "time option"
  ro_Dtstart :: "(time \<times> loc) option"
  ro_Rest :: string

record 'r rrule_lib =
  StrToROption :: "string \<Rightarrow> ROption option"
  NewRRule :: "ROption \<Rightarrow> 'r option"
  After :: "'r \<Rightarrow> time \<Rightarrow> time option"
  Between :: "'r \<Rightarrow> time \<Rightarrow> time \<Rightarrow> time list"
  LoadLocation :: "string \<Rightarrow> loc option"

text \<open>\<open>After rule t\<close> is the call \<open>rule.After(t, false)\<close>, the first occurrence later than \<open>t\<close>;
  \<open>Between rule lo hi\<close> is \<open>rule.Between(lo, hi, true)\<close>, the occurrences inside the closed
  interval. An occurrence is what the query of a one-instant interval returns.\<close>

definition occurs :: "'r rrule_lib \<Rightarrow> 'r \<Rightarrow> time \<Rightarrow> bool" where
  "occurs lib r t = (t \<in> set (Between lib r t t))"

definition rrule_lib_ok :: "'r rrule_lib \<Rightarrow> bool" where
  "rrule_lib_ok lib \<longleftrightarrow>
     (\<forall>r lo hi t. t \<in> set (Between lib r lo hi) \<longleftrightarrow> occurs lib r t \<and> lo \<le> t \<and> t \<le> hi) \<and>
     (\<forall>r t t'. After lib r t = Some t' \<longrightarrow> occurs lib r t' \<and> t < t' \<and>
        (\<forall>u. occurs lib r u \<longrightarrow> u \<le> t \<or> t' \<le> u)) \<and>
     (\<forall>r t u. After lib r t = None \<longrightarrow> occurs lib r u \<longrightarrow> u \<le> t)"

lemma after_later: "rrule_lib_ok lib \<Longrightarrow> After lib r t = Some t' \<Longrightarrow> t < t'"
  by (simp add: rrule_lib_ok_def)

lemma after_occurs: "rrule_lib_ok lib \<Longrightarrow> After lib r t = Some t' \<Longrightarrow> occurs lib r t'"
  by (simp add: rrule_lib_ok_def)

lemma after_first: "rrule_lib_ok lib \<Longrightarrow> After lib r t = Some t' \<Longrightarrow> occurs lib r u \<Longrightarrow> t < u \<Longrightarrow> t' \<le> u"
  unfolding rrule_lib_ok_def by (meson not_le)

lemma after_none: "rrule_lib_ok lib \<Longrightarrow> After lib r t = None \<Longrightarrow> occurs lib r u \<Longrightarrow> u \<le> t"
  unfolding rrule_lib_ok_def by blast

lemma between_iff:
  "rrule_lib_ok lib \<Longrightarrow> t \<in> set (Between lib r lo hi) \<longleftrightarrow> occurs lib r t \<and> lo \<le> t \<and> t \<le> hi"
  unfolding rrule_lib_ok_def by blast

text \<open>A concrete instance: rules \<open>FREQ=DAILY\<close> and \<open>FREQ=HOURLY\<close> anchored at their start, in UTC.
  It shows that the hypotheses can hold.\<close>

definition utc :: loc where "utc t = 0"

definition simple_opt :: "freq \<Rightarrow> ROption" where
  "simple_opt f = \<lparr>ro_Freq = f, ro_Interval = 1, ro_Until = None, ro_Dtstart = None, ro_Rest = []\<rparr>"

definition simple_period :: "freq \<Rightarrow> duration" where
  "simple_period f = (if f = HOURLY then hour else day)"

definition simple_after :: "time \<times> duration \<Rightarrow> time \<Rightarrow> time option" where
  "simple_after r t =
     (if snd r \<le> 0 then None
      else Some (fst r + snd r * (if t < fst r then 0 else (t - fst r) div snd r + 1)))"

definition simple_between :: "time \<times> duration \<Rightarrow> time \<Rightarrow> time \<Rightarrow> time list" where
  "simple_between r lo hi =
     (if snd r \<le> 0 then []
      else filter (\<lambda>t. lo \<le> t \<and> t \<le> hi)
        (map (\<lambda>k. fst r + snd r * k) [max 0 ((lo - fst r) div snd r) .. (hi - fst r) div snd r]))"

definition simple_lib :: "(time \<times> duration) rrule_lib" where
  "simple_lib = \<lparr>
     StrToROption = (\<lambda>s. if s = ''FREQ=DAILY'' then Some (simple_opt DAILY)
       else if s = ''FREQ=HOURLY'' then Some (simple_opt HOURLY)
       else if s = ''FREQ=SECONDLY'' then Some (simple_opt SECONDLY) else None),
     NewRRule = (\<lambda>opt. case ro_Dtstart opt of None \<Rightarrow> Some (0, simple_period (ro_Freq opt))
       | Some d \<Rightarrow> Some (fst d, simple_period (ro_Freq opt))),
     After = simple_after,
     Between = simple_between,
     LoadLocation = (\<lambda>n. if n = ''UTC'' then Some utc else None)\<rparr>"

lemma simple_between_iff:
  "t \<in> set (simple_between r lo hi) \<longleftrightarrow>
     0 < snd r \<and> (\<exists>k. 0 \<le> k \<and> t = fst r + snd r * k) \<and> lo \<le> t \<and> t \<le> hi"
proof (cases "0 < snd r")
  case True
  have le: "(lo - fst r) div snd r \<le> k" if "lo \<le> fst r + snd r * k" for k
    using zdiv_mono1 [of "lo - fst r" "snd r * k" "snd r"] that True by simp
  have ge: "k \<le> (hi - fst r) div snd r" if "fst r + snd r * k \<le> hi" for k
    using zdiv_mono1 [of "snd r * k" "hi - fst r" "snd r"] that True by simp
  show ?thesis using True le ge by (auto simp: simple_between_def)
qed (simp add: simple_between_def)

lemma simple_after_spec:
  assumes "0 < snd r"
  obtains k where "0 \<le> k" "simple_after r t = Some (fst r + snd r * k)" "t < fst r + snd r * k"
    "k = 0 \<or> fst r + snd r * (k - 1) \<le> t"
proof (cases "t < fst r")
  case True
  then show ?thesis using that [of 0] assms by (simp add: simple_after_def)
next
  case False
  let ?q = "(t - fst r) div snd r"
  have "snd r * (?q + 1) = snd r * ?q + snd r" by (simp add: distrib_left)
  moreover have "snd r * ?q \<le> t - fst r" "t - fst r < snd r * ?q + snd r"
    using assms pos_mod_bound [of "snd r" "t - fst r"] pos_mod_sign [of "snd r" "t - fst r"]
      mult_div_mod_eq [of "snd r" "t - fst r"] by linarith+
  moreover have "0 \<le> ?q" using False assms by (simp add: pos_imp_zdiv_nonneg_iff)
  ultimately show ?thesis
    by (intro that [of "?q + 1"]) (use False assms in \<open>simp_all add: simple_after_def\<close>)
qed

lemma simple_occurs: "occurs simple_lib r t \<longleftrightarrow> 0 < snd r \<and> (\<exists>k. 0 \<le> k \<and> t = fst r + snd r * k)"
  by (auto simp: occurs_def simple_lib_def simple_between_iff)

lemma simple_after_first:
  assumes "simple_after r t = Some t'"
  shows "occurs simple_lib r t'" "t < t'" "occurs simple_lib r u \<Longrightarrow> u \<le> t \<or> t' \<le> u"
proof -
  have p: "0 < snd r" using assms by (auto simp: simple_after_def split: if_splits)
  obtain k where k: "0 \<le> k" "t' = fst r + snd r * k" "t < fst r + snd r * k"
    "k = 0 \<or> fst r + snd r * (k - 1) \<le> t"
    by (rule simple_after_spec [OF p, of t]) (use assms in auto)
  then show "occurs simple_lib r t'" "t < t'" using p by (auto simp: simple_occurs)
  show "u \<le> t \<or> t' \<le> u" if occ: "occurs simple_lib r u"
  proof -
    obtain j where j: "0 \<le> j" "u = fst r + snd r * j" using occ by (auto simp: simple_occurs)
    show ?thesis
    proof (cases "k \<le> j")
      case True
      then have "snd r * k \<le> snd r * j" using p by (intro mult_left_mono) auto
      then show ?thesis using j k by simp
    next
      case False
      then have "snd r * j \<le> snd r * (k - 1)" using p by (intro mult_left_mono) auto
      then show ?thesis using j k False by auto
    qed
  qed
qed

lemma simple_lib_ok: "rrule_lib_ok simple_lib"
proof -
  have "After simple_lib = simple_after" "Between simple_lib = simple_between"
    by (simp_all add: simple_lib_def)
  moreover have none: "simple_after r t = None \<Longrightarrow> \<not> occurs simple_lib r u" for r t u
    by (auto simp: simple_occurs simple_after_def)
  moreover have "t \<in> set (simple_between r lo hi) \<longleftrightarrow> occurs simple_lib r t \<and> lo \<le> t \<and> t \<le> hi" for r lo hi t
    by (auto simp: simple_between_iff simple_occurs)
  ultimately show ?thesis
    unfolding rrule_lib_ok_def using simple_after_first by (metis (no_types))
qed

section \<open>Validation\<close>

datatype rrule_error = ErrInvalidRRule | ErrRRuleUnsupportedFreq | ErrRRuleCountZero | ErrRRuleMissingFreq

datatype rrule_warning = WarnSubFiveMinutes | WarnUntilPast

type_synonym Warnings = "rrule_warning list option"

definition Warnings_Empty :: "Warnings \<Rightarrow> bool" where
  "Warnings_Empty w = (case w of None \<Rightarrow> True | Some ms \<Rightarrow> ms = [])"

definition addWarning :: "rrule_warning \<Rightarrow> Warnings \<Rightarrow> Warnings" where
  "addWarning msg w = Some ((case w of None \<Rightarrow> [] | Some ms \<Rightarrow> ms) @ [msg])"

definition containsToken :: "string \<Rightarrow> string \<Rightarrow> bool" where
  "containsToken rfc token =
     list_ex (\<lambda>part. TrimSpace part = ToUpper token) (SplitOn CHR '';'' (ToUpper rfc))"

definition rrule_warnings :: "ROption \<Rightarrow> time \<Rightarrow> Warnings" where
  "rrule_warnings opt now =
     (let w = None;
          w = (if ro_Freq opt = MINUTELY \<and>
                  (let interval = (if ro_Interval opt = 0 then 1 else ro_Interval opt) in interval < 5)
               then addWarning WarnSubFiveMinutes w else w)
      in (case ro_Until opt of
            Some u \<Rightarrow> if u < now then addWarning WarnUntilPast w else w
          | None \<Rightarrow> w))"

definition ValidateRRule ::
  "'r rrule_lib \<Rightarrow> time \<Rightarrow> string \<Rightarrow> (rrule_error, Warnings) result" where
  "ValidateRRule lib now rfcString =
     (if TrimSpace rfcString = [] then Inl ErrInvalidRRule
      else if \<not> Contains (ToUpper rfcString) ''FREQ='' then Inl ErrRRuleMissingFreq
      else case StrToROption lib rfcString of
        None \<Rightarrow> Inl ErrInvalidRRule
      | Some opt \<Rightarrow>
          if ro_Freq opt = SECONDLY then Inl ErrRRuleUnsupportedFreq
          else if containsToken rfcString ''COUNT=0'' then Inl ErrRRuleCountZero
          else case NewRRule lib opt of
            None \<Rightarrow> Inl ErrInvalidRRule
          | Some _ \<Rightarrow> Inr (rrule_warnings opt now))"

section \<open>Lemmas\<close>

lemma ValidateRRule_ok:
  "ValidateRRule lib now s = Inr w \<longleftrightarrow>
     TrimSpace s \<noteq> [] \<and> Contains (ToUpper s) ''FREQ='' \<and> \<not> containsToken s ''COUNT=0'' \<and>
     (\<exists>opt rule. StrToROption lib s = Some opt \<and> ro_Freq opt \<noteq> SECONDLY \<and>
        NewRRule lib opt = Some rule \<and> w = rrule_warnings opt now)"
  by (auto simp: ValidateRRule_def split: option.splits)

lemma ValidateRRule_constructible:
  assumes "ValidateRRule lib now s = Inr w"
  obtains opt rule where "StrToROption lib s = Some opt" "NewRRule lib opt = Some rule"
    "ro_Freq opt \<noteq> SECONDLY"
  using assms by (auto simp: ValidateRRule_ok)

lemma is_ok_ValidateRRule_time: "is_ok (ValidateRRule lib now s) = is_ok (ValidateRRule lib now' s)"
  by (auto simp: ValidateRRule_def split: option.splits)

lemma ValidateRRule_nonempty: "ValidateRRule lib now s = Inr w \<Longrightarrow> s \<noteq> []"
  by (auto simp: ValidateRRule_ok TrimSpace_def)

lemma trim_left_spaces: "\<forall>c \<in> set a. is_space c \<Longrightarrow> trim_left (a @ b) = trim_left b"
  by (induction a) auto

lemma ToUpper_simps [simp]:
  "ToUpper [] = []" "ToUpper (c # cs) = upper_char c # ToUpper cs" "ToUpper (a @ b) = ToUpper a @ ToUpper b"
  by (simp_all add: ToUpper_def)

lemma SplitOn_concat:
  "SplitOn d (a @ d # b) = SplitOn d a @ SplitOn d b"
  by (induction a) (auto split: list.splits)

text \<open>A \<open>COUNT=0\<close> element is found wherever it stands in the rule, in any case.\<close>

lemma containsToken_middle:
  assumes "ToUpper tok = ToUpper token" "TrimSpace (ToUpper tok) = ToUpper tok" "CHR '';'' \<notin> set (ToUpper tok)"
  shows "containsToken (a @ '';'' @ tok @ '';'' @ b) token"
proof -
  have up: "upper_char CHR '';'' = CHR '';''" by code_simp
  have "SplitOn CHR '';'' (ToUpper (a @ '';'' @ tok @ '';'' @ b))
      = SplitOn CHR '';'' (ToUpper a) @ ToUpper tok # SplitOn CHR '';'' (ToUpper b)"
    using assms(3) by (simp add: up SplitOn_concat SplitOn_append SplitOn_no_sep)
  then show ?thesis using assms by (simp add: containsToken_def)
qed

section \<open>Properties\<close>

text \<open>Acceptance of recurrence rules. A rule is accepted exactly when it is not blank, names
  a frequency, parses to a frequency other than SECONDLY, has no \<open>COUNT=0\<close> element and can be
  built; the warnings are about a MINUTELY rule with an interval under five minutes and about
  an end in the past, and nothing else.\<close>

theorem ValidateRRule_accepts:
  "ValidateRRule lib now s = Inr w \<longleftrightarrow>
     TrimSpace s \<noteq> [] \<and> Contains (ToUpper s) ''FREQ='' \<and>
     \<not> list_ex (\<lambda>part. TrimSpace part = ''COUNT=0'') (SplitOn CHR '';'' (ToUpper s)) \<and>
     (\<exists>opt rule. StrToROption lib s = Some opt \<and> ro_Freq opt \<noteq> SECONDLY \<and>
        NewRRule lib opt = Some rule \<and>
        (Warnings_Empty w \<longleftrightarrow>
           \<not> (ro_Freq opt = MINUTELY \<and> ro_Interval opt < 5) \<and>
           (\<forall>u. ro_Until opt = Some u \<longrightarrow> now \<le> u)) \<and>
        w = rrule_warnings opt now)"
proof -
  have up: "ToUpper ''COUNT=0'' = ''COUNT=0''" by code_simp
  have we: "Warnings_Empty (rrule_warnings opt now) \<longleftrightarrow>
           \<not> (ro_Freq opt = MINUTELY \<and> ro_Interval opt < 5) \<and>
           (\<forall>u. ro_Until opt = Some u \<longrightarrow> now \<le> u)" for opt
    by (auto simp: rrule_warnings_def Warnings_Empty_def addWarning_def Let_def split: option.splits)
  show ?thesis
    unfolding ValidateRRule_ok containsToken_def up using we by metis
qed

lemma ValidateRRule_accepts_witness:
  "ValidateRRule simple_lib 0 ''FREQ=DAILY'' = Inr None"
proof -
  have "TrimSpace ''FREQ=DAILY'' \<noteq> []" "Contains (ToUpper ''FREQ=DAILY'') ''FREQ=''"
    "\<not> list_ex (\<lambda>part. TrimSpace part = ''COUNT=0'') (SplitOn CHR '';'' (ToUpper ''FREQ=DAILY''))"
    by code_simp+
  then show ?thesis
    using ValidateRRule_accepts [of simple_lib 0 "''FREQ=DAILY''" None]
    by (simp add: simple_lib_def simple_opt_def rrule_warnings_def Warnings_Empty_def)
qed

end
