(* ===== verification/Windows.thy ===== *)
theory Windows
  imports RRule
begin

text \<open>
  The daily HH:MM windows of \<open>internal/daemon/intervalsched/window.go\<close>: parsing and printing
  of a time of day, membership of an instant and the first instant outside the window. A
  location is its offset from UTC; \<open>Date_in\<close> is the offset lookup of \<open>time.Date\<close>.
\<close>

section \<open>Wall clocks\<close>

definition local_time :: "loc \<Rightarrow> time \<Rightarrow> time" where
  "local_time loc t = t + loc t"

definition Hour_in :: "loc \<Rightarrow> time \<Rightarrow> int" where
  "Hour_in loc t = local_time loc t mod day div hour"

definition Minute_in :: "loc \<Rightarrow> time \<Rightarrow> int" where
  "Minute_in loc t = local_time loc t mod hour div minute"

text \<open>Local midnight of the day of \<open>t\<close>, as a wall-clock reading.\<close>

definition midnight_in :: "loc \<Rightarrow> time \<Rightarrow> time" where
  "midnight_in loc t = day * (local_time loc t div day)"

text \<open>\<open>time.Date\<close> turns a wall-clock reading into an instant: it looks the offset up as if the
  reading were UTC, and once more at the instant this gives.\<close>

definition Date_in :: "loc \<Rightarrow> time \<Rightarrow> time" where
  "Date_in loc wall = wall - loc (wall - loc wall)"

section \<open>Times of day\<close>

record TimeOfDay =
  tod_Hour :: int
  tod_Minute :: int

datatype tod_error = InvalidTimeOfDay | InvalidHour | InvalidMinute

definition ParseTimeOfDay :: "string \<Rightarrow> (tod_error, TimeOfDay) result" where
  "ParseTimeOfDay s =
     (case SplitOn CHR '':'' (TrimSpace s) of
        [hs, ms] \<Rightarrow>
          (case Atoi hs of
             None \<Rightarrow> Inl InvalidHour
           | Some h \<Rightarrow>
               if h < 0 \<or> 23 < h then Inl InvalidHour
               else case Atoi ms of
                 None \<Rightarrow> Inl InvalidMinute
               | Some m \<Rightarrow>
                   if m < 0 \<or> 59 < m then Inl InvalidMinute
                   else Inr \<lparr>tod_Hour = h, tod_Minute = m\<rparr>)
      | _ \<Rightarrow> Inl InvalidTimeOfDay)"

text \<open>The verb \<open>%02d\<close>.\<close>

definition pad2 :: "int \<Rightarrow> string" where
  "pad2 i = (if length (Itoa i) < 2 then CHR ''0'' # Itoa i else Itoa i)"

definition TimeOfDay_String :: "TimeOfDay \<Rightarrow> string" where
  "TimeOfDay_String t = pad2 (tod_Hour t) @ '':'' @ pad2 (tod_Minute t)"

definition valid_tod :: "TimeOfDay \<Rightarrow> bool" where
  "valid_tod t = (0 \<le> tod_Hour t \<and> tod_Hour t \<le> 23 \<and> 0 \<le> tod_Minute t \<and> tod_Minute t \<le> 59)"

definition tod_mins :: "TimeOfDay \<Rightarrow> int" where
  "tod_mins t = tod_Hour t * 60 + tod_Minute t"

section \<open>Windows\<close>

record DailyWindow =
  win_Enabled :: bool
  win_Start :: TimeOfDay
  win_End :: TimeOfDay
  win_Loc :: "loc option"

definition window_loc :: "loc \<Rightarrow> DailyWindow \<Rightarrow> loc" where
  "window_loc Local w = (case win_Loc w of None \<Rightarrow> Local | Some l \<Rightarrow> l)"

definition Window_Contains :: "loc \<Rightarrow> DailyWindow \<Rightarrow> time \<Rightarrow> bool" where
  "Window_Contains Local w t =
     (if \<not> win_Enabled w then False
      else
        let loc = window_loc Local w;
            mins = Hour_in loc t * 60 + Minute_in loc t;
            startMins = tod_Hour (win_Start w) * 60 + tod_Minute (win_Start w);
            endMins = tod_Hour (win_End w) * 60 + tod_Minute (win_End w)
        in if startMins = endMins then False
           else if startMins < endMins then startMins \<le> mins \<and> mins < endMins
           else startMins \<le> mins \<or> mins < endMins)"

definition Window_NextOpen :: "loc \<Rightarrow> DailyWindow \<Rightarrow> time \<Rightarrow> time" where
  "Window_NextOpen Local w after =
     (if \<not> win_Enabled w \<or> \<not> Window_Contains Local w after then after
      else
        let loc = window_loc Local w;
            endToday = Date_in loc (midnight_in loc after
              + tod_Hour (win_End w) * hour + tod_Minute (win_End w) * minute);
            startMins = tod_Hour (win_Start w) * 60 + tod_Minute (win_Start w);
            endMins = tod_Hour (win_End w) * 60 + tod_Minute (win_End w)
        in if startMins < endMins then endToday
           else
             let mins = Hour_in loc after * 60 + Minute_in loc after
             in if mins < endMins then endToday
                else Date_in loc (midnight_in loc after + day
                  + tod_Hour (win_End w) * hour + tod_Minute (win_End w) * minute))"

section \<open>Lemmas: wall-clock arithmetic\<close>

lemma div_mod_minute: "x = minute * (x div minute) + x mod minute" "0 \<le> x mod minute" "x mod minute < minute"
  by simp_all

lemma div_mod_day: "x = day * (x div day) + x mod day" "0 \<le> x mod day" "x mod day < day"
  by simp_all

lemma minute_eqI: "minute * q \<le> x \<Longrightarrow> x < minute * q + minute \<Longrightarrow> x div minute = q"
  by (rule int_div_pos_eq [of x minute q "x - minute * q"]) auto

lemma day_eqI: "day * q \<le> x \<Longrightarrow> x < day * q + day \<Longrightarrow> x div day = q"
  by (rule int_div_pos_eq [of x day q "x - day * q"]) auto

lemma hour_minute: "hour = 60 * minute" "day = 1440 * minute"
  by (simp_all add: hour_def day_def)

lemma minute_le: "a \<le> b \<Longrightarrow> minute * a \<le> minute * b"
  by (rule mult_left_mono) simp_all

lemma minute_less: "a < b \<Longrightarrow> minute * a + minute \<le> minute * b"
  using minute_le [of "a + 1" b] by (simp add: distrib_left)

lemma day_minutes: "day = minute * 1440"
  by (simp add: hour_def day_def)

lemma day_succ: "day * (k + 1) = day * k + day"
  by (simp add: distrib_left)

lemma wall_minutes:
  "Hour_in loc t * 60 + Minute_in loc t = local_time loc t mod day div minute"
proof -
  let ?l = "local_time loc t mod day"
  let ?h = "?l div hour" and ?r = "?l mod hour"
  have h: "local_time loc t mod hour = ?r"
    by (simp add: day_def mod_mod_cancel)
  have l: "?l = hour * ?h + ?r" by simp
  have r: "minute * (?r div minute) \<le> ?r" "?r < minute * (?r div minute) + minute"
    using div_mod_minute [of ?r] by linarith+
  have "?l div minute = ?h * 60 + ?r div minute"
  proof (rule minute_eqI)
    have "minute * (?h * 60 + ?r div minute) = hour * ?h + minute * (?r div minute)"
      by (simp add: hour_minute(1) distrib_left)
    then show "minute * (?h * 60 + ?r div minute) \<le> ?l"
      and "?l < minute * (?h * 60 + ?r div minute) + minute"
      using l r by linarith+
  qed
  then show ?thesis by (simp add: Hour_in_def Minute_in_def h)
qed

lemma minutes_split:
  obtains r where "l = day * (l div day) + minute * (l mod day div minute) + r" "0 \<le> r" "r < minute"
    "0 \<le> l mod day div minute" "l mod day div minute < 1440"
proof (rule that [of "l mod day mod minute"])
  show "l = day * (l div day) + minute * (l mod day div minute) + l mod day mod minute"
    using div_mod_day [of l] div_mod_minute [of "l mod day"] by linarith
  show "0 \<le> l mod day div minute" by (simp add: pos_imp_zdiv_nonneg_iff)
  show "l mod day div minute < 1440"
  proof (rule ccontr)
    assume "\<not> l mod day div minute < 1440"
    then have "minute * 1440 \<le> minute * (l mod day div minute)"
      by (intro minute_le) simp
    then show False
      using div_mod_day [of l] div_mod_minute [of "l mod day"] day_minutes by linarith
  qed
qed simp_all

lemma minutes_between:
  assumes "day * k + minute * a \<le> l" "l < day * k + minute * b" "0 \<le> a" "b \<le> 1440"
  shows "l div day = k" "a \<le> l mod day div minute" "l mod day div minute < b"
proof -
  have "0 \<le> minute * a" using assms(3) by (intro mult_nonneg_nonneg) simp_all
  moreover have "minute * b \<le> day" using minute_le [OF assms(4)] day_minutes by simp
  ultimately show k: "l div day = k"
    by (intro day_eqI) (use assms in linarith)+
  obtain r where l: "l = day * k + minute * (l mod day div minute) + r" "0 \<le> r" "r < minute"
    using minutes_split [of l] k by metis
  let ?m = "l mod day div minute"
  show "a \<le> ?m"
  proof (rule ccontr)
    assume "\<not> a \<le> ?m"
    then have "minute * ?m + minute \<le> minute * a" by (intro minute_less) simp
    then show False using assms(1) l by linarith
  qed
  show "?m < b"
  proof (rule ccontr)
    assume "\<not> ?m < b"
    then have "minute * b \<le> minute * ?m" by (intro minute_le) simp
    then show False using assms(2) l by linarith
  qed
qed

section \<open>Lemmas: windows in a zone without transitions\<close>

definition fixed_zone :: "loc \<Rightarrow> bool" where
  "fixed_zone loc = (\<forall>t t'. loc t = loc t')"

lemma Date_in_fixed: "fixed_zone loc \<Longrightarrow> local_time loc (Date_in loc wall) = wall"
  unfolding fixed_zone_def local_time_def Date_in_def by (metis diff_add_cancel)

lemma local_time_mono: "fixed_zone loc \<Longrightarrow> s \<le> t \<longleftrightarrow> local_time loc s \<le> local_time loc t"
  unfolding fixed_zone_def local_time_def by (metis add_le_cancel_right)

lemma Window_Contains_mins:
  "Window_Contains Local w t \<longleftrightarrow> win_Enabled w \<and> tod_mins (win_Start w) \<noteq> tod_mins (win_End w) \<and>
     (let m = local_time (window_loc Local w) t mod day div minute in
      if tod_mins (win_Start w) < tod_mins (win_End w)
      then tod_mins (win_Start w) \<le> m \<and> m < tod_mins (win_End w)
      else tod_mins (win_Start w) \<le> m \<or> m < tod_mins (win_End w))"
  by (auto simp: Window_Contains_def tod_mins_def wall_minutes [symmetric] Let_def)

lemma tod_mins_range: "valid_tod t \<Longrightarrow> 0 \<le> tod_mins t \<and> tod_mins t < 1440"
  by (auto simp: valid_tod_def tod_mins_def)

text \<open>The wall-clock reading of the instant \<open>Window_NextOpen\<close> returns from inside the window.\<close>

definition open_wall :: "loc \<Rightarrow> DailyWindow \<Rightarrow> time \<Rightarrow> time" where
  "open_wall Local w t =
     (let l = local_time (window_loc Local w) t; e = tod_mins (win_End w) in
      day * (if tod_mins (win_Start w) < e \<or> l mod day div minute < e then l div day else l div day + 1)
        + minute * e)"

lemma Window_NextOpen_wall:
  assumes "Window_Contains Local w t"
  shows "Window_NextOpen Local w t = Date_in (window_loc Local w) (open_wall Local w t)"
proof -
  let ?e = "win_End w"
  have e: "x + tod_Hour ?e * hour + tod_Minute ?e * minute = x + minute * tod_mins ?e" for x
    by (simp add: tod_mins_def hour_minute algebra_simps)
  have en: "win_Enabled w" using assms by (auto simp: Window_Contains_def split: if_splits)
  show ?thesis
    using assms en
    unfolding Window_NextOpen_def Let_def e midnight_in_def wall_minutes tod_mins_def [symmetric]
    by (auto simp: open_wall_def Let_def day_succ)
qed

lemma open_wall_minute:
  assumes "valid_tod (win_End w)"
  shows "open_wall Local w t mod day div minute = tod_mins (win_End w)"
proof -
  note r = tod_mins_range [OF assms]
  obtain k where k: "open_wall Local w t = day * k + minute * tod_mins (win_End w)"
    unfolding open_wall_def Let_def by blast
  show ?thesis
    using minutes_between [of k "tod_mins (win_End w)" "open_wall Local w t" "tod_mins (win_End w) + 1"] k r
    by (simp add: distrib_left)
qed

lemma open_wall_after:
  assumes c: "Window_Contains Local w t" and v: "valid_tod (win_Start w)" "valid_tod (win_End w)"
  shows "local_time (window_loc Local w) t < open_wall Local w t"
proof -
  let ?l = "local_time (window_loc Local w) t" and ?e = "tod_mins (win_End w)"
  let ?m = "?l mod day div minute"
  obtain r where l: "?l = day * (?l div day) + minute * ?m + r" "r < minute" "?m < 1440"
    by (rule minutes_split [of ?l])
  show ?thesis
  proof (cases "tod_mins (win_Start w) < ?e \<or> ?m < ?e")
    case True
    then have "?m < ?e" using c by (auto simp: Window_Contains_mins Let_def)
    then show ?thesis using True l minute_less [of ?m ?e] by (simp add: open_wall_def Let_def)
  next
    case False
    then have o: "open_wall Local w t = day * (?l div day) + day + minute * ?e"
      by (simp add: open_wall_def Let_def day_succ)
    have "0 \<le> minute * ?e" using tod_mins_range [OF v(2)] by (intro mult_nonneg_nonneg) simp_all
    then show ?thesis
      using o l minute_less [OF l(3)] day_minutes by linarith
  qed
qed

lemma inside_until_open_wall:
  assumes c: "Window_Contains Local w t" and v: "valid_tod (win_Start w)" "valid_tod (win_End w)"
    and x: "local_time (window_loc Local w) t \<le> local_time (window_loc Local w) x"
      "local_time (window_loc Local w) x < open_wall Local w t"
  shows "Window_Contains Local w x"
proof -
  let ?l = "local_time (window_loc Local w) t" and ?e = "tod_mins (win_End w)" and ?s = "tod_mins (win_Start w)"
  let ?x = "local_time (window_loc Local w) x"
  let ?m = "?l mod day div minute" and ?k = "?l div day"
  obtain r where l: "?l = day * ?k + minute * ?m + r" "0 \<le> r" "0 \<le> ?m" "?m < 1440"
    by (rule minutes_split [of ?l])
  have e: "0 \<le> ?e" "?e < 1440" using tod_mins_range [OF v(2)] by auto
  have low: "day * ?k + minute * ?m \<le> ?x" using l x(1) by linarith
  show ?thesis
  proof (cases "?s < ?e \<or> ?m < ?e")
    case True
    then have "?x < day * ?k + minute * ?e" using x(2) by (simp add: open_wall_def Let_def)
    then have "?m \<le> ?x mod day div minute" "?x mod day div minute < ?e"
      using minutes_between [OF low] l(3) e(2) by auto
    then show ?thesis using c True by (auto simp: Window_Contains_mins Let_def split: if_splits)
  next
    case False
    then have sm: "?s \<le> ?m" "?e < ?s" using c by (auto simp: Window_Contains_mins Let_def)
    have hi: "?x < day * (?k + 1) + minute * ?e" using x(2) False by (simp add: open_wall_def Let_def)
    show ?thesis
    proof (cases "?x < day * ?k + minute * 1440")
      case True
      then have "?m \<le> ?x mod day div minute" using minutes_between(2) [OF low True] l(3) by simp
      then show ?thesis using c sm by (auto simp: Window_Contains_mins Let_def)
    next
      case late: False
      have late': "day * (?k + 1) + minute * 0 \<le> ?x" using late day_minutes day_succ [of ?k] by linarith
      have "?x mod day div minute < ?e" using minutes_between(3) [OF late' hi] e by simp
      then show ?thesis using c sm by (auto simp: Window_Contains_mins Let_def)
    qed
  qed
qed

section \<open>Lemmas: parsing and printing\<close>

lemma pad2_spec:
  assumes "0 \<le> i" "i < 60"
  shows "Atoi (pad2 i) = Some i \<and> set (pad2 i) \<subseteq> set ''0123456789'' \<and> pad2 i \<noteq> []"
proof -
  have "\<forall>i \<in> set [0 ..< 60]. Atoi (pad2 (int i)) = Some (int i) \<and>
      set (pad2 (int i)) \<subseteq> set ''0123456789'' \<and> pad2 (int i) \<noteq> []"
    by code_simp
  then show ?thesis using assms by (metis atLeastLessThan_iff le0 nat_less_iff int_nat_eq of_nat_numeral set_upt nat_0_le)
qed

lemma trim_left_id: "s \<noteq> [] \<Longrightarrow> \<not> is_space (hd s) \<Longrightarrow> trim_left s = s"
  by (cases s) auto

lemma TrimSpace_id: "s \<noteq> [] \<Longrightarrow> \<not> is_space (hd s) \<Longrightarrow> \<not> is_space (last s) \<Longrightarrow> TrimSpace s = s"
  by (simp add: TrimSpace_def trim_left_id hd_rev)

lemma digits_not_space: "set s \<subseteq> set ''0123456789'' \<Longrightarrow> c \<in> set s \<Longrightarrow> \<not> is_space c \<and> c \<noteq> CHR '':''"
  by (auto simp: is_space_def)

lemma ParseTimeOfDay_String:
  assumes "valid_tod t"
  shows "ParseTimeOfDay (TimeOfDay_String t) = Inr t"
proof -
  have h: "Atoi (pad2 (tod_Hour t)) = Some (tod_Hour t)" "set (pad2 (tod_Hour t)) \<subseteq> set ''0123456789''"
      "pad2 (tod_Hour t) \<noteq> []"
    and m: "Atoi (pad2 (tod_Minute t)) = Some (tod_Minute t)" "set (pad2 (tod_Minute t)) \<subseteq> set ''0123456789''"
      "pad2 (tod_Minute t) \<noteq> []"
    using assms pad2_spec [of "tod_Hour t"] pad2_spec [of "tod_Minute t"] by (auto simp: valid_tod_def)
  have trim: "TrimSpace (TimeOfDay_String t) = TimeOfDay_String t"
  proof (rule TrimSpace_id)
    show "\<not> is_space (hd (TimeOfDay_String t))"
      using h(3) digits_not_space [OF h(2) hd_in_set] by (simp add: TimeOfDay_String_def hd_append)
    show "\<not> is_space (last (TimeOfDay_String t))"
      using m(3) digits_not_space [OF m(2) last_in_set] by (simp add: TimeOfDay_String_def)
  qed (simp add: TimeOfDay_String_def)
  have colon: "CHR '':'' \<notin> set (pad2 (tod_Hour t))" "CHR '':'' \<notin> set (pad2 (tod_Minute t))"
    using digits_not_space [OF h(2)] digits_not_space [OF m(2)] by blast+
  have "SplitOn CHR '':'' (TimeOfDay_String t) = [pad2 (tod_Hour t), pad2 (tod_Minute t)]"
    using colon by (simp add: TimeOfDay_String_def SplitOn_append SplitOn_no_sep)
  then show ?thesis
    using assms trim h(1) m(1) by (simp add: ParseTimeOfDay_def valid_tod_def)
qed

lemma ParseTimeOfDay_valid: "ParseTimeOfDay s = Inr t \<Longrightarrow> valid_tod t"
  by (auto simp: ParseTimeOfDay_def valid_tod_def split: list.splits option.splits if_splits)

section \<open>Properties\<close>

text \<open>Times of day. Every parsed time of day lies between 00:00 and 23:59, and every such
  time of day is printed to a string that parses back to it.\<close>

theorem time_of_day_roundtrip:
  "valid_tod t \<longleftrightarrow> (\<exists>s. ParseTimeOfDay s = Inr t) \<and> ParseTimeOfDay (TimeOfDay_String t) = Inr t"
  using ParseTimeOfDay_String ParseTimeOfDay_valid by blast

text \<open>C3: The end of a daily window. In a zone without offset transitions, \<open>NextOpen\<close> returns
  the first instant, not before the given one, that is outside the window: it is outside,
  and every instant between the given one and it is inside. This includes the windows that
  cross midnight.\<close>

theorem NextOpen_is_first_open:
  assumes "fixed_zone (window_loc Local w)" "valid_tod (win_Start w)" "valid_tod (win_End w)"
  shows "t \<le> Window_NextOpen Local w t \<and> \<not> Window_Contains Local w (Window_NextOpen Local w t) \<and>
    (\<forall>x. t \<le> x \<and> x < Window_NextOpen Local w t \<longrightarrow> Window_Contains Local w x)"
proof (cases "Window_Contains Local w t")
  case True
  let ?loc = "window_loc Local w" and ?n = "Window_NextOpen Local w t"
  have wall: "local_time ?loc ?n = open_wall Local w t"
    using Window_NextOpen_wall [OF True] Date_in_fixed [OF assms(1)] by simp
  have "\<not> Window_Contains Local w ?n"
    using True open_wall_minute [OF assms(3)] by (auto simp: Window_Contains_mins wall Let_def)
  moreover have "t \<le> ?n"
    using open_wall_after [OF True assms(2,3)] local_time_mono [OF assms(1), of t ?n] wall by simp
  moreover have "Window_Contains Local w x" if "t \<le> x" "x < ?n" for x
    using that wall local_time_mono [OF assms(1), of t x] local_time_mono [OF assms(1), of ?n x]
    by (intro inside_until_open_wall [OF True assms(2,3)]) auto
  ultimately show ?thesis by blast
qed (auto simp: Window_NextOpen_def)

definition ex_night_window :: DailyWindow where
  "ex_night_window = \<lparr>win_Enabled = True, win_Start = \<lparr>tod_Hour = 22, tod_Minute = 0\<rparr>,
     win_End = \<lparr>tod_Hour = 6, tod_Minute = 30\<rparr>, win_Loc = Some utc\<rparr>"

lemma NextOpen_is_first_open_witness:
  "Window_NextOpen utc ex_night_window (23 * hour) = day + 6 * hour + 30 * minute \<and>
   \<not> Window_Contains utc ex_night_window (Window_NextOpen utc ex_night_window (23 * hour))"
proof
  show "Window_NextOpen utc ex_night_window (23 * hour) = day + 6 * hour + 30 * minute"
    by (simp add: Window_NextOpen_def Window_Contains_def ex_night_window_def window_loc_def Hour_in_def
        Minute_in_def local_time_def utc_def Let_def Date_in_def midnight_in_def duration_defs)
  show "\<not> Window_Contains utc ex_night_window (Window_NextOpen utc ex_night_window (23 * hour))"
    using NextOpen_is_first_open [of utc ex_night_window "23 * hour"]
    by (simp add: fixed_zone_def window_loc_def ex_night_window_def utc_def valid_tod_def)
qed

end
