(* ===== verification/Database.thy ===== *)
theory Database
  imports RRule
begin

text \<open>
  The persistent state: the scan data model (\<open>internal/model\<close>: targets, assets, changes,
  findings, scans, tool runs, logs) and the database of \<open>internal/storage\<close> as one record of
  tables. A table is the list of its rows in insertion order; instants are kept with the
  resolution of one second, and an empty optional text is NULL. The constraints of the
  schema (unique keys, foreign keys and their ON DELETE actions) are written out in the
  operations, since the connection enables them. Failures of the database itself are not
  modelled, except where a caller's cancelled context makes a statement fail.
\<close>

section \<open>Scan data model\<close>

text \<open>Floating-point values are only carried around: a fraction, numerator and denominator.\<close>

type_synonym float64 = "int \<times> int"

datatype TargetType = TargetTypeDomain | TargetTypeCIDR | TargetTypeIP

datatype TargetScope = TargetScopeExternal | TargetScopeInternal | TargetScopeBoth

record Target =
  tg_ID :: string
  tg_Value :: string
  tg_Type :: TargetType
  tg_Scope :: TargetScope
  tg_Enabled :: bool
  tg_LastScanID :: "string option"
  tg_LastScanAt :: "time option"
  tg_CreatedAt :: time
  tg_UpdatedAt :: time

text \<open>The vocabulary is open: a tool may emit a type outside the known ones.\<close>

datatype AssetType =
    AssetTypeDomain | AssetTypeSubdomain | AssetTypeIPv4 | AssetTypeIPv6 | AssetTypePort
  | AssetTypeURL | AssetTypeTechnology | AssetTypeService | OtherAssetType string

definition KnownAssetTypes :: "AssetType list" where
  "KnownAssetTypes = [AssetTypeDomain, AssetTypeSubdomain, AssetTypeIPv4, AssetTypeIPv6, AssetTypePort,
     AssetTypeURL, AssetTypeTechnology, AssetTypeService]"

datatype AssetStatus =
    AssetStatusActive | AssetStatusNew | AssetStatusDisappeared | AssetStatusReturned
  | AssetStatusInactive | AssetStatusIgnored

definition AssetStatusIsLive :: "AssetStatus \<Rightarrow> bool" where
  "AssetStatusIsLive s = (case s of
      AssetStatusActive \<Rightarrow> True | AssetStatusNew \<Rightarrow> True | AssetStatusReturned \<Rightarrow> True | _ \<Rightarrow> False)"

type_synonym metadata = "(string \<times> json) list"

record Asset =
  as_ID :: string
  as_TargetID :: string
  as_ParentID :: string
  as_Type :: AssetType
  as_Value :: string
  as_Status :: AssetStatus
  as_Tags :: "string list"
  as_Metadata :: metadata
  as_FirstSeen :: time
  as_LastSeen :: time
  as_CreatedAt :: time
  as_UpdatedAt :: time

datatype ChangeType = ChangeTypeAppeared | ChangeTypeDisappeared | ChangeTypeModified

datatype Significance =
    SignificanceCritical | SignificanceHigh | SignificanceMedium | SignificanceLow
  | SignificanceInfo | SignificanceNoise

record AssetChange =
  ac_ID :: string
  ac_TargetID :: string
  ac_ScanID :: string
  ac_AssetID :: string
  ac_ChangeType :: ChangeType
  ac_Significance :: Significance
  ac_AssetType :: AssetType
  ac_AssetValue :: string
  ac_PreviousMeta :: metadata
  ac_CurrentMeta :: metadata
  ac_Summary :: string
  ac_Baseline :: bool
  ac_CreatedAt :: time

datatype Severity = SeverityCritical | SeverityHigh | SeverityMedium | SeverityLow | SeverityInfo

datatype FindingStatus =
    FindingStatusOpen | FindingStatusAcknowledged | FindingStatusResolved
  | FindingStatusFalsePositive | FindingStatusIgnored

record Finding =
  fi_ID :: string
  fi_AssetID :: string
  fi_ScanID :: string
  fi_FirstSeenScanID :: string
  fi_TemplateID :: string
  fi_TemplateName :: string
  fi_Severity :: Severity
  fi_Title :: string
  fi_Description :: string
  fi_References :: "string list"
  fi_Remediation :: string
  fi_Evidence :: string
  fi_CVSS :: float64
  fi_CVE :: string
  fi_Status :: FindingStatus
  fi_SourceTool :: string
  fi_Confidence :: float64
  fi_FirstSeen :: time
  fi_LastSeen :: time
  fi_ResolvedAt :: "time option"
  fi_CreatedAt :: time
  fi_UpdatedAt :: time

datatype ScanType = ScanTypeFull | ScanTypeQuick | ScanTypeDiscovery

datatype ScanStatus =
  ScanStatusQueued | ScanStatusRunning | ScanStatusCompleted | ScanStatusFailed | ScanStatusCancelled

type_synonym 'k counts = "('k \<times> int) list"

record TargetState =
  ts_AssetsByType :: "AssetType counts"
  ts_AssetsTotal :: int
  ts_PortsByStatus :: "string counts"
  ts_FindingsOpen :: "Severity counts"
  ts_FindingsOpenTotal :: int
  ts_FindingsByStatus :: "FindingStatus counts"
  ts_Remediations :: "string counts"

record ScanDelta =
  de_NewAssets :: "AssetType counts"
  de_DisappearedAssets :: "AssetType counts"
  de_ModifiedAssets :: "AssetType counts"
  de_NewFindings :: "Severity counts"
  de_ResolvedFindings :: "Severity counts"
  de_ReturnedFindings :: "Severity counts"
  de_IsBaseline :: bool

record ScanWork =
  wk_DurationMs :: int
  wk_ToolsRun :: int
  wk_ToolsFailed :: int
  wk_ToolsSkipped :: int
  wk_PhasesRun :: "string list"
  wk_RawEmissions :: int

record Scan =
  sn_ID :: string
  sn_TargetID :: string
  sn_Type :: ScanType
  sn_Status :: ScanStatus
  sn_Phase :: string
  sn_Progress :: float64
  sn_TargetState :: TargetState
  sn_Delta :: ScanDelta
  sn_Work :: ScanWork
  sn_StartedAt :: "time option"
  sn_FinishedAt :: "time option"
  sn_Error :: string
  sn_CreatedAt :: time
  sn_UpdatedAt :: time

datatype ToolRunStatus = ToolRunRunning | ToolRunCompleted | ToolRunFailed | ToolRunSkipped | ToolRunTimeout

record ToolRun =
  tr_ID :: string
  tr_ScanID :: string
  tr_ToolName :: string
  tr_Phase :: string
  tr_Status :: ToolRunStatus
  tr_StartedAt :: time
  tr_FinishedAt :: "time option"
  tr_DurationMs :: int
  tr_TargetsCount :: int
  tr_FindingsCount :: int
  tr_OutputSummary :: string
  tr_ErrorMessage :: string
  tr_ExitCode :: int
  tr_Config :: metadata
  tr_CreatedAt :: time
  tr_UpdatedAt :: time

datatype LogLevel = LogLevelDebug | LogLevelInfo | LogLevelWarn | LogLevelError

record ScanLog =
  lg_ID :: int
  lg_ScanID :: string
  lg_ToolRunID :: string
  lg_Timestamp :: time
  lg_Source :: string
  lg_Level :: LogLevel
  lg_Text :: string
  lg_CreatedAt :: time

record LockRow =
  lk_PID :: int
  lk_Hostname :: string
  lk_AcquiredAt :: time
  lk_HeartbeatAt :: time

section \<open>The database\<close>

record db =
  db_targets :: "Target list"
  db_assets :: "Asset list"
  db_scans :: "Scan list"
  db_findings :: "Finding list"
  db_tool_runs :: "ToolRun list"
  db_changes :: "AssetChange list"
  db_schedules :: "Schedule list"
  db_templates :: "Template list"
  db_blackouts :: "BlackoutWindow list"
  db_adhoc :: "AdHocScanRun list"
  db_defaults :: "ScheduleDefaults option"
  db_meta :: "(string \<times> string) list"
  db_logs :: "ScanLog list"
  db_log_seq :: int
  db_lock :: "LockRow option"

datatype store_error =
    ErrNotFound | ErrAlreadyExists | ErrSystemTemplateImmutable | ErrInput string
  | ErrRRule rrule_error | ErrTool tool_error | ErrConstraint

definition empty_db :: db where
  "empty_db = \<lparr>db_targets = [], db_assets = [], db_scans = [], db_findings = [], db_tool_runs = [],
     db_changes = [], db_schedules = [], db_templates = [], db_blackouts = [], db_adhoc = [],
     db_defaults = Some \<lparr>sd_DefaultTemplateID = None, sd_DefaultRRule = ''FREQ=DAILY;BYHOUR=2'',
       sd_DefaultTimezone = ''UTC'', sd_DefaultToolConfig = [], sd_DefaultMaintenanceWindow = None,
       sd_MaxConcurrentScans = 4, sd_RunOnStart = False, sd_JitterSeconds = 60, sd_UpdatedAt = 0\<rparr>,
     db_meta = [], db_logs = [], db_log_seq = 0, db_lock = None\<rparr>"

text \<open>Driver arguments: an absent or empty text is NULL, instants lose their fraction.\<close>

definition nullableString :: "string option \<Rightarrow> string option" where
  "nullableString v = (case v of None \<Rightarrow> None | Some s \<Rightarrow> if s = [] then None else Some s)"

definition timePtrUTC :: "time option \<Rightarrow> time option" where
  "timePtrUTC t = map_option trunc_sec t"

lemma timePtrUTC_simps [simp]: "timePtrUTC None = None" "timePtrUTC (Some t) = Some (trunc_sec t)"
  by (simp_all add: timePtrUTC_def)

lemma nullableString_idem [simp]: "nullableString (nullableString v) = nullableString v"
  by (auto simp: nullableString_def split: option.splits)

lemma timePtrUTC_idem [simp]: "timePtrUTC (timePtrUTC t) = timePtrUTC t"
  by (cases t) auto

section \<open>Row stores\<close>

text \<open>
  The contract shared by the stores with a text primary key: inserting, replacing and
  removing a row change the answer of a lookup at that key only. \<open>newkey\<close> is the key a row is
  inserted under (a fresh one when it has none), \<open>stored\<close> is the row a
  successful insertion leaves, \<open>updated old r\<close> the row an update leaves.
\<close>

locale row_store =
  fixes lookup :: "'s \<Rightarrow> string \<Rightarrow> 'r option"
    and newkey :: "'r \<Rightarrow> string"
    and key :: "'r \<Rightarrow> string"
    and stored :: "'r \<Rightarrow> 'r"
    and updated :: "'r \<Rightarrow> 'r \<Rightarrow> 'r"
    and create :: "'r \<Rightarrow> 's \<Rightarrow> ('e, 's) result"
    and update :: "'r \<Rightarrow> 's \<Rightarrow> ('e, 's) result"
    and delete :: "string \<Rightarrow> 's \<Rightarrow> ('e, 's) result"
  assumes create_fresh: "create r s = Inr s' \<Longrightarrow> lookup s (newkey r) = None"
    and create_lookup: "create r s = Inr s' \<Longrightarrow> lookup s' i = (if i = newkey r then Some (stored r) else lookup s i)"
    and update_present: "update r s = Inr s' \<Longrightarrow> lookup s (key r) \<noteq> None"
    and update_lookup: "update r s = Inr s' \<Longrightarrow>
      lookup s' i = (if i = key r then map_option (\<lambda>old. updated old r) (lookup s (key r)) else lookup s i)"
    and delete_present: "delete i s = Inr s' \<Longrightarrow> lookup s i \<noteq> None"
    and delete_lookup: "delete i s = Inr s' \<Longrightarrow> lookup s' j = (if j = i then None else lookup s j)"
begin

definition ids :: "'s \<Rightarrow> string set" where
  "ids s = {i. lookup s i \<noteq> None}"

lemma ids_create: "create r s = Inr s' \<Longrightarrow> ids s' = insert (newkey r) (ids s)"
  by (auto simp: ids_def create_lookup split: if_splits)

lemma ids_update: "update r s = Inr s' \<Longrightarrow> ids s' = ids s"
  using update_present by (auto simp: ids_def update_lookup split: if_splits)

lemma ids_delete: "delete i s = Inr s' \<Longrightarrow> ids s' = ids s - {i}"
  by (auto simp: ids_def delete_lookup split: if_splits)

lemma create_twice: "create r s = Inr s' \<Longrightarrow> \<not> is_ok (create r s')"
  using create_fresh [of r s'] create_lookup [of r s s' "newkey r"]
  by (cases "create r s'") auto

lemma delete_twice: "delete i s = Inr s' \<Longrightarrow> \<not> is_ok (delete i s')"
  using delete_present [of i s'] delete_lookup [of i s s' i]
  by (cases "delete i s'") auto

lemma update_missing: "i \<notin> ids s \<Longrightarrow> key r = i \<Longrightarrow> \<not> is_ok (update r s)"
  using update_present [of r s] by (cases "update r s") (auto simp: ids_def)

lemma create_then_delete:
  "create r s = Inr s' \<Longrightarrow> delete (newkey r) s' = Inr s'' \<Longrightarrow> lookup s'' = lookup s"
  by (rule ext) (auto simp: create_lookup delete_lookup dest: create_fresh)

lemma update_after_create:
  "create r s = Inr s' \<Longrightarrow> update q s' = Inr s'' \<Longrightarrow> key q = newkey r \<Longrightarrow>
   lookup s'' (newkey r) = Some (updated (stored r) q)"
  by (auto simp: create_lookup update_lookup)

end

text \<open>Rows looked up by key in a list.\<close>

definition row :: "('r \<Rightarrow> string) \<Rightarrow> 'r list \<Rightarrow> string \<Rightarrow> 'r option" where
  "row k rs i = find (\<lambda>r. k r = i) rs"

lemma row_append: "row k (rs @ [r]) i = (case row k rs i of Some x \<Rightarrow> Some x | None \<Rightarrow> if k r = i then Some r else None)"
  by (auto simp: row_def find_append split: option.splits)

lemma row_None: "row k rs i = None \<longleftrightarrow> (\<forall>r \<in> set rs. k r \<noteq> i)"
  by (auto simp: row_def find_None_iff)

lemma row_filter_out: "row k (filter (\<lambda>r. k r \<noteq> i) rs) j = (if j = i then None else row k rs j)"
proof (cases "j = i")
  case True
  then show ?thesis by (simp add: row_None)
next
  case False
  then show ?thesis
    by (auto simp: row_def find_filter intro!: find_cong_pred)
qed

lemma row_update:
  assumes "\<And>r. k r = i \<Longrightarrow> k (f r) = i"
  shows "row k (update_where (\<lambda>r. k r = i) f rs) j = (if j = i then map_option f (row k rs i) else row k rs j)"
  using assms by (induction rs) (auto simp: row_def update_where_def)

lemma row_map: "(\<And>r. k (f r) = k r) \<Longrightarrow> row k (map f rs) i = map_option f (row k rs i)"
  by (induction rs) (auto simp: row_def)

lemma row_mem: "row k rs i = Some r \<Longrightarrow> r \<in> set rs \<and> k r = i"
  by (auto simp: row_def dest: find_SomeD)

end
