(* ===== verification/Net.thy ===== *)
theory Net
  imports Database
begin

text \<open>
  Target values: the part of \<open>internal/storage/storage.go\<close> that recognises domains, addresses
  and CIDR blocks (\<open>domainRegex\<close>, \<open>detectTargetType\<close>, \<open>validateTargetValue\<close>), over
  the textual syntax of addresses in the packages \<open>net\<close> and \<open>net/netip\<close> of the Go standard library.
\<close>

section \<open>Addresses of the standard library\<close>

definition char_in :: "string \<Rightarrow> string \<Rightarrow> char \<Rightarrow> bool" where
  "char_in lo hi c = (hd lo \<le> c \<and> c \<le> hd hi)"

definition is_letter :: "char \<Rightarrow> bool" where
  "is_letter c = char_in ''a'' ''z'' (lower_char c)"

definition is_hex :: "char \<Rightarrow> bool" where
  "is_hex c = (is_digit c \<or> char_in ''a'' ''f'' (lower_char c))"

text \<open>A decimal octet: digits only, no leading zero, at most 255.\<close>

definition is_octet :: "string \<Rightarrow> bool" where
  "is_octet f = (f \<noteq> [] \<and> (hd f = CHR ''0'' \<longrightarrow> tl f = []) \<and>
     (case parse_digits 0 f of None \<Rightarrow> False | Some n \<Rightarrow> n \<le> 255))"

definition parseIPv4 :: "string \<Rightarrow> bool" where
  "parseIPv4 s = (let fs = SplitOn (CHR ''.'') s in length fs = 4 \<and> list_all is_octet fs)"

text \<open>The end of the group loop: all input used, and an ellipsis exactly when groups are missing.\<close>

definition ipv6_end :: "nat \<Rightarrow> nat option \<Rightarrow> string \<Rightarrow> bool" where
  "ipv6_end i ellipsis s = (s = [] \<and> (if i < 16 then ellipsis \<noteq> None else ellipsis = None))"

text \<open>The loop over colon-separated groups; \<open>i\<close> is the byte position in the address.\<close>

function ipv6_groups :: "nat \<Rightarrow> nat option \<Rightarrow> string \<Rightarrow> bool" where
  "ipv6_groups i ellipsis s =
     (if 16 \<le> i then ipv6_end i ellipsis s
      else
        let h = takeWhile is_hex s; r = dropWhile is_hex s in
        if h = [] \<or> 4 < length h then False
        else case r of
            [] \<Rightarrow> ipv6_end (i + 2) ellipsis []
          | c # r' \<Rightarrow>
              if c = CHR ''.'' then
                (ellipsis \<noteq> None \<or> i = 12) \<and> i + 4 \<le> 16 \<and> parseIPv4 s \<and> ipv6_end (i + 4) ellipsis []
              else if c \<noteq> CHR '':'' then False
              else (case r' of
                  [] \<Rightarrow> False
                | c' # r'' \<Rightarrow>
                    if c' = CHR '':'' then
                      if ellipsis \<noteq> None then False
                      else if r'' = [] then ipv6_end (i + 2) (Some (i + 2)) []
                      else ipv6_groups (i + 2) (Some (i + 2)) r''
                    else ipv6_groups (i + 2) ellipsis r'))"
  by pat_completeness auto

termination by (relation "measure (\<lambda>(i, _, _). 16 - i)") auto

declare ipv6_groups.simps [simp del]

definition parseIPv6 :: "string \<Rightarrow> bool" where
  "parseIPv6 s =
     (if HasPrefix s ''::'' then (let r = drop 2 s in r = [] \<or> ipv6_groups 0 (Some 0) r)
      else ipv6_groups 0 None s)"

datatype family = IPv4 | IPv6

text \<open>\<open>netip.ParseAddr\<close> without zones: the first of the three marks decides the syntax.\<close>

definition ParseAddr :: "string \<Rightarrow> family option" where
  "ParseAddr s =
     (case find (\<lambda>c. c \<in> {CHR ''.'', CHR '':'', CHR ''%''}) s of
        None \<Rightarrow> None
      | Some c \<Rightarrow>
          if CHR ''%'' \<in> set s then None
          else if c = CHR ''.'' then (if parseIPv4 s then Some IPv4 else None)
          else if parseIPv6 s then Some IPv6 else None)"

definition ParseIP :: "string \<Rightarrow> bool" where
  "ParseIP s = (ParseAddr s \<noteq> None)"

definition bit_len :: "family \<Rightarrow> nat" where
  "bit_len f = (case f of IPv4 \<Rightarrow> 32 | IPv6 \<Rightarrow> 128)"

definition ParseCIDR :: "string \<Rightarrow> bool" where
  "ParseCIDR s =
     (let addr = takeWhile (\<lambda>c. c \<noteq> CHR ''/'') s; rest = dropWhile (\<lambda>c. c \<noteq> CHR ''/'') s in
      rest \<noteq> [] \<and>
      (case ParseAddr addr of
         None \<Rightarrow> False
       | Some f \<Rightarrow> tl rest \<noteq> [] \<and>
           (case parse_digits 0 (tl rest) of None \<Rightarrow> False | Some n \<Rightarrow> n \<le> bit_len f)))"

section \<open>Target values\<close>

definition is_label :: "string \<Rightarrow> bool" where
  "is_label f = (f \<noteq> [] \<and> list_all (\<lambda>c. is_letter c \<or> is_digit c \<or> c = CHR ''-'') f)"

definition domainRegex :: "string \<Rightarrow> bool" where
  "domainRegex v =
     (let fs = SplitOn (CHR ''.'') v in
      2 \<le> length fs \<and> list_all is_label (butlast fs) \<and> 2 \<le> length (last fs) \<and> list_all is_letter (last fs))"

definition ErrInvalidTarget :: store_error where
  "ErrInvalidTarget = ErrInput ''invalid target''"

definition detectTargetType :: "string \<Rightarrow> (store_error, TargetType) result" where
  "detectTargetType value =
     (if Contains value ''/'' then (if ParseCIDR value then Inr TargetTypeCIDR else Inl ErrInvalidTarget)
      else if ParseIP value then Inr TargetTypeIP
      else if domainRegex value then Inr TargetTypeDomain
      else Inl ErrInvalidTarget)"

definition validateTargetValue :: "string \<Rightarrow> TargetType \<Rightarrow> (store_error, unit) result" where
  "validateTargetValue value typ =
     (case typ of
        TargetTypeDomain \<Rightarrow> guardR (domainRegex value) ErrInvalidTarget
      | TargetTypeCIDR \<Rightarrow> guardR (ParseCIDR value) ErrInvalidTarget
      | TargetTypeIP \<Rightarrow> guardR (ParseIP value) ErrInvalidTarget)"

section \<open>Lemmas: the alphabets of the three syntaxes\<close>

lemma parse_digits_digits: "parse_digits a s = Some n \<Longrightarrow> \<forall>c \<in> set s. is_digit c"
  by (induction a s rule: parse_digits.induct) (auto split: if_splits)

lemma set_SplitOn: "c \<in> set s \<Longrightarrow> c \<noteq> d \<Longrightarrow> \<exists>f \<in> set (SplitOn d s). c \<in> set f"
  by (induction d s rule: SplitOn.induct) (fastforce split: list.splits)+

lemma SplitOn_subset: "f \<in> set (SplitOn d s) \<Longrightarrow> set f \<subseteq> set s"
proof (induction d s arbitrary: f rule: SplitOn.induct)
  case (2 d c cs)
  show ?case
  proof (cases "SplitOn d cs")
    case (Cons g gs)
    then show ?thesis using "2.prems" "2.IH" by (auto split: if_splits) fastforce+
  qed (use "2.prems" in \<open>auto split: if_splits\<close>)
qed simp

lemma slash_class [simp]:
  "\<not> is_digit (CHR ''/'')" "\<not> is_hex (CHR ''/'')" "\<not> is_letter (CHR ''/'')"
  by (simp_all add: is_digit_def is_hex_def is_letter_def char_in_def lower_char_def less_eq_char_def)

lemma letter_not_digit: "is_letter c \<Longrightarrow> \<not> is_digit c"
  by (auto simp: is_letter_def char_in_def lower_char_def is_digit_def less_eq_char_def split: if_splits)

lemma colon_class [simp]:
  "\<not> is_digit (CHR '':'')" "\<not> is_letter (CHR '':'')"
  by (simp_all add: is_digit_def is_letter_def char_in_def lower_char_def less_eq_char_def)

lemma percent_class [simp]: "\<not> is_digit (CHR ''%'')" "\<not> is_letter (CHR ''%'')"
  by (simp_all add: is_digit_def is_letter_def char_in_def lower_char_def less_eq_char_def)

lemma is_octet_digits: "is_octet f \<Longrightarrow> f \<noteq> [] \<and> (\<forall>c \<in> set f. is_digit c)"
  by (auto simp: is_octet_def dest: parse_digits_digits split: option.splits)

lemma parseIPv4_chars: "parseIPv4 s \<Longrightarrow> c \<in> set s \<Longrightarrow> is_digit c \<or> c = CHR ''.''"
  using set_SplitOn [of c s "CHR ''.''"]
  by (auto simp: parseIPv4_def Let_def list_all_iff dest: is_octet_digits)

lemma ipv6_groups_chars:
  "ipv6_groups i e s \<Longrightarrow> c \<in> set s \<Longrightarrow> is_hex c \<or> c = CHR ''.'' \<or> c = CHR '':''"
proof (induction i e s rule: ipv6_groups.induct)
  case (1 i e s)
  have hex: "is_hex c" if "is_digit c" using that by (simp add: is_hex_def)
  have s: "s = takeWhile is_hex s @ dropWhile is_hex s" by simp
  have c: "is_hex c \<or> c \<in> set (dropWhile is_hex s)"
    using "1.prems"(2) by (metis UnE s set_append set_takeWhileD)
  show ?case
  proof (cases "16 \<le> i")
    case True
    then show ?thesis using "1.prems" by (simp add: ipv6_groups.simps ipv6_end_def)
  next
    case False
    note un = "1.prems"(1) [unfolded ipv6_groups.simps [of i e s], simplified False if_False Let_def]
    show ?thesis
    proof (cases "dropWhile is_hex s")
      case (Cons d r)
      show ?thesis
      proof (cases "d = CHR ''.''")
        case True
        then have "parseIPv4 s" using un Cons by (auto split: if_splits)
        then show ?thesis using parseIPv4_chars "1.prems"(2) hex by blast
      next
        case nd: False
        then have d: "d = CHR '':''" using un Cons by (auto split: if_splits)
        then obtain d' r' where r: "r = d' # r'" using un Cons nd by (auto split: if_splits list.splits)
        show ?thesis
        proof (cases "d' = CHR '':''")
          case True
          show ?thesis
          proof (cases "r' = []")
            case True
            then show ?thesis using c Cons d r \<open>d' = CHR '':''\<close> by auto
          next
            case nn: False
            have "ipv6_groups (i + 2) (Some (i + 2)) r'" "takeWhile is_hex s \<noteq> []" "\<not> 4 < length (takeWhile is_hex s)" "e = None"
              using un Cons nd d r True nn by (auto split: if_splits)
            then show ?thesis
              using "1.IH"(1) [OF False refl refl _ Cons _ _ r] c Cons d r True nn nd by auto
          qed
        next
          case nc: False
          have "ipv6_groups (i + 2) e r" "takeWhile is_hex s \<noteq> []" "\<not> 4 < length (takeWhile is_hex s)"
            using un Cons nd d r nc by (auto split: if_splits)
          then show ?thesis
            using "1.IH"(2) [OF False refl refl _ Cons _ _ r] c Cons d r nc nd by auto
        qed
      qed
    qed (use "1.prems"(2) c in auto)
  qed
qed

lemma parseIPv6_chars: "parseIPv6 s \<Longrightarrow> c \<in> set s \<Longrightarrow> is_hex c \<or> c = CHR ''.'' \<or> c = CHR '':''"
  by (auto simp: parseIPv6_def Let_def HasPrefix_iff split: if_splits dest: ipv6_groups_chars)

lemma ParseIP_no_slash: "ParseIP s \<Longrightarrow> CHR ''/'' \<notin> set s"
  by (auto simp: ParseIP_def ParseAddr_def split: option.splits if_splits dest: parseIPv4_chars parseIPv6_chars)

lemma ParseCIDR_slash: "ParseCIDR s \<Longrightarrow> CHR ''/'' \<in> set s"
  by (auto simp: ParseCIDR_def Let_def)

lemma domainRegex_chars: "domainRegex s \<Longrightarrow> c \<in> set s \<Longrightarrow> is_letter c \<or> is_digit c \<or> c = CHR ''-'' \<or> c = CHR ''.''"
proof -
  assume d: "domainRegex s" and c: "c \<in> set s"
  let ?fs = "SplitOn (CHR ''.'') s"
  show ?thesis
  proof (cases "c = CHR ''.''")
    case False
    then obtain f where f: "f \<in> set ?fs" "c \<in> set f" using set_SplitOn c by blast
    have "?fs = butlast ?fs @ [last ?fs]" by simp
    then have "f \<in> set (butlast ?fs) \<or> f = last ?fs" using f(1) by (metis Un_iff empty_iff insert_iff list.set set_append)
    then show ?thesis using d f(2) by (auto simp: domainRegex_def Let_def is_label_def list_all_iff)
  qed simp
qed

lemma domain_not_IP: "domainRegex s \<Longrightarrow> \<not> ParseIP s"
proof
  assume d: "domainRegex s" and p: "ParseIP s"
  let ?fs = "SplitOn (CHR ''.'') s"
  have noc: "CHR '':'' \<notin> set s" "CHR ''%'' \<notin> set s" using domainRegex_chars [OF d] by fastforce+
  have "parseIPv4 s"
    using p noc by (auto simp: ParseIP_def ParseAddr_def split: option.splits if_splits dest!: find_SomeD)
  then have "is_octet (last ?fs)" by (simp add: parseIPv4_def Let_def list_all_iff)
  moreover have "last ?fs \<noteq> []" "\<forall>c \<in> set (last ?fs). is_letter c"
    using d by (auto simp: domainRegex_def Let_def list_all_iff)
  ultimately show False using is_octet_digits letter_not_digit by (metis list.set_sel(1))
qed

lemma Contains_char: "Contains s [c] \<longleftrightarrow> c \<in> set s"
  by (auto simp: Contains_iff in_set_conv_decomp)

section \<open>Properties\<close>

text \<open>C12: Detecting the type of a target and validating a given type agree. For every value, at most
  one of the three types passes validation, and it is the one that detection finds: a CIDR
  block, an address and a domain are never confused.\<close>

theorem target_type_detection:
  "validateTargetValue v t = Inr () \<longleftrightarrow> detectTargetType v = Inr t"
proof -
  have dom: "domainRegex v \<Longrightarrow> CHR ''/'' \<notin> set v" using domainRegex_chars by fastforce
  show ?thesis
  proof (cases t)
    case TargetTypeDomain
    then show ?thesis using dom domain_not_IP by (auto simp: validateTargetValue_def detectTargetType_def Contains_char)
  next
    case TargetTypeCIDR
    then show ?thesis using ParseCIDR_slash by (auto simp: validateTargetValue_def detectTargetType_def Contains_char)
  next
    case TargetTypeIP
    then show ?thesis using ParseIP_no_slash by (auto simp: validateTargetValue_def detectTargetType_def Contains_char)
  qed
qed

lemma target_type_examples:
  "detectTargetType ''example.com'' = Inr TargetTypeDomain" "detectTargetType ''10.0.0.1'' = Inr TargetTypeIP"
  "detectTargetType ''10.0.0.0/8'' = Inr TargetTypeCIDR" "detectTargetType ''2001:db8::1'' = Inr TargetTypeIP"
  "detectTargetType ''::ffff:1.2.3.4/128'' = Inr TargetTypeCIDR" "detectTargetType ''010.0.0.1'' = Inl ErrInvalidTarget"
  "detectTargetType ''localhost'' = Inl ErrInvalidTarget" "detectTargetType ''1::2::3'' = Inl ErrInvalidTarget"
  by code_simp+

end
