(* ===== verification/ScheduleStore.thy ===== *)
theory ScheduleStore
  imports Database
begin

text \<open>
  The stores of schedules, templates, blackouts, ad-hoc runs and the schedule defaults:
  \<open>internal/storage/schedules.go\<close>, \<open>templates.go\<close>, \<open>blackouts.go\<close>, \<open>adhoc_scan_runs.go\<close>
  and \<open>schedule_defaults.go\<close>. \<open>now\<close> is the clock reading and \<open>fresh\<close> the new UUID. Each of
  the four row stores is an instance of the contract \<open>row_store\<close>.
\<close>

section \<open>Schedules\<close>

definition has_target :: "db \<Rightarrow> string \<Rightarrow> bool" where
  "has_target d i = (row tg_ID (db_targets d) i \<noteq> None)"

definition has_template :: "db \<Rightarrow> string option \<Rightarrow> bool" where
  "has_template d i = (case i of None \<Rightarrow> True | Some t \<Rightarrow> row tm_ID (db_templates d) t \<noteq> None)"

definition has_scan :: "db \<Rightarrow> string option \<Rightarrow> bool" where
  "has_scan d i = (case i of None \<Rightarrow> True | Some t \<Rightarrow> row sn_ID (db_scans d) t \<noteq> None)"

definition lift_tool :: "(tool_error, unit) result \<Rightarrow> (store_error, unit) result" where
  "lift_tool r = (case r of Inl e \<Rightarrow> Inl (ErrTool e) | Inr u \<Rightarrow> Inr u)"

definition lift_rrule :: "(rrule_error, Warnings) result \<Rightarrow> (store_error, unit) result" where
  "lift_rrule r = (case r of Inl e \<Rightarrow> Inl (ErrRRule e) | Inr _ \<Rightarrow> Inr ())"

definition validateScheduleInput :: "'r rrule_lib \<Rightarrow> time \<Rightarrow> Schedule \<Rightarrow> (store_error, unit) result" where
  "validateScheduleInput lib now s =
     (if TrimSpace (sch_TargetID s) = [] then Inl (ErrInput ''schedule.target_id is required'')
      else if TrimSpace (sch_Name s) = [] then Inl (ErrInput ''schedule.name is required'')
      else if TrimSpace (sch_Timezone s) = [] then Inl (ErrInput ''schedule.timezone is required'')
      else bindR (lift_rrule (ValidateRRule lib now (sch_RRule s)))
        (\<lambda>_. lift_tool (ValidateToolConfig (sch_ToolConfig s))))"

text \<open>The input as \<open>Create\<close> leaves it (identifier and stamps), and the row as it is stored
  and read back by \<open>scanSchedule\<close>.\<close>

definition sched_prepared :: "time \<Rightarrow> string \<Rightarrow> Schedule \<Rightarrow> Schedule" where
  "sched_prepared now fresh s =
     s\<lparr>sch_ID := (if sch_ID s = [] then fresh else sch_ID s), sch_CreatedAt := now, sch_UpdatedAt := now\<rparr>"

definition sched_row :: "Schedule \<Rightarrow> Schedule" where
  "sched_row s =
     s\<lparr>sch_DTStart := trunc_sec (sch_DTStart s), sch_TemplateID := nullableString (sch_TemplateID s),
       sch_NextRunAt := timePtrUTC (sch_NextRunAt s), sch_LastRunAt := timePtrUTC (sch_LastRunAt s),
       sch_LastScanID := nullableString (sch_LastScanID s),
       sch_CreatedAt := trunc_sec (sch_CreatedAt s), sch_UpdatedAt := trunc_sec (sch_UpdatedAt s)\<rparr>"

definition sched_refs_ok :: "db \<Rightarrow> Schedule \<Rightarrow> bool" where
  "sched_refs_ok d s = (has_target d (sch_TargetID s) \<and> has_template d (sch_TemplateID s) \<and> has_scan d (sch_LastScanID s))"

definition sched_Create :: "'r rrule_lib \<Rightarrow> time \<Rightarrow> string \<Rightarrow> Schedule \<Rightarrow> db \<Rightarrow> (store_error, db) result" where
  "sched_Create lib now fresh s d =
     (case validateScheduleInput lib now s of
        Inl e \<Rightarrow> Inl e
      | Inr _ \<Rightarrow>
          let r = sched_row (sched_prepared now fresh s) in
          if list_ex (\<lambda>x. sch_ID x = sch_ID r \<or> (sch_TargetID x = sch_TargetID r \<and> sch_Name x = sch_Name r))
               (db_schedules d) then Inl ErrAlreadyExists
          else if \<not> sched_refs_ok d r then Inl ErrConstraint
          else Inr (d\<lparr>db_schedules := db_schedules d @ [r]\<rparr>))"

definition sched_Get :: "db \<Rightarrow> string \<Rightarrow> Schedule option" where
  "sched_Get d i = row sch_ID (db_schedules d) i"

definition sched_GetByTargetAndName :: "db \<Rightarrow> string \<Rightarrow> string \<Rightarrow> Schedule option" where
  "sched_GetByTargetAndName d t n = find (\<lambda>s. sch_TargetID s = t \<and> sch_Name s = n) (db_schedules d)"

definition sched_ListByTarget :: "db \<Rightarrow> string \<Rightarrow> Schedule list" where
  "sched_ListByTarget d t = sort_key sch_Name (filter (\<lambda>s. sch_TargetID s = t) (db_schedules d))"

definition sched_ListAll :: "db \<Rightarrow> Schedule list" where
  "sched_ListAll d = sort_key sch_CreatedAt (db_schedules d)"

definition is_due :: "time \<Rightarrow> Schedule \<Rightarrow> bool" where
  "is_due now s = (sch_Enabled s \<and> (case sch_NextRunAt s of None \<Rightarrow> False | Some t \<Rightarrow> t \<le> trunc_sec now))"

definition next_key :: "Schedule \<Rightarrow> time" where
  "next_key s = (case sch_NextRunAt s of None \<Rightarrow> 0 | Some t \<Rightarrow> t)"

definition sched_ListDue :: "db \<Rightarrow> time \<Rightarrow> int \<Rightarrow> Schedule list" where
  "sched_ListDue d now limit0 =
     (let limit = (if limit0 \<le> 0 then 100 else limit0) in
      take (nat limit) (sort_key next_key (filter (is_due now) (db_schedules d))))"

definition sched_ListByTemplate :: "db \<Rightarrow> string \<Rightarrow> Schedule list" where
  "sched_ListByTemplate d t = sort_key sch_CreatedAt (filter (\<lambda>s. sch_TemplateID s = Some t) (db_schedules d))"

definition sched_Update :: "'r rrule_lib \<Rightarrow> time \<Rightarrow> Schedule \<Rightarrow> db \<Rightarrow> (store_error, db) result" where
  "sched_Update lib now s d =
     (case validateScheduleInput lib now s of
        Inl e \<Rightarrow> Inl e
      | Inr _ \<Rightarrow>
          let r = sched_row (s\<lparr>sch_UpdatedAt := now\<rparr>) in
          if sched_Get d (sch_ID s) = None then Inl ErrNotFound
          else if list_ex (\<lambda>x. sch_ID x \<noteq> sch_ID r \<and> sch_TargetID x = sch_TargetID r \<and> sch_Name x = sch_Name r)
               (db_schedules d) then Inl ErrConstraint
          else if \<not> sched_refs_ok d r then Inl ErrConstraint
          else Inr (d\<lparr>db_schedules := update_where (\<lambda>x. sch_ID x = sch_ID s)
                        (\<lambda>x. r\<lparr>sch_CreatedAt := sch_CreatedAt x\<rparr>) (db_schedules d)\<rparr>))"

definition sched_SetNextRunAt :: "time \<Rightarrow> string \<Rightarrow> time option \<Rightarrow> db \<Rightarrow> (store_error, db) result" where
  "sched_SetNextRunAt now i next d =
     (if sched_Get d i = None then Inl ErrNotFound
      else Inr (d\<lparr>db_schedules := update_where (\<lambda>x. sch_ID x = i)
             (\<lambda>x. x\<lparr>sch_NextRunAt := timePtrUTC next, sch_UpdatedAt := trunc_sec now\<rparr>) (db_schedules d)\<rparr>))"

definition sched_RecordRun ::
  "time \<Rightarrow> string \<Rightarrow> ScheduleRunStatus \<Rightarrow> string option \<Rightarrow> time \<Rightarrow> db \<Rightarrow> (store_error, db) result" where
  "sched_RecordRun now i status scanID stamp d =
     (if sched_Get d i = None then Inl ErrNotFound
      else if \<not> has_scan d (nullableString scanID) then Inl ErrConstraint
      else Inr (d\<lparr>db_schedules := update_where (\<lambda>x. sch_ID x = i)
             (\<lambda>x. x\<lparr>sch_LastRunAt := Some (trunc_sec stamp), sch_LastRunStatus := Some status,
                    sch_LastScanID := nullableString scanID, sch_UpdatedAt := trunc_sec now\<rparr>)
             (db_schedules d)\<rparr>))"

definition sched_Delete :: "string \<Rightarrow> db \<Rightarrow> (store_error, db) result" where
  "sched_Delete i d =
     (if sched_Get d i = None then Inl ErrNotFound
      else Inr (d\<lparr>db_schedules := filter (\<lambda>x. sch_ID x \<noteq> i) (db_schedules d)\<rparr>))"

definition sched_CountByTarget :: "db \<Rightarrow> string \<Rightarrow> nat" where
  "sched_CountByTarget d t = length (filter (\<lambda>s. sch_TargetID s = t) (db_schedules d))"

definition sched_newkey :: "string \<Rightarrow> Schedule \<Rightarrow> string" where
  "sched_newkey fresh s = (if sch_ID s = [] then fresh else sch_ID s)"

lemma sched_row_ID [simp]: "sch_ID (sched_row s) = sch_ID s" "sch_TargetID (sched_row s) = sch_TargetID s"
  "sch_Name (sched_row s) = sch_Name s"
  by (simp_all add: sched_row_def)

lemma sched_prepared_ID [simp]: "sch_ID (sched_prepared now fresh s) = sched_newkey fresh s"
  "sch_TargetID (sched_prepared now fresh s) = sch_TargetID s" "sch_Name (sched_prepared now fresh s) = sch_Name s"
  by (simp_all add: sched_prepared_def sched_newkey_def)

interpretation sched: row_store sched_Get "sched_newkey fresh" sch_ID
  "\<lambda>s. sched_row (sched_prepared now fresh s)"
  "\<lambda>old s. (sched_row (s\<lparr>sch_UpdatedAt := now\<rparr>))\<lparr>sch_CreatedAt := sch_CreatedAt old\<rparr>"
  "sched_Create lib now fresh" "sched_Update lib now" sched_Delete for lib now fresh
proof
  fix r s s' i j
  {
    assume c: "sched_Create lib now fresh r s = Inr s'"
    then show fresh: "sched_Get s (sched_newkey fresh r) = None"
      by (auto simp: sched_Create_def Let_def list_ex_iff sched_Get_def row_None split: sum.splits if_splits)
    from c show "sched_Get s' i = (if i = sched_newkey fresh r then Some (sched_row (sched_prepared now fresh r)) else sched_Get s i)"
      using fresh by (auto simp: sched_Create_def Let_def sched_Get_def row_append split: sum.splits if_splits option.splits)
  }
  {
    assume u: "sched_Update lib now r s = Inr s'"
    then show "sched_Get s (sch_ID r) \<noteq> None"
      by (auto simp: sched_Update_def Let_def split: sum.splits if_splits)
    from u show "sched_Get s' i = (if i = sch_ID r then
        map_option (\<lambda>old. (sched_row (r\<lparr>sch_UpdatedAt := now\<rparr>))\<lparr>sch_CreatedAt := sch_CreatedAt old\<rparr>) (sched_Get s (sch_ID r))
        else sched_Get s i)"
      by (auto simp: sched_Update_def Let_def sched_Get_def row_update split: sum.splits if_splits)
  }
  {
    assume d: "sched_Delete i s = Inr s'"
    then show "sched_Get s i \<noteq> None" by (auto simp: sched_Delete_def split: if_splits)
    from d show "sched_Get s' j = (if j = i then None else sched_Get s j)"
      by (auto simp: sched_Delete_def sched_Get_def row_filter_out split: if_splits)
  }
qed

section \<open>Templates\<close>

definition validateTemplateInput :: "'r rrule_lib \<Rightarrow> time \<Rightarrow> Template \<Rightarrow> (store_error, unit) result" where
  "validateTemplateInput lib now t =
     (if TrimSpace (tm_Name t) = [] then Inl (ErrInput ''template.name is required'')
      else if TrimSpace (tm_Timezone t) = [] then Inl (ErrInput ''template.timezone is required'')
      else bindR (lift_rrule (ValidateRRule lib now (tm_RRule t)))
        (\<lambda>_. lift_tool (ValidateToolConfig (tm_ToolConfig t))))"

definition tmpl_newkey :: "string \<Rightarrow> Template \<Rightarrow> string" where
  "tmpl_newkey fresh t = (if tm_ID t = [] then fresh else tm_ID t)"

definition tmpl_prepared :: "time \<Rightarrow> string \<Rightarrow> Template \<Rightarrow> Template" where
  "tmpl_prepared now fresh t = t\<lparr>tm_ID := tmpl_newkey fresh t, tm_CreatedAt := now, tm_UpdatedAt := now\<rparr>"

definition tmpl_row :: "Template \<Rightarrow> Template" where
  "tmpl_row t = t\<lparr>tm_CreatedAt := trunc_sec (tm_CreatedAt t), tm_UpdatedAt := trunc_sec (tm_UpdatedAt t)\<rparr>"

definition tmpl_Get :: "db \<Rightarrow> string \<Rightarrow> Template option" where
  "tmpl_Get d i = row tm_ID (db_templates d) i"

definition tmpl_GetByName :: "db \<Rightarrow> string \<Rightarrow> Template option" where
  "tmpl_GetByName d n = find (\<lambda>t. tm_Name t = n) (db_templates d)"

definition tmpl_List :: "db \<Rightarrow> Template list" where
  "tmpl_List d = sort_key tm_Name (db_templates d)"

definition tmpl_Create :: "'r rrule_lib \<Rightarrow> time \<Rightarrow> string \<Rightarrow> Template \<Rightarrow> db \<Rightarrow> (store_error, db) result" where
  "tmpl_Create lib now fresh t d =
     (case validateTemplateInput lib now t of
        Inl e \<Rightarrow> Inl e
      | Inr _ \<Rightarrow>
          let r = tmpl_row (tmpl_prepared now fresh t) in
          if list_ex (\<lambda>x. tm_ID x = tm_ID r \<or> tm_Name x = tm_Name r) (db_templates d) then Inl ErrAlreadyExists
          else Inr (d\<lparr>db_templates := db_templates d @ [r]\<rparr>))"

definition tmpl_Update :: "'r rrule_lib \<Rightarrow> time \<Rightarrow> Template \<Rightarrow> db \<Rightarrow> (store_error, db) result" where
  "tmpl_Update lib now t d =
     (case validateTemplateInput lib now t of
        Inl e \<Rightarrow> Inl e
      | Inr _ \<Rightarrow>
          let r = tmpl_row (t\<lparr>tm_UpdatedAt := now\<rparr>) in
          if tmpl_Get d (tm_ID t) = None then Inl ErrNotFound
          else if list_ex (\<lambda>x. tm_ID x \<noteq> tm_ID r \<and> tm_Name x = tm_Name r) (db_templates d) then Inl ErrConstraint
          else Inr (d\<lparr>db_templates := update_where (\<lambda>x. tm_ID x = tm_ID t)
                        (\<lambda>x. r\<lparr>tm_CreatedAt := tm_CreatedAt x\<rparr>) (db_templates d)\<rparr>))"

text \<open>Deleting a template sets the references to it to NULL.\<close>

definition unlink :: "string \<Rightarrow> string option \<Rightarrow> string option" where
  "unlink i v = (if v = Some i then None else v)"

lemma unlink_neq: "unlink i v \<noteq> Some i" "unlink i v = Some i \<longleftrightarrow> False"
  by (simp_all add: unlink_def)

definition tmpl_Delete :: "string \<Rightarrow> db \<Rightarrow> (store_error, db) result" where
  "tmpl_Delete i d =
     (case tmpl_Get d i of
        None \<Rightarrow> Inl ErrNotFound
      | Some t \<Rightarrow>
          if tm_IsSystem t then Inl ErrSystemTemplateImmutable
          else Inr (d\<lparr>db_templates := filter (\<lambda>x. tm_ID x \<noteq> i) (db_templates d),
                 db_schedules := map (\<lambda>s. s\<lparr>sch_TemplateID := unlink i (sch_TemplateID s)\<rparr>) (db_schedules d),
                 db_adhoc := map (\<lambda>r. r\<lparr>ah_TemplateID := unlink i (ah_TemplateID r)\<rparr>) (db_adhoc d),
                 db_defaults := map_option (\<lambda>x. x\<lparr>sd_DefaultTemplateID := unlink i (sd_DefaultTemplateID x)\<rparr>)
                   (db_defaults d)\<rparr>))"

lemma tmpl_row_simps [simp]: "tm_ID (tmpl_row t) = tm_ID t" "tm_Name (tmpl_row t) = tm_Name t"
  "tm_ID (tmpl_prepared now fresh t) = tmpl_newkey fresh t"
  by (simp_all add: tmpl_row_def tmpl_prepared_def)

interpretation tmpl: row_store tmpl_Get "tmpl_newkey fresh" tm_ID
  "\<lambda>t. tmpl_row (tmpl_prepared now fresh t)"
  "\<lambda>old t. (tmpl_row (t\<lparr>tm_UpdatedAt := now\<rparr>))\<lparr>tm_CreatedAt := tm_CreatedAt old\<rparr>"
  "tmpl_Create lib now fresh" "tmpl_Update lib now" tmpl_Delete for lib now fresh
proof
  fix r s s' i j
  {
    assume c: "tmpl_Create lib now fresh r s = Inr s'"
    then show fresh: "tmpl_Get s (tmpl_newkey fresh r) = None"
      by (auto simp: tmpl_Create_def Let_def list_ex_iff tmpl_Get_def row_None split: sum.splits if_splits)
    from c show "tmpl_Get s' i = (if i = tmpl_newkey fresh r then Some (tmpl_row (tmpl_prepared now fresh r)) else tmpl_Get s i)"
      using fresh by (auto simp: tmpl_Create_def Let_def tmpl_Get_def row_append split: sum.splits if_splits option.splits)
  }
  {
    assume u: "tmpl_Update lib now r s = Inr s'"
    then show "tmpl_Get s (tm_ID r) \<noteq> None"
      by (auto simp: tmpl_Update_def Let_def split: sum.splits if_splits)
    from u show "tmpl_Get s' i = (if i = tm_ID r then
        map_option (\<lambda>old. (tmpl_row (r\<lparr>tm_UpdatedAt := now\<rparr>))\<lparr>tm_CreatedAt := tm_CreatedAt old\<rparr>) (tmpl_Get s (tm_ID r))
        else tmpl_Get s i)"
      by (auto simp: tmpl_Update_def Let_def tmpl_Get_def row_update split: sum.splits if_splits)
  }
  {
    assume d: "tmpl_Delete i s = Inr s'"
    then show "tmpl_Get s i \<noteq> None" by (auto simp: tmpl_Delete_def split: option.splits)
    from d show "tmpl_Get s' j = (if j = i then None else tmpl_Get s j)"
      by (auto simp: tmpl_Delete_def tmpl_Get_def row_filter_out split: if_splits option.splits)
  }
qed

section \<open>Blackouts\<close>

definition validateBlackoutInput :: "'r rrule_lib \<Rightarrow> time \<Rightarrow> BlackoutWindow \<Rightarrow> (store_error, unit) result" where
  "validateBlackoutInput lib now b =
     (if TrimSpace (bo_Name b) = [] then Inl (ErrInput ''blackout.name is required'')
      else if bo_DurationSec b \<le> 0 then Inl (ErrInput ''blackout.duration_seconds must be > 0'')
      else if TrimSpace (bo_Timezone b) = [] then Inl (ErrInput ''blackout.timezone is required'')
      else if bo_Scope b = BlackoutScopeGlobal \<and> nullableString (bo_TargetID b) \<noteq> None
      then Inl (ErrInput ''global blackout must not have target_id'')
      else if bo_Scope b = BlackoutScopeTarget \<and> nullableString (bo_TargetID b) = None
      then Inl (ErrInput ''target blackout must have target_id'')
      else lift_rrule (ValidateRRule lib now (bo_RRule b)))"

definition bo_newkey :: "string \<Rightarrow> BlackoutWindow \<Rightarrow> string" where
  "bo_newkey fresh b = (if bo_ID b = [] then fresh else bo_ID b)"

definition bo_prepared :: "time \<Rightarrow> string \<Rightarrow> BlackoutWindow \<Rightarrow> BlackoutWindow" where
  "bo_prepared now fresh b = b\<lparr>bo_ID := bo_newkey fresh b, bo_CreatedAt := now, bo_UpdatedAt := now\<rparr>"

definition bo_row :: "BlackoutWindow \<Rightarrow> BlackoutWindow" where
  "bo_row b = b\<lparr>bo_TargetID := nullableString (bo_TargetID b), bo_CreatedAt := trunc_sec (bo_CreatedAt b),
     bo_UpdatedAt := trunc_sec (bo_UpdatedAt b)\<rparr>"

definition bo_refs_ok :: "db \<Rightarrow> BlackoutWindow \<Rightarrow> bool" where
  "bo_refs_ok d b = (case bo_TargetID b of None \<Rightarrow> True | Some t \<Rightarrow> has_target d t)"

definition bo_Get :: "db \<Rightarrow> string \<Rightarrow> BlackoutWindow option" where
  "bo_Get d i = row bo_ID (db_blackouts d) i"

definition bo_List :: "db \<Rightarrow> BlackoutWindow list" where
  "bo_List d = sort_key bo_CreatedAt (db_blackouts d)"

definition bo_ListByScope :: "db \<Rightarrow> BlackoutScope \<Rightarrow> BlackoutWindow list" where
  "bo_ListByScope d sc = sort_key bo_CreatedAt (filter (\<lambda>b. bo_Scope b = sc) (db_blackouts d))"

definition bo_ListByTarget :: "db \<Rightarrow> string \<Rightarrow> BlackoutWindow list" where
  "bo_ListByTarget d t = sort_key bo_CreatedAt (filter (\<lambda>b. bo_TargetID b = Some t) (db_blackouts d))"

definition bo_ListActive :: "db \<Rightarrow> string \<Rightarrow> BlackoutWindow list" where
  "bo_ListActive d t = sort_key bo_CreatedAt
     (filter (\<lambda>b. bo_Enabled b \<and> (bo_Scope b = BlackoutScopeGlobal \<or> bo_TargetID b = Some t)) (db_blackouts d))"

definition bo_Create :: "'r rrule_lib \<Rightarrow> time \<Rightarrow> string \<Rightarrow> BlackoutWindow \<Rightarrow> db \<Rightarrow> (store_error, db) result" where
  "bo_Create lib now fresh b d =
     (case validateBlackoutInput lib now b of
        Inl e \<Rightarrow> Inl e
      | Inr _ \<Rightarrow>
          let r = bo_row (bo_prepared now fresh b) in
          if bo_Get d (bo_ID r) \<noteq> None then Inl ErrConstraint
          else if \<not> bo_refs_ok d r then Inl ErrConstraint
          else Inr (d\<lparr>db_blackouts := db_blackouts d @ [r]\<rparr>))"

definition bo_Update :: "'r rrule_lib \<Rightarrow> time \<Rightarrow> BlackoutWindow \<Rightarrow> db \<Rightarrow> (store_error, db) result" where
  "bo_Update lib now b d =
     (case validateBlackoutInput lib now b of
        Inl e \<Rightarrow> Inl e
      | Inr _ \<Rightarrow>
          let r = bo_row (b\<lparr>bo_UpdatedAt := now\<rparr>) in
          if bo_Get d (bo_ID b) = None then Inl ErrNotFound
          else if \<not> bo_refs_ok d r then Inl ErrConstraint
          else Inr (d\<lparr>db_blackouts := update_where (\<lambda>x. bo_ID x = bo_ID b)
                        (\<lambda>x. r\<lparr>bo_CreatedAt := bo_CreatedAt x\<rparr>) (db_blackouts d)\<rparr>))"

definition bo_Delete :: "string \<Rightarrow> db \<Rightarrow> (store_error, db) result" where
  "bo_Delete i d =
     (if bo_Get d i = None then Inl ErrNotFound
      else Inr (d\<lparr>db_blackouts := filter (\<lambda>x. bo_ID x \<noteq> i) (db_blackouts d)\<rparr>))"

lemma bo_row_simps [simp]: "bo_ID (bo_row b) = bo_ID b" "bo_ID (bo_prepared now fresh b) = bo_newkey fresh b"
  by (simp_all add: bo_row_def bo_prepared_def)

interpretation bo: row_store bo_Get "bo_newkey fresh" bo_ID
  "\<lambda>b. bo_row (bo_prepared now fresh b)"
  "\<lambda>old b. (bo_row (b\<lparr>bo_UpdatedAt := now\<rparr>))\<lparr>bo_CreatedAt := bo_CreatedAt old\<rparr>"
  "bo_Create lib now fresh" "bo_Update lib now" bo_Delete for lib now fresh
proof
  fix r s s' i j
  {
    assume c: "bo_Create lib now fresh r s = Inr s'"
    then show fresh: "bo_Get s (bo_newkey fresh r) = None"
      by (auto simp: bo_Create_def Let_def split: sum.splits if_splits)
    from c show "bo_Get s' i = (if i = bo_newkey fresh r then Some (bo_row (bo_prepared now fresh r)) else bo_Get s i)"
      using fresh by (auto simp: bo_Create_def Let_def bo_Get_def row_append split: sum.splits if_splits option.splits)
  }
  {
    assume u: "bo_Update lib now r s = Inr s'"
    then show "bo_Get s (bo_ID r) \<noteq> None"
      by (auto simp: bo_Update_def Let_def split: sum.splits if_splits)
    from u show "bo_Get s' i = (if i = bo_ID r then
        map_option (\<lambda>old. (bo_row (r\<lparr>bo_UpdatedAt := now\<rparr>))\<lparr>bo_CreatedAt := bo_CreatedAt old\<rparr>) (bo_Get s (bo_ID r))
        else bo_Get s i)"
      by (auto simp: bo_Update_def Let_def bo_Get_def row_update split: sum.splits if_splits)
  }
  {
    assume d: "bo_Delete i s = Inr s'"
    then show "bo_Get s i \<noteq> None" by (auto simp: bo_Delete_def split: if_splits)
    from d show "bo_Get s' j = (if j = i then None else bo_Get s j)"
      by (auto simp: bo_Delete_def bo_Get_def row_filter_out split: if_splits)
  }
qed

section \<open>Ad-hoc runs\<close>

text \<open>An empty status in the input becomes \<open>pending\<close>; the model's status type has no other
  invalid value.\<close>

definition validateAdHocInput :: "AdHocScanRun \<Rightarrow> (store_error, unit) result" where
  "validateAdHocInput r =
     (if TrimSpace (ah_TargetID r) = [] then Inl (ErrInput ''ad_hoc.target_id is required'')
      else if TrimSpace (ah_InitiatedBy r) = [] then Inl (ErrInput ''ad_hoc.initiated_by is required'')
      else lift_tool (ValidateToolConfig (ah_ToolConfig r)))"

definition ah_prepared :: "time \<Rightarrow> string \<Rightarrow> AdHocScanRun \<Rightarrow> AdHocScanRun" where
  "ah_prepared now fresh r =
     r\<lparr>ah_ID := (if ah_ID r = [] then fresh else ah_ID r),
       ah_RequestedAt := (if ah_RequestedAt r = zero_time then now else ah_RequestedAt r)\<rparr>"

definition ah_row :: "AdHocScanRun \<Rightarrow> AdHocScanRun" where
  "ah_row r = r\<lparr>ah_TemplateID := nullableString (ah_TemplateID r), ah_ScanID := nullableString (ah_ScanID r),
     ah_RequestedAt := trunc_sec (ah_RequestedAt r), ah_StartedAt := timePtrUTC (ah_StartedAt r),
     ah_CompletedAt := timePtrUTC (ah_CompletedAt r)\<rparr>"

definition ah_refs_ok :: "db \<Rightarrow> AdHocScanRun \<Rightarrow> bool" where
  "ah_refs_ok d r = (has_target d (ah_TargetID r) \<and> has_template d (ah_TemplateID r) \<and> has_scan d (ah_ScanID r))"

definition ah_Get :: "db \<Rightarrow> string \<Rightarrow> AdHocScanRun option" where
  "ah_Get d i = row ah_ID (db_adhoc d) i"

definition ah_ListByTarget :: "db \<Rightarrow> string \<Rightarrow> int \<Rightarrow> AdHocScanRun list" where
  "ah_ListByTarget d t limit =
     take (nat (if limit \<le> 0 then 100 else limit))
       (sort_key (\<lambda>r. - ah_RequestedAt r) (filter (\<lambda>r. ah_TargetID r = t) (db_adhoc d)))"

definition ah_ListByStatus :: "db \<Rightarrow> AdHocRunStatus \<Rightarrow> AdHocScanRun list" where
  "ah_ListByStatus d st = sort_key ah_RequestedAt (filter (\<lambda>r. ah_Status r = st) (db_adhoc d))"

definition ah_Create :: "time \<Rightarrow> string \<Rightarrow> AdHocScanRun \<Rightarrow> db \<Rightarrow> (store_error, db) result" where
  "ah_Create now fresh r0 d =
     (case validateAdHocInput r0 of
        Inl e \<Rightarrow> Inl e
      | Inr _ \<Rightarrow>
          let r = ah_row (ah_prepared now fresh r0) in
          if ah_Get d (ah_ID r) \<noteq> None then Inl ErrConstraint
          else if \<not> ah_refs_ok d r then Inl ErrConstraint
          else Inr (d\<lparr>db_adhoc := db_adhoc d @ [r]\<rparr>))"

definition is_terminal_adhoc :: "AdHocRunStatus \<Rightarrow> bool" where
  "is_terminal_adhoc st = (st = AdHocCompleted \<or> st = AdHocFailed \<or> st = AdHocCanceled)"

definition ah_stamp :: "AdHocRunStatus \<Rightarrow> time \<Rightarrow> AdHocScanRun \<Rightarrow> AdHocScanRun" where
  "ah_stamp status stamp r =
     r\<lparr>ah_Status := status,
       ah_StartedAt := (if status = AdHocRunning
                        then (case ah_StartedAt r of None \<Rightarrow> Some (trunc_sec stamp) | Some t \<Rightarrow> Some t)
                        else ah_StartedAt r),
       ah_CompletedAt := (if is_terminal_adhoc status then Some (trunc_sec stamp) else ah_CompletedAt r)\<rparr>"

definition ah_UpdateStatus :: "string \<Rightarrow> AdHocRunStatus \<Rightarrow> time \<Rightarrow> db \<Rightarrow> (store_error, db) result" where
  "ah_UpdateStatus i status stamp d =
     (if ah_Get d i = None then Inl ErrNotFound
      else Inr (d\<lparr>db_adhoc := update_where (\<lambda>r. ah_ID r = i) (ah_stamp status stamp) (db_adhoc d)\<rparr>))"

definition ah_AttachScan :: "string \<Rightarrow> string \<Rightarrow> db \<Rightarrow> (store_error, db) result" where
  "ah_AttachScan i scanID d =
     (if ah_Get d i = None then Inl ErrNotFound
      else if \<not> has_scan d (Some scanID) then Inl ErrConstraint
      else Inr (d\<lparr>db_adhoc := update_where (\<lambda>r. ah_ID r = i) (\<lambda>r. r\<lparr>ah_ScanID := Some scanID\<rparr>) (db_adhoc d)\<rparr>))"

definition ah_Delete :: "string \<Rightarrow> db \<Rightarrow> (store_error, db) result" where
  "ah_Delete i d =
     (if ah_Get d i = None then Inl ErrNotFound
      else Inr (d\<lparr>db_adhoc := filter (\<lambda>r. ah_ID r \<noteq> i) (db_adhoc d)\<rparr>))"

section \<open>Defaults\<close>

definition def_Get :: "db \<Rightarrow> (store_error, ScheduleDefaults) result" where
  "def_Get d = (case db_defaults d of None \<Rightarrow> Inl ErrNotFound | Some x \<Rightarrow> Inr x)"

definition def_Update :: "time \<Rightarrow> ScheduleDefaults \<Rightarrow> db \<Rightarrow> (store_error, db) result" where
  "def_Update now x d =
     (case ValidateToolConfig (sd_DefaultToolConfig x) of
        Inl e \<Rightarrow> Inl (ErrTool e)
      | Inr _ \<Rightarrow>
          (case db_defaults d of
             None \<Rightarrow> Inl ErrNotFound
           | Some _ \<Rightarrow>
               let r = x\<lparr>sd_DefaultTemplateID := nullableString (sd_DefaultTemplateID x), sd_UpdatedAt := trunc_sec now\<rparr>
               in if \<not> has_template d (sd_DefaultTemplateID r) then Inl ErrConstraint
                  else Inr (d\<lparr>db_defaults := Some r\<rparr>)))"

section \<open>Lemmas: the referential invariant\<close>

text \<open>The part of the schema that concerns schedules: unique identifiers and unique names per
  target, references to existing rows, system templates that stay.\<close>

definition sched_tables_ok :: "db \<Rightarrow> bool" where
  "sched_tables_ok d \<longleftrightarrow>
     distinct (map sch_ID (db_schedules d)) \<and>
     distinct (map (\<lambda>s. (sch_TargetID s, sch_Name s)) (db_schedules d)) \<and>
     distinct (map tm_ID (db_templates d)) \<and> distinct (map tm_Name (db_templates d)) \<and>
     (\<forall>s \<in> set (db_schedules d). sched_refs_ok d s)"

lemma distinct_update_where:
  assumes "distinct (map k rs)" "\<And>r. r \<in> set rs \<Longrightarrow> P r \<Longrightarrow> k (f r) \<notin> k ` {x \<in> set rs. \<not> P x}"
    and "\<And>x y. x \<in> set rs \<Longrightarrow> y \<in> set rs \<Longrightarrow> P x \<Longrightarrow> P y \<Longrightarrow> k (f x) = k (f y) \<Longrightarrow> k x = k y"
  shows "distinct (map k (update_where P f rs))"
  using assms
proof (induction rs)
  case (Cons r rs)
  have IH: "distinct (map k (update_where P f rs))"
    by (rule Cons.IH) (use Cons.prems in auto)
  have r: "k r \<notin> k ` set rs" using Cons.prems(1) by auto
  have "k (if P r then f r else r) \<notin> k ` set (update_where P f rs)"
  proof
    assume "k (if P r then f r else r) \<in> k ` set (update_where P f rs)"
    then obtain x where x: "x \<in> set rs" "k (if P r then f r else r) = k (if P x then f x else x)"
      by (auto simp: update_where_def)
    show False
    proof (cases "P r"; cases "P x")
      assume "P r" "P x"
      then have "k r = k x" using x Cons.prems(3) [of r x] by auto
      then show False using r x(1) by auto
    next
      assume "P r" "\<not> P x"
      then have "k (f r) \<in> k ` {y \<in> set (r # rs). \<not> P y}" using x by auto
      then show False using Cons.prems(2) [of r] \<open>P r\<close> by auto
    next
      assume "\<not> P r" "P x"
      then have "k (f x) \<in> k ` {y \<in> set (r # rs). \<not> P y}" using x by (auto intro: image_eqI [of _ _ r])
      then show False using Cons.prems(2) [of x] \<open>P x\<close> x(1) by auto
    next
      assume "\<not> P r" "\<not> P x"
      then show False using x r by auto
    qed
  qed
  moreover have "update_where P f (r # rs) = (if P r then f r else r) # update_where P f rs"
    by (simp add: update_where_def)
  ultimately show ?case using IH by (simp only: list.map distinct.simps set_map not_False_eq_True simp_thms)
qed (simp add: update_where_def)

lemma distinct_update_where_same:
  "distinct (map k rs) \<Longrightarrow> (\<And>r. r \<in> set rs \<Longrightarrow> P r \<Longrightarrow> k (f r) = k r) \<Longrightarrow> distinct (map k (update_where P f rs))"
  by (subst map_update_where) auto

lemma refs_cong:
  "db_targets d' = db_targets d \<Longrightarrow> db_templates d' = db_templates d \<Longrightarrow> db_scans d' = db_scans d \<Longrightarrow>
   sched_refs_ok d' = sched_refs_ok d"
  by (rule ext) (simp add: sched_refs_ok_def has_target_def has_template_def has_scan_def split: option.splits)

lemma inv_sched_Create:
  assumes ok: "sched_tables_ok d" and c: "sched_Create lib now fresh s d = Inr d'"
  shows "sched_tables_ok d'"
proof -
  let ?r = "sched_row (sched_prepared now fresh s)"
  have d': "d' = d\<lparr>db_schedules := db_schedules d @ [?r]\<rparr>" and refs: "sched_refs_ok d ?r"
    and new: "sch_ID ?r \<notin> sch_ID ` set (db_schedules d)"
      "(sch_TargetID ?r, sch_Name ?r) \<notin> (\<lambda>s. (sch_TargetID s, sch_Name s)) ` set (db_schedules d)"
    using c by (auto simp: sched_Create_def Let_def list_ex_iff simp del: sched_row_ID sched_prepared_ID
        split: sum.splits if_splits)
  have "sched_refs_ok d' = sched_refs_ok d" by (rule refs_cong) (simp_all add: d')
  then show ?thesis using ok refs new by (simp add: sched_tables_ok_def d' del: sched_row_ID sched_prepared_ID)
qed

lemma inv_sched_Update:
  assumes ok: "sched_tables_ok d" and u: "sched_Update lib now s d = Inr d'"
  shows "sched_tables_ok d'"
proof -
  let ?r = "sched_row (s\<lparr>sch_UpdatedAt := now\<rparr>)"
  let ?f = "\<lambda>x. ?r\<lparr>sch_CreatedAt := sch_CreatedAt x\<rparr>"
  have d': "d' = d\<lparr>db_schedules := update_where (\<lambda>x. sch_ID x = sch_ID s) ?f (db_schedules d)\<rparr>"
    and name: "\<forall>x \<in> set (db_schedules d). sch_ID x \<noteq> sch_ID s \<longrightarrow> \<not> (sch_TargetID x = sch_TargetID s \<and> sch_Name x = sch_Name s)"
    and refs: "sched_refs_ok d ?r"
    using u by (auto simp: sched_Update_def Let_def list_ex_iff split: sum.splits if_splits)
  have "distinct (map sch_ID (db_schedules d'))"
    unfolding d' using ok by (simp add: distinct_update_where_same sched_tables_ok_def)
  moreover have "distinct (map (\<lambda>s. (sch_TargetID s, sch_Name s)) (db_schedules d'))"
    unfolding d' using ok name
    by (simp, intro distinct_update_where) (auto simp: sched_tables_ok_def distinct_map inj_on_def)
  moreover have "\<forall>s \<in> set (db_schedules d'). sched_refs_ok d' s"
  proof -
    have "sched_refs_ok d' = sched_refs_ok d" by (rule refs_cong) (simp_all add: d')
    moreover have "sched_refs_ok d (?f x)" for x
      using refs by (simp add: sched_refs_ok_def)
    ultimately show ?thesis using ok by (auto simp: d' set_update_where sched_tables_ok_def)
  qed
  ultimately show ?thesis using ok by (simp add: sched_tables_ok_def d')
qed

lemma inv_sched_row_update:
  assumes ok: "sched_tables_ok d"
    and same: "\<And>x. sch_ID (f x) = sch_ID x \<and> sch_TargetID (f x) = sch_TargetID x \<and> sch_Name (f x) = sch_Name x \<and>
      sch_TemplateID (f x) = sch_TemplateID x"
    and scan: "\<And>x. x \<in> set (db_schedules d) \<Longrightarrow> P x \<Longrightarrow> sched_refs_ok d x \<Longrightarrow> has_scan d (sch_LastScanID (f x))"
  shows "sched_tables_ok (d\<lparr>db_schedules := update_where P f (db_schedules d)\<rparr>)"
proof -
  have "sched_refs_ok (d\<lparr>db_schedules := update_where P f (db_schedules d)\<rparr>) = sched_refs_ok d"
    by (rule refs_cong) simp_all
  then show ?thesis
    using ok same scan
    by (auto simp: sched_tables_ok_def set_update_where distinct_update_where_same sched_refs_ok_def)
qed

lemma inv_SetNextRunAt: "sched_tables_ok d \<Longrightarrow> sched_SetNextRunAt now i nx d = Inr d' \<Longrightarrow> sched_tables_ok d'"
  by (auto simp: sched_SetNextRunAt_def sched_refs_ok_def intro!: inv_sched_row_update split: if_splits)

lemma inv_RecordRun: "sched_tables_ok d \<Longrightarrow> sched_RecordRun now i st sc t d = Inr d' \<Longrightarrow> sched_tables_ok d'"
  by (auto simp: sched_RecordRun_def sched_refs_ok_def intro!: inv_sched_row_update split: if_splits)

lemma distinct_map_filter_key: "distinct (map k xs) \<Longrightarrow> distinct (map k (filter P xs))"
  by (induction xs) auto

lemma inv_sched_Delete: "sched_tables_ok d \<Longrightarrow> sched_Delete i d = Inr d' \<Longrightarrow> sched_tables_ok d'"
  by (auto simp: sched_Delete_def sched_tables_ok_def distinct_map_filter_key
      refs_cong [of "d\<lparr>db_schedules := x\<rparr>" d for x] split: if_splits)

lemma has_template_append: "has_template d t \<Longrightarrow> has_template (d\<lparr>db_templates := db_templates d @ [r]\<rparr>) t"
  by (auto simp: has_template_def row_append split: option.splits)

lemma inv_tmpl_Create:
  assumes ok: "sched_tables_ok d" and c: "tmpl_Create lib now fresh t d = Inr d'"
  shows "sched_tables_ok d'"
proof -
  let ?r = "tmpl_row (tmpl_prepared now fresh t)"
  have d': "d' = d\<lparr>db_templates := db_templates d @ [?r]\<rparr>"
    and new: "tm_ID ?r \<notin> tm_ID ` set (db_templates d)" "tm_Name ?r \<notin> tm_Name ` set (db_templates d)"
    using c by (auto simp: tmpl_Create_def Let_def list_ex_iff simp del: tmpl_row_simps split: sum.splits if_splits)
  have "sched_refs_ok d' x" if "sched_refs_ok d x" for x
    using that has_template_append [of d "sch_TemplateID x" ?r]
    by (auto simp: sched_refs_ok_def has_target_def has_scan_def d' split: option.splits)
  then show ?thesis using ok new by (simp add: sched_tables_ok_def d' del: tmpl_row_simps)
qed

lemma inv_tmpl_Update:
  assumes ok: "sched_tables_ok d" and u: "tmpl_Update lib now t d = Inr d'"
  shows "sched_tables_ok d'"
proof -
  let ?f = "\<lambda>x. (tmpl_row (t\<lparr>tm_UpdatedAt := now\<rparr>))\<lparr>tm_CreatedAt := tm_CreatedAt x\<rparr>"
  have d': "d' = d\<lparr>db_templates := update_where (\<lambda>x. tm_ID x = tm_ID t) ?f (db_templates d)\<rparr>"
    and name: "\<forall>x \<in> set (db_templates d). tm_ID x \<noteq> tm_ID t \<longrightarrow> tm_Name x \<noteq> tm_Name t"
    using u by (auto simp: tmpl_Update_def Let_def list_ex_iff split: sum.splits if_splits)
  have "has_template d' = has_template d"
    by (rule ext) (auto simp: d' has_template_def row_update split: option.splits)
  then have "sched_refs_ok d' = sched_refs_ok d"
    by (intro ext) (auto simp: sched_refs_ok_def has_target_def has_scan_def d' split: option.splits)
  moreover have "distinct (map tm_Name (db_templates d'))"
    unfolding d' using ok name
    by (simp, intro distinct_update_where) (auto simp: sched_tables_ok_def distinct_map inj_on_def)
  ultimately show ?thesis
    using ok by (auto simp: d' sched_tables_ok_def distinct_update_where_same)
qed

lemma inv_tmpl_Delete:
  assumes ok: "sched_tables_ok d" and u: "tmpl_Delete i d = Inr d'"
  shows "sched_tables_ok d'"
proof -
  have sch: "db_schedules d' = map (\<lambda>s. s\<lparr>sch_TemplateID := unlink i (sch_TemplateID s)\<rparr>) (db_schedules d)"
    and tm: "db_templates d' = filter (\<lambda>x. tm_ID x \<noteq> i) (db_templates d)"
    and oth: "db_targets d' = db_targets d" "db_scans d' = db_scans d"
    using u by (auto simp: tmpl_Delete_def split: option.splits if_splits)
  have "has_template d' (unlink i t)" if "has_template d t" for t
    using that by (auto simp: has_template_def tm row_filter_out unlink_def split: option.splits)
  then have "\<forall>s \<in> set (db_schedules d'). sched_refs_ok d' s"
    using ok by (auto simp: sch sched_tables_ok_def sched_refs_ok_def has_target_def has_scan_def oth split: option.splits)
  then show ?thesis
    using ok by (simp add: sched_tables_ok_def sch tm comp_def distinct_map_filter_key)
qed

inductive store_step :: "'r rrule_lib \<Rightarrow> db \<Rightarrow> db \<Rightarrow> bool" for lib where
  sc_create: "sched_Create lib now fresh s d = Inr d' \<Longrightarrow> store_step lib d d'"
| sc_update: "sched_Update lib now s d = Inr d' \<Longrightarrow> store_step lib d d'"
| sc_next: "sched_SetNextRunAt now i nx d = Inr d' \<Longrightarrow> store_step lib d d'"
| sc_run: "sched_RecordRun now i st sc t d = Inr d' \<Longrightarrow> store_step lib d d'"
| sc_delete: "sched_Delete i d = Inr d' \<Longrightarrow> store_step lib d d'"
| tm_create: "tmpl_Create lib now fresh t d = Inr d' \<Longrightarrow> store_step lib d d'"
| tm_update: "tmpl_Update lib now t d = Inr d' \<Longrightarrow> store_step lib d d'"
| tm_delete: "tmpl_Delete i d = Inr d' \<Longrightarrow> store_step lib d d'"

lemma store_step_inv: "store_step lib d d' \<Longrightarrow> sched_tables_ok d \<Longrightarrow> sched_tables_ok d'"
  by (induction rule: store_step.induct)
    (blast intro: inv_sched_Create inv_sched_Update inv_SetNextRunAt inv_RecordRun inv_sched_Delete
      inv_tmpl_Create inv_tmpl_Update inv_tmpl_Delete)+

lemma sorted_take_drop:
  "sorted (map k xs) \<Longrightarrow> x \<in> set (take n xs) \<Longrightarrow> y \<in> set (drop n xs) \<Longrightarrow> k x \<le> k y"
proof -
  assume s: "sorted (map k xs)" and x: "x \<in> set (take n xs)" "y \<in> set (drop n xs)"
  have "sorted (map k (take n xs) @ map k (drop n xs))"
    using s by (metis append_take_drop_id map_append)
  then show ?thesis using x by (auto simp: sorted_append)
qed

lemma set_ListDue: "set (sched_ListDue d now lim) \<subseteq> {s \<in> set (db_schedules d). is_due now s}"
  by (auto simp: sched_ListDue_def Let_def dest!: in_set_takeD)

section \<open>Properties\<close>

definition ex_target :: Target where
  "ex_target = \<lparr>tg_ID = ''t1'', tg_Value = ''example.com'', tg_Type = TargetTypeDomain,
     tg_Scope = TargetScopeExternal, tg_Enabled = True, tg_LastScanID = None, tg_LastScanAt = None,
     tg_CreatedAt = 0, tg_UpdatedAt = 0\<rparr>"

definition ex_db :: db where
  "ex_db = empty_db\<lparr>db_targets := [ex_target]\<rparr>"

lemma ex_daily_valid: "validateScheduleInput simple_lib now ex_schedule = Inr ()"
proof -
  have "TrimSpace ''FREQ=DAILY'' \<noteq> []" "Contains (ToUpper ''FREQ=DAILY'') ''FREQ=''"
    "\<not> containsToken ''FREQ=DAILY'' ''COUNT=0''" "TrimSpace ''t1'' \<noteq> []" "TrimSpace ''nightly'' \<noteq> []"
    "TrimSpace ''UTC'' \<noteq> []"
    by code_simp+
  moreover have "ValidateToolConfig [(''nuclei'', JObj [(''rate_limit'', JInt 5)])] = Inr ()"
    by (simp add: ValidateToolConfig_def validate_tool_def RegisteredToolParams_def decode_nuclei_def
        nuclei_field_def nuclei_zero_def in_int64_def)
  ultimately show ?thesis
    by (simp add: validateScheduleInput_def ex_schedule_def ValidateRRule_def simple_lib_def simple_opt_def
        lift_rrule_def lift_tool_def)
qed

lemma ex_create: "sched_Create simple_lib 0 ''u'' ex_schedule ex_db =
    Inr (ex_db\<lparr>db_schedules := [sched_row (sched_prepared 0 ''u'' ex_schedule)]\<rparr>)"
proof -
  have none: "sch_TemplateID ex_schedule = None" "sch_LastScanID ex_schedule = None"
    "sch_TargetID ex_schedule = ''t1''"
    by (simp_all add: ex_schedule_def)
  have "sched_refs_ok ex_db (sched_row (sched_prepared 0 ''u'' ex_schedule))"
    by (simp add: sched_refs_ok_def none sched_row_def sched_prepared_def nullableString_def has_target_def
        has_template_def has_scan_def row_def ex_db_def ex_target_def)
  moreover have "db_schedules ex_db = []" by (simp add: ex_db_def empty_db_def)
  ultimately show ?thesis by (simp add: sched_Create_def ex_daily_valid Let_def)
qed

text \<open>The schedule store. A successful \<open>Create\<close> stores exactly one new row, the input with its
  identifier, stamps and times cut to the second, which \<open>Get\<close> returns; after a successful
  \<open>Update\<close> of that row \<open>Get\<close> returns the new content with the old creation time, after
  \<open>Delete\<close> nothing, and no other row is touched by any of them.\<close>

theorem schedule_store_contract:
  assumes "sched_Create lib now fresh s d = Inr d1"
    and "sch_ID q = sched_newkey fresh s" "sched_Update lib now2 q d1 = Inr d2"
    and "sched_Delete (sched_newkey fresh s) d2 = Inr d3"
  shows "sched_Get d (sched_newkey fresh s) = None \<and>
    sched_Get d1 (sched_newkey fresh s) = Some (sched_row (sched_prepared now fresh s)) \<and>
    sched_Get d2 (sched_newkey fresh s) =
      Some ((sched_row (q\<lparr>sch_UpdatedAt := now2\<rparr>))\<lparr>sch_CreatedAt := trunc_sec now\<rparr>) \<and>
    sched_Get d3 = sched_Get d \<and>
    (\<forall>i. i \<noteq> sched_newkey fresh s \<longrightarrow> sched_Get d1 i = sched_Get d i \<and> sched_Get d2 i = sched_Get d i)"
proof (intro conjI allI impI)
  show "sched_Get d (sched_newkey fresh s) = None" by (rule sched.create_fresh [OF assms(1)])
  show "sched_Get d1 (sched_newkey fresh s) = Some (sched_row (sched_prepared now fresh s))"
    by (simp add: sched.create_lookup [OF assms(1)])
  show "sched_Get d2 (sched_newkey fresh s) =
      Some ((sched_row (q\<lparr>sch_UpdatedAt := now2\<rparr>))\<lparr>sch_CreatedAt := trunc_sec now\<rparr>)"
    using assms(2) by (simp add: sched.update_lookup [OF assms(3)] sched.create_lookup [OF assms(1)])
      (simp add: sched_row_def sched_prepared_def)
  show "sched_Get d3 = sched_Get d"
    using assms(2) sched.create_fresh [OF assms(1)]
    by (auto simp: sched.delete_lookup [OF assms(4)] sched.update_lookup [OF assms(3)] sched.create_lookup [OF assms(1)])
  fix i assume "i \<noteq> sched_newkey fresh s"
  then show "sched_Get d1 i = sched_Get d i" "sched_Get d2 i = sched_Get d i"
    using assms(2) by (simp_all add: sched.update_lookup [OF assms(3)] sched.create_lookup [OF assms(1)])
qed

lemma schedule_store_contract_witness:
  "\<exists>d1 d2 d3. sched_Create simple_lib 0 ''u'' ex_schedule ex_db = Inr d1 \<and>
     sched_Update simple_lib 7 ex_schedule d1 = Inr d2 \<and> sched_Delete ''s1'' d2 = Inr d3 \<and>
     sched_Get d3 = sched_Get ex_db \<and> sched_Get d2 ''s1'' \<noteq> None"
proof -
  let ?r = "sched_row (sched_prepared 0 ''u'' ex_schedule)"
  let ?d1 = "ex_db\<lparr>db_schedules := [?r]\<rparr>"
  have f: "sch_ID ex_schedule = ''s1''" "sch_TargetID ex_schedule = ''t1''" "sch_TemplateID ex_schedule = None"
    "sch_LastScanID ex_schedule = None"
    by (simp_all add: ex_schedule_def)
  have k: "sched_newkey ''u'' ex_schedule = ''s1''" by (simp add: sched_newkey_def f)
  have refs: "sched_refs_ok ?d1 (sched_row (ex_schedule\<lparr>sch_UpdatedAt := 7\<rparr>))"
    by (simp add: sched_refs_ok_def sched_row_def f nullableString_def has_target_def has_template_def has_scan_def
        row_def ex_db_def ex_target_def)
  have v: "validateScheduleInput simple_lib 7 ex_schedule = Inr ()" by (rule ex_daily_valid)
  obtain d2 where d2: "sched_Update simple_lib 7 ex_schedule ?d1 = Inr d2"
    using refs by (simp add: sched_Update_def v Let_def sched_Get_def row_def k f)
  have g2: "sched_Get d2 ''s1'' \<noteq> None"
    using sched.update_lookup [OF d2, of "''s1''"] f by (simp add: sched_Get_def row_def k)
  then obtain d3 where d3: "sched_Delete ''s1'' d2 = Inr d3" by (simp add: sched_Delete_def)
  have "sched_Get d3 = sched_Get ex_db"
    using schedule_store_contract [OF ex_create _ d2, of d3] d3 k f by simp
  then show ?thesis using ex_create d2 d3 g2 by blast
qed

text \<open>Integrity of the schedule tables. Starting from the migrated database with any targets,
  whatever operations of the schedule and template stores succeed, identifiers stay unique,
  no two schedules of a target and no two templates share a name, and every schedule refers
  to an existing target, template and scan.\<close>

theorem schedule_tables_integrity:
  assumes "rtranclp (store_step lib) (empty_db\<lparr>db_targets := ts\<rparr>) d"
  shows "sched_tables_ok d"
  using assms
proof (induction rule: rtranclp_induct)
  case base
  then show ?case by (simp add: sched_tables_ok_def empty_db_def)
next
  case (step d d')
  then show ?case by (blast intro: store_step_inv)
qed

lemma schedule_tables_integrity_witness:
  "sched_tables_ok (ex_db\<lparr>db_schedules := [sched_row (sched_prepared 0 ''u'' ex_schedule)]\<rparr>)"
  using schedule_tables_integrity [OF r_into_rtranclp [of "store_step simple_lib", OF sc_create [OF ex_create [unfolded ex_db_def]]]]
  by (simp add: ex_db_def)

lemma is_due_iff: "is_due now s \<longleftrightarrow> sch_Enabled s \<and> (\<exists>t. sch_NextRunAt s = Some t \<and> t \<le> trunc_sec now)"
  by (auto simp: is_due_def split: option.splits)

lemma next_key_due: "is_due now s \<Longrightarrow> next_key s = the (sch_NextRunAt s)"
  by (auto simp: is_due_iff next_key_def)

lemma ListDue_facts:
  "set (sched_ListDue d now lim) \<subseteq> {s \<in> set (db_schedules d). is_due now s} \<and>
   sorted (map next_key (sched_ListDue d now lim)) \<and>
   int (length (sched_ListDue d now lim)) \<le> (if lim \<le> 0 then 100 else lim) \<and>
   (\<forall>s \<in> set (db_schedules d). is_due now s \<longrightarrow> s \<in> set (sched_ListDue d now lim) \<or>
      int (length (sched_ListDue d now lim)) = (if lim \<le> 0 then 100 else lim) \<and>
      (\<forall>t \<in> set (sched_ListDue d now lim). next_key t \<le> next_key s))"
proof (intro conjI ballI impI)
  let ?l = "sort_key next_key (filter (is_due now) (db_schedules d))"
  let ?n = "nat (if lim \<le> 0 then 100 else lim)"
  have eq: "sched_ListDue d now lim = take ?n ?l" by (simp add: sched_ListDue_def Let_def)
  show "set (sched_ListDue d now lim) \<subseteq> {s \<in> set (db_schedules d). is_due now s}" by (rule set_ListDue)
  show "sorted (map next_key (sched_ListDue d now lim))"
    by (simp add: eq take_map [symmetric] sorted_wrt_take)
  show "int (length (sched_ListDue d now lim)) \<le> (if lim \<le> 0 then 100 else lim)"
    by (auto simp: eq)
  fix s assume s: "s \<in> set (db_schedules d)" "is_due now s"
  then have "s \<in> set ?l" by simp
  then have "s \<in> set (take ?n ?l) \<or> s \<in> set (drop ?n ?l)"
    by (metis append_take_drop_id Un_iff set_append)
  then show "s \<in> set (sched_ListDue d now lim) \<or>
      int (length (sched_ListDue d now lim)) = (if lim \<le> 0 then 100 else lim) \<and>
      (\<forall>t \<in> set (sched_ListDue d now lim). next_key t \<le> next_key s)"
  proof
    assume dr: "s \<in> set (drop ?n ?l)"
    then have "?n < length ?l" by (metis drop_eq_Nil empty_iff empty_set linorder_not_le)
    then have "length (take ?n ?l) = ?n" by simp
    moreover have "\<forall>t \<in> set (take ?n ?l). next_key t \<le> next_key s"
      using sorted_take_drop [of next_key ?l _ ?n s] dr by simp
    ultimately show ?thesis by (auto simp: eq)
  qed (simp add: eq)
qed

text \<open>C8: Due schedules. \<open>ListDue\<close> returns only enabled schedules whose next run is set and not
  after now (at the store's resolution), earliest first, at most the limit (100 when the
  limit is not positive); a due schedule it leaves out is not earlier than any it returns,
  and none is left out while the limit is not reached.\<close>

theorem ListDue_spec:
  assumes "due = {s \<in> set (db_schedules d). sch_Enabled s \<and> (\<exists>t. sch_NextRunAt s = Some t \<and> t \<le> trunc_sec now)}"
    and "n = (if lim \<le> 0 then 100 else lim)"
  shows "set (sched_ListDue d now lim) \<subseteq> due \<and>
    sorted (map (\<lambda>s. the (sch_NextRunAt s)) (sched_ListDue d now lim)) \<and>
    int (length (sched_ListDue d now lim)) \<le> n \<and>
    (\<forall>s \<in> due - set (sched_ListDue d now lim). int (length (sched_ListDue d now lim)) = n \<and>
      (\<forall>t \<in> set (sched_ListDue d now lim). the (sch_NextRunAt t) \<le> the (sch_NextRunAt s)))"
proof -
  have due: "due = {s \<in> set (db_schedules d). is_due now s}" using assms(1) by (simp add: is_due_iff)
  note f = ListDue_facts [of d now lim]
  then have k: "next_key s = the (sch_NextRunAt s)" if "s \<in> set (sched_ListDue d now lim) \<or> s \<in> due" for s
    using that next_key_due [of now s] due by blast
  then have "map next_key (sched_ListDue d now lim) = map (\<lambda>s. the (sch_NextRunAt s)) (sched_ListDue d now lim)" by simp
  then have "sorted (map (\<lambda>s. the (sch_NextRunAt s)) (sched_ListDue d now lim))" using f by (simp del: map_eq_conv)
  then show ?thesis using f k by (auto simp: due assms(2))
qed

lemma ListDue_spec_witness:
  "sched_Get (ex_db\<lparr>db_schedules := [ex_schedule]\<rparr>) ''s1'' = Some ex_schedule \<and>
   sched_ListDue (ex_db\<lparr>db_schedules := [ex_schedule]\<rparr>) 5 10 = [ex_schedule]"
proof -
  have due: "is_due 5 ex_schedule" by (simp add: is_due_def ex_schedule_def trunc_sec_def second_def)
  have "ex_schedule \<in> set (sched_ListDue (ex_db\<lparr>db_schedules := [ex_schedule]\<rparr>) 5 10)"
    using ListDue_spec [OF refl refl, of "ex_db\<lparr>db_schedules := [ex_schedule]\<rparr>" 5 10] due
    by (auto simp: sched_ListDue_def Let_def)
  moreover have "length (sched_ListDue (ex_db\<lparr>db_schedules := [ex_schedule]\<rparr>) 5 10) = 1"
    using due by (simp add: sched_ListDue_def Let_def)
  ultimately show ?thesis
    by (auto simp: length_Suc_conv sched_Get_def row_def) (simp add: ex_schedule_def)
qed

text \<open>Deleting a template. A system template is never deleted; any other one is removed, and
  afterwards no schedule, ad-hoc run or default refers to it, while schedules with another
  template keep theirs.\<close>

theorem template_delete:
  "tmpl_Get d i = Some t \<Longrightarrow>
   (tm_IsSystem t \<longrightarrow> tmpl_Delete i d = Inl ErrSystemTemplateImmutable) \<and>
   (\<not> tm_IsSystem t \<longrightarrow>
      (\<exists>d'. tmpl_Delete i d = Inr d' \<and> tmpl_Get d' i = None \<and>
        (\<forall>s \<in> set (db_schedules d'). sch_TemplateID s \<noteq> Some i) \<and>
        (\<forall>r \<in> set (db_adhoc d'). ah_TemplateID r \<noteq> Some i) \<and>
        (\<forall>x. db_defaults d' = Some x \<longrightarrow> sd_DefaultTemplateID x \<noteq> Some i) \<and>
        (\<forall>s \<in> set (db_schedules d). sch_TemplateID s \<noteq> Some i \<longrightarrow> s \<in> set (db_schedules d'))))"
proof (intro conjI impI)
  assume g: "tmpl_Get d i = Some t"
  show "tm_IsSystem t \<Longrightarrow> tmpl_Delete i d = Inl ErrSystemTemplateImmutable"
    using g by (simp add: tmpl_Delete_def)
  assume ns: "\<not> tm_IsSystem t"
  then obtain d' where d': "tmpl_Delete i d = Inr d'" using g by (simp add: tmpl_Delete_def)
  have keep: "s \<in> set (db_schedules d')" if "s \<in> set (db_schedules d)" "sch_TemplateID s \<noteq> Some i" for s
  proof -
    have "s\<lparr>sch_TemplateID := unlink i (sch_TemplateID s)\<rparr> = s" using that by (simp add: unlink_def)
    then show ?thesis using that d' g ns by (force simp: tmpl_Delete_def)
  qed
  have "tmpl_Get d' i = None" by (simp add: tmpl.delete_lookup [OF d'])
  with d' g ns keep show "\<exists>d'. tmpl_Delete i d = Inr d' \<and> tmpl_Get d' i = None \<and>
        (\<forall>s \<in> set (db_schedules d'). sch_TemplateID s \<noteq> Some i) \<and>
        (\<forall>r \<in> set (db_adhoc d'). ah_TemplateID r \<noteq> Some i) \<and>
        (\<forall>x. db_defaults d' = Some x \<longrightarrow> sd_DefaultTemplateID x \<noteq> Some i) \<and>
        (\<forall>s \<in> set (db_schedules d). sch_TemplateID s \<noteq> Some i \<longrightarrow> s \<in> set (db_schedules d'))"
    by (intro exI [of _ d']) (auto simp: tmpl_Delete_def unlink_neq)
qed

definition ex_template :: Template where
  "ex_template = \<lparr>tm_ID = ''tpl'', tm_Name = ''web'', tm_Description = [], tm_RRule = ''FREQ=DAILY'',
     tm_Timezone = ''UTC'', tm_ToolConfig = [], tm_MaintenanceWindow = None, tm_IsSystem = False,
     tm_CreatedAt = 0, tm_UpdatedAt = 0\<rparr>"

lemma template_delete_witness:
  "\<exists>d'. tmpl_Delete ''tpl'' (ex_db\<lparr>db_templates := [ex_template],
       db_schedules := [ex_schedule\<lparr>sch_TemplateID := Some ''tpl''\<rparr>]\<rparr>) = Inr d' \<and>
     (\<forall>s \<in> set (db_schedules d'). sch_TemplateID s \<noteq> Some ''tpl'')"
  using template_delete [of "ex_db\<lparr>db_templates := [ex_template],
       db_schedules := [ex_schedule\<lparr>sch_TemplateID := Some ''tpl''\<rparr>]\<rparr>" "''tpl''" ex_template]
  by (auto simp: tmpl_Get_def row_def ex_template_def)

text \<open>The comment on \<open>validateScheduleInput\<close> promises a check of a non-zero start; there is none.\<close>

lemma zero_dtstart_accepted:
  "validateScheduleInput simple_lib now (ex_schedule\<lparr>sch_DTStart := zero_time\<rparr>) = Inr ()"
  using ex_daily_valid [of now] by (auto simp: validateScheduleInput_def split: if_splits)

end
