(* ===== verification/Store.thy ===== *)
theory Store
  imports Net ScheduleStore
begin

text \<open>
  The store of the scan data, \<open>internal/storage/storage.go\<close> and \<open>scan_aggregates.go\<close>: targets,
  scans, assets, findings, tool runs, asset changes, metadata, and the queries and counts over
  them. Every statement is written on the tables of \<open>db\<close>, with the unique keys, the foreign
  keys and their actions of the migrations. \<open>now\<close> is the clock and \<open>fresh\<close> a new UUID.
\<close>

section \<open>Targets\<close>

definition GetTarget :: "db \<Rightarrow> string \<Rightarrow> Target option" where
  "GetTarget d i = row tg_ID (db_targets d) i"

definition GetTargetByValue :: "db \<Rightarrow> string \<Rightarrow> Target option" where
  "GetTargetByValue d v = find (\<lambda>t. tg_Value t = v) (db_targets d)"

definition ListTargets :: "db \<Rightarrow> Target list" where
  "ListTargets d = sort_key (\<lambda>t. - tg_CreatedAt t) (db_targets d)"

text \<open>\<open>typ\<close> and \<open>scope\<close> are empty in the input when \<open>None\<close>.\<close>

definition CreateTarget ::
  "time \<Rightarrow> string \<Rightarrow> string \<Rightarrow> string \<Rightarrow> TargetType option \<Rightarrow> TargetScope option \<Rightarrow> db \<Rightarrow> (store_error, db) result" where
  "CreateTarget now fresh i value typ scope d =
     (case (case typ of None \<Rightarrow> detectTargetType value
              | Some t \<Rightarrow> bindR (validateTargetValue value t) (\<lambda>_. Inr t)) of
        Inl e \<Rightarrow> Inl e
      | Inr t \<Rightarrow>
          let r = \<lparr>tg_ID = (if i = [] then fresh else i), tg_Value = value, tg_Type = t,
                   tg_Scope = (case scope of None \<Rightarrow> TargetScopeExternal | Some s \<Rightarrow> s), tg_Enabled = True,
                   tg_LastScanID = None, tg_LastScanAt = None,
                   tg_CreatedAt = trunc_sec now, tg_UpdatedAt = trunc_sec now\<rparr> in
          if list_ex (\<lambda>x. tg_ID x = tg_ID r \<or> tg_Value x = tg_Value r) (db_targets d) then Inl ErrAlreadyExists
          else Inr (d\<lparr>db_targets := db_targets d @ [r]\<rparr>))"

definition UpdateTargetLastScan :: "time \<Rightarrow> string \<Rightarrow> string \<Rightarrow> time \<Rightarrow> db \<Rightarrow> (store_error, db) result" where
  "UpdateTargetLastScan now i scanID t d =
     (if GetTarget d i = None then Inl ErrNotFound
      else Inr (d\<lparr>db_targets := update_where (\<lambda>x. tg_ID x = i)
             (\<lambda>x. x\<lparr>tg_LastScanID := Some scanID, tg_LastScanAt := Some (trunc_sec t), tg_UpdatedAt := trunc_sec now\<rparr>)
             (db_targets d)\<rparr>))"

text \<open>The foreign-key actions of a deletion. \<open>clear ids v\<close> is SET NULL on an optional text reference.\<close>

definition clear :: "string list \<Rightarrow> string \<Rightarrow> string" where
  "clear ids v = (if v \<in> set ids then [] else v)"

definition clear_opt :: "string list \<Rightarrow> string option \<Rightarrow> string option" where
  "clear_opt ids v = (case v of None \<Rightarrow> None | Some i \<Rightarrow> if i \<in> set ids then None else Some i)"

definition drop_assets :: "string list \<Rightarrow> db \<Rightarrow> db" where
  "drop_assets ids d = d\<lparr>
     db_assets := map (\<lambda>a. a\<lparr>as_ParentID := clear ids (as_ParentID a)\<rparr>)
                    (filter (\<lambda>a. as_ID a \<notin> set ids) (db_assets d)),
     db_findings := filter (\<lambda>f. fi_AssetID f \<notin> set ids) (db_findings d),
     db_changes := map (\<lambda>c. c\<lparr>ac_AssetID := clear ids (ac_AssetID c)\<rparr>) (db_changes d)\<rparr>"

definition drop_scans :: "string list \<Rightarrow> db \<Rightarrow> db" where
  "drop_scans ids d = d\<lparr>
     db_scans := filter (\<lambda>s. sn_ID s \<notin> set ids) (db_scans d),
     db_tool_runs := filter (\<lambda>r. tr_ScanID r \<notin> set ids) (db_tool_runs d),
     db_changes := filter (\<lambda>c. ac_ScanID c \<notin> set ids) (db_changes d),
     db_logs := filter (\<lambda>l. lg_ScanID l \<notin> set ids) (db_logs d),
     db_findings := map (\<lambda>f. f\<lparr>fi_ScanID := clear ids (fi_ScanID f),
                                fi_FirstSeenScanID := clear ids (fi_FirstSeenScanID f)\<rparr>) (db_findings d),
     db_schedules := map (\<lambda>s. s\<lparr>sch_LastScanID := clear_opt ids (sch_LastScanID s)\<rparr>) (db_schedules d),
     db_adhoc := map (\<lambda>r. r\<lparr>ah_ScanID := clear_opt ids (ah_ScanID r)\<rparr>) (db_adhoc d)\<rparr>"

definition DeleteTarget :: "string \<Rightarrow> db \<Rightarrow> (store_error, db) result" where
  "DeleteTarget i d =
     (if GetTarget d i = None then Inl ErrNotFound
      else
        let aids = map as_ID (filter (\<lambda>a. as_TargetID a = i) (db_assets d));
            sids = map sn_ID (filter (\<lambda>s. sn_TargetID s = i) (db_scans d));
            d' = drop_scans sids (drop_assets aids d) in
        Inr (d'\<lparr>db_targets := filter (\<lambda>t. tg_ID t \<noteq> i) (db_targets d'),
                 db_changes := filter (\<lambda>c. ac_TargetID c \<noteq> i) (db_changes d'),
                 db_schedules := filter (\<lambda>s. sch_TargetID s \<noteq> i) (db_schedules d'),
                 db_blackouts := filter (\<lambda>b. bo_TargetID b \<noteq> Some i) (db_blackouts d'),
                 db_adhoc := filter (\<lambda>r. ah_TargetID r \<noteq> i) (db_adhoc d')\<rparr>))"

section \<open>Scans and tool runs\<close>

definition scan_row :: "Scan \<Rightarrow> Scan" where
  "scan_row s = s\<lparr>sn_StartedAt := timePtrUTC (sn_StartedAt s), sn_FinishedAt := timePtrUTC (sn_FinishedAt s),
     sn_CreatedAt := trunc_sec (sn_CreatedAt s), sn_UpdatedAt := trunc_sec (sn_UpdatedAt s)\<rparr>"

definition GetScan :: "db \<Rightarrow> string \<Rightarrow> Scan option" where
  "GetScan d i = row sn_ID (db_scans d) i"

definition scan_prepared :: "time \<Rightarrow> string \<Rightarrow> Scan \<Rightarrow> Scan" where
  "scan_prepared now fresh s =
     s\<lparr>sn_ID := (if sn_ID s = [] then fresh else sn_ID s), sn_CreatedAt := now, sn_UpdatedAt := now\<rparr>"

definition CreateScan :: "time \<Rightarrow> string \<Rightarrow> Scan \<Rightarrow> db \<Rightarrow> (store_error, db) result" where
  "CreateScan now fresh s d =
     (let r = scan_row (scan_prepared now fresh s) in
      if GetScan d (sn_ID r) \<noteq> None then Inl ErrConstraint
      else if \<not> has_target d (sn_TargetID r) then Inl ErrConstraint
      else Inr (d\<lparr>db_scans := db_scans d @ [r]\<rparr>))"

text \<open>The update names its columns: the target, the type and the creation time stay. It does
  not report a missing row.\<close>

definition UpdateScan :: "time \<Rightarrow> Scan \<Rightarrow> db \<Rightarrow> db" where
  "UpdateScan now s d =
     (let r = scan_row (s\<lparr>sn_UpdatedAt := now\<rparr>) in
      d\<lparr>db_scans := update_where (\<lambda>x. sn_ID x = sn_ID s)
          (\<lambda>x. r\<lparr>sn_ID := sn_ID x, sn_TargetID := sn_TargetID x, sn_Type := sn_Type x, sn_CreatedAt := sn_CreatedAt x\<rparr>)
          (db_scans d)\<rparr>)"

definition ListScans :: "db \<Rightarrow> string \<Rightarrow> int \<Rightarrow> Scan list" where
  "ListScans d t limit =
     take (nat (if limit \<le> 0 then 20 else limit))
       (sort_key (\<lambda>s. - sn_CreatedAt s) (filter (\<lambda>s. t = [] \<or> sn_TargetID s = t) (db_scans d)))"

definition LastScan :: "db \<Rightarrow> Scan option" where
  "LastScan d = (case sort_key (\<lambda>s. - sn_CreatedAt s) (db_scans d) of [] \<Rightarrow> None | s # _ \<Rightarrow> Some s)"

definition tool_row :: "ToolRun \<Rightarrow> ToolRun" where
  "tool_row r = r\<lparr>tr_StartedAt := trunc_sec (tr_StartedAt r), tr_FinishedAt := timePtrUTC (tr_FinishedAt r),
     tr_CreatedAt := trunc_sec (tr_CreatedAt r), tr_UpdatedAt := trunc_sec (tr_UpdatedAt r)\<rparr>"

definition tool_prepared :: "time \<Rightarrow> string \<Rightarrow> ToolRun \<Rightarrow> ToolRun" where
  "tool_prepared now fresh r =
     r\<lparr>tr_ID := (if tr_ID r = [] then fresh else tr_ID r), tr_CreatedAt := now, tr_UpdatedAt := now\<rparr>"

definition CreateToolRun :: "time \<Rightarrow> string \<Rightarrow> ToolRun \<Rightarrow> db \<Rightarrow> (store_error, db) result" where
  "CreateToolRun now fresh tr d =
     (let r = tool_row (tool_prepared now fresh tr) in
      if row tr_ID (db_tool_runs d) (tr_ID r) \<noteq> None then Inl ErrConstraint
      else if \<not> has_scan d (Some (tr_ScanID r)) then Inl ErrConstraint
      else Inr (d\<lparr>db_tool_runs := db_tool_runs d @ [r]\<rparr>))"

definition UpdateToolRun :: "time \<Rightarrow> ToolRun \<Rightarrow> db \<Rightarrow> db" where
  "UpdateToolRun now tr d =
     (let r = tool_row (tr\<lparr>tr_UpdatedAt := now\<rparr>) in
      d\<lparr>db_tool_runs := update_where (\<lambda>x. tr_ID x = tr_ID tr)
          (\<lambda>x. r\<lparr>tr_ID := tr_ID x, tr_ScanID := tr_ScanID x, tr_ToolName := tr_ToolName x, tr_Phase := tr_Phase x,
                 tr_StartedAt := tr_StartedAt x, tr_CreatedAt := tr_CreatedAt x\<rparr>) (db_tool_runs d)\<rparr>)"

definition ListToolRuns :: "db \<Rightarrow> string \<Rightarrow> ToolRun list" where
  "ListToolRuns d i = sort_key tr_StartedAt (filter (\<lambda>r. tr_ScanID r = i) (db_tool_runs d))"

section \<open>Assets\<close>

record AssetListOptions =
  ao_TargetID :: string
  ao_Type :: "AssetType option"
  ao_Status :: "AssetStatus option"
  ao_Limit :: int
  ao_Offset :: int
  ao_NewOnly :: bool
  ao_Disappeared :: bool

definition GetAsset :: "db \<Rightarrow> string \<Rightarrow> Asset option" where
  "GetAsset d i = row as_ID (db_assets d) i"

definition has_asset :: "db \<Rightarrow> string \<Rightarrow> bool" where
  "has_asset d i = (i = [] \<or> GetAsset d i \<noteq> None)"

definition asset_prepared :: "time \<Rightarrow> string \<Rightarrow> Asset \<Rightarrow> Asset" where
  "asset_prepared now fresh a =
     a\<lparr>as_ID := (if as_ID a = [] then fresh else as_ID a),
       as_FirstSeen := (if as_FirstSeen a = zero_time then now else as_FirstSeen a), as_LastSeen := now,
       as_CreatedAt := (if as_CreatedAt a = zero_time then now else as_CreatedAt a), as_UpdatedAt := now\<rparr>"

definition asset_row :: "Asset \<Rightarrow> Asset" where
  "asset_row a = a\<lparr>as_FirstSeen := trunc_sec (as_FirstSeen a), as_LastSeen := trunc_sec (as_LastSeen a),
     as_CreatedAt := trunc_sec (as_CreatedAt a), as_UpdatedAt := trunc_sec (as_UpdatedAt a)\<rparr>"

definition same_asset :: "Asset \<Rightarrow> Asset \<Rightarrow> bool" where
  "same_asset a x = (as_TargetID x = as_TargetID a \<and> as_Value x = as_Value a)"

definition asset_merge :: "Asset \<Rightarrow> Asset \<Rightarrow> Asset" where
  "asset_merge new x = x\<lparr>as_LastSeen := as_LastSeen new, as_Status := as_Status new,
     as_Metadata := as_Metadata new, as_UpdatedAt := as_UpdatedAt new\<rparr>"

definition UpsertAsset :: "time \<Rightarrow> string \<Rightarrow> Asset \<Rightarrow> db \<Rightarrow> (store_error, db) result" where
  "UpsertAsset now fresh a d =
     (let r = asset_row (asset_prepared now fresh a) in
      if list_ex (same_asset r) (db_assets d)
      then Inr (d\<lparr>db_assets := update_where (same_asset r) (asset_merge r) (db_assets d)\<rparr>)
      else if GetAsset d (as_ID r) \<noteq> None then Inl ErrConstraint
      else if \<not> has_target d (as_TargetID r) \<or> \<not> (as_ParentID r = as_ID r \<or> has_asset d (as_ParentID r))
      then Inl ErrConstraint
      else Inr (d\<lparr>db_assets := db_assets d @ [r]\<rparr>))"

definition asset_where :: "AssetListOptions \<Rightarrow> Asset \<Rightarrow> bool" where
  "asset_where opts a =
     ((ao_TargetID opts = [] \<or> as_TargetID a = ao_TargetID opts) \<and>
      (case ao_Type opts of None \<Rightarrow> True | Some t \<Rightarrow> as_Type a = t) \<and>
      (case ao_Status opts of None \<Rightarrow> True | Some s \<Rightarrow> as_Status a = s) \<and>
      (ao_NewOnly opts \<longrightarrow> as_Status a = AssetStatusNew) \<and>
      (ao_Disappeared opts \<longrightarrow> as_Status a = AssetStatusDisappeared))"

definition ListAssets :: "db \<Rightarrow> AssetListOptions \<Rightarrow> Asset list" where
  "ListAssets d opts =
     page (nat (if ao_Limit opts \<le> 0 then 50 else ao_Limit opts)) (nat (ao_Offset opts))
       (sort_key (\<lambda>a. - as_FirstSeen a) (filter (asset_where opts) (db_assets d)))"

definition CountAssetsFiltered :: "db \<Rightarrow> AssetListOptions \<Rightarrow> nat" where
  "CountAssetsFiltered d opts = length (filter (asset_where opts) (db_assets d))"

definition UpdateAssetStatus :: "time \<Rightarrow> string \<Rightarrow> AssetStatus \<Rightarrow> db \<Rightarrow> (store_error, db) result" where
  "UpdateAssetStatus now i st d =
     (if GetAsset d i = None then Inl ErrNotFound
      else Inr (d\<lparr>db_assets := update_where (\<lambda>a. as_ID a = i)
             (\<lambda>a. a\<lparr>as_Status := st, as_UpdatedAt := trunc_sec now\<rparr>) (db_assets d)\<rparr>))"

definition NormalizeAssetStatuses :: "time \<Rightarrow> string \<Rightarrow> db \<Rightarrow> db" where
  "NormalizeAssetStatuses now t d =
     d\<lparr>db_assets := update_where (\<lambda>a. as_TargetID a = t \<and> as_Status a = AssetStatusNew)
         (\<lambda>a. a\<lparr>as_Status := AssetStatusActive, as_UpdatedAt := trunc_sec now\<rparr>) (db_assets d)\<rparr>"

section \<open>Asset changes\<close>

fun ChangeType_text :: "ChangeType \<Rightarrow> string" where
  "ChangeType_text ChangeTypeAppeared = ''appeared''"
| "ChangeType_text ChangeTypeDisappeared = ''disappeared''"
| "ChangeType_text ChangeTypeModified = ''modified''"

fun Significance_text :: "Significance \<Rightarrow> string" where
  "Significance_text SignificanceCritical = ''critical''"
| "Significance_text SignificanceHigh = ''high''"
| "Significance_text SignificanceMedium = ''medium''"
| "Significance_text SignificanceLow = ''low''"
| "Significance_text SignificanceInfo = ''info''"
| "Significance_text SignificanceNoise = ''noise''"

fun AssetType_text :: "AssetType \<Rightarrow> string" where
  "AssetType_text AssetTypeDomain = ''domain''"
| "AssetType_text AssetTypeSubdomain = ''subdomain''"
| "AssetType_text AssetTypeIPv4 = ''ipv4''"
| "AssetType_text AssetTypeIPv6 = ''ipv6''"
| "AssetType_text AssetTypePort = ''port_service''"
| "AssetType_text AssetTypeURL = ''url''"
| "AssetType_text AssetTypeTechnology = ''technology''"
| "AssetType_text AssetTypeService = ''service''"
| "AssetType_text (OtherAssetType s) = s"

fun significance_rank :: "Significance \<Rightarrow> nat" where
  "significance_rank SignificanceCritical = 0"
| "significance_rank SignificanceHigh = 1"
| "significance_rank SignificanceMedium = 2"
| "significance_rank SignificanceLow = 3"
| "significance_rank SignificanceInfo = 4"
| "significance_rank SignificanceNoise = 5"

record AssetChangeListOptions =
  co_TargetID :: string
  co_ScanID :: string
  co_ChangeType :: string
  co_Significance :: string
  co_AssetType :: string
  co_Limit :: int

definition change_row :: "time \<Rightarrow> string \<Rightarrow> AssetChange \<Rightarrow> AssetChange" where
  "change_row now fresh c =
     c\<lparr>ac_ID := (if ac_ID c = [] then fresh else ac_ID c),
       ac_CreatedAt := trunc_sec (if ac_CreatedAt c = zero_time then now else ac_CreatedAt c)\<rparr>"

definition CreateAssetChange :: "time \<Rightarrow> string \<Rightarrow> AssetChange \<Rightarrow> db \<Rightarrow> (store_error, db) result" where
  "CreateAssetChange now fresh c d =
     (let r = change_row now fresh c in
      if row ac_ID (db_changes d) (ac_ID r) \<noteq> None then Inl ErrConstraint
      else if \<not> has_target d (ac_TargetID r) \<or> \<not> has_scan d (Some (ac_ScanID r)) \<or> \<not> has_asset d (ac_AssetID r)
      then Inl ErrConstraint
      else Inr (d\<lparr>db_changes := db_changes d @ [r]\<rparr>))"

definition change_where :: "AssetChangeListOptions \<Rightarrow> AssetChange \<Rightarrow> bool" where
  "change_where opts c =
     ((co_TargetID opts = [] \<or> ac_TargetID c = co_TargetID opts) \<and>
      (co_ScanID opts = [] \<or> ac_ScanID c = co_ScanID opts) \<and>
      (co_ChangeType opts = [] \<or> ChangeType_text (ac_ChangeType c) = co_ChangeType opts) \<and>
      (co_Significance opts = [] \<or> Significance_text (ac_Significance c) = co_Significance opts) \<and>
      (co_AssetType opts = [] \<or> AssetType_text (ac_AssetType c) = co_AssetType opts))"

definition ListAssetChanges :: "db \<Rightarrow> AssetChangeListOptions \<Rightarrow> AssetChange list" where
  "ListAssetChanges d opts =
     take (nat (if co_Limit opts \<le> 0 then 100 else co_Limit opts))
       (sort_key (\<lambda>c. significance_rank (ac_Significance c))
         (sort_key (\<lambda>c. - ac_CreatedAt c) (filter (change_where opts) (db_changes d))))"

end
