(* ===== verification/FindingStore.thy ===== *)
theory FindingStore
  imports Store
begin

text \<open>
  Findings, metadata, counts and aggregates of \<open>internal/storage/storage.go\<close> and
  \<open>scan_aggregates.go\<close>. A GROUP BY count is an association list from group keys to sizes; the
  operator LIKE and the order of texts are SQLite's (bytes, ASCII case folding in LIKE).
\<close>

section \<open>Findings\<close>

record FindingListOptions =
  fo_AssetID :: string
  fo_ScanID :: string
  fo_ScanScope :: string
  fo_TargetID :: string
  fo_TemplateID :: string
  fo_Host :: string
  fo_Severity :: "Severity option"
  fo_Status :: "FindingStatus option"
  fo_SourceTool :: string
  fo_Limit :: int
  fo_Offset :: int

definition GetFinding :: "db \<Rightarrow> string \<Rightarrow> Finding option" where
  "GetFinding d i = row fi_ID (db_findings d) i"

definition finding_prepared :: "time \<Rightarrow> string \<Rightarrow> Finding \<Rightarrow> Finding" where
  "finding_prepared now fresh f =
     f\<lparr>fi_ID := (if fi_ID f = [] then fresh else fi_ID f),
       fi_FirstSeen := (if fi_FirstSeen f = zero_time then now else fi_FirstSeen f), fi_LastSeen := now,
       fi_CreatedAt := (if fi_CreatedAt f = zero_time then now else fi_CreatedAt f), fi_UpdatedAt := now,
       fi_FirstSeenScanID := (if fi_FirstSeenScanID f = [] then fi_ScanID f else fi_FirstSeenScanID f)\<rparr>"

definition finding_row :: "Finding \<Rightarrow> Finding" where
  "finding_row f = f\<lparr>fi_FirstSeen := trunc_sec (fi_FirstSeen f), fi_LastSeen := trunc_sec (fi_LastSeen f),
     fi_ResolvedAt := timePtrUTC (fi_ResolvedAt f),
     fi_CreatedAt := trunc_sec (fi_CreatedAt f), fi_UpdatedAt := trunc_sec (fi_UpdatedAt f)\<rparr>"

text \<open>The unique key of the table, and the columns that the conflict clause assigns.\<close>

definition finding_key :: "Finding \<Rightarrow> string \<times> string \<times> string" where
  "finding_key f = (fi_AssetID f, fi_TemplateID f, fi_SourceTool f)"

definition finding_merge :: "Finding \<Rightarrow> Finding \<Rightarrow> Finding" where
  "finding_merge new x = x\<lparr>fi_ScanID := fi_ScanID new,
     fi_FirstSeenScanID := (if fi_FirstSeenScanID x = [] then fi_FirstSeenScanID new else fi_FirstSeenScanID x),
     fi_LastSeen := fi_LastSeen new, fi_Severity := fi_Severity new, fi_Evidence := fi_Evidence new,
     fi_UpdatedAt := fi_UpdatedAt new\<rparr>"

definition scan_ref :: "db \<Rightarrow> string \<Rightarrow> bool" where
  "scan_ref d i = (i = [] \<or> GetScan d i \<noteq> None)"

definition UpsertFinding :: "time \<Rightarrow> string \<Rightarrow> Finding \<Rightarrow> db \<Rightarrow> (store_error, db) result" where
  "UpsertFinding now fresh f d =
     (let r = finding_row (finding_prepared now fresh f) in
      case find (\<lambda>x. finding_key x = finding_key r) (db_findings d) of
        Some x \<Rightarrow>
          if \<not> scan_ref d (fi_ScanID r) \<or> \<not> scan_ref d (fi_FirstSeenScanID (finding_merge r x)) then Inl ErrConstraint
          else Inr (d\<lparr>db_findings := update_where (\<lambda>x. finding_key x = finding_key r) (finding_merge r) (db_findings d)\<rparr>)
      | None \<Rightarrow>
          if GetFinding d (fi_ID r) \<noteq> None then Inl ErrConstraint
          else if GetAsset d (fi_AssetID r) = None \<or> \<not> scan_ref d (fi_ScanID r) \<or> \<not> scan_ref d (fi_FirstSeenScanID r)
          then Inl ErrConstraint
          else Inr (d\<lparr>db_findings := db_findings d @ [r]\<rparr>))"

text \<open>SQLite's LIKE.\<close>

fun like :: "string \<Rightarrow> string \<Rightarrow> bool" where
  "like [] s = (s = [])"
| "like (p # ps) s =
     (if p = CHR ''%'' then like ps s \<or> (case s of [] \<Rightarrow> False | _ # s' \<Rightarrow> like (p # ps) s')
      else (case s of [] \<Rightarrow> False
            | c # s' \<Rightarrow> (p = CHR ''_'' \<or> lower_char p = lower_char c) \<and> like ps s'))"

definition host_assets :: "db \<Rightarrow> string \<Rightarrow> string list" where
  "host_assets d h = map as_ID (filter (\<lambda>a. like h (as_Value a) \<or> like (h @ '':%'') (as_Value a)) (db_assets d))"

definition target_assets :: "db \<Rightarrow> string \<Rightarrow> string list" where
  "target_assets d t = map as_ID (filter (\<lambda>a. as_TargetID a = t) (db_assets d))"

definition finding_where :: "db \<Rightarrow> FindingListOptions \<Rightarrow> Finding \<Rightarrow> bool" where
  "finding_where d opts f =
     ((fo_AssetID opts = [] \<or> fi_AssetID f = fo_AssetID opts) \<and>
      (fo_TargetID opts = [] \<or> fi_AssetID f \<in> set (target_assets d (fo_TargetID opts))) \<and>
      (fo_ScanID opts = [] \<or> fi_ScanID f = fo_ScanID opts) \<and>
      (fo_ScanScope opts = [] \<or> fi_ScanID f = fo_ScanScope opts \<or> fi_FirstSeenScanID f = fo_ScanScope opts) \<and>
      (case fo_Severity opts of None \<Rightarrow> True | Some s \<Rightarrow> fi_Severity f = s) \<and>
      (case fo_Status opts of None \<Rightarrow> True | Some s \<Rightarrow> fi_Status f = s) \<and>
      (fo_SourceTool opts = [] \<or> fi_SourceTool f = fo_SourceTool opts) \<and>
      (fo_TemplateID opts = [] \<or> fi_TemplateID f = fo_TemplateID opts) \<and>
      (fo_Host opts = [] \<or> fi_AssetID f \<in> set (host_assets d (fo_Host opts))))"

fun severity_rank :: "Severity \<Rightarrow> nat" where
  "severity_rank SeverityCritical = 0"
| "severity_rank SeverityHigh = 1"
| "severity_rank SeverityMedium = 2"
| "severity_rank SeverityLow = 3"
| "severity_rank SeverityInfo = 4"

definition finding_order :: "Finding list \<Rightarrow> Finding list" where
  "finding_order fs = sort_key (\<lambda>f. severity_rank (fi_Severity f)) (sort_key (\<lambda>f. - fi_LastSeen f) fs)"

definition ListFindings :: "db \<Rightarrow> FindingListOptions \<Rightarrow> Finding list" where
  "ListFindings d opts =
     page (nat (if fo_Limit opts \<le> 0 then 50 else fo_Limit opts)) (nat (fo_Offset opts))
       (finding_order (filter (finding_where d opts) (db_findings d)))"

definition CountFindingsFiltered :: "db \<Rightarrow> FindingListOptions \<Rightarrow> nat" where
  "CountFindingsFiltered d opts = length (filter (finding_where d opts) (db_findings d))"

definition UpdateFindingStatus :: "time \<Rightarrow> string \<Rightarrow> FindingStatus \<Rightarrow> db \<Rightarrow> (store_error, db) result" where
  "UpdateFindingStatus now i st d =
     (if GetFinding d i = None then Inl ErrNotFound
      else Inr (d\<lparr>db_findings := update_where (\<lambda>f. fi_ID f = i)
             (\<lambda>f. f\<lparr>fi_Status := st,
                    fi_ResolvedAt := (if st = FindingStatusResolved then Some (trunc_sec now) else fi_ResolvedAt f),
                    fi_UpdatedAt := trunc_sec now\<rparr>) (db_findings d)\<rparr>))"

definition UpdateFindingResolvedAt :: "time \<Rightarrow> string \<Rightarrow> time option \<Rightarrow> db \<Rightarrow> (store_error, db) result" where
  "UpdateFindingResolvedAt now i t d =
     (if GetFinding d i = None then Inl ErrNotFound
      else Inr (d\<lparr>db_findings := update_where (\<lambda>f. fi_ID f = i)
             (\<lambda>f. f\<lparr>fi_ResolvedAt := timePtrUTC t, fi_UpdatedAt := trunc_sec now\<rparr>) (db_findings d)\<rparr>))"

section \<open>Metadata and counts\<close>

definition GetMeta :: "db \<Rightarrow> string \<Rightarrow> string option" where
  "GetMeta d k = map_of (db_meta d) k"

definition SetMeta :: "string \<Rightarrow> string \<Rightarrow> db \<Rightarrow> db" where
  "SetMeta k v d = d\<lparr>db_meta := AList.update k v (db_meta d)\<rparr>"

text \<open>\<open>SELECT k, COUNT(*) ... GROUP BY k\<close>.\<close>

definition group_count :: "('r \<Rightarrow> 'k) \<Rightarrow> 'r list \<Rightarrow> 'k counts" where
  "group_count k rs = map (\<lambda>x. (x, int (length (filter (\<lambda>r. k r = x) rs)))) (remdups (map k rs))"

definition CountTargets :: "db \<Rightarrow> nat" where "CountTargets d = length (db_targets d)"
definition CountScans :: "db \<Rightarrow> nat" where "CountScans d = length (db_scans d)"
definition CountFindings :: "db \<Rightarrow> nat" where "CountFindings d = length (db_findings d)"
definition CountAssets :: "db \<Rightarrow> nat" where "CountAssets d = length (db_assets d)"

definition CountFindingsByTargetID :: "db \<Rightarrow> string \<Rightarrow> nat" where
  "CountFindingsByTargetID d t = length (filter (\<lambda>f. fi_AssetID f \<in> set (target_assets d t)) (db_findings d))"

definition CountAssetsByTargetID :: "db \<Rightarrow> string \<Rightarrow> nat" where
  "CountAssetsByTargetID d t = length (filter (\<lambda>a. as_TargetID a = t) (db_assets d))"

definition CountScansByTargetID :: "db \<Rightarrow> string \<Rightarrow> nat" where
  "CountScansByTargetID d t = length (filter (\<lambda>s. sn_TargetID s = t) (db_scans d))"

definition CountFindingsByAssetIDs :: "db \<Rightarrow> string counts" where
  "CountFindingsByAssetIDs d = group_count fi_AssetID (db_findings d)"

definition CountFindingsBySeverity :: "db \<Rightarrow> Severity counts" where
  "CountFindingsBySeverity d = group_count fi_Severity (db_findings d)"

definition CountAssetsByType :: "db \<Rightarrow> AssetType counts" where
  "CountAssetsByType d = group_count as_Type (db_assets d)"

section \<open>Aggregates of a scan\<close>

definition live_assets :: "db \<Rightarrow> string \<Rightarrow> Asset list" where
  "live_assets d t = filter (\<lambda>a. as_TargetID a = t \<and>
     as_Status a \<in> set [AssetStatusActive, AssetStatusNew, AssetStatusReturned]) (db_assets d)"

definition CountAssetsByTypeForTarget :: "db \<Rightarrow> string \<Rightarrow> AssetType counts" where
  "CountAssetsByTypeForTarget d t = group_count as_Type (live_assets d t)"

text \<open>The text of a JSON value as the encoder of the Go standard library writes it: minified, with
  quotes, backslashes, control characters and the HTML characters escaped.\<close>

definition hex_char :: "nat \<Rightarrow> char" where
  "hex_char n = (if n < 10 then char_of (48 + n) else char_of (87 + n))"

definition json_escape :: "char \<Rightarrow> string" where
  "json_escape c =
     (if c = CHR 0x22 \<or> c = CHR 0x5C then [CHR 0x5C, c]
      else if c = CHR 0x0A then [CHR 0x5C, CHR ''n'']
      else if c = CHR 0x0D then [CHR 0x5C, CHR ''r'']
      else if c = CHR 0x09 then [CHR 0x5C, CHR ''t'']
      else if of_char c < (32 :: nat) \<or> c \<in> {CHR ''<'', CHR ''>'', CHR ''&''}
      then [CHR 0x5C, CHR ''u'', CHR ''0'', CHR ''0'', hex_char (of_char c div 16), hex_char (of_char c mod 16)]
      else [c])"

definition json_quote :: "string \<Rightarrow> string" where
  "json_quote s = [CHR 0x22] @ concat (map json_escape s) @ [CHR 0x22]"

primrec json_text :: "json \<Rightarrow> string" where
  "json_text JNull = ''null''"
| "json_text (JBool b) = (if b then ''true'' else ''false'')"
| "json_text (JInt i) = Itoa i"
| "json_text (JDec s) = s"
| "json_text (JStr s) = json_quote s"
| "json_text (JArr xs) = ''['' @ Join (map json_text xs) '','' @ '']''"
| "json_text (JObj kvs) = ''{'' @ Join (map (\<lambda>(k, v). json_quote k @ '':'' @ v) (map (map_prod id json_text) kvs)) '','' @ ''}''"
| "json_text (JBad s) = s"

text \<open>\<open>COALESCE(NULLIF(json_extract(metadata, '$.status'), ''), 'unknown')\<close> as a text: SQLite
  extracts a truth value as a number and a composite value as its text.\<close>

definition port_status :: "Asset \<Rightarrow> string" where
  "port_status a = (case map_of (as_Metadata a) ''status'' of
       None \<Rightarrow> ''unknown''
     | Some JNull \<Rightarrow> ''unknown''
     | Some (JStr s) \<Rightarrow> if s = [] then ''unknown'' else s
     | Some (JBool b) \<Rightarrow> if b then ''1'' else ''0''
     | Some v \<Rightarrow> json_text v)"

definition CountPortsByStatusForTarget :: "db \<Rightarrow> string \<Rightarrow> string counts" where
  "CountPortsByStatusForTarget d t =
     group_count port_status (filter (\<lambda>a. as_Type a = AssetTypePort) (live_assets d t))"

definition findings_of_target :: "db \<Rightarrow> string \<Rightarrow> Finding list" where
  "findings_of_target d t = filter (\<lambda>f. fi_AssetID f \<in> set (target_assets d t)) (db_findings d)"

definition CountFindingsBySeverityForTarget :: "db \<Rightarrow> string \<Rightarrow> FindingStatus option \<Rightarrow> Severity counts" where
  "CountFindingsBySeverityForTarget d t st =
     group_count fi_Severity
       (filter (\<lambda>f. case st of None \<Rightarrow> True | Some s \<Rightarrow> fi_Status f = s) (findings_of_target d t))"

definition CountFindingsByStatusForTarget :: "db \<Rightarrow> string \<Rightarrow> FindingStatus counts" where
  "CountFindingsByStatusForTarget d t = group_count fi_Status (findings_of_target d t)"

definition AssetChangeCountsForScan :: "db \<Rightarrow> string \<Rightarrow> ChangeType \<Rightarrow> AssetType counts" where
  "AssetChangeCountsForScan d i ct =
     group_count ac_AssetType
       (filter (\<lambda>c. ac_ScanID c = i \<and> \<not> ac_Baseline c \<and> ac_ChangeType c = ct) (db_changes d))"

definition ScanIsBaseline :: "db \<Rightarrow> string \<Rightarrow> bool" where
  "ScanIsBaseline d i = list_ex (\<lambda>c. ac_ScanID c = i \<and> ac_Baseline c) (db_changes d)"

section \<open>Findings grouped by host\<close>

record GroupedFindingOptions =
  go_Severity :: "Severity option"
  go_SourceTool :: string
  go_Host :: string
  go_SortBy :: string
  go_Limit :: int
  go_Offset :: int

record GroupedFinding =
  gf_Host :: string
  gf_TemplateID :: string
  gf_SourceTool :: string
  gf_Title :: string
  gf_Severity :: string
  gf_FirstSeen :: time
  gf_LastSeen :: time
  gf_AffectedAssetsCount :: nat
  gf_FindingIDs :: "string list"

fun Severity_text :: "Severity \<Rightarrow> string" where
  "Severity_text SeverityCritical = ''critical''"
| "Severity_text SeverityHigh = ''high''"
| "Severity_text SeverityMedium = ''medium''"
| "Severity_text SeverityLow = ''low''"
| "Severity_text SeverityInfo = ''info''"

text \<open>The host of an asset value: everything before the first colon.\<close>

definition host_expr :: "string \<Rightarrow> string" where
  "host_expr v = takeWhile (\<lambda>c. c \<noteq> CHR '':'') v"

text \<open>The join of findings and assets after the WHERE clause, with the host of each row.\<close>

definition grouped_where :: "GroupedFindingOptions \<Rightarrow> string \<times> Finding \<Rightarrow> bool" where
  "grouped_where opts r = (case r of (h, f) \<Rightarrow>
     (case go_Severity opts of None \<Rightarrow> True | Some s \<Rightarrow> fi_Severity f = s) \<and>
     (go_SourceTool opts = [] \<or> fi_SourceTool f = go_SourceTool opts) \<and>
     (go_Host opts = [] \<or> like (''%'' @ go_Host opts @ ''%'') h))"

definition host_rows :: "db \<Rightarrow> (string \<times> Finding) list" where
  "host_rows d = concat (map (\<lambda>f. map (\<lambda>a. (host_expr (as_Value a), f))
     (filter (\<lambda>a. as_ID a = fi_AssetID f) (db_assets d))) (db_findings d))"

definition group_key :: "string \<times> Finding \<Rightarrow> string \<times> string \<times> string" where
  "group_key r = (fst r, fi_TemplateID (snd r), fi_SourceTool (snd r))"

text \<open>The aggregate functions over the rows of one group; MAX on a text column compares texts.\<close>

definition group_row :: "(string \<times> Finding) list \<Rightarrow> string \<times> string \<times> string \<Rightarrow> GroupedFinding" where
  "group_row rs k = (let g = map snd (filter (\<lambda>r. group_key r = k) rs) in
     \<lparr>gf_Host = fst k, gf_TemplateID = fst (snd k), gf_SourceTool = snd (snd k),
      gf_Title = foldr max (map fi_Title g) [],
      gf_Severity = foldr max (map (\<lambda>f. Severity_text (fi_Severity f)) g) [],
      gf_FirstSeen = foldr min (map fi_FirstSeen (tl g)) (fi_FirstSeen (hd g)),
      gf_LastSeen = foldr max (map fi_LastSeen (tl g)) (fi_LastSeen (hd g)),
      gf_AffectedAssetsCount = length (remdups (map fi_AssetID g)),
      gf_FindingIDs = SplitOn (CHR '','') (Join (map fi_ID g) '','')\<rparr>)"

definition text_rank :: "string \<Rightarrow> nat" where
  "text_rank s = (if s = ''critical'' then 0 else if s = ''high'' then 1 else if s = ''medium'' then 2
     else if s = ''low'' then 3 else 4)"

definition grouped_rows :: "db \<Rightarrow> GroupedFindingOptions \<Rightarrow> (string \<times> Finding) list" where
  "grouped_rows d opts = filter (grouped_where opts) (host_rows d)"

definition grouped_all :: "db \<Rightarrow> GroupedFindingOptions \<Rightarrow> GroupedFinding list" where
  "grouped_all d opts =
     (let rs = grouped_rows d opts;
          gs = sort_key (\<lambda>g. - gf_LastSeen g) (map (group_row rs) (remdups (map group_key rs))) in
      if go_SortBy opts = ''severity'' then sort_key (\<lambda>g. text_rank (gf_Severity g)) gs
      else if go_SortBy opts = ''affected_assets_count'' then sort_key (\<lambda>g. - int (gf_AffectedAssetsCount g)) gs
      else gs)"

definition ListGroupedFindings :: "db \<Rightarrow> GroupedFindingOptions \<Rightarrow> GroupedFinding list" where
  "ListGroupedFindings d opts =
     page (nat (if go_Limit opts \<le> 0 then 50 else go_Limit opts)) (nat (go_Offset opts)) (grouped_all d opts)"

definition CountGroupedFindings :: "db \<Rightarrow> GroupedFindingOptions \<Rightarrow> nat" where
  "CountGroupedFindings d opts = length (remdups (map group_key (grouped_rows d opts)))"

definition CountUniqueFindingsByHost :: "db \<Rightarrow> nat" where
  "CountUniqueFindingsByHost d = length (remdups (map group_key (host_rows d)))"

end
