(* ===== verification/StoreInv.thy ===== *)
theory StoreInv
  imports FindingStore "HOL-Library.Multiset"
begin

text \<open>
  Correctness of the store of the scan data: the integrity of all tables under every operation,
  what an upsert keeps of the history of a finding or an asset, paging through the lists, and
  the counts.
\<close>

section \<open>The integrity of the scan tables\<close>

definition tids :: "db \<Rightarrow> string set" where "tids d = tg_ID ` set (db_targets d)"
definition aids :: "db \<Rightarrow> string set" where "aids d = as_ID ` set (db_assets d)"
definition sids :: "db \<Rightarrow> string set" where "sids d = sn_ID ` set (db_scans d)"

definition uniq_ok :: "db \<Rightarrow> bool" where
  "uniq_ok d \<longleftrightarrow>
     distinct (map tg_ID (db_targets d)) \<and> distinct (map tg_Value (db_targets d)) \<and>
     distinct (map as_ID (db_assets d)) \<and>
     distinct (map (\<lambda>a. (as_TargetID a, as_Value a)) (db_assets d)) \<and>
     distinct (map sn_ID (db_scans d)) \<and> distinct (map tr_ID (db_tool_runs d)) \<and>
     distinct (map ac_ID (db_changes d)) \<and>
     distinct (map fi_ID (db_findings d)) \<and> distinct (map finding_key (db_findings d))"

definition asset_refs :: "db \<Rightarrow> Asset \<Rightarrow> bool" where
  "asset_refs d a \<longleftrightarrow> as_TargetID a \<in> tids d \<and> (as_ParentID a = [] \<or> as_ParentID a \<in> aids d)"

definition finding_refs :: "db \<Rightarrow> Finding \<Rightarrow> bool" where
  "finding_refs d f \<longleftrightarrow> fi_AssetID f \<in> aids d \<and> (fi_ScanID f = [] \<or> fi_ScanID f \<in> sids d) \<and>
     (fi_FirstSeenScanID f = [] \<or> fi_FirstSeenScanID f \<in> sids d)"

definition change_refs :: "db \<Rightarrow> AssetChange \<Rightarrow> bool" where
  "change_refs d c \<longleftrightarrow> ac_TargetID c \<in> tids d \<and> ac_ScanID c \<in> sids d \<and> (ac_AssetID c = [] \<or> ac_AssetID c \<in> aids d)"

definition refs_ok :: "db \<Rightarrow> bool" where
  "refs_ok d \<longleftrightarrow>
     (\<forall>a \<in> set (db_assets d). asset_refs d a) \<and> (\<forall>s \<in> set (db_scans d). sn_TargetID s \<in> tids d) \<and>
     (\<forall>f \<in> set (db_findings d). finding_refs d f) \<and> (\<forall>r \<in> set (db_tool_runs d). tr_ScanID r \<in> sids d) \<and>
     (\<forall>c \<in> set (db_changes d). change_refs d c)"

lemma row_None_image: "row k rs i = None \<longleftrightarrow> i \<notin> k ` set rs"
  by (auto simp: row_None)

lemma has_target_tids: "has_target d i \<longleftrightarrow> i \<in> tids d"
  by (simp add: has_target_def tids_def row_None_image)

lemma GetTarget_tids: "GetTarget d i = None \<longleftrightarrow> i \<notin> tids d"
  by (simp add: GetTarget_def tids_def row_None_image)

lemma GetScan_sids: "GetScan d i = None \<longleftrightarrow> i \<notin> sids d"
  by (simp add: GetScan_def sids_def row_None_image)

lemma has_scan_sids: "has_scan d (Some i) \<longleftrightarrow> i \<in> sids d"
  by (simp add: has_scan_def sids_def row_None_image)

lemma GetAsset_aids: "GetAsset d i = None \<longleftrightarrow> i \<notin> aids d"
  by (simp add: GetAsset_def aids_def row_None_image)

lemma has_asset_aids: "has_asset d i \<longleftrightarrow> i = [] \<or> i \<in> aids d"
  by (auto simp: has_asset_def GetAsset_aids)

lemma scan_ref_sids: "scan_ref d i \<longleftrightarrow> i = [] \<or> i \<in> sids d"
  by (auto simp: scan_ref_def GetScan_sids)

lemmas id_sets = has_target_tids GetTarget_tids GetScan_sids has_scan_sids GetAsset_aids has_asset_aids scan_ref_sids

text \<open>References survive while no identifier disappears.\<close>

lemma refs_mono:
  assumes "tids d \<subseteq> tids d'" "aids d \<subseteq> aids d'" "sids d \<subseteq> sids d'"
  shows "asset_refs d a \<Longrightarrow> asset_refs d' a" "finding_refs d f \<Longrightarrow> finding_refs d' f"
    "change_refs d c \<Longrightarrow> change_refs d' c"
  using assms by (auto simp: asset_refs_def finding_refs_def change_refs_def)

lemma refs_cong_sets:
  assumes "tids d' = tids d" "aids d' = aids d" "sids d' = sids d"
  shows "asset_refs d' = asset_refs d" "finding_refs d' = finding_refs d" "change_refs d' = change_refs d"
  using assms by (auto simp: asset_refs_def finding_refs_def change_refs_def fun_eq_iff)

lemma image_update_where: "(\<And>r. r \<in> set rs \<Longrightarrow> k (f r) = k r) \<Longrightarrow> k ` set (update_where P f rs) = k ` set rs"
  unfolding update_where_def set_map image_image by (rule image_cong) auto

lemma ball_update_where: "(\<forall>x \<in> set (update_where P f rs). Q x) \<longleftrightarrow> (\<forall>x \<in> set rs. Q (if P x then f x else x))"
  by (auto simp: update_where_def)

subsection \<open>Operations that add a row\<close>

lemma uniq_CreateTarget: "uniq_ok d \<Longrightarrow> CreateTarget now fresh i v typ sc d = Inr d' \<Longrightarrow> uniq_ok d'"
  by (auto simp: CreateTarget_def Let_def uniq_ok_def list_ex_iff split: sum.splits if_splits)

lemma refs_CreateTarget:
  assumes "refs_ok d" "CreateTarget now fresh i v typ sc d = Inr d'"
  shows "refs_ok d'"
proof -
  obtain r where d': "d' = d\<lparr>db_targets := db_targets d @ [r]\<rparr>"
    using assms(2) by (auto simp: CreateTarget_def Let_def split: sum.splits if_splits)
  have "tids d \<subseteq> tids d'" "aids d \<subseteq> aids d'" "sids d \<subseteq> sids d'"
    by (auto simp: d' tids_def aids_def sids_def)
  from refs_mono [OF this] show ?thesis using assms(1) \<open>tids d \<subseteq> tids d'\<close> d' \<open>sids d \<subseteq> sids d'\<close>
    by (auto simp: refs_ok_def)
qed

lemma uniq_CreateScan: "uniq_ok d \<Longrightarrow> CreateScan now fresh s d = Inr d' \<Longrightarrow> uniq_ok d'"
  by (auto simp: CreateScan_def Let_def uniq_ok_def id_sets sids_def split: if_splits)

lemma refs_CreateScan:
  assumes "refs_ok d" "CreateScan now fresh s d = Inr d'"
  shows "refs_ok d'"
proof -
  let ?r = "scan_row (scan_prepared now fresh s)"
  have d': "d' = d\<lparr>db_scans := db_scans d @ [?r]\<rparr>" and t: "sn_TargetID ?r \<in> tids d"
    using assms(2) by (auto simp: CreateScan_def Let_def id_sets split: if_splits)
  have m: "tids d \<subseteq> tids d'" "aids d \<subseteq> aids d'" "sids d \<subseteq> sids d'"
    by (auto simp: d' tids_def aids_def sids_def)
  have "tids d' = tids d" by (simp add: d' tids_def)
  with refs_mono [OF m] m t show ?thesis using assms(1)
    by (auto simp: refs_ok_def d')
qed

lemma uniq_CreateToolRun: "uniq_ok d \<Longrightarrow> CreateToolRun now fresh r d = Inr d' \<Longrightarrow> uniq_ok d'"
  by (auto simp: CreateToolRun_def Let_def uniq_ok_def row_None_image split: if_splits)

lemma refs_CreateToolRun: "refs_ok d \<Longrightarrow> CreateToolRun now fresh r d = Inr d' \<Longrightarrow> refs_ok d'"
  by (auto simp: CreateToolRun_def Let_def refs_ok_def id_sets asset_refs_def finding_refs_def change_refs_def
      tids_def aids_def sids_def split: if_splits)

lemma uniq_CreateAssetChange: "uniq_ok d \<Longrightarrow> CreateAssetChange now fresh c d = Inr d' \<Longrightarrow> uniq_ok d'"
  by (auto simp: CreateAssetChange_def Let_def uniq_ok_def row_None_image split: if_splits)

lemma refs_CreateAssetChange: "refs_ok d \<Longrightarrow> CreateAssetChange now fresh c d = Inr d' \<Longrightarrow> refs_ok d'"
  by (auto simp: CreateAssetChange_def Let_def refs_ok_def id_sets asset_refs_def finding_refs_def change_refs_def
      tids_def aids_def sids_def split: if_splits)

subsection \<open>Upserts\<close>

lemma asset_merge_simps [simp]:
  "as_ID (asset_merge r x) = as_ID x" "as_TargetID (asset_merge r x) = as_TargetID x"
  "as_Value (asset_merge r x) = as_Value x" "as_ParentID (asset_merge r x) = as_ParentID x"
  by (simp_all add: asset_merge_def)

lemma UpsertAsset_cases:
  assumes "UpsertAsset now fresh a d = Inr d'"
  obtains (merge) r where "d' = d\<lparr>db_assets := update_where (same_asset r) (asset_merge r) (db_assets d)\<rparr>"
      "r = asset_row (asset_prepared now fresh a)"
  | (new) r where "d' = d\<lparr>db_assets := db_assets d @ [r]\<rparr>" "r = asset_row (asset_prepared now fresh a)"
      "\<forall>x \<in> set (db_assets d). \<not> same_asset r x" "as_ID r \<notin> aids d" "as_TargetID r \<in> tids d"
      "as_ParentID r = [] \<or> as_ParentID r = as_ID r \<or> as_ParentID r \<in> aids d"
  using assms that by (auto simp: UpsertAsset_def Let_def list_ex_iff id_sets split: if_splits)

lemma uniq_UpsertAsset:
  assumes "uniq_ok d" "UpsertAsset now fresh a d = Inr d'"
  shows "uniq_ok d'"
  using assms(2)
proof (cases rule: UpsertAsset_cases)
  case (merge r)
  then show ?thesis using assms(1) by (simp add: uniq_ok_def map_update_where)
next
  case (new r)
  have "(as_TargetID r, as_Value r) \<notin> (\<lambda>a. (as_TargetID a, as_Value a)) ` set (db_assets d)"
    using new(3) by (auto simp: same_asset_def)
  then show ?thesis using assms(1) new by (simp add: uniq_ok_def aids_def)
qed

lemma refs_UpsertAsset:
  assumes "refs_ok d" "UpsertAsset now fresh a d = Inr d'"
  shows "refs_ok d'"
  using assms(2)
proof (cases rule: UpsertAsset_cases)
  case (merge r)
  have eq: "tids d' = tids d" "aids d' = aids d" "sids d' = sids d"
    by (simp_all add: merge tids_def sids_def aids_def image_update_where)
  have "asset_refs d (asset_merge r x) = asset_refs d x" for x by (simp add: asset_refs_def)
  then show ?thesis using assms(1) unfolding refs_ok_def refs_cong_sets [OF eq] eq
    by (simp add: merge(1) ball_update_where)
next
  case (new r)
  have m: "tids d \<subseteq> tids d'" "aids d \<subseteq> aids d'" "sids d \<subseteq> sids d'"
    by (auto simp: new tids_def aids_def sids_def)
  have "tids d' = tids d" "sids d' = sids d" "as_ID r \<in> aids d'" by (simp_all add: new tids_def sids_def aids_def)
  with refs_mono [OF m] m show ?thesis using assms(1) new(5,6)
    by (auto simp: refs_ok_def new(1) asset_refs_def)
qed

lemma finding_merge_simps [simp]:
  "fi_ID (finding_merge r x) = fi_ID x" "fi_AssetID (finding_merge r x) = fi_AssetID x"
  "finding_key (finding_merge r x) = finding_key x" "fi_ScanID (finding_merge r x) = fi_ScanID r"
  by (simp_all add: finding_merge_def finding_key_def)

lemma UpsertFinding_cases:
  assumes "UpsertFinding now fresh f d = Inr d'"
  obtains (merge) r x where "r = finding_row (finding_prepared now fresh f)"
      "find (\<lambda>x. finding_key x = finding_key r) (db_findings d) = Some x"
      "scan_ref d (fi_ScanID r)" "scan_ref d (fi_FirstSeenScanID (finding_merge r x))"
      "d' = d\<lparr>db_findings := update_where (\<lambda>x. finding_key x = finding_key r) (finding_merge r) (db_findings d)\<rparr>"
  | (new) r where "r = finding_row (finding_prepared now fresh f)"
      "find (\<lambda>x. finding_key x = finding_key r) (db_findings d) = None"
      "fi_ID r \<notin> fi_ID ` set (db_findings d)" "finding_refs d r"
      "d' = d\<lparr>db_findings := db_findings d @ [r]\<rparr>"
  using assms that
  by (auto simp: UpsertFinding_def Let_def id_sets finding_refs_def GetFinding_def row_None_image
      split: option.splits if_splits)

lemma uniq_UpsertFinding:
  assumes "uniq_ok d" "UpsertFinding now fresh f d = Inr d'"
  shows "uniq_ok d'"
  using assms(2)
proof (cases rule: UpsertFinding_cases)
  case (merge r x)
  then show ?thesis using assms(1) by (simp add: uniq_ok_def map_update_where)
next
  case (new r)
  have "finding_key r \<notin> finding_key ` set (db_findings d)" using new(2) by (auto simp: find_None_iff)
  then show ?thesis using assms(1) new by (simp add: uniq_ok_def)
qed

lemma key_unique:
  "distinct (map k rs) \<Longrightarrow> find (\<lambda>x. k x = i) rs = Some x \<Longrightarrow> y \<in> set rs \<Longrightarrow> k y = i \<Longrightarrow> y = x"
  by (induction rs) (auto split: if_splits dest: find_SomeD)

lemma refs_UpsertFinding:
  assumes "uniq_ok d" "refs_ok d" "UpsertFinding now fresh f d = Inr d'"
  shows "refs_ok d'"
  using assms(3)
proof (cases rule: UpsertFinding_cases)
  case (merge r x)
  have eq: "tids d' = tids d" "aids d' = aids d" "sids d' = sids d" by (simp_all add: merge tids_def aids_def sids_def)
  have "finding_refs d (finding_merge r y)" if "y \<in> set (db_findings d)" "finding_key y = finding_key r" for y
  proof -
    have "y = x" by (rule key_unique [of finding_key "db_findings d"]) (use assms(1) merge that in \<open>auto simp: uniq_ok_def\<close>)
    then show ?thesis using merge(3,4) that assms(2) by (auto simp: refs_ok_def finding_refs_def id_sets)
  qed
  then show ?thesis using assms(2) unfolding refs_ok_def refs_cong_sets [OF eq] eq
    by (auto simp: merge(5) ball_update_where)
next
  case (new r)
  have eq: "tids d' = tids d" "aids d' = aids d" "sids d' = sids d" by (simp_all add: new tids_def aids_def sids_def)
  then show ?thesis using assms(2) new(4) unfolding refs_ok_def refs_cong_sets [OF eq] eq by (simp add: new)
qed

subsection \<open>Operations that rewrite rows\<close>

text \<open>An update of one table that keeps the keys and references of its rows.\<close>

lemma ok_update_targets:
  assumes "\<And>x. tg_ID (f x) = tg_ID x \<and> tg_Value (f x) = tg_Value x"
  shows "uniq_ok (d\<lparr>db_targets := update_where P f (db_targets d)\<rparr>) = uniq_ok d"
    "refs_ok (d\<lparr>db_targets := update_where P f (db_targets d)\<rparr>) = refs_ok d"
  using assms by (simp_all add: uniq_ok_def map_update_where refs_ok_def asset_refs_def finding_refs_def change_refs_def
      tids_def aids_def sids_def image_update_where)

lemma ok_update_scans:
  assumes "\<And>x. sn_ID (f x) = sn_ID x \<and> sn_TargetID (f x) = sn_TargetID x"
  shows "uniq_ok d \<Longrightarrow> uniq_ok (d\<lparr>db_scans := update_where P f (db_scans d)\<rparr>)"
    "refs_ok d \<Longrightarrow> refs_ok (d\<lparr>db_scans := update_where P f (db_scans d)\<rparr>)"
  using assms by (simp add: uniq_ok_def map_update_where)
    (use assms in \<open>auto simp: refs_ok_def asset_refs_def finding_refs_def change_refs_def tids_def aids_def
      sids_def image_update_where ball_update_where\<close>)

lemma ok_update_tools:
  assumes "\<And>x. tr_ID (f x) = tr_ID x \<and> tr_ScanID (f x) = tr_ScanID x"
  shows "uniq_ok d \<Longrightarrow> uniq_ok (d\<lparr>db_tool_runs := update_where P f (db_tool_runs d)\<rparr>)"
    "refs_ok d \<Longrightarrow> refs_ok (d\<lparr>db_tool_runs := update_where P f (db_tool_runs d)\<rparr>)"
  using assms by (simp add: uniq_ok_def map_update_where)
    (use assms in \<open>auto simp: refs_ok_def asset_refs_def finding_refs_def change_refs_def tids_def aids_def
      sids_def ball_update_where\<close>)

lemma ok_update_assets:
  assumes "\<And>x. as_ID (f x) = as_ID x \<and> as_TargetID (f x) = as_TargetID x \<and> as_Value (f x) = as_Value x \<and>
    as_ParentID (f x) = as_ParentID x"
  shows "uniq_ok d \<Longrightarrow> uniq_ok (d\<lparr>db_assets := update_where P f (db_assets d)\<rparr>)"
    "refs_ok d \<Longrightarrow> refs_ok (d\<lparr>db_assets := update_where P f (db_assets d)\<rparr>)"
  using assms by (simp add: uniq_ok_def map_update_where)
    (use assms in \<open>auto simp: refs_ok_def asset_refs_def finding_refs_def change_refs_def tids_def aids_def
      sids_def image_update_where ball_update_where\<close>)

lemma ok_update_findings:
  assumes "\<And>x. fi_ID (f x) = fi_ID x \<and> finding_key (f x) = finding_key x \<and> fi_AssetID (f x) = fi_AssetID x \<and>
    fi_ScanID (f x) = fi_ScanID x \<and> fi_FirstSeenScanID (f x) = fi_FirstSeenScanID x"
  shows "uniq_ok d \<Longrightarrow> uniq_ok (d\<lparr>db_findings := update_where P f (db_findings d)\<rparr>)"
    "refs_ok d \<Longrightarrow> refs_ok (d\<lparr>db_findings := update_where P f (db_findings d)\<rparr>)"
  using assms by (simp add: uniq_ok_def map_update_where)
    (use assms in \<open>auto simp: refs_ok_def asset_refs_def finding_refs_def change_refs_def tids_def aids_def
      sids_def ball_update_where\<close>)

lemma inv_UpdateTargetLastScan:
  "UpdateTargetLastScan now i sc t d = Inr d' \<Longrightarrow> (uniq_ok d \<longrightarrow> uniq_ok d') \<and> (refs_ok d \<longrightarrow> refs_ok d')"
  by (auto simp: UpdateTargetLastScan_def ok_update_targets split: if_splits)

lemma inv_UpdateScan: "(uniq_ok d \<longrightarrow> uniq_ok (UpdateScan now s d)) \<and> (refs_ok d \<longrightarrow> refs_ok (UpdateScan now s d))"
  by (auto simp: UpdateScan_def Let_def intro!: ok_update_scans)

lemma inv_UpdateToolRun:
  "(uniq_ok d \<longrightarrow> uniq_ok (UpdateToolRun now r d)) \<and> (refs_ok d \<longrightarrow> refs_ok (UpdateToolRun now r d))"
  by (auto simp: UpdateToolRun_def Let_def intro!: ok_update_tools)

lemma inv_UpdateAssetStatus:
  "UpdateAssetStatus now i st d = Inr d' \<Longrightarrow> (uniq_ok d \<longrightarrow> uniq_ok d') \<and> (refs_ok d \<longrightarrow> refs_ok d')"
  by (auto simp: UpdateAssetStatus_def intro!: ok_update_assets split: if_splits)

lemma inv_NormalizeAssetStatuses:
  "(uniq_ok d \<longrightarrow> uniq_ok (NormalizeAssetStatuses now t d)) \<and> (refs_ok d \<longrightarrow> refs_ok (NormalizeAssetStatuses now t d))"
  by (auto simp: NormalizeAssetStatuses_def intro!: ok_update_assets)

lemma inv_UpdateFindingStatus:
  "UpdateFindingStatus now i st d = Inr d' \<Longrightarrow> (uniq_ok d \<longrightarrow> uniq_ok d') \<and> (refs_ok d \<longrightarrow> refs_ok d')"
  by (auto simp: UpdateFindingStatus_def finding_key_def intro!: ok_update_findings split: if_splits)

lemma inv_UpdateFindingResolvedAt:
  "UpdateFindingResolvedAt now i t d = Inr d' \<Longrightarrow> (uniq_ok d \<longrightarrow> uniq_ok d') \<and> (refs_ok d \<longrightarrow> refs_ok d')"
  by (auto simp: UpdateFindingResolvedAt_def finding_key_def intro!: ok_update_findings split: if_splits)

subsection \<open>Deleting a target\<close>

lemma clear_simps [simp]: "clear ids v \<notin> set ids \<or> clear ids v = []" "clear ids [] = []"
  by (auto simp: clear_def)

lemma uniq_drop_assets: "uniq_ok d \<Longrightarrow> uniq_ok (drop_assets ids d)"
  by (simp add: uniq_ok_def drop_assets_def o_def distinct_map_filter_key)

lemma refs_drop_assets: "refs_ok d \<Longrightarrow> refs_ok (drop_assets ids d)"
  unfolding refs_ok_def asset_refs_def finding_refs_def change_refs_def drop_assets_def tids_def aids_def sids_def
  by (auto simp: clear_def image_image)

lemma finding_key_scans [simp]: "finding_key (f\<lparr>fi_ScanID := x, fi_FirstSeenScanID := y\<rparr>) = finding_key f"
  by (simp add: finding_key_def)

lemma uniq_drop_scans: "uniq_ok d \<Longrightarrow> uniq_ok (drop_scans ids d)"
  by (simp add: uniq_ok_def drop_scans_def o_def distinct_map_filter_key)

lemma refs_drop_scans: "refs_ok d \<Longrightarrow> refs_ok (drop_scans ids d)"
  unfolding refs_ok_def asset_refs_def finding_refs_def change_refs_def drop_scans_def tids_def aids_def sids_def
  by (auto simp: clear_def image_image)

definition gone_assets :: "db \<Rightarrow> string \<Rightarrow> string list" where
  "gone_assets d i = map as_ID (filter (\<lambda>a. as_TargetID a = i) (db_assets d))"

definition gone_scans :: "db \<Rightarrow> string \<Rightarrow> string list" where
  "gone_scans d i = map sn_ID (filter (\<lambda>s. sn_TargetID s = i) (db_scans d))"

abbreviation without_target :: "db \<Rightarrow> string \<Rightarrow> db" where
  "without_target d i \<equiv> drop_scans (gone_scans d i) (drop_assets (gone_assets d i) d)"

lemma DeleteTarget_shape:
  assumes "DeleteTarget i d = Inr d'"
  shows "db_targets d' = filter (\<lambda>t. tg_ID t \<noteq> i) (db_targets d)"
    "db_assets d' = db_assets (without_target d i)" "db_scans d' = db_scans (without_target d i)"
    "db_tool_runs d' = db_tool_runs (without_target d i)" "db_findings d' = db_findings (without_target d i)"
    "db_changes d' = filter (\<lambda>c. ac_TargetID c \<noteq> i) (db_changes (without_target d i))"
    "db_schedules d' = filter (\<lambda>s. sch_TargetID s \<noteq> i)
       (map (\<lambda>s. s\<lparr>sch_LastScanID := clear_opt (gone_scans d i) (sch_LastScanID s)\<rparr>) (db_schedules d))"
    "db_templates d' = db_templates d"
proof -
  have "d' = (case DeleteTarget i d of Inr x \<Rightarrow> x)" by (simp add: assms)
  moreover have "GetTarget d i \<noteq> None"
  proof
    assume "GetTarget d i = None"
    with assms show False by (simp add: DeleteTarget_def)
  qed
  ultimately have d': "d' = (without_target d i)
      \<lparr>db_targets := filter (\<lambda>t. tg_ID t \<noteq> i) (db_targets (without_target d i)),
       db_changes := filter (\<lambda>c. ac_TargetID c \<noteq> i) (db_changes (without_target d i)),
       db_schedules := filter (\<lambda>s. sch_TargetID s \<noteq> i) (db_schedules (without_target d i)),
       db_blackouts := filter (\<lambda>b. bo_TargetID b \<noteq> Some i) (db_blackouts (without_target d i)),
       db_adhoc := filter (\<lambda>r. ah_TargetID r \<noteq> i) (db_adhoc (without_target d i))\<rparr>"
    by (simp add: DeleteTarget_def Let_def gone_assets_def gone_scans_def)
  show "db_targets d' = filter (\<lambda>t. tg_ID t \<noteq> i) (db_targets d)"
    "db_assets d' = db_assets (without_target d i)" "db_scans d' = db_scans (without_target d i)"
    "db_tool_runs d' = db_tool_runs (without_target d i)" "db_findings d' = db_findings (without_target d i)"
    "db_changes d' = filter (\<lambda>c. ac_TargetID c \<noteq> i) (db_changes (without_target d i))"
    "db_schedules d' = filter (\<lambda>s. sch_TargetID s \<noteq> i)
       (map (\<lambda>s. s\<lparr>sch_LastScanID := clear_opt (gone_scans d i) (sch_LastScanID s)\<rparr>) (db_schedules d))"
    "db_templates d' = db_templates d"
    unfolding d' by (simp_all add: drop_scans_def drop_assets_def)
qed

lemma uniq_DeleteTarget:
  assumes "uniq_ok d" "DeleteTarget i d = Inr d'"
  shows "uniq_ok d'"
proof -
  have "uniq_ok (without_target d i)" by (rule uniq_drop_scans [OF uniq_drop_assets [OF assms(1)]])
  then show ?thesis using assms(1)
    by (simp add: uniq_ok_def DeleteTarget_shape [OF assms(2)] distinct_map_filter_key)
qed

lemma refs_DeleteTarget:
  assumes "refs_ok d" "DeleteTarget i d = Inr d'"
  shows "refs_ok d'"
proof -
  let ?e = "without_target d i"
  note d' = DeleteTarget_shape [OF assms(2)]
  have e: "refs_ok ?e" by (rule refs_drop_scans [OF refs_drop_assets [OF assms(1)]])
  have na: "\<forall>a \<in> set (db_assets ?e). as_TargetID a \<noteq> i"
    by (auto simp: drop_scans_def drop_assets_def gone_assets_def)
  have ns: "\<forall>s \<in> set (db_scans ?e). sn_TargetID s \<noteq> i"
    by (auto simp: drop_scans_def drop_assets_def gone_scans_def)
  have "tids ?e = tids d" by (simp add: tids_def drop_scans_def drop_assets_def)
  then have sets: "tids d' = tids ?e - {i}" "aids d' = aids ?e" "sids d' = sids ?e"
    by (auto simp: tids_def aids_def sids_def d')
  show ?thesis using e na ns
    unfolding refs_ok_def asset_refs_def finding_refs_def change_refs_def sets d' by simp
qed

subsection \<open>The steps of the store\<close>

inductive scan_store_step :: "db \<Rightarrow> db \<Rightarrow> bool" where
  tg_create: "CreateTarget now fresh i v typ sc d = Inr d' \<Longrightarrow> scan_store_step d d'"
| tg_last: "UpdateTargetLastScan now i sc t d = Inr d' \<Longrightarrow> scan_store_step d d'"
| tg_delete: "DeleteTarget i d = Inr d' \<Longrightarrow> scan_store_step d d'"
| sn_create: "CreateScan now fresh s d = Inr d' \<Longrightarrow> scan_store_step d d'"
| sn_update: "scan_store_step d (UpdateScan now s d)"
| tr_create: "CreateToolRun now fresh r d = Inr d' \<Longrightarrow> scan_store_step d d'"
| tr_update: "scan_store_step d (UpdateToolRun now r d)"
| as_upsert: "UpsertAsset now fresh a d = Inr d' \<Longrightarrow> scan_store_step d d'"
| as_status: "UpdateAssetStatus now i ast d = Inr d' \<Longrightarrow> scan_store_step d d'"
| as_normalize: "scan_store_step d (NormalizeAssetStatuses now t d)"
| ac_create: "CreateAssetChange now fresh c d = Inr d' \<Longrightarrow> scan_store_step d d'"
| fi_upsert: "UpsertFinding now fresh f d = Inr d' \<Longrightarrow> scan_store_step d d'"
| fi_status: "UpdateFindingStatus now i fis d = Inr d' \<Longrightarrow> scan_store_step d d'"
| fi_resolved: "UpdateFindingResolvedAt now i rt d = Inr d' \<Longrightarrow> scan_store_step d d'"
| meta: "scan_store_step d (SetMeta k v d)"

lemma scan_step_inv: "scan_store_step d d' \<Longrightarrow> uniq_ok d \<and> refs_ok d \<Longrightarrow> uniq_ok d' \<and> refs_ok d'"
proof (induction rule: scan_store_step.induct)
  case (meta d k v)
  then show ?case
    by (simp add: SetMeta_def uniq_ok_def refs_ok_def asset_refs_def finding_refs_def change_refs_def tids_def aids_def sids_def)
qed (meson uniq_CreateTarget refs_CreateTarget inv_UpdateTargetLastScan uniq_DeleteTarget refs_DeleteTarget
    uniq_CreateScan refs_CreateScan inv_UpdateScan uniq_CreateToolRun refs_CreateToolRun inv_UpdateToolRun
    uniq_UpsertAsset refs_UpsertAsset inv_UpdateAssetStatus inv_NormalizeAssetStatuses uniq_CreateAssetChange
    refs_CreateAssetChange uniq_UpsertFinding refs_UpsertFinding inv_UpdateFindingStatus inv_UpdateFindingResolvedAt)+

text \<open>The schedule store does not touch the scan tables.\<close>

lemma store_step_frame: "store_step lib d d' \<Longrightarrow>
  db_targets d' = db_targets d \<and> db_assets d' = db_assets d \<and> db_scans d' = db_scans d \<and>
  db_findings d' = db_findings d \<and> db_tool_runs d' = db_tool_runs d \<and> db_changes d' = db_changes d"
  by (induction rule: store_step.induct)
    (auto simp: sched_Create_def sched_Update_def sched_SetNextRunAt_def sched_RecordRun_def sched_Delete_def
      tmpl_Create_def tmpl_Update_def tmpl_Delete_def Let_def split: sum.splits if_splits option.splits)

lemma store_step_inv2: "store_step lib d d' \<Longrightarrow> uniq_ok d \<and> refs_ok d \<Longrightarrow> uniq_ok d' \<and> refs_ok d'"
  by (drule store_step_frame)
    (simp add: uniq_ok_def refs_ok_def asset_refs_def finding_refs_def change_refs_def tids_def aids_def sids_def)

text \<open>The scan store keeps the references of the schedules.\<close>

definition keeps_sched :: "db \<Rightarrow> db \<Rightarrow> bool" where
  "keeps_sched d d' \<longleftrightarrow> db_schedules d' = db_schedules d \<and> db_templates d' = db_templates d \<and>
     tids d \<subseteq> tids d' \<and> sids d \<subseteq> sids d'"

lemma sched_refs_sets: "sched_refs_ok d s \<longleftrightarrow> sch_TargetID s \<in> tids d \<and> has_template d (sch_TemplateID s) \<and>
    (case sch_LastScanID s of None \<Rightarrow> True | Some i \<Rightarrow> i \<in> sids d)"
  by (auto simp: sched_refs_ok_def has_target_tids has_scan_def sids_def row_None_image split: option.splits)

lemma keeps_sched_refs: "keeps_sched d d' \<Longrightarrow> sched_refs_ok d s \<Longrightarrow> sched_refs_ok d' s"
  by (cases "sch_LastScanID s"; cases "sch_TemplateID s") (auto simp: keeps_sched_def sched_refs_sets has_template_def)

lemma keeps_sched_ok: "keeps_sched d d' \<Longrightarrow> sched_tables_ok d \<Longrightarrow> sched_tables_ok d'"
  using keeps_sched_refs [of d d'] by (auto simp: keeps_sched_def sched_tables_ok_def)

lemma sched_DeleteTarget:
  assumes ok: "sched_tables_ok d" and del: "DeleteTarget i d = Inr d'"
  shows "sched_tables_ok d'"
proof -
  let ?s = "gone_scans d i"
  let ?g = "\<lambda>s. s\<lparr>sch_LastScanID := clear_opt ?s (sch_LastScanID s)\<rparr>"
  note shape = DeleteTarget_shape [OF del]
  have "sids d' = sn_ID ` {s \<in> set (db_scans d). sn_ID s \<notin> set ?s}"
    by (simp add: sids_def shape drop_scans_def drop_assets_def)
  then have "sids d' = sids d - set ?s" unfolding sids_def by auto
  moreover have "tids d' = tids d - {i}" by (auto simp: tids_def shape)
  ultimately have d': "db_schedules d' = filter (\<lambda>s. sch_TargetID s \<noteq> i) (map ?g (db_schedules d))"
    "db_templates d' = db_templates d" "tids d' = tids d - {i}" "sids d' = sids d - set ?s"
    by (simp_all add: shape)
  have dist: "distinct (map k (filter P (map ?g xs)))"
    if "distinct (map k xs)" "\<And>x. k (?g x) = k x" for P xs and k :: "Schedule \<Rightarrow> 'k"
    using that by (intro distinct_map_filter_key) (simp add: o_def)
  have refs: "sched_refs_ok d' (?g s)" if s: "s \<in> set (db_schedules d)" "sch_TargetID s \<noteq> i" for s
  proof -
    have r: "sched_refs_ok d s" using ok s by (simp add: sched_tables_ok_def)
    have t: "has_template d' v = has_template d v" for v by (simp add: has_template_def d' split: option.splits)
    show ?thesis
      by (cases "sch_LastScanID s") (use r s in \<open>auto simp: sched_refs_sets clear_opt_def d' t\<close>)
  qed
  show ?thesis unfolding sched_tables_ok_def
  proof (intro conjI)
    show "distinct (map sch_ID (db_schedules d'))" unfolding d'
      by (rule dist) (use ok in \<open>simp_all add: sched_tables_ok_def\<close>)
    show "distinct (map (\<lambda>s. (sch_TargetID s, sch_Name s)) (db_schedules d'))" unfolding d'
      by (rule dist) (use ok in \<open>simp_all add: sched_tables_ok_def\<close>)
    show "\<forall>s \<in> set (db_schedules d'). sched_refs_ok d' s" using refs by (auto simp: d')
  qed (use ok in \<open>simp_all add: sched_tables_ok_def d'\<close>)
qed

lemma scan_step_sched:
  assumes "scan_store_step d d'" "sched_tables_ok d"
  shows "sched_tables_ok d'"
  using assms(1)
proof (cases rule: scan_store_step.cases)
  case (tg_delete i)
  then show ?thesis using assms(2) by (blast intro: sched_DeleteTarget)
next
  case (tg_last now i sc t)
  have "keeps_sched d d'" using tg_last
    by (auto simp: keeps_sched_def UpdateTargetLastScan_def tids_def sids_def image_update_where split: if_splits)
  then show ?thesis using assms(2) by (rule keeps_sched_ok)
next
  case (sn_update now s)
  have "keeps_sched d d'" using sn_update
    by (auto simp: keeps_sched_def UpdateScan_def Let_def tids_def sids_def image_update_where)
  then show ?thesis using assms(2) by (rule keeps_sched_ok)
qed (rule keeps_sched_ok [OF _ assms(2)], fastforce simp: keeps_sched_def CreateTarget_def CreateScan_def
    CreateToolRun_def UpdateToolRun_def UpsertAsset_def UpdateAssetStatus_def NormalizeAssetStatuses_def
    CreateAssetChange_def UpsertFinding_def UpdateFindingStatus_def UpdateFindingResolvedAt_def SetMeta_def Let_def
    tids_def sids_def split: sum.splits if_splits option.splits)+

section \<open>Upserts and lists\<close>

definition finding_at :: "db \<Rightarrow> string \<times> string \<times> string \<Rightarrow> Finding option" where
  "finding_at d k = find (\<lambda>x. finding_key x = k) (db_findings d)"

lemma UpsertFinding_at:
  assumes "UpsertFinding now fresh f d = Inr d'"
  shows "finding_at d' k = (if k = finding_key f then
      Some (let r = finding_row (finding_prepared now fresh f) in
            case finding_at d k of None \<Rightarrow> r | Some x \<Rightarrow> finding_merge r x)
    else finding_at d k)"
proof -
  have key: "finding_key (finding_row (finding_prepared now fresh f)) = finding_key f"
    by (simp add: finding_key_def finding_row_def finding_prepared_def)
  from assms show ?thesis
  proof (cases rule: UpsertFinding_cases)
    case (merge r x)
    show ?thesis
    proof (cases "k = finding_key r")
      case True
      have "finding_at d' k = map_option (finding_merge r) (finding_at d k)"
        unfolding finding_at_def merge(5) True by (simp add: find_update_where_same)
      then show ?thesis using merge(1,2) True key by (simp add: finding_at_def)
    next
      case False
      have "finding_at d' k = finding_at d k"
        unfolding finding_at_def merge(5) by (simp, rule find_update_where_other) (use False in auto)
      then show ?thesis using False key merge(1) by simp
    qed
  next
    case (new r)
    then show ?thesis using key by (auto simp: finding_at_def find_append split: option.splits)
  qed
qed

definition same_history :: "Finding \<Rightarrow> Finding \<Rightarrow> bool" where
  "same_history x y \<longleftrightarrow> fi_ID y = fi_ID x \<and> fi_FirstSeen y = fi_FirstSeen x \<and> fi_CreatedAt y = fi_CreatedAt x \<and>
     fi_Status y = fi_Status x \<and> fi_ResolvedAt y = fi_ResolvedAt x \<and>
     (fi_FirstSeenScanID x \<noteq> [] \<longrightarrow> fi_FirstSeenScanID y = fi_FirstSeenScanID x)"

lemma same_history_merge: "same_history x (finding_merge r x)"
  by (simp add: same_history_def finding_merge_def)

lemma same_history_trans: "same_history x y \<Longrightarrow> same_history y z \<Longrightarrow> same_history x z"
  by (auto simp: same_history_def)

text \<open>Pages of a list.\<close>

lemma concat_pages: "concat (map (\<lambda>k. page n (k * n) xs) [0..<m]) = take (m * n) xs"
proof (induction m)
  case (Suc m)
  have "take (m * n) xs @ take n (drop (m * n) xs) = take (m * n + n) xs" by (simp add: take_add)
  then show ?case using Suc by (simp add: page_def add.commute)
qed simp

definition all_pages :: "db \<Rightarrow> FindingListOptions \<Rightarrow> nat \<Rightarrow> nat \<Rightarrow> Finding list" where
  "all_pages d opts n m =
     concat (map (\<lambda>k. ListFindings d (opts\<lparr>fo_Limit := int n, fo_Offset := int (k * n)\<rparr>)) [0..<m])"

lemma all_pages_eq: "0 < n \<Longrightarrow> all_pages d opts n m =
    take (m * n) (finding_order (filter (finding_where d opts) (db_findings d)))"
proof -
  assume n: "0 < n"
  have w: "finding_where d (opts\<lparr>fo_Limit := a, fo_Offset := b\<rparr>) = finding_where d opts" for a b
    by (rule ext) (simp add: finding_where_def)
  show ?thesis
    unfolding all_pages_def ListFindings_def w using n concat_pages [of n _ m] by (simp add: nat_mult_distrib)
qed

lemma finding_order_mset: "mset (finding_order fs) = mset fs"
  by (simp add: finding_order_def)

lemma sorted_by_rank: "sorted (map (\<lambda>f. severity_rank (fi_Severity f)) (finding_order fs))"
  by (simp add: finding_order_def)

lemma set_grouped_all: "set (grouped_all d opts) = group_row (grouped_rows d opts) ` group_key ` set (grouped_rows d opts)"
  by (simp add: grouped_all_def Let_def)

lemma foldr_max_ge: "(x :: 'a :: linorder) \<in> set xs \<Longrightarrow> x \<le> foldr max xs b"
  by (induction xs) (auto simp: le_max_iff_disj)

lemma critical_least:
  assumes "s \<noteq> SeverityCritical"
  shows "''critical'' < Severity_text s"
proof -
  have "''critical'' < ''high''" "''critical'' < ''medium''" "''critical'' < ''low''" "''critical'' < ''info''"
    by code_simp+
  then show ?thesis using assms by (cases s) simp_all
qed

section \<open>Properties\<close>


definition ex_new_target :: "(store_error, db) result" where
  "ex_new_target = CreateTarget 0 ''t1'' [] ''example.com'' None None empty_db"

lemma ex_new_target_ok: "ex_new_target = Inr ex_db"
  by code_simp




text \<open>Observing a finding. A successful upsert leaves, under the finding's asset, template and
  tool, a row with the observing scan, the given severity and evidence and the current time as
  last seen; the rows under all other keys are unchanged, and a second observation adds no row.\<close>

theorem upsert_finding_effect:
  assumes "UpsertFinding now fresh f d = Inr d'"
  shows "(\<exists>y. finding_at d' (finding_key f) = Some y \<and> fi_ScanID y = fi_ScanID f \<and>
       fi_LastSeen y = trunc_sec now \<and> fi_Severity y = fi_Severity f \<and> fi_Evidence y = fi_Evidence f) \<and>
    (\<forall>k. k \<noteq> finding_key f \<longrightarrow> finding_at d' k = finding_at d k) \<and>
    (\<forall>x. finding_at d (finding_key f) = Some x \<longrightarrow> length (db_findings d') = length (db_findings d))"
proof -
  have key: "finding_key (finding_row (finding_prepared now fresh f)) = finding_key f"
    by (simp add: finding_key_def finding_row_def finding_prepared_def)
  have "length (db_findings d') = length (db_findings d)" if "finding_at d (finding_key f) = Some x" for x
    using assms that key by (cases rule: UpsertFinding_cases) (auto simp: finding_at_def)
  then show ?thesis using UpsertFinding_at [OF assms]
    by (auto simp: Let_def finding_merge_def finding_row_def finding_prepared_def split: option.splits)
qed

definition ex_asset :: Asset where
  "ex_asset = \<lparr>as_ID = ''a1'', as_TargetID = ''t1'', as_ParentID = [], as_Type = AssetTypeDomain,
     as_Value = ''example.com'', as_Status = AssetStatusNew, as_Tags = [], as_Metadata = [],
     as_FirstSeen = 0, as_LastSeen = 0, as_CreatedAt = 0, as_UpdatedAt = 0\<rparr>"

definition ex_finding :: Finding where
  "ex_finding = \<lparr>fi_ID = ''f1'', fi_AssetID = ''a1'', fi_ScanID = [], fi_FirstSeenScanID = [],
     fi_TemplateID = ''tls'', fi_TemplateName = [], fi_Severity = SeverityCritical, fi_Title = ''TLS'',
     fi_Description = [], fi_References = [], fi_Remediation = [], fi_Evidence = [], fi_CVSS = (0, 1), fi_CVE = [],
     fi_Status = FindingStatusOpen, fi_SourceTool = ''nuclei'', fi_Confidence = (50, 1), fi_FirstSeen = 0,
     fi_LastSeen = 0, fi_ResolvedAt = None, fi_CreatedAt = 0, fi_UpdatedAt = 0\<rparr>"

definition ex_scan_db :: db where
  "ex_scan_db = ex_db\<lparr>db_assets := [ex_asset], db_findings := [ex_finding]\<rparr>"

lemma ex_scan_db_simps [simp]: "db_assets ex_scan_db = [ex_asset]" "db_findings ex_scan_db = [ex_finding]"
  "db_scans ex_scan_db = []" "db_targets ex_scan_db = [ex_target]"
  by (simp_all add: ex_scan_db_def ex_db_def empty_db_def)

lemma ex_upsert: "\<exists>d'. UpsertFinding 5 ''u'' ex_finding ex_scan_db = Inr d'"
  by (simp add: UpsertFinding_def Let_def finding_key_def finding_row_def finding_prepared_def ex_finding_def
      scan_ref_def finding_merge_def)

lemma upsert_finding_effect_witness:
  "\<exists>d'. UpsertFinding 5 ''u'' ex_finding ex_scan_db = Inr d' \<and> length (db_findings d') = 1"
proof -
  obtain d' where d': "UpsertFinding 5 ''u'' ex_finding ex_scan_db = Inr d'" using ex_upsert by blast
  have "finding_at ex_scan_db (finding_key ex_finding) = Some ex_finding" by (simp add: finding_at_def)
  with upsert_finding_effect [OF d'] d' show ?thesis by auto
qed

text \<open>C15: The history of a finding. However often findings are observed, an existing finding keeps its
  identifier, first observation, creation time, first scan, triage status and resolution time:
  observing a resolved finding again does not reopen it.\<close>

theorem finding_history_stable:
  assumes "rtranclp (\<lambda>d d'. \<exists>now fresh f. UpsertFinding now fresh f d = Inr d') d d'"
    and "finding_at d k = Some x"
  shows "\<exists>y. finding_at d' k = Some y \<and> same_history x y"
  using assms(1)
proof (induction rule: rtranclp_induct)
  case base
  then show ?case using assms(2) by (simp add: same_history_def)
next
  case (step d1 d2)
  then obtain y where y: "finding_at d1 k = Some y" "same_history x y" by blast
  from step(2) obtain now fresh f where u: "UpsertFinding now fresh f d1 = Inr d2" by blast
  show ?case using y UpsertFinding_at [OF u, of k] same_history_merge same_history_trans
    by (auto simp: Let_def) 
qed

lemma finding_history_stable_witness:
  "\<exists>d' y. UpsertFinding 5 ''u'' ex_finding ex_scan_db = Inr d' \<and>
     finding_at d' (finding_key ex_finding) = Some y \<and> fi_FirstSeen y = 0"
proof -
  obtain d' where d': "UpsertFinding 5 ''u'' ex_finding ex_scan_db = Inr d'" using ex_upsert by blast
  have "finding_at ex_scan_db (finding_key ex_finding) = Some ex_finding" by (simp add: finding_at_def)
  moreover have "(\<lambda>d d'. \<exists>now fresh f. UpsertFinding now fresh f d = Inr d')\<^sup>*\<^sup>* ex_scan_db d'"
    using d' by (intro r_into_rtranclp) blast
  ultimately show ?thesis using finding_history_stable [of ex_scan_db d'] d'
    by (fastforce simp: same_history_def ex_finding_def)
qed

text \<open>Paging through findings. For every positive page size, enough consecutive pages contain
  every finding that passes the filters exactly once and no other, by falling severity, and
  their number is the filtered count.\<close>

theorem findings_paging:
  assumes "0 < n" "CountFindingsFiltered d opts \<le> m * n"
  shows "mset (all_pages d opts n m) = mset (filter (finding_where d opts) (db_findings d)) \<and>
    length (all_pages d opts n m) = CountFindingsFiltered d opts \<and>
    sorted (map (\<lambda>f. severity_rank (fi_Severity f)) (all_pages d opts n m))"
proof -
  let ?fs = "filter (finding_where d opts) (db_findings d)"
  have len: "length (finding_order ?fs) = CountFindingsFiltered d opts"
    by (metis CountFindingsFiltered_def finding_order_mset size_mset)
  then have "all_pages d opts n m = finding_order ?fs" using assms by (simp add: all_pages_eq)
  then show ?thesis using len by (simp add: finding_order_mset sorted_by_rank)
qed

definition ex_opts :: FindingListOptions where
  "ex_opts = \<lparr>fo_AssetID = [], fo_ScanID = [], fo_ScanScope = [], fo_TargetID = ''t1'', fo_TemplateID = [],
     fo_Host = [], fo_Severity = None, fo_Status = None, fo_SourceTool = [], fo_Limit = 0, fo_Offset = 0\<rparr>"

lemma findings_paging_witness: "length (all_pages ex_scan_db ex_opts 1 2) = 1"
proof -
  have c: "CountFindingsFiltered ex_scan_db ex_opts = 1"
    by (simp add: CountFindingsFiltered_def finding_where_def ex_opts_def target_assets_def)
      (simp add: ex_asset_def ex_finding_def)
  then show ?thesis using findings_paging [of 1 ex_scan_db ex_opts 2] by simp
qed

text \<open>Severity of a group. The host view takes the largest severity text of a group, and texts do
  not follow the scale of severities: a group with a critical finding and any finding of another
  severity is never reported as critical.\<close>

theorem grouped_severity_understated:
  assumes "g \<in> set (ListGroupedFindings d opts)"
    and "(h1, f1) \<in> set (grouped_rows d opts)" "group_key (h1, f1) = (gf_Host g, gf_TemplateID g, gf_SourceTool g)"
    and "fi_Severity f1 = SeverityCritical"
    and "(h2, f2) \<in> set (grouped_rows d opts)" "group_key (h2, f2) = (gf_Host g, gf_TemplateID g, gf_SourceTool g)"
    and "fi_Severity f2 \<noteq> SeverityCritical"
  shows "gf_Severity g \<noteq> ''critical''"
proof -
  let ?rs = "grouped_rows d opts"
  let ?k = "(gf_Host g, gf_TemplateID g, gf_SourceTool g)"
  have "g \<in> set (grouped_all d opts)"
    using assms(1) subsetD [OF set_page] unfolding ListGroupedFindings_def by fast
  then have "g \<in> group_row ?rs ` group_key ` set ?rs" by (simp only: set_grouped_all)
  then obtain k where "g = group_row ?rs k" by blast
  then have g: "g = group_row ?rs ?k" by (simp add: group_row_def Let_def)
  let ?g = "map snd (filter (\<lambda>r. group_key r = ?k) ?rs)"
  have "gf_Severity g = foldr max (map (\<lambda>f. Severity_text (fi_Severity f)) ?g) []"
    by (subst g) (simp only: group_row_def Let_def GroupedFinding.simps)
  moreover have "f2 \<in> set ?g" using assms(5,6) by force
  then have "Severity_text (fi_Severity f2) \<in> set (map (\<lambda>f. Severity_text (fi_Severity f)) ?g)"
    unfolding set_map by (rule imageI)
  ultimately have "Severity_text (fi_Severity f2) \<le> gf_Severity g" by (simp only: foldr_max_ge)
  moreover have "''critical'' < Severity_text (fi_Severity f2)"
    by (rule critical_least [OF assms(7)])
  ultimately show ?thesis by force
qed

definition ex_ports_db :: db where
  "ex_ports_db = ex_db\<lparr>
     db_assets := [ex_asset\<lparr>as_Value := ''example.com:443/tcp''\<rparr>,
                   ex_asset\<lparr>as_ID := ''a2'', as_Value := ''example.com:8443/tcp''\<rparr>],
     db_findings := [ex_finding,
                     ex_finding\<lparr>fi_ID := ''f2'', fi_AssetID := ''a2'', fi_Severity := SeverityLow\<rparr>]\<rparr>"

definition ex_group_opts :: GroupedFindingOptions where
  "ex_group_opts = \<lparr>go_Severity = None, go_SourceTool = [], go_Host = [], go_SortBy = [], go_Limit = 0, go_Offset = 0\<rparr>"

lemma ex_ports_rows: "grouped_rows ex_ports_db ex_group_opts =
    [(''example.com'', ex_finding), (''example.com'', ex_finding\<lparr>fi_ID := ''f2'', fi_AssetID := ''a2'', fi_Severity := SeverityLow\<rparr>)]"
  by code_simp

lemma ex_ports_group: "map gf_Host (ListGroupedFindings ex_ports_db ex_group_opts) = [''example.com''] \<and>
   map gf_TemplateID (ListGroupedFindings ex_ports_db ex_group_opts) = [''tls''] \<and>
   map gf_SourceTool (ListGroupedFindings ex_ports_db ex_group_opts) = [''nuclei'']"
  by code_simp

lemma grouped_severity_understated_witness:
  "\<exists>g. ListGroupedFindings ex_ports_db ex_group_opts = [g] \<and> gf_Severity g \<noteq> ''critical''"
proof -
  obtain g where g: "ListGroupedFindings ex_ports_db ex_group_opts = [g]" "gf_Host g = ''example.com''"
    "gf_TemplateID g = ''tls''" "gf_SourceTool g = ''nuclei''"
    using ex_ports_group by (auto simp: map_eq_Cons_conv)
  then show ?thesis
    using grouped_severity_understated [of g ex_ports_db ex_group_opts "''example.com''" ex_finding "''example.com''"
        "ex_finding\<lparr>fi_ID := ''f2'', fi_AssetID := ''a2'', fi_Severity := SeverityLow\<rparr>"]
    by (simp add: ex_ports_rows group_key_def ex_finding_def)
qed

end
