(* ===== verification/Diff.thy ===== *)
theory Diff
  imports StoreInv
begin

text \<open>
  The diff phase of a scan, \<open>internal/pipeline/diff.go\<close> and \<open>diff_findings.go\<close>, and the aggregates
  of \<open>finalize.go\<close>. Iterating over a Go map has no fixed order: the model goes through the keys
  in the order of their first insertion, and the properties do not depend on it. Identifiers
  of new rows come from the supply \<open>fresh\<close>.
\<close>

section \<open>Rendering of values\<close>

text \<open>\<open>fmt.Sprint\<close> of a decoded JSON value and its \<open>%q\<close> rendering.\<close>

definition map_text :: "(string \<times> string) list \<Rightarrow> string" where
  "map_text kvs = ''map['' @ Join (map (\<lambda>(k, v). k @ '':'' @ v) (sort_key fst kvs)) '' '' @ '']''"

primrec go_sprint :: "json \<Rightarrow> string" where
  "go_sprint JNull = ''<nil>''"
| "go_sprint (JBool b) = (if b then ''true'' else ''false'')"
| "go_sprint (JInt i) = Itoa i"
| "go_sprint (JDec s) = s"
| "go_sprint (JStr s) = s"
| "go_sprint (JArr xs) = ''['' @ Join (map go_sprint xs) '' '' @ '']''"
| "go_sprint (JObj kvs) = map_text (map (map_prod id go_sprint) kvs)"
| "go_sprint (JBad s) = s"

definition go_quote :: "string \<Rightarrow> string" where
  "go_quote s = [CHR 0x22] @ concat (map (\<lambda>c.
     if c = CHR 0x22 \<or> c = CHR 0x5C then [CHR 0x5C, c]
     else if c = CHR 0x0A then [CHR 0x5C, CHR ''n'']
     else if c = CHR 0x0D then [CHR 0x5C, CHR ''r'']
     else if c = CHR 0x09 then [CHR 0x5C, CHR ''t'']
     else if of_char c < (32 :: nat)
     then [CHR 0x5C, CHR ''x'', hex_char (of_char c div 16), hex_char (of_char c mod 16)]
     else [c]) s) @ [CHR 0x22]"

primrec go_q :: "json \<Rightarrow> string" where
  "go_q JNull = ''%!q(<nil>)''"
| "go_q (JBool b) = ''%!q(bool='' @ (if b then ''true'' else ''false'') @ '')''"
| "go_q (JInt i) = ''%!q(float64='' @ Itoa i @ '')''"
| "go_q (JDec s) = ''%!q(float64='' @ s @ '')''"
| "go_q (JStr s) = go_quote s"
| "go_q (JArr xs) = ''['' @ Join (map go_q xs) '' '' @ '']''"
| "go_q (JObj kvs) = map_text (map (map_prod go_quote go_q) kvs)"
| "go_q (JBad s) = s"

text \<open>\<open>strings.Title\<close>: letters, digits and the underscore do not separate words.\<close>

definition is_word_char :: "char \<Rightarrow> bool" where
  "is_word_char c = (is_letter c \<or> is_digit c \<or> c = CHR ''_'')"

fun title_from :: "bool \<Rightarrow> string \<Rightarrow> string" where
  "title_from sep [] = []"
| "title_from sep (c # cs) = (if sep then upper_char c else c) # title_from (\<not> is_word_char c) cs"

definition arrow :: string where
  "arrow = [CHR '' '', CHR 0xE2, CHR 0x86, CHR 0x92, CHR '' '']"

section \<open>Asset changes\<close>

definition SnapshotAssets :: "db \<Rightarrow> string \<Rightarrow> Asset list" where
  "SnapshotAssets d targetID = ListAssets d \<lparr>ao_TargetID = targetID, ao_Type = None, ao_Status = None,
     ao_Limit = 10000, ao_Offset = 0, ao_NewOnly = False, ao_Disappeared = False\<rparr>"

definition asset_key :: "Asset \<Rightarrow> string \<times> string" where
  "asset_key a = (AssetType_text (as_Type a), as_Value a)"

definition buildAssetMap :: "Asset list \<Rightarrow> ((string \<times> string) \<times> Asset) list" where
  "buildAssetMap assets = put_all (map (\<lambda>a. (asset_key a, a)) assets) []"

fun classifySignificance :: "ChangeType \<Rightarrow> AssetType \<Rightarrow> Significance" where
  "classifySignificance ChangeTypeAppeared t =
     (case t of
        AssetTypeDomain \<Rightarrow> SignificanceCritical
      | AssetTypeSubdomain \<Rightarrow> SignificanceCritical
      | AssetTypeIPv4 \<Rightarrow> SignificanceHigh
      | AssetTypeIPv6 \<Rightarrow> SignificanceHigh
      | AssetTypePort \<Rightarrow> SignificanceCritical
      | AssetTypeURL \<Rightarrow> SignificanceMedium
      | AssetTypeTechnology \<Rightarrow> SignificanceLow
      | _ \<Rightarrow> SignificanceInfo)"
| "classifySignificance ChangeTypeDisappeared t =
     (case t of
        AssetTypeDomain \<Rightarrow> SignificanceHigh
      | AssetTypeSubdomain \<Rightarrow> SignificanceHigh
      | AssetTypeIPv4 \<Rightarrow> SignificanceMedium
      | AssetTypeIPv6 \<Rightarrow> SignificanceMedium
      | AssetTypePort \<Rightarrow> SignificanceHigh
      | _ \<Rightarrow> SignificanceLow)"
| "classifySignificance ChangeTypeModified t = SignificanceInfo"

fun generateSummary :: "ChangeType \<Rightarrow> Asset \<Rightarrow> string" where
  "generateSummary ChangeTypeAppeared a = ''New '' @ AssetType_text (as_Type a) @ '' discovered: '' @ as_Value a"
| "generateSummary ChangeTypeDisappeared a =
     title_from True (AssetType_text (as_Type a)) @ '' no longer detected: '' @ as_Value a"
| "generateSummary ChangeTypeModified a = []"

text \<open>A change row without identifier, target and scan, which the caller fills in.\<close>

definition change_of ::
  "ChangeType \<Rightarrow> Significance \<Rightarrow> Asset \<Rightarrow> metadata \<Rightarrow> metadata \<Rightarrow> string \<Rightarrow> bool \<Rightarrow> AssetChange" where
  "change_of ct sig a prev cur summary baseline =
     \<lparr>ac_ID = [], ac_TargetID = [], ac_ScanID = [], ac_AssetID = as_ID a, ac_ChangeType = ct,
      ac_Significance = sig, ac_AssetType = as_Type a, ac_AssetValue = as_Value a, ac_PreviousMeta = prev,
      ac_CurrentMeta = cur, ac_Summary = summary, ac_Baseline = baseline, ac_CreatedAt = zero_time\<rparr>"

text \<open>The checks of \<open>classifyMetadataChange\<close>, in order: key, significance, summary prefix, rendering.\<close>

definition meta_checks :: "(string \<times> Significance \<times> string \<times> (json \<Rightarrow> string)) list" where
  "meta_checks =
     [(''server'', SignificanceCritical, ''Server version changed: '', go_sprint),
      (''cname'', SignificanceCritical, ''CNAME changed: '', go_sprint),
      (''status_code'', SignificanceMedium, ''HTTP status changed: '', go_sprint),
      (''tls_valid'', SignificanceHigh, ''TLS validity changed: '', go_sprint),
      (''title'', SignificanceInfo, ''Page title changed: '', go_q)]"

fun first_meta_change ::
  "(string \<times> Significance \<times> string \<times> (json \<Rightarrow> string)) list \<Rightarrow> Asset \<Rightarrow> Asset \<Rightarrow> AssetChange option" where
  "first_meta_change [] prev cur = None"
| "first_meta_change ((k, sig, text, show) # cs) prev cur =
     (case (map_of (as_Metadata prev) k, map_of (as_Metadata cur) k) of
        (Some p, Some c) \<Rightarrow>
          if go_sprint p \<noteq> go_sprint c
          then Some (change_of ChangeTypeModified sig cur (as_Metadata prev) (as_Metadata cur)
                 (text @ show p @ arrow @ show c) False)
          else first_meta_change cs prev cur
      | _ \<Rightarrow> first_meta_change cs prev cur)"

definition classifyMetadataChange :: "Asset \<Rightarrow> Asset \<Rightarrow> AssetChange option" where
  "classifyMetadataChange prev cur = first_meta_change meta_checks prev cur"

definition computeBaselineChanges :: "Asset list \<Rightarrow> AssetChange list" where
  "computeBaselineChanges assets = map (\<lambda>a. change_of ChangeTypeAppeared SignificanceInfo a [] (as_Metadata a)
     (''Baseline: '' @ AssetType_text (as_Type a) @ '' '' @ as_Value a) True) assets"

definition appeared_change :: "Asset \<Rightarrow> AssetChange" where
  "appeared_change a = change_of ChangeTypeAppeared (classifySignificance ChangeTypeAppeared (as_Type a)) a
     [] (as_Metadata a) (generateSummary ChangeTypeAppeared a) False"

definition disappeared_change :: "Asset \<Rightarrow> AssetChange" where
  "disappeared_change a = change_of ChangeTypeDisappeared (classifySignificance ChangeTypeDisappeared (as_Type a)) a
     (as_Metadata a) [] (generateSummary ChangeTypeDisappeared a) False"

definition raw_changes :: "Asset list \<Rightarrow> Asset list \<Rightarrow> AssetChange list" where
  "raw_changes preAssets postAssets =
     (let preMap = buildAssetMap preAssets; postMap = buildAssetMap postAssets in
      map (\<lambda>(k, cur). appeared_change cur) (filter (\<lambda>(k, cur). map_of preMap k = None) postMap) @
      map (\<lambda>(k, prev). disappeared_change prev)
        (filter (\<lambda>(k, prev). case map_of postMap k of
             None \<Rightarrow> True | Some post \<Rightarrow> as_LastSeen post = as_LastSeen prev) preMap) @
      concat (map (\<lambda>(k, post). case map_of preMap k of
           None \<Rightarrow> []
         | Some pre \<Rightarrow> if as_LastSeen post \<noteq> as_LastSeen pre
             then (case classifyMetadataChange pre post of None \<Rightarrow> [] | Some c \<Rightarrow> [c]) else []) postMap))"

text \<open>Every change gets the scan, the target and a new identifier.\<close>

definition label_changes :: "string \<Rightarrow> string \<Rightarrow> (nat \<Rightarrow> string) \<Rightarrow> AssetChange list \<Rightarrow> AssetChange list" where
  "label_changes targetID scanID fresh cs =
     map (\<lambda>(i, c). c\<lparr>ac_ID := fresh i, ac_TargetID := targetID, ac_ScanID := scanID\<rparr>) (enumerate 0 cs)"

definition ComputeChanges ::
  "string \<Rightarrow> string \<Rightarrow> (nat \<Rightarrow> string) \<Rightarrow> Asset list \<Rightarrow> Asset list \<Rightarrow> bool \<Rightarrow> AssetChange list" where
  "ComputeChanges targetID scanID fresh preAssets postAssets isFirstScan =
     label_changes targetID scanID fresh
       (if isFirstScan then computeBaselineChanges postAssets else raw_changes preAssets postAssets)"

definition apply_status_change :: "time \<Rightarrow> AssetChange \<Rightarrow> db \<Rightarrow> db" where
  "apply_status_change now c d =
     (if ac_AssetID c = [] then d
      else case ac_ChangeType c of
          ChangeTypeAppeared \<Rightarrow> ignore_err (UpdateAssetStatus now (ac_AssetID c) AssetStatusNew d) d
        | ChangeTypeDisappeared \<Rightarrow> ignore_err (UpdateAssetStatus now (ac_AssetID c) AssetStatusDisappeared d) d
        | ChangeTypeModified \<Rightarrow> d)"

definition ApplyStatusChanges :: "time \<Rightarrow> AssetChange list \<Rightarrow> db \<Rightarrow> db" where
  "ApplyStatusChanges now cs d = fold (apply_status_change now) cs d"

section \<open>Finding changes\<close>

definition no_filter :: FindingListOptions where
  "no_filter = \<lparr>fo_AssetID = [], fo_ScanID = [], fo_ScanScope = [], fo_TargetID = [], fo_TemplateID = [],
     fo_Host = [], fo_Severity = None, fo_Status = None, fo_SourceTool = [], fo_Limit = 0, fo_Offset = 0\<rparr>"

definition ComputeFindingChanges :: "db \<Rightarrow> string \<Rightarrow> string \<Rightarrow> Finding list \<times> Finding list" where
  "ComputeFindingChanges d targetID scanID =
     (let currentFindings = ListFindings d (no_filter\<lparr>fo_ScanID := scanID, fo_Limit := 10000\<rparr>);
          allOpenFindings = ListFindings d (no_filter\<lparr>fo_Status := Some FindingStatusOpen, fo_Limit := 10000\<rparr>);
          currentKeys = map finding_key currentFindings in
      (filter (\<lambda>f. fi_FirstSeen f = fi_LastSeen f) currentFindings,
       filter (\<lambda>f. finding_key f \<notin> set currentKeys) allOpenFindings))"

definition auto_resolve :: "time \<Rightarrow> Finding \<Rightarrow> db \<Rightarrow> db" where
  "auto_resolve now f d =
     (let d = ignore_err (UpdateFindingStatus now (fi_ID f) FindingStatusResolved d) d
      in ignore_err (UpdateFindingResolvedAt now (fi_ID f) (Some now) d) d)"

definition AutoResolveFindings :: "time \<Rightarrow> Finding list \<Rightarrow> db \<Rightarrow> db" where
  "AutoResolveFindings now resolved d = fold (auto_resolve now) resolved d"

section \<open>Aggregates\<close>

definition counts_total :: "'k counts \<Rightarrow> int" where
  "counts_total cs = sum_list (map snd cs)"

definition count_at :: "'k counts \<Rightarrow> 'k \<Rightarrow> int" where
  "count_at cs k = (case map_of cs k of None \<Rightarrow> 0 | Some n \<Rightarrow> n)"

definition FinalizeTargetState :: "db \<Rightarrow> string \<Rightarrow> TargetState" where
  "FinalizeTargetState d targetID =
     (let byType = CountAssetsByTypeForTarget d targetID;
          open' = CountFindingsBySeverityForTarget d targetID (Some FindingStatusOpen) in
      \<lparr>ts_AssetsByType = byType, ts_AssetsTotal = counts_total byType,
       ts_PortsByStatus = (if count_at byType AssetTypePort > 0 then CountPortsByStatusForTarget d targetID else []),
       ts_FindingsOpen = open', ts_FindingsOpenTotal = counts_total open',
       ts_FindingsByStatus = CountFindingsByStatusForTarget d targetID, ts_Remediations = []\<rparr>)"

definition FinalizeScanDelta :: "db \<Rightarrow> string \<Rightarrow> Finding list \<Rightarrow> Finding list \<Rightarrow> ScanDelta" where
  "FinalizeScanDelta d scanID newFindings resolvedFindings =
     (let b = ScanIsBaseline d scanID in
      \<lparr>de_NewAssets = (if b then [] else AssetChangeCountsForScan d scanID ChangeTypeAppeared),
       de_DisappearedAssets = (if b then [] else AssetChangeCountsForScan d scanID ChangeTypeDisappeared),
       de_ModifiedAssets = (if b then [] else AssetChangeCountsForScan d scanID ChangeTypeModified),
       de_NewFindings = (if b then [] else group_count fi_Severity newFindings),
       de_ResolvedFindings = (if b then [] else group_count fi_Severity resolvedFindings),
       de_ReturnedFindings = [], de_IsBaseline = b\<rparr>)"

text \<open>The earliest start per phase, keyed in the order the phases are first met.\<close>

definition phase_start :: "(string \<times> time) list \<Rightarrow> ToolRun \<Rightarrow> (string \<times> time) list" where
  "phase_start ps r =
     (if tr_Phase r = [] then ps
      else case map_of ps (tr_Phase r) of
          None \<Rightarrow> ps @ [(tr_Phase r, tr_StartedAt r)]
        | Some existing \<Rightarrow>
            if tr_StartedAt r \<noteq> zero_time \<and> (existing = zero_time \<or> tr_StartedAt r < existing)
            then AList.update (tr_Phase r) (tr_StartedAt r) ps else ps)"

definition phase_order :: "(string \<times> time) list \<Rightarrow> string list" where
  "phase_order ps =
     map fst (sort_key snd (filter (\<lambda>p. snd p \<noteq> zero_time) ps) @ filter (\<lambda>p. snd p = zero_time) ps)"

definition milliseconds :: "duration \<Rightarrow> int" where
  "milliseconds d = (if 0 \<le> d then d div 1000000 else - ((- d) div 1000000))"

definition FinalizeScanWork :: "db \<Rightarrow> string \<Rightarrow> duration \<Rightarrow> ScanWork" where
  "FinalizeScanWork d scanID dur =
     (let runs = ListToolRuns d scanID in
      \<lparr>wk_DurationMs = milliseconds dur, wk_ToolsRun = int (length runs),
       wk_ToolsFailed = int (length (filter (\<lambda>r. tr_Status r = ToolRunFailed \<or> tr_Status r = ToolRunTimeout) runs)),
       wk_ToolsSkipped = int (length (filter (\<lambda>r. tr_Status r = ToolRunSkipped) runs)),
       wk_PhasesRun = phase_order (foldl phase_start [] runs),
       wk_RawEmissions = sum_list (map tr_FindingsCount runs)\<rparr>)"

text \<open>The texts of the change summary.\<close>

definition pluralize :: "string \<Rightarrow> int \<Rightarrow> string" where
  "pluralize word n = (if n = 1 then word else word @ ''s'')"

definition formatTypeBreakdown :: "AssetType counts \<Rightarrow> string" where
  "formatTypeBreakdown m =
     (if m = [] then []
      else '' ('' @ Join (map (\<lambda>(t, n). Itoa n @ '' '' @ pluralize (AssetType_text t) n) m) '', '' @ '')'')"

definition formatSevBreakdown :: "Severity counts \<Rightarrow> string" where
  "formatSevBreakdown m =
     (let parts = map (\<lambda>s. Itoa (count_at m s) @ '' '' @ Severity_text s)
            (filter (\<lambda>s. count_at m s > 0)
              [SeverityCritical, SeverityHigh, SeverityMedium, SeverityLow, SeverityInfo]) in
      if m = [] \<or> parts = [] then [] else '' ('' @ Join parts '', '' @ '')'')"

section \<open>Lemmas: the keyed comparison\<close>

lemma put_all_fresh:
  "distinct (map fst ps) \<Longrightarrow> fst ` set ps \<inter> fst ` set al = {} \<Longrightarrow> put_all ps al = al @ ps"
proof (induction ps arbitrary: al)
  case (Cons p ps)
  obtain k v where p: "p = (k, v)" by (cases p)
  have "AList.update k v al = al @ [(k, v)]"
    using Cons.prems(2) by (induction al) (auto simp: p)
  then show ?case using Cons.IH [of "al @ [(k, v)]"] Cons.prems by (auto simp: put_all_def p)
qed (simp add: put_all_def)

lemma buildAssetMap_eq: "distinct (map asset_key xs) \<Longrightarrow> buildAssetMap xs = map (\<lambda>a. (asset_key a, a)) xs"
  unfolding buildAssetMap_def by (subst put_all_fresh) (auto simp: o_def)

lemma map_of_keyed: "distinct (map asset_key xs) \<Longrightarrow>
    map_of (map (\<lambda>a. (asset_key a, a)) xs) k = find (\<lambda>a. asset_key a = k) xs"
  by (induction xs) auto

definition change_key :: "AssetChange \<Rightarrow> string \<times> string" where
  "change_key c = (AssetType_text (ac_AssetType c), ac_AssetValue c)"

lemma change_of_simps [simp]:
  "change_key (change_of ct sig a p c t b) = asset_key a" "ac_ChangeType (change_of ct sig a p c t b) = ct"
  by (simp_all add: change_of_def change_key_def asset_key_def)

lemma change_simps [simp]:
  "change_key (appeared_change a) = asset_key a" "ac_ChangeType (appeared_change a) = ChangeTypeAppeared"
  "change_key (disappeared_change a) = asset_key a" "ac_ChangeType (disappeared_change a) = ChangeTypeDisappeared"
  by (simp_all add: appeared_change_def disappeared_change_def)

lemma first_meta_change_key: "first_meta_change cs p c = Some x \<Longrightarrow> change_key x = asset_key c \<and> ac_ChangeType x = ChangeTypeModified"
  by (induction cs p c rule: first_meta_change.induct) (auto split: option.splits if_splits)

lemma classify_key: "classifyMetadataChange p c = Some x \<Longrightarrow> change_key x = asset_key c \<and> ac_ChangeType x = ChangeTypeModified"
  by (simp add: classifyMetadataChange_def first_meta_change_key)

text \<open>The three groups of changes over lists with distinct keys.\<close>

definition new_assets :: "Asset list \<Rightarrow> Asset list \<Rightarrow> Asset list" where
  "new_assets pre post = filter (\<lambda>a. asset_key a \<notin> asset_key ` set pre) post"

definition gone :: "Asset list \<Rightarrow> Asset list \<Rightarrow> Asset list" where
  "gone pre post = filter (\<lambda>p. \<forall>q \<in> set post. asset_key q = asset_key p \<longrightarrow> as_LastSeen q = as_LastSeen p) pre"

definition modified_change :: "Asset list \<Rightarrow> Asset \<Rightarrow> AssetChange option" where
  "modified_change pre a = (case find (\<lambda>p. asset_key p = asset_key a) pre of
     None \<Rightarrow> None
   | Some p \<Rightarrow> if as_LastSeen a \<noteq> as_LastSeen p then classifyMetadataChange p a else None)"

lemma find_key_unique: "distinct (map asset_key xs) \<Longrightarrow> a \<in> set xs \<Longrightarrow> find (\<lambda>p. asset_key p = asset_key a) xs = Some a"
  by (induction xs) auto

lemma raw_changes_eq:
  assumes "distinct (map asset_key pre)" "distinct (map asset_key post)"
  shows "raw_changes pre post = map appeared_change (new_assets pre post) @
    map disappeared_change (gone pre post) @ List.map_filter (modified_change pre) post"
proof -
  have 1: "(find (\<lambda>a. asset_key a = k) pre = None) = (k \<notin> asset_key ` set pre)" for k
    by (auto simp: find_None_iff)
  have 2: "(case find (\<lambda>a. asset_key a = asset_key p) post of None \<Rightarrow> True | Some q \<Rightarrow> as_LastSeen q = as_LastSeen p) =
      (\<forall>q \<in> set post. asset_key q = asset_key p \<longrightarrow> as_LastSeen q = as_LastSeen p)" for p
  proof (cases "find (\<lambda>a. asset_key a = asset_key p) post")
    case None
    then have "\<forall>q \<in> set post. asset_key q \<noteq> asset_key p" by (simp add: find_None_iff)
    with None show ?thesis by simp
  next
    case (Some q)
    then have q: "q \<in> set post" "asset_key q = asset_key p" by (auto simp: find_Some_iff)
    have "q' = q" if "q' \<in> set post" "asset_key q' = asset_key p" for q'
      using find_key_unique [OF assms(2) that(1)] Some that(2) by simp
    with q show ?thesis unfolding Some option.case by metis
  qed
  have 3: "concat (map (\<lambda>x. case find (\<lambda>a. asset_key a = asset_key x) pre of
           None \<Rightarrow> []
         | Some p \<Rightarrow> if as_LastSeen x \<noteq> as_LastSeen p
             then (case classifyMetadataChange p x of None \<Rightarrow> [] | Some c \<Rightarrow> [c]) else []) xs)
      = List.map_filter (modified_change pre) xs" for xs
    by (induction xs) (auto simp: modified_change_def List.map_filter_def split: option.splits)
  show ?thesis
    using 3 by (simp add: raw_changes_def Let_def buildAssetMap_eq [OF assms(1)] buildAssetMap_eq [OF assms(2)]
        map_of_keyed [OF assms(1)] map_of_keyed [OF assms(2)] filter_map o_def case_prod_beta new_assets_def gone_def 1 2)
qed

lemma set_label: "change_key ` set (label_changes t s fr cs) = change_key ` set cs"
  "map change_key (label_changes t s fr cs) = map change_key cs"
  "map ac_ChangeType (label_changes t s fr cs) = map ac_ChangeType cs"
proof -
  have k: "change_key (c\<lparr>ac_ID := a, ac_TargetID := t, ac_ScanID := s\<rparr>) = change_key c" for c a
    by (simp add: change_key_def)
  show m: "map change_key (label_changes t s fr cs) = map change_key cs"
    by (rule nth_equalityI) (simp_all add: label_changes_def nth_enumerate_eq k case_prod_beta)
  then show "change_key ` set (label_changes t s fr cs) = change_key ` set cs"
    by (metis list.set_map)
  show "map ac_ChangeType (label_changes t s fr cs) = map ac_ChangeType cs"
    by (rule nth_equalityI) (simp_all add: label_changes_def nth_enumerate_eq case_prod_beta)
qed

definition keys_of :: "ChangeType \<Rightarrow> AssetChange list \<Rightarrow> (string \<times> string) list" where
  "keys_of ct cs = map change_key (filter (\<lambda>c. ac_ChangeType c = ct) cs)"

lemma keys_of_label: "keys_of ct (label_changes t s fr cs) = keys_of ct cs"
proof -
  have "keys_of ct cs = map fst (filter (\<lambda>p. snd p = ct) (zip (map change_key cs) (map ac_ChangeType cs)))" for cs
    by (induction cs) (simp_all add: keys_of_def)
  then show ?thesis by (simp add: set_label)
qed

lemma keys_of_append [simp]: "keys_of ct (xs @ ys) = keys_of ct xs @ keys_of ct ys"
  by (simp add: keys_of_def)

lemma keys_of_maps [simp]:
  "keys_of ct (map appeared_change xs) = (if ct = ChangeTypeAppeared then map asset_key xs else [])"
  "keys_of ct (map disappeared_change xs) = (if ct = ChangeTypeDisappeared then map asset_key xs else [])"
  by (auto simp: keys_of_def filter_map o_def)

lemma keys_of_modified:
  "keys_of ct (List.map_filter (modified_change pre) post) =
     (if ct = ChangeTypeModified then map asset_key (filter (\<lambda>a. modified_change pre a \<noteq> None) post) else [])"
proof -
  have "modified_change pre a = Some c \<Longrightarrow> change_key c = asset_key a \<and> ac_ChangeType c = ChangeTypeModified" for a c
    by (auto simp: modified_change_def dest: classify_key split: option.splits if_splits)
  then show ?thesis
    by (induction post) (auto simp: keys_of_def List.map_filter_def split: option.splits)
qed

section \<open>Lemmas: counts\<close>

lemma counts_total_group: "counts_total (group_count k rs) = int (length rs)"
proof -
  have "sum_list (map (\<lambda>x. int (length (filter (\<lambda>r. k r = x) rs))) xs) = int (length (filter (\<lambda>r. k r \<in> set xs) rs))"
    if "distinct xs" for xs
    using that
  proof (induction xs)
    case (Cons x xs)
    have "length (filter (\<lambda>r. k r = x \<or> k r \<in> set xs) rs) =
        length (filter (\<lambda>r. k r = x) rs) + length (filter (\<lambda>r. k r \<in> set xs) rs)"
      using Cons.prems by (induction rs) auto
    then show ?case using Cons by simp
  qed simp
  from this [of "remdups (map k rs)"] show ?thesis
    by (simp add: counts_total_def group_count_def o_def)
qed

lemma map_of_graph: "map_of (map (\<lambda>x. (x, f x)) xs) x = (if x \<in> set xs then Some (f x) else None)"
  by (induction xs) auto

lemma count_at_group: "count_at (group_count k rs) x = int (length (filter (\<lambda>r. k r = x) rs))"
proof -
  have "x \<notin> k ` set rs \<Longrightarrow> filter (\<lambda>r. k r = x) rs = []" by (auto simp: filter_empty_conv)
  then show ?thesis by (auto simp: count_at_def group_count_def map_of_graph)
qed

section \<open>Lemmas: snapshots and findings\<close>

lemma distinct_page: "distinct (map k xs) \<Longrightarrow> distinct (map k (page n m xs))"
  unfolding page_def by (metis distinct_drop distinct_take drop_map take_map)

lemma page_all: "length xs \<le> n \<Longrightarrow> page n 0 xs = xs"
  by (simp add: page_def)

lemma distinct_sort_map: "distinct (map k (sort_key f xs)) = distinct (map k xs)"
  by (metis mset_map mset_sort mset_eq_imp_distinct_iff)

lemma snapshot_distinct:
  assumes "uniq_ok d" "t \<noteq> []"
  shows "distinct (map asset_key (SnapshotAssets d t))"
proof -
  let ?q = "filter (asset_where \<lparr>ao_TargetID = t, ao_Type = None, ao_Status = None, ao_Limit = 10000,
     ao_Offset = 0, ao_NewOnly = False, ao_Disappeared = False\<rparr>) (db_assets d)"
  have "distinct (map (\<lambda>a. (as_TargetID a, as_Value a)) ?q)"
    using assms(1) by (auto simp: uniq_ok_def distinct_map inj_on_def)
  moreover have "a \<in> set ?q \<Longrightarrow> as_TargetID a = t" for a using assms(2) by (simp add: asset_where_def)
  ultimately have "distinct (map asset_key ?q)"
    by (auto simp: distinct_map inj_on_def asset_key_def)
  then show ?thesis
    unfolding SnapshotAssets_def ListAssets_def by (intro distinct_page) (simp add: distinct_sort_map)
qed

lemma changes_of_scan:
  assumes "distinct (map asset_key pre)" "distinct (map asset_key post)"
  shows "keys_of ct (ComputeChanges t s fr pre post False) =
    (case ct of ChangeTypeAppeared \<Rightarrow> map asset_key (new_assets pre post)
      | ChangeTypeDisappeared \<Rightarrow> map asset_key (gone pre post)
      | ChangeTypeModified \<Rightarrow> map asset_key (filter (\<lambda>a. modified_change pre a \<noteq> None) post))"
  by (cases ct) (simp_all add: ComputeChanges_def keys_of_label raw_changes_eq [OF assms] keys_of_modified)

lemma modified_both: "modified_change pre a \<noteq> None \<Longrightarrow>
    \<exists>p \<in> set pre. asset_key p = asset_key a \<and> as_LastSeen a \<noteq> as_LastSeen p"
  by (auto simp: modified_change_def find_Some_iff split: option.splits if_splits)

lemma image_minus: "f ` {x \<in> A. f x \<notin> B} = f ` A - B"
  by blast

definition resolve_row :: "time \<Rightarrow> Finding \<Rightarrow> Finding" where
  "resolve_row now f = f\<lparr>fi_Status := FindingStatusResolved, fi_ResolvedAt := Some (trunc_sec now), fi_UpdatedAt := trunc_sec now\<rparr>"

lemma auto_resolve_eq: "db_findings (auto_resolve now f d) = update_where (\<lambda>x. fi_ID x = fi_ID f) (resolve_row now) (db_findings d)"
proof (cases "GetFinding d (fi_ID f) = None")
  case True
  then have "\<forall>r \<in> set (db_findings d). fi_ID r \<noteq> fi_ID f" by (simp add: GetFinding_def row_None)
  with True show ?thesis
    by (simp add: auto_resolve_def ignore_err_def UpdateFindingStatus_def UpdateFindingResolvedAt_def update_where_none)
next
  case False
  then show ?thesis
    by (auto simp: auto_resolve_def ignore_err_def UpdateFindingStatus_def UpdateFindingResolvedAt_def GetFinding_def row_update
        map_option_case split: option.splits) (auto simp: update_where_def resolve_row_def)
qed

lemma fold_resolve: "db_findings (AutoResolveFindings now fs d) =
    update_where (\<lambda>x. fi_ID x \<in> fi_ID ` set fs) (resolve_row now) (db_findings d)"
proof (induction fs arbitrary: d)
  case (Cons f fs)
  have "resolve_row now (resolve_row now r) = resolve_row now r" "fi_ID (resolve_row now r) = fi_ID r" for r
    by (simp_all add: resolve_row_def)
  then show ?case
    using Cons [of "auto_resolve now f d"] by (auto simp: AutoResolveFindings_def auto_resolve_eq update_where_def)
qed (simp add: AutoResolveFindings_def update_where_def)

lemma set_finding_order: "set (finding_order fs) = set fs" "length (finding_order fs) = length fs"
  by (simp_all add: finding_order_def)

lemma set_ListFindings:
  assumes "fo_Limit opts = int n" "0 < n" "fo_Offset opts = 0" "CountFindingsFiltered d opts \<le> n"
  shows "set (ListFindings d opts) = set (filter (finding_where d opts) (db_findings d))"
  using assms by (simp add: ListFindings_def CountFindingsFiltered_def page_all set_finding_order)

section \<open>Properties\<close>

lemma changes_between_scans:
  fixes d d' :: db and t s :: string and fr :: "nat \<Rightarrow> string"
  defines "pre \<equiv> SnapshotAssets d t" and "post \<equiv> SnapshotAssets d' t"
  defines "cs \<equiv> ComputeChanges t s fr pre post False"
  assumes "uniq_ok d" "uniq_ok d'" "t \<noteq> []"
  shows "set (keys_of ChangeTypeAppeared cs) = asset_key ` set post - asset_key ` set pre"
    and "set (keys_of ChangeTypeDisappeared cs) = asset_key ` {p \<in> set pre. \<forall>q \<in> set post.
           asset_key q = asset_key p \<longrightarrow> as_LastSeen q = as_LastSeen p}"
    and "set (keys_of ChangeTypeModified cs) \<subseteq> asset_key ` {q \<in> set post. \<exists>p \<in> set pre.
           asset_key p = asset_key q \<and> as_LastSeen q \<noteq> as_LastSeen p}"
    and "distinct (keys_of ChangeTypeAppeared cs @ keys_of ChangeTypeDisappeared cs @ keys_of ChangeTypeModified cs)"
proof -
  have dp: "distinct (map asset_key pre)" "distinct (map asset_key post)"
    using snapshot_distinct assms(4-6) unfolding pre_def post_def by blast+
  note k = changes_of_scan [OF dp, of _ t s fr, folded cs_def]
  show a: "set (keys_of ChangeTypeAppeared cs) = asset_key ` set post - asset_key ` set pre"
    unfolding k ChangeType.case new_assets_def set_map set_filter by (rule image_minus)
  show g: "set (keys_of ChangeTypeDisappeared cs) = asset_key ` {p \<in> set pre. \<forall>q \<in> set post.
           asset_key q = asset_key p \<longrightarrow> as_LastSeen q = as_LastSeen p}"
    by (auto simp: k gone_def)
  show m: "set (keys_of ChangeTypeModified cs) \<subseteq> asset_key ` {q \<in> set post. \<exists>p \<in> set pre.
           asset_key p = asset_key q \<and> as_LastSeen q \<noteq> as_LastSeen p}"
    using modified_both by (force simp: k)
  have "distinct (keys_of ct cs)" for ct
    using dp by (cases ct) (auto simp: k new_assets_def gone_def distinct_map inj_on_def)
  moreover have "set (keys_of ChangeTypeDisappeared cs) \<inter> set (keys_of ChangeTypeModified cs) = {}"
  proof -
    have "p = p'" if "p \<in> set pre" "p' \<in> set pre" "asset_key p = asset_key p'" for p p'
      using that dp(1) by (meson distinct_map inj_onD)
    then have "k \<notin> set (keys_of ChangeTypeModified cs)" if "k \<in> set (keys_of ChangeTypeDisappeared cs)" for k
      using that m unfolding g by (smt (verit) imageE mem_Collect_eq subset_iff)
    then show ?thesis by blast
  qed
  moreover have "set (keys_of ChangeTypeDisappeared cs) \<subseteq> asset_key ` set pre" unfolding g by blast
  moreover have "set (keys_of ChangeTypeModified cs) \<subseteq> asset_key ` set pre"
    using m by (rule subset_trans) (auto simp: image_iff, metis)
  moreover have "set (keys_of ChangeTypeAppeared cs) \<inter> asset_key ` set pre = {}" unfolding a by blast
  ultimately show "distinct (keys_of ChangeTypeAppeared cs @ keys_of ChangeTypeDisappeared cs @ keys_of ChangeTypeModified cs)"
    unfolding distinct_append set_append by blast
qed


definition ex_moved_db :: db where
  "ex_moved_db = ex_scan_db\<lparr>db_assets := [ex_asset, ex_asset\<lparr>as_ID := ''a2'', as_Value := ''www.example.com''\<rparr>]\<rparr>"


text \<open>The end of a scan resolves findings of other targets. Resolving what a scan did not see sets
  to resolved exactly the open findings that were not observed under this scan, of whatever
  target: the target of the scan plays no role, so a scan of one target closes the open
  findings of all the others.\<close>

theorem unseen_open_findings_resolved:
  assumes u: "uniq_ok d" and s: "scanID \<noteq> []"
    and n1: "CountFindingsFiltered d (no_filter\<lparr>fo_Status := Some FindingStatusOpen\<rparr>) \<le> 10000"
    and n2: "CountFindingsFiltered d (no_filter\<lparr>fo_ScanID := scanID\<rparr>) \<le> 10000"
  shows "db_findings (AutoResolveFindings now (snd (ComputeFindingChanges d targetID scanID)) d) =
    map (\<lambda>f. if fi_Status f = FindingStatusOpen \<and> fi_ScanID f \<noteq> scanID then resolve_row now f else f) (db_findings d)"
proof -
  let ?open = "no_filter\<lparr>fo_Status := Some FindingStatusOpen, fo_Limit := 10000\<rparr>"
  let ?cur = "no_filter\<lparr>fo_ScanID := scanID, fo_Limit := 10000\<rparr>"
  have c: "CountFindingsFiltered d ?open \<le> 10000" "CountFindingsFiltered d ?cur \<le> 10000"
    using n1 n2 by (simp_all add: CountFindingsFiltered_def finding_where_def [abs_def])
  have o1: "set (ListFindings d ?open) = {f \<in> set (db_findings d). fi_Status f = FindingStatusOpen}"
    using set_ListFindings [of ?open 10000 d] c(1) by (auto simp: no_filter_def finding_where_def)
  have o2: "set (ListFindings d ?cur) = {f \<in> set (db_findings d). fi_ScanID f = scanID}"
    using set_ListFindings [of ?cur 10000 d] c(2) s by (auto simp: no_filter_def finding_where_def)
  have inj: "f = g" if "f \<in> set (db_findings d)" "g \<in> set (db_findings d)" "fi_ID f = fi_ID g \<or> finding_key f = finding_key g" for f g
    using that u by (auto simp: uniq_ok_def distinct_map inj_on_def)
  have "set (snd (ComputeFindingChanges d targetID scanID)) =
      {f \<in> set (db_findings d). fi_Status f = FindingStatusOpen \<and> fi_ScanID f \<noteq> scanID}" (is "_ = ?R")
    using inj by (auto simp: ComputeFindingChanges_def Let_def o1 o2)
  then have "fi_ID f \<in> fi_ID ` set (snd (ComputeFindingChanges d targetID scanID)) \<longleftrightarrow> f \<in> ?R" if "f \<in> set (db_findings d)" for f
    using inj that by (auto simp: image_iff) 
  then show ?thesis by (simp add: fold_resolve update_where_def)
qed

definition ex_two_targets :: db where
  "ex_two_targets = ex_scan_db\<lparr>db_targets := [ex_target, ex_target\<lparr>tg_ID := ''t2'', tg_Value := ''example.org''\<rparr>]\<rparr>"

lemma unseen_open_findings_resolved_witness:
  "map as_TargetID (db_assets ex_two_targets) = [''t1''] \<and>
   map fi_Status (db_findings (AutoResolveFindings 9 (snd (ComputeFindingChanges ex_two_targets ''t2'' ''s2'')) ex_two_targets))
     = [FindingStatusResolved]"
proof -
  have "uniq_ok ex_two_targets"
    "CountFindingsFiltered ex_two_targets (no_filter\<lparr>fo_Status := Some FindingStatusOpen\<rparr>) \<le> 10000"
    "CountFindingsFiltered ex_two_targets (no_filter\<lparr>fo_ScanID := ''s2''\<rparr>) \<le> 10000"
    "map as_TargetID (db_assets ex_two_targets) = [''t1'']" by code_simp+
  moreover have "db_findings ex_two_targets = [ex_finding]" by (simp add: ex_two_targets_def)
  ultimately show ?thesis
    using unseen_open_findings_resolved [of ex_two_targets "''s2''" 9 "''t2''"] by (simp add: resolve_row_def ex_finding_def)
qed

lemma target_state_counts:
  "ts_AssetsTotal (FinalizeTargetState d t) = int (length (live_assets d t))"
  "ts_FindingsOpenTotal (FinalizeTargetState d t) =
     int (length (filter (\<lambda>f. fi_Status f = FindingStatusOpen) (findings_of_target d t)))"
  "count_at (ts_AssetsByType (FinalizeTargetState d t)) ty = int (length (filter (\<lambda>a. as_Type a = ty) (live_assets d t)))"
  "count_at (ts_FindingsOpen (FinalizeTargetState d t)) sev = int (length (filter
     (\<lambda>f. fi_Severity f = sev \<and> fi_Status f = FindingStatusOpen) (findings_of_target d t)))"
  "counts_total (ts_PortsByStatus (FinalizeTargetState d t)) = count_at (ts_AssetsByType (FinalizeTargetState d t)) AssetTypePort"
  by (simp_all add: FinalizeTargetState_def Let_def counts_total_group count_at_group CountAssetsByTypeForTarget_def
      CountFindingsBySeverityForTarget_def CountPortsByStatusForTarget_def conj_commute)
    (simp add: counts_total_def)

text \<open>The totals of the target state. The state a scan stores for its target counts the live assets and
  the open findings of the target: every entry of the breakdowns is the number of rows of that
  kind and the totals are the sums over the kinds.\<close>

theorem target_state_totals:
  "ts_AssetsTotal (FinalizeTargetState d t) = int (length (live_assets d t)) \<and>
   ts_FindingsOpenTotal (FinalizeTargetState d t) =
     int (length (filter (\<lambda>f. fi_Status f = FindingStatusOpen) (findings_of_target d t))) \<and>
   count_at (ts_AssetsByType (FinalizeTargetState d t)) ty = int (length (filter (\<lambda>a. as_Type a = ty) (live_assets d t))) \<and>
   count_at (ts_FindingsOpen (FinalizeTargetState d t)) sev = int (length (filter
     (\<lambda>f. fi_Severity f = sev \<and> fi_Status f = FindingStatusOpen) (findings_of_target d t))) \<and>
   counts_total (ts_PortsByStatus (FinalizeTargetState d t)) = count_at (ts_AssetsByType (FinalizeTargetState d t)) AssetTypePort"
  by (intro conjI target_state_counts)

end
