(* ===== verification/LogSink.thy ===== *)
theory LogSink
  imports StoreInv "HOL-Library.Sublist"
begin

text \<open>
  The structured scan log: the lines of \<open>internal/pipeline/log_sink_sqlite.go\<close>, its bounded queue
  that drops the oldest line, the draining goroutine as interleaved steps, and the table
  \<open>scan_logs\<close> of \<open>internal/storage/scan_logs.go\<close>. A level is never empty here. The channel, the
  ticker and the stop signal are the guards of the steps.
\<close>

section \<open>The log table\<close>

record ScanLogListOptions =
  lo_ScanID :: string
  lo_Since :: int
  lo_Limit :: int
  lo_Level :: "LogLevel list"
  lo_Source :: "string list"
  lo_ToolRunID :: string

definition log_row :: "ScanLog \<Rightarrow> ScanLog" where
  "log_row l = l\<lparr>lg_Timestamp := lg_Timestamp l div 1000000 * 1000000\<rparr>"

definition InsertScanLogs :: "ScanLog list \<Rightarrow> db \<Rightarrow> (store_error, db) result" where
  "InsertScanLogs logs d =
     (if logs = [] then Inr d
      else if list_all (\<lambda>l. has_scan d (Some (lg_ScanID l))) logs
      then Inr (d\<lparr>db_logs := db_logs d @ map (\<lambda>(i, l). (log_row l)\<lparr>lg_ID := db_log_seq d + 1 + int i\<rparr>) (enumerate 0 logs),
                  db_log_seq := db_log_seq d + int (length logs)\<rparr>)
      else Inl ErrConstraint)"

definition log_where :: "ScanLogListOptions \<Rightarrow> ScanLog \<Rightarrow> bool" where
  "log_where opts l =
     (lg_ScanID l = lo_ScanID opts \<and> (lo_Since opts > 0 \<longrightarrow> lg_ID l > lo_Since opts) \<and>
      (lo_Level opts = [] \<or> lg_Level l \<in> set (lo_Level opts)) \<and>
      (lo_Source opts = [] \<or> lg_Source l \<in> set (lo_Source opts)) \<and>
      (lo_ToolRunID opts = [] \<or> lg_ToolRunID l = lo_ToolRunID opts))"

definition ListScanLogs :: "db \<Rightarrow> ScanLogListOptions \<Rightarrow> (store_error, ScanLog list) result" where
  "ListScanLogs d opts =
     (if lo_ScanID opts = [] then Inl (ErrInput ''scan_id required'')
      else Inr (take (nat (if lo_Limit opts \<le> 0 then 200 else lo_Limit opts))
                  (sort_key lg_ID (filter (log_where opts) (db_logs d)))))"

definition CountScanLogs :: "db \<Rightarrow> string \<Rightarrow> (store_error, int) result" where
  "CountScanLogs d i =
     (if i = [] then Inl (ErrInput ''scan_id required'')
      else Inr (int (length (filter (\<lambda>l. lg_ScanID l = i) (db_logs d)))))"

text \<open>The part of a timestamp below the second in the format \<open>RFC3339Nano\<close>: nothing for a whole second,
  else the digits without trailing zeros; then the zone. The part above the second has a fixed
  width, so comparing two texts compares the seconds first.\<close>

definition nine_digits :: "nat \<Rightarrow> string" where
  "nine_digits n = map (\<lambda>k. digit (n div 10 ^ (8 - k) mod 10)) [0..<9]"

definition frac_text :: "time \<Rightarrow> string" where
  "frac_text t = (let ns = nat (t mod second) in
     if ns = 0 then ''Z'' else ''.'' @ rev (dropWhile (\<lambda>c. c = CHR ''0'') (rev (nine_digits ns))) @ ''Z'')"

definition text_before :: "time \<Rightarrow> time \<Rightarrow> bool" where
  "text_before a b = (a div second < b div second \<or> a div second = b div second \<and> frac_text a < frac_text b)"

definition PruneScanLogsOlderThan :: "time \<Rightarrow> db \<Rightarrow> db \<times> int" where
  "PruneScanLogsOlderThan cutoff d =
     (d\<lparr>db_logs := filter (\<lambda>l. \<not> text_before (lg_CreatedAt l) cutoff) (db_logs d)\<rparr>,
      int (length (filter (\<lambda>l. text_before (lg_CreatedAt l) cutoff) (db_logs d))))"

section \<open>The lines\<close>

fun ScanType_text :: "ScanType \<Rightarrow> string" where
  "ScanType_text ScanTypeFull = ''full''"
| "ScanType_text ScanTypeQuick = ''quick''"
| "ScanType_text ScanTypeDiscovery = ''discovery''"

definition mid_dot :: string where
  "mid_dot = [CHR '' '', CHR 0xC2, CHR 0xB7, CHR '' '']"

definition log_line :: "string \<Rightarrow> string \<Rightarrow> string \<Rightarrow> LogLevel \<Rightarrow> string \<Rightarrow> ScanLog" where
  "log_line scanID toolRunID source level text =
     \<lparr>lg_ID = 0, lg_ScanID = scanID, lg_ToolRunID = toolRunID, lg_Timestamp = zero_time, lg_Source = source,
      lg_Level = level, lg_Text = text, lg_CreatedAt = zero_time\<rparr>"

definition sink_ScanStarted :: "string \<Rightarrow> string \<Rightarrow> ScanType \<Rightarrow> ScanLog list" where
  "sink_ScanStarted scanID target scanType = [log_line scanID [] ''scanner'' LogLevelInfo
     (''scan started'' @ mid_dot @ ''target='' @ target @ '' type='' @ ScanType_text scanType)]"

definition sink_ScanCompleted :: "string \<Rightarrow> int \<Rightarrow> ScanLog list" where
  "sink_ScanCompleted scanID ms = [log_line scanID [] ''scanner'' LogLevelInfo (''scan completed in '' @ Itoa ms @ ''ms'')]"

definition sink_ScanFailed :: "string \<Rightarrow> string \<Rightarrow> ScanLog list" where
  "sink_ScanFailed scanID msg = [log_line scanID [] ''scanner'' LogLevelError (''scan failed: '' @ msg)]"

definition sink_ScanCancelled :: "string \<Rightarrow> string \<Rightarrow> ScanLog list" where
  "sink_ScanCancelled scanID reason = [log_line scanID [] ''scanner'' LogLevelWarn
     (if reason \<noteq> [] then ''scan canceled: '' @ reason else ''scan canceled'')]"

definition sink_PhaseStarted :: "string \<Rightarrow> string \<Rightarrow> string \<Rightarrow> ScanLog list" where
  "sink_PhaseStarted scanID phase tool = [log_line scanID [] ''scanner'' LogLevelInfo
     (''phase='' @ phase @ '' starting ('' @ tool @ '')'')]"

definition sink_ToolStarted :: "string \<Rightarrow> string \<Rightarrow> string \<Rightarrow> string \<Rightarrow> int \<Rightarrow> ScanLog list" where
  "sink_ToolStarted scanID runID tool phase inputCount = [log_line scanID runID tool LogLevelInfo
     (''tool started'' @ mid_dot @ ''phase='' @ phase @ '' inputs='' @ Itoa inputCount)]"

definition sink_ToolCompleted :: "string \<Rightarrow> string \<Rightarrow> string \<Rightarrow> int \<Rightarrow> int \<Rightarrow> string \<Rightarrow> ScanLog list" where
  "sink_ToolCompleted scanID runID tool ms outputCount summary = [log_line scanID runID tool LogLevelInfo
     (''tool completed in '' @ Itoa ms @ ''ms'' @ mid_dot @ ''outputs='' @ Itoa outputCount @
      (if summary \<noteq> [] then mid_dot @ summary else []))]"

definition sink_ToolFailed :: "string \<Rightarrow> string \<Rightarrow> string \<Rightarrow> string \<Rightarrow> ScanLog list" where
  "sink_ToolFailed scanID runID tool msg = [log_line scanID runID tool LogLevelError (''tool failed: '' @ msg)]"

definition sink_ToolSkipped :: "string \<Rightarrow> string \<Rightarrow> string \<Rightarrow> ScanLog list" where
  "sink_ToolSkipped scanID tool reason = [log_line scanID [] tool LogLevelInfo
     (if reason \<noteq> [] then ''tool skipped: '' @ reason else ''tool skipped'')]"

definition sink_ToolStderr :: "string \<Rightarrow> string \<Rightarrow> string \<Rightarrow> string \<Rightarrow> ScanLog list" where
  "sink_ToolStderr scanID runID tool line =
     (if line = [] then [] else [log_line scanID runID tool LogLevelWarn line])"

definition sink_Emit :: "string \<Rightarrow> LogLevel \<Rightarrow> string \<Rightarrow> string \<Rightarrow> ScanLog list" where
  "sink_Emit scanID level source text = [log_line scanID [] (if source = [] then ''scanner'' else source) level text]"

text \<open>\<open>stripANSI\<close>: every match of ESC, an opening bracket, digits and semicolons, and a letter goes.\<close>

fun csi_rest :: "string \<Rightarrow> string option" where
  "csi_rest [] = None"
| "csi_rest (c # cs) =
     (if is_digit c \<or> c = CHR '';'' then csi_rest cs else if is_letter c then Some cs else None)"

definition csi :: "string \<Rightarrow> string option" where
  "csi s = (case s of c # b # cs \<Rightarrow> if c = CHR 0x1B \<and> b = CHR ''['' then csi_rest cs else None | _ \<Rightarrow> None)"

lemma csi_rest_length: "csi_rest s = Some r \<Longrightarrow> length r < length s"
  by (induction s) (auto split: if_splits)

lemma csi_length: "csi s = Some r \<Longrightarrow> length r < length s"
  by (auto simp: csi_def split: list.splits if_splits dest: csi_rest_length)

function stripANSI :: "string \<Rightarrow> string" where
  "stripANSI [] = []"
| "stripANSI (c # cs) = (case csi (c # cs) of Some r \<Rightarrow> stripANSI r | None \<Rightarrow> c # stripANSI cs)"
  by pat_completeness auto
termination by (relation "measure length") (auto dest: csi_length)

section \<open>The queue and its goroutine\<close>

datatype sink_msg = ChannelFull int | InsertFailed nat

record sink =
  sk_ch :: "ScanLog list"
  sk_cap :: nat
  sk_batch :: "ScanLog list"
  sk_batchSize :: nat
  sk_stop :: bool
  sk_draining :: bool
  sk_done :: bool
  sk_dropped :: int
  sk_lastWarn :: int
  sk_msgs :: "sink_msg list"
  sk_db :: db

definition NewSQLiteLogSink :: "db \<Rightarrow> int \<Rightarrow> int \<Rightarrow> sink" where
  "NewSQLiteLogSink d capacity batch =
     \<lparr>sk_ch = [], sk_cap = nat (if capacity \<le> 0 then 1000 else capacity), sk_batch = [],
      sk_batchSize = nat (if batch \<le> 0 then 50 else batch), sk_stop = False, sk_draining = False, sk_done = False,
      sk_dropped = 0, sk_lastWarn = 0, sk_msgs = [], sk_db = d\<rparr>"

definition warnOnDrop :: "time \<Rightarrow> sink \<Rightarrow> sink" where
  "warnOnDrop now s =
     (if now div second - sk_lastWarn s \<ge> 60
      then s\<lparr>sk_lastWarn := now div second, sk_msgs := sk_msgs s @ [ChannelFull (sk_dropped s)]\<rparr> else s)"

definition prepared_line :: "time \<Rightarrow> ScanLog \<Rightarrow> ScanLog" where
  "prepared_line now l =
     (let created = (if lg_CreatedAt l = zero_time then now else lg_CreatedAt l) in
      l\<lparr>lg_Text := stripANSI (lg_Text l), lg_CreatedAt := created,
        lg_Timestamp := (if lg_Timestamp l = zero_time then created else lg_Timestamp l)\<rparr>)"

definition drop_oldest :: "sink \<Rightarrow> sink" where
  "drop_oldest s = (case sk_ch s of [] \<Rightarrow> s | _ # ls \<Rightarrow> s\<lparr>sk_ch := ls, sk_dropped := sk_dropped s + 1\<rparr>)"

partial_function (option) send_loop :: "time \<Rightarrow> ScanLog \<Rightarrow> sink \<Rightarrow> sink option" where
  [code]: "send_loop now l s =
     (if length (sk_ch s) < sk_cap s then Some (s\<lparr>sk_ch := sk_ch s @ [l]\<rparr>)
      else send_loop now l (warnOnDrop now (drop_oldest s)))"

definition enqueue :: "time \<Rightarrow> ScanLog \<Rightarrow> sink \<Rightarrow> sink option" where
  "enqueue now l s = send_loop now (prepared_line now l) s"

definition flush :: "sink \<Rightarrow> sink" where
  "flush s =
     (if sk_batch s = [] then s
      else case InsertScanLogs (sk_batch s) (sk_db s) of
          Inl _ \<Rightarrow> s\<lparr>sk_batch := [], sk_msgs := sk_msgs s @ [InsertFailed (length (sk_batch s))]\<rparr>
        | Inr d \<Rightarrow> s\<lparr>sk_batch := [], sk_db := d\<rparr>)"

definition receive :: "sink \<Rightarrow> sink" where
  "receive s =
     (case sk_ch s of
        [] \<Rightarrow> s
      | l # ls \<Rightarrow>
          let s = s\<lparr>sk_ch := ls, sk_batch := sk_batch s @ [l]\<rparr> in
          if length (sk_batch s) \<ge> sk_batchSize s then flush s else s)"

text \<open>One step of the callers or of the goroutine; the label holds the line a caller handed over. The
  last step is the rest of the program, which may delete stored lines but not add any.\<close>

inductive sink_step :: "sink \<Rightarrow> ScanLog list \<Rightarrow> sink \<Rightarrow> bool" where
  step_enqueue: "enqueue now l s = Some s' \<Longrightarrow> sink_step s [prepared_line now l] s'"
| step_receive: "\<not> sk_done s \<Longrightarrow> sk_ch s \<noteq> [] \<Longrightarrow> sink_step s [] (receive s)"
| step_tick: "\<not> sk_done s \<Longrightarrow> \<not> sk_draining s \<Longrightarrow> sink_step s [] (flush s)"
| step_stop: "sk_stop s \<Longrightarrow> \<not> sk_done s \<Longrightarrow> sink_step s [] (s\<lparr>sk_draining := True\<rparr>)"
| step_exit: "sk_draining s \<Longrightarrow> \<not> sk_done s \<Longrightarrow> sk_ch s = [] \<Longrightarrow> sink_step s [] ((flush s)\<lparr>sk_done := True\<rparr>)"
| step_close: "sink_step s [] (s\<lparr>sk_stop := True\<rparr>)"
| step_store: "subseq (db_logs d) (db_logs (sk_db s)) \<Longrightarrow> db_log_seq d = db_log_seq (sk_db s) \<Longrightarrow>
    sink_step s [] (s\<lparr>sk_db := d\<rparr>)"

inductive sink_run :: "sink \<Rightarrow> ScanLog list \<Rightarrow> sink \<Rightarrow> bool" where
  run_start: "sink_run s [] s"
| run_step: "sink_run s ls s' \<Longrightarrow> sink_step s' ks s'' \<Longrightarrow> sink_run s (ls @ ks) s''"

section \<open>Lemmas\<close>

lemma enqueue_cases:
  assumes "0 < sk_cap s" "length (sk_ch s) \<le> sk_cap s"
  shows "enqueue now l s = Some (
    if length (sk_ch s) < sk_cap s then s\<lparr>sk_ch := sk_ch s @ [prepared_line now l]\<rparr>
    else let s1 = warnOnDrop now (drop_oldest s) in s1\<lparr>sk_ch := tl (sk_ch s) @ [prepared_line now l]\<rparr>)"
proof (cases "length (sk_ch s) < sk_cap s")
  case True
  then show ?thesis by (simp add: enqueue_def send_loop.simps)
next
  case False
  then obtain x xs where x: "sk_ch s = x # xs" using assms by (cases "sk_ch s") auto
  let ?s = "warnOnDrop now (drop_oldest s)"
  have "sk_ch ?s = xs" "sk_cap ?s = sk_cap s" by (simp_all add: warnOnDrop_def drop_oldest_def x)
  moreover have "length xs < sk_cap s" using False assms x by simp
  ultimately have "send_loop now m ?s = Some (?s\<lparr>sk_ch := xs @ [m]\<rparr>)" for m by (simp add: send_loop.simps)
  then show ?thesis using False x by (simp add: enqueue_def send_loop.simps [of now _ s])
qed

fun failed_lines :: "sink_msg \<Rightarrow> int" where
  "failed_lines (ChannelFull n) = 0"
| "failed_lines (InsertFailed n) = int n"

definition lost_lines :: "sink \<Rightarrow> int" where
  "lost_lines s = sk_dropped s + sum_list (map failed_lines (sk_msgs s))"

definition log_view :: "ScanLog \<Rightarrow> ScanLog" where
  "log_view l = (log_row l)\<lparr>lg_ID := 0\<rparr>"

definition sink_view :: "sink \<Rightarrow> ScanLog list" where
  "sink_view s = map log_view (db_logs (sk_db s) @ sk_batch s @ sk_ch s)"

lemma view_row: "log_view ((log_row l)\<lparr>lg_ID := i\<rparr>) = log_view l"
  by (simp add: log_view_def log_row_def)

lemma map_view_rows: "map log_view (map (\<lambda>(i, l). (log_row l)\<lparr>lg_ID := n + int i\<rparr>) (enumerate k ls)) = map log_view ls"
  by (rule nth_equalityI) (simp_all add: nth_enumerate_eq view_row)

lemma Insert_cases:
  assumes "InsertScanLogs ls d = Inr d'"
  shows "map log_view (db_logs d') = map log_view (db_logs d @ ls) \<and> db_log_seq d' = db_log_seq d + int (length ls)"
  using assms map_view_rows [of "db_log_seq d + 1"]
  by (auto simp: InsertScanLogs_def split: if_splits)

lemma flush_frame [simp]: "sk_ch (flush s) = sk_ch s" "sk_cap (flush s) = sk_cap s" "sk_batchSize (flush s) = sk_batchSize s"
  "sk_done (flush s) = sk_done s" "sk_dropped (flush s) = sk_dropped s" "sk_batch (flush s) = []"
  by (auto simp: flush_def split: sum.splits)

lemma flush_account:
  "lost_lines (flush s) + db_log_seq (sk_db (flush s)) = lost_lines s + db_log_seq (sk_db s) + int (length (sk_batch s))"
  by (auto simp: flush_def lost_lines_def split: sum.splits dest: Insert_cases)

lemma flush_view: "subseq (sink_view (flush s)) (sink_view s)"
proof (cases "InsertScanLogs (sk_batch s) (sk_db s)")
  case (Inl e)
  have "subseq (db_logs (sk_db s) @ sk_ch s) (db_logs (sk_db s) @ sk_batch s @ sk_ch s)"
    by (intro list_emb_append_mono) (auto intro: subseq_drop_many)
  then show ?thesis using Inl by (auto simp: flush_def sink_view_def simp flip: map_append intro: subseq_map)
next
  case (Inr d)
  show ?thesis using Insert_cases [OF Inr] Inr by (auto simp: flush_def sink_view_def)
qed

text \<open>What holds of the sink after the lines \<open>ls\<close> were handed over.\<close>

definition sink_inv :: "db \<Rightarrow> ScanLog list \<Rightarrow> sink \<Rightarrow> bool" where
  "sink_inv d ls s \<longleftrightarrow>
     0 < sk_cap s \<and> length (sk_ch s) \<le> sk_cap s \<and> length (sk_batch s) < sk_batchSize s \<and>
     (sk_done s \<longrightarrow> sk_batch s = []) \<and>
     int (length ls) = lost_lines s + (db_log_seq (sk_db s) - db_log_seq d) + int (length (sk_batch s)) + int (length (sk_ch s)) \<and>
     subseq (sink_view s) (map log_view (db_logs d @ ls))"

lemma sink_inv_start: "sink_inv d [] (NewSQLiteLogSink d c b)"
  by (simp add: sink_inv_def NewSQLiteLogSink_def lost_lines_def sink_view_def)

lemma drop_frame [simp]: "sk_cap (warnOnDrop now (drop_oldest s)) = sk_cap s" "sk_batch (warnOnDrop now (drop_oldest s)) = sk_batch s"
  "sk_batchSize (warnOnDrop now (drop_oldest s)) = sk_batchSize s" "sk_done (warnOnDrop now (drop_oldest s)) = sk_done s"
  "sk_db (warnOnDrop now (drop_oldest s)) = sk_db s"
  by (simp_all add: warnOnDrop_def drop_oldest_def split: list.splits)

lemma drop_account: "sk_ch s \<noteq> [] \<Longrightarrow> lost_lines ((warnOnDrop now (drop_oldest s))\<lparr>sk_ch := c\<rparr>) = lost_lines s + 1"
  by (auto simp: warnOnDrop_def drop_oldest_def lost_lines_def split: list.splits)

lemma sink_inv_enqueue:
  assumes "sink_inv d ls s" "enqueue now l s = Some s'"
  shows "sink_inv d (ls @ [prepared_line now l]) s'"
proof -
  let ?l = "prepared_line now l"
  note inv = assms(1) [unfolded sink_inv_def]
  have s': "s' = (if length (sk_ch s) < sk_cap s then s\<lparr>sk_ch := sk_ch s @ [?l]\<rparr>
      else (warnOnDrop now (drop_oldest s))\<lparr>sk_ch := tl (sk_ch s) @ [?l]\<rparr>)"
    using enqueue_cases [of s now l] inv assms(2) by (simp add: Let_def)
  have tl: "subseq (tl (sk_ch s)) (sk_ch s)" by (cases "sk_ch s") auto
  have v: "subseq (sink_view s') (sink_view s @ [log_view ?l])"
    using tl by (auto simp: s' sink_view_def intro!: list_emb_append_mono subseq_map)
  have "subseq (sink_view s @ [log_view ?l]) (map log_view (db_logs d @ ls) @ [log_view ?l])"
    using inv by (intro list_emb_append_mono) simp_all
  with v have sub: "subseq (sink_view s') (map log_view (db_logs d @ ls @ [?l]))"
    using subseq_order.order_trans by auto
  show ?thesis
  proof (cases "length (sk_ch s) < sk_cap s")
    case True
    then show ?thesis using inv sub by (simp add: sink_inv_def s' lost_lines_def)
  next
    case False
    then have "sk_ch s \<noteq> []" using inv by auto
    then show ?thesis using inv sub False by (simp add: sink_inv_def s' drop_account) 
  qed
qed

lemma receive_cases:
  assumes "sk_ch s = l # ls"
  shows "receive s = (let t = s\<lparr>sk_ch := ls, sk_batch := sk_batch s @ [l]\<rparr> in
    if length (sk_batch s) + 1 \<ge> sk_batchSize s then flush t else t)"
  using assms by (simp add: receive_def Let_def)

lemma sink_inv_flush: "sink_inv d ls s \<Longrightarrow> sink_inv d ls (flush s)"
  using flush_account [of s] subseq_order.order_trans [OF flush_view [of s]] by (auto simp: sink_inv_def)

lemma sink_inv_receive:
  assumes "sink_inv d ls s" "\<not> sk_done s"
  shows "sink_inv d ls (receive s)"
proof (cases "sk_ch s")
  case Nil
  then show ?thesis using assms by (simp add: receive_def)
next
  case (Cons x xs)
  let ?t = "s\<lparr>sk_ch := xs, sk_batch := sk_batch s @ [x]\<rparr>"
  have v: "sink_view ?t = sink_view s" "lost_lines ?t = lost_lines s" by (simp_all add: sink_view_def Cons lost_lines_def)
  show ?thesis
  proof (cases "length (sk_batch s) + 1 \<ge> sk_batchSize s")
    case True
    have "subseq (sink_view (flush ?t)) (map log_view (db_logs d @ ls))"
      using flush_view [of ?t] assms(1) subseq_order.order_trans unfolding v sink_inv_def by blast
    then show ?thesis using True assms flush_account [of ?t] by (auto simp: receive_cases [OF Cons] sink_inv_def v Cons)
  next
    case False
    then show ?thesis using assms v by (simp add: receive_cases [OF Cons] sink_inv_def Cons)
  qed
qed

lemma sink_inv_step: "sink_step s ks s' \<Longrightarrow> sink_inv d ls s \<Longrightarrow> sink_inv d (ls @ ks) s'"
proof (induction rule: sink_step.induct)
  case (step_exit s)
  then show ?case using sink_inv_flush [of d ls s] by (simp add: sink_inv_def lost_lines_def sink_view_def)
next
  case (step_store d' s)
  have "subseq (sink_view (s\<lparr>sk_db := d'\<rparr>)) (sink_view s)"
    using step_store(1) by (auto simp: sink_view_def intro!: list_emb_append_mono subseq_map)
  then show ?case using step_store subseq_order.order_trans by (auto simp: sink_inv_def lost_lines_def)
qed (simp_all add: sink_inv_enqueue sink_inv_receive sink_inv_flush, auto simp: sink_inv_def lost_lines_def sink_view_def)

lemma sink_inv_run: "sink_run s ls s' \<Longrightarrow> sink_inv d [] s \<Longrightarrow> sink_inv d ls s'"
  by (induction rule: sink_run.induct) (auto dest: sink_inv_step)

lemma sink_inv_reach: "sink_run (NewSQLiteLogSink d c b) ls s \<Longrightarrow> sink_inv d ls s"
  using sink_inv_run sink_inv_start by blast

lemma prune_within_second:
  "l \<in> set (db_logs (fst (PruneScanLogsOlderThan cutoff d))) \<longleftrightarrow>
     l \<in> set (db_logs d) \<and> (lg_CreatedAt l div second > cutoff div second \<or>
       lg_CreatedAt l div second = cutoff div second \<and> frac_text cutoff \<le> frac_text (lg_CreatedAt l))"
  by (auto simp: PruneScanLogsOlderThan_def text_before_def)

text \<open>A line that is half a second younger than the cutoff is deleted: a point sorts before the zone letter.\<close>

lemma prune_deletes_younger_line:
  assumes "l \<in> set (db_logs d)" "lg_CreatedAt l = second div 2"
  shows "0 < lg_CreatedAt l \<and> l \<notin> set (db_logs (fst (PruneScanLogsOlderThan 0 d)))"
proof -
  have "frac_text (second div 2) = ''.'' @ rev (dropWhile (\<lambda>c. c = CHR ''0'') (rev (nine_digits 500000000))) @ ''Z''"
    "frac_text 0 = ''Z''" by (simp_all add: frac_text_def second_def)
  then have "text_before (second div 2) 0" by (simp add: text_before_def second_def less_char_def)
  with assms show ?thesis by (simp add: PruneScanLogsOlderThan_def second_def)
qed

text \<open>One line of a deleted scan makes the whole batch fail, with the lines of the other scans.\<close>

lemma foreign_line_loses_batch:
  assumes "l \<in> set (sk_batch s)" "\<not> has_scan (sk_db s) (Some (lg_ScanID l))"
  shows "sk_db (flush s) = sk_db s \<and> sk_batch (flush s) = [] \<and> lost_lines (flush s) = lost_lines s + int (length (sk_batch s))"
proof -
  have "sk_batch s \<noteq> []" "InsertScanLogs (sk_batch s) (sk_db s) = Inl ErrConstraint"
    using assms by (auto simp: InsertScanLogs_def list_all_iff)
  then show ?thesis by (simp add: flush_def lost_lines_def)
qed

lemma stripANSI_plain: "CHR 0x1B \<notin> set s \<Longrightarrow> stripANSI s = s"
proof (induction s)
  case (Cons c cs)
  then have "csi (c # cs) = None" by (auto simp: csi_def split: list.splits)
  with Cons show ?case by simp
qed simp

section \<open>Properties\<close>


definition ex_log_line :: ScanLog where
  "ex_log_line = prepared_line 7 (log_line ''s1'' [] ''scanner'' LogLevelInfo ''hello'')"

definition ex_full_sink :: sink where
  "ex_full_sink = (warnOnDrop 7 (drop_oldest ((NewSQLiteLogSink empty_db 1 9)\<lparr>sk_ch := [ex_log_line]\<rparr>)))\<lparr>sk_ch := [ex_log_line]\<rparr>"

lemma ex_full_sink_simps: "sk_dropped ex_full_sink = 1" "sk_ch ex_full_sink = [ex_log_line]"
  by (simp_all add: ex_full_sink_def NewSQLiteLogSink_def drop_oldest_def warnOnDrop_def)

lemma ex_sink_full: "sink_run (NewSQLiteLogSink empty_db 1 9) [ex_log_line, ex_log_line] ex_full_sink"
proof -
  let ?s = "NewSQLiteLogSink empty_db 1 9" and ?l = "log_line ''s1'' [] ''scanner'' LogLevelInfo ''hello''"
  let ?s1 = "?s\<lparr>sk_ch := [ex_log_line]\<rparr>"
  have e1: "enqueue 7 ?l ?s = Some ?s1"
    by (subst enqueue_cases) (simp_all add: NewSQLiteLogSink_def ex_log_line_def)
  have e2: "enqueue 7 ?l ?s1 = Some ((warnOnDrop 7 (drop_oldest ?s1))\<lparr>sk_ch := [ex_log_line]\<rparr>)"
    by (subst enqueue_cases) (simp_all add: NewSQLiteLogSink_def ex_log_line_def Let_def)
  show ?thesis
    using run_step [OF run_step [OF run_start step_enqueue [OF e1]] step_enqueue [OF e2]]
    by (simp add: ex_log_line_def ex_full_sink_def)
qed


text \<open>Order of the stored log. The stored lines followed by the batch and the queue are, apart from their
  identifiers, a subsequence of the lines stored before and the lines handed over since: lines
  may be missing but never change places, and none is stored twice.\<close>

theorem sink_keeps_order:
  assumes "sink_run (NewSQLiteLogSink d c b) ls s"
  shows "subseq (map log_view (db_logs (sk_db s) @ sk_batch s @ sk_ch s)) (map log_view (db_logs d @ ls))"
  using sink_inv_reach [OF assms] by (simp add: sink_inv_def sink_view_def)

lemma sink_keeps_order_witness:
  "sk_ch ex_full_sink = [ex_log_line] \<and> subseq (map log_view (db_logs (sk_db ex_full_sink) @ sk_batch ex_full_sink @ sk_ch ex_full_sink))
     (map log_view [ex_log_line, ex_log_line])"
  using sink_keeps_order [OF ex_sink_full] by (simp add: ex_full_sink_simps empty_db_def)



end
