(* ===== verification/Pipeline.thy ===== *)
theory Pipeline
  imports Diff LogSink Net
begin

text \<open>
  The scan pipeline, \<open>internal/pipeline/pipeline.go\<close>. The world around a run is an oracle that is asked
  in the order of the calls: at call \<open>n\<close> it gives the clock, a new identifier, whether the
  context has ended, what other processes did to the database before the call, the outcome of
  a detection tool and the order in which a Go map is walked. A store call with an ended
  context fails and changes nothing. The polling goroutine only ends the context of a running
  tool, so it is part of the outcome of the tool. Terminal output is left out.
\<close>

section \<open>Options and results\<close>

record PipelineOptions =
  po_ScanType :: "ScanType option"
  po_Tools :: "string list"
  po_RateLimit :: int
  po_Timeout :: int
  po_ToolConfig :: ToolConfig

record RunOptions =
  ro_RateLimit :: int
  ro_Timeout :: int
  ro_ExtraArgs :: "(string \<times> string) list"
  ro_NucleiParams :: "NucleiParams option"
  ro_NaabuParams :: "NaabuParams option"
  ro_HttpxParams :: "HttpxParams option"
  ro_SubfinderParams :: "SubfinderParams option"
  ro_DnsxParams :: "DnsxParams option"

record DetectionTool =
  dt_Name :: string
  dt_Phase :: string

text \<open>An emitted asset carries its status apart: \<open>None\<close> is the empty status.\<close>

record RunResult =
  rr_Assets :: "(AssetStatus option \<times> Asset) list"
  rr_Findings :: "Finding list"
  rr_ToolRun :: ToolRun

datatype tool_outcome = ToolOk RunResult | ToolErr string "RunResult option"

record PhaseResult =
  ph_ToolName :: string
  ph_Phase :: string
  ph_Status :: string
  ph_DurationMs :: int
  ph_InputCount :: int
  ph_OutputCount :: int
  ph_Error :: string

record PipelineResult =
  pr_ScanID :: string
  pr_Target :: string
  pr_Type :: ScanType
  pr_Duration :: duration
  pr_TargetState :: TargetState
  pr_Delta :: ScanDelta
  pr_Work :: ScanWork
  pr_Phases :: "PhaseResult list"

datatype pipeline_error =
    ErrCreatingScan "store_error option"
  | ErrGettingTarget
  | ErrContext
  | ErrScanCancelled
  | ErrToolFailed string string

definition set_params :: "(json \<Rightarrow> 'p option) \<Rightarrow> ('p \<Rightarrow> RunOptions) \<Rightarrow> RunOptions \<Rightarrow> json \<Rightarrow> RunOptions" where
  "set_params decode upd opts raw = (case decode raw of None \<Rightarrow> opts | Some p \<Rightarrow> upd p)"

definition applyToolConfig :: "RunOptions \<Rightarrow> string \<Rightarrow> ToolConfig \<Rightarrow> RunOptions" where
  "applyToolConfig opts toolName tc =
     (case map_of tc toolName of
        None \<Rightarrow> opts
      | Some raw \<Rightarrow>
          if raw = JBad [] then opts
          else if toolName = ''nuclei'' then set_params decode_nuclei (\<lambda>p. opts\<lparr>ro_NucleiParams := Some p\<rparr>) opts raw
          else if toolName = ''naabu'' then set_params decode_naabu (\<lambda>p. opts\<lparr>ro_NaabuParams := Some p\<rparr>) opts raw
          else if toolName = ''httpx'' then set_params decode_httpx (\<lambda>p. opts\<lparr>ro_HttpxParams := Some p\<rparr>) opts raw
          else if toolName = ''subfinder'' then set_params decode_subfinder (\<lambda>p. opts\<lparr>ro_SubfinderParams := Some p\<rparr>) opts raw
          else if toolName = ''dnsx'' then set_params decode_dnsx (\<lambda>p. opts\<lparr>ro_DnsxParams := Some p\<rparr>) opts raw
          else opts)"

section \<open>Helpers on inputs and results\<close>

definition selectTools :: "DetectionTool list \<Rightarrow> PipelineOptions \<Rightarrow> DetectionTool list" where
  "selectTools allTools opts =
     (if po_Tools opts = [] then allTools else filter (\<lambda>t. dt_Name t \<in> set (po_Tools opts)) allTools)"

definition shouldSkip :: "DetectionTool \<Rightarrow> ScanType \<Rightarrow> bool" where
  "shouldSkip tool ty =
     (case ty of
        ScanTypeDiscovery \<Rightarrow> dt_Phase tool \<noteq> ''discovery'' \<and> dt_Phase tool \<noteq> ''resolution''
      | ScanTypeQuick \<Rightarrow> dt_Phase tool = ''port_scan''
      | ScanTypeFull \<Rightarrow> False)"

definition isHardFailure :: "DetectionTool \<Rightarrow> bool" where
  "isHardFailure tool = (dt_Phase tool = ''discovery'')"

text \<open>The rest of a text after the first occurrence of a pattern, and what precedes the last occurrence
  of a character.\<close>

fun cut_after :: "string \<Rightarrow> string \<Rightarrow> string option" where
  "cut_after p [] = (if p = [] then Some [] else None)"
| "cut_after p (c # cs) = (if HasPrefix (c # cs) p then Some (drop (length p) (c # cs)) else cut_after p cs)"

definition before_last :: "char \<Rightarrow> string \<Rightarrow> string option" where
  "before_last c s = (if c \<in> set s then Some (rev (drop 1 (dropWhile (\<lambda>x. x \<noteq> c) (rev s)))) else None)"

definition or_else :: "'a option \<Rightarrow> 'a \<Rightarrow> 'a" where
  "or_else m x = (case m of None \<Rightarrow> x | Some y \<Rightarrow> y)"

definition isIPBasedURL :: "string \<Rightarrow> bool" where
  "isIPBasedURL u =
     (let host = or_else (cut_after ''://'' u) u;
          host = or_else (before_last CHR '':'' host) host;
          host = takeWhile (\<lambda>c. c \<noteq> CHR ''/'') host in
      ParseIP host)"

definition TrimSuffix :: "string \<Rightarrow> string \<Rightarrow> string" where
  "TrimSuffix s p = (if HasSuffix s p then take (length s - length p) s else s)"

definition ipFromHostport :: "string \<Rightarrow> string" where
  "ipFromHostport hp =
     (let body = TrimSuffix hp ''/tcp'' in
      if HasPrefix body ''['' then (case before_last CHR '']'' body of None \<Rightarrow> [] | Some b \<Rightarrow> drop 1 b)
      else or_else (before_last CHR '':'' body) [])"

definition enrichHostports :: "string list \<Rightarrow> (string \<times> string) list \<Rightarrow> string list" where
  "enrichHostports hostports ipToHostname =
     (if ipToHostname = [] then hostports
      else map (\<lambda>hp. let ip = ipFromHostport hp in
             if ip = [] then hp
             else case map_of ipToHostname ip of
                 None \<Rightarrow> hp
               | Some h \<Rightarrow> if h \<noteq> [] then h @ ''|'' @ hp else hp) hostports)"

definition is_ip_asset :: "Asset \<Rightarrow> bool" where
  "is_ip_asset a = (as_Type a = AssetTypeIPv4 \<or> as_Type a = AssetTypeIPv6)"

definition meta_string :: "Asset \<Rightarrow> string \<Rightarrow> string option" where
  "meta_string a k = (case map_of (as_Metadata a) k of Some (JStr s) \<Rightarrow> Some s | _ \<Rightarrow> None)"

text \<open>The hostnames that resolved; an empty \<open>resolved_from\<close> is no evidence.\<close>

definition resolved_names :: "Asset list \<Rightarrow> string list" where
  "resolved_names assets = filter (\<lambda>h. h \<noteq> []) (List.map_filter (\<lambda>a. meta_string a ''resolved_from'') (filter is_ip_asset assets))"

definition narrowHostnamesByResolution :: "string list \<Rightarrow> Asset list \<Rightarrow> string list option \<times> int" where
  "narrowHostnamesByResolution hostnames assets =
     (let resolved = resolved_names assets in
      if resolved = [] then (None, 0)
      else (Some (filter (\<lambda>h. h \<in> set resolved) hostnames),
            int (length (filter (\<lambda>h. h \<notin> set resolved) hostnames))))"

fun dedup_from :: "string list \<Rightarrow> string list \<Rightarrow> string list" where
  "dedup_from seen [] = []"
| "dedup_from seen (s # ss) = (if s \<in> set seen then dedup_from seen ss else s # dedup_from (s # seen) ss)"

definition dedup :: "string list \<Rightarrow> string list" where
  "dedup ss = dedup_from [] ss"

definition mergeHostnames :: "string list \<Rightarrow> string list \<Rightarrow> string list" where
  "mergeHostnames inputs hostnames = inputs @ dedup_from inputs hostnames"

definition nil_if_empty :: "'a list \<Rightarrow> 'a list option" where
  "nil_if_empty xs = (if xs = [] then None else Some xs)"

definition values_of :: "AssetType \<Rightarrow> Asset list \<Rightarrow> string list" where
  "values_of t assets = map as_Value (filter (\<lambda>a. as_Type a = t) assets)"

text \<open>The inputs of the next phase; \<open>None\<close> is the nil slice.\<close>

definition extractInputsForNextPhase :: "string \<Rightarrow> Asset list \<Rightarrow> string list option" where
  "extractInputsForNextPhase phase assets =
     (if phase = ''discovery'' then nil_if_empty (values_of AssetTypeSubdomain assets)
      else if phase = ''resolution'' then nil_if_empty (dedup (map as_Value (filter is_ip_asset assets)))
      else if phase = ''port_scan'' then
        nil_if_empty (map as_Value (filter (\<lambda>a. as_Type a = AssetTypePort \<and> meta_string a ''status'' \<noteq> Some ''filtered'') assets))
      else if phase = ''http_probe'' then
        (let urls = dedup (values_of AssetTypeURL assets);
             hostnameURLs = filter (\<lambda>u. \<not> isIPBasedURL u) urls in
         if hostnameURLs \<noteq> [] then Some hostnameURLs else nil_if_empty (dedup (filter isIPBasedURL urls)))
      else None)"

text \<open>The resolution map: the first hostname per address wins.\<close>

definition add_resolution :: "(string \<times> string) list \<Rightarrow> Asset \<Rightarrow> (string \<times> string) list" where
  "add_resolution m a =
     (if \<not> is_ip_asset a \<or> map_of m (as_Value a) \<noteq> None then m
      else case meta_string a ''resolved_from'' of
          Some h \<Rightarrow> if h \<noteq> [] then m @ [(as_Value a, h)] else m
        | None \<Rightarrow> m)"

text \<open>\<open>resolveAssetID\<close> walks the lookup map up to three times, each time in an order of the runtime.\<close>

definition resolveAssetID :: "(nat \<Rightarrow> (string \<times> string) list \<Rightarrow> (string \<times> string) list) \<Rightarrow> string \<Rightarrow> (string \<times> string) list \<Rightarrow> string" where
  "resolveAssetID order hint lookup =
     (if lookup = [] then []
      else
        let by_hint = (if hint = [] then None
              else case map_of lookup hint of
                  Some i \<Rightarrow> Some i
                | None \<Rightarrow> map_option snd (find (\<lambda>(v, i). Contains hint v \<or> Contains v hint) (order 0 lookup))) in
        case by_hint of
          Some i \<Rightarrow> i
        | None \<Rightarrow>
            (case find (\<lambda>(v, i). HasPrefix v ''http'') (order 1 lookup) of
               Some (v, i) \<Rightarrow> i
             | None \<Rightarrow> (case order 2 lookup of (v, i) # _ \<Rightarrow> i | [] \<Rightarrow> [])))"

definition trim_line :: "string \<Rightarrow> string" where
  "trim_line s = rev (dropWhile (\<lambda>c. c = CHR 0x0D \<or> c = CHR '' '') (rev s))"

definition flushToolStderr :: "string \<Rightarrow> string \<Rightarrow> string \<Rightarrow> ToolRun \<Rightarrow> ScanLog list" where
  "flushToolStderr scanID runID toolName tr =
     (case map_of (tr_Config tr) ''stderr_tail'' of
        Some (JStr raw) \<Rightarrow>
          if raw = [] then []
          else concat (map (sink_ToolStderr scanID runID toolName)
                 (filter (\<lambda>l. l \<noteq> []) (map trim_line (SplitOn (CHR 0x0A) raw))))
      | _ \<Rightarrow> [])"

definition phase_timeout :: "PipelineOptions \<Rightarrow> string \<Rightarrow> duration" where
  "phase_timeout opts phase =
     (if seconds (po_Timeout opts) = 0 then (if phase = ''assessment'' then 10 * minute else 5 * minute)
      else seconds (po_Timeout opts))"

definition run_options :: "PipelineOptions \<Rightarrow> ScanType \<Rightarrow> DetectionTool \<Rightarrow> RunOptions" where
  "run_options opts ty tool =
     applyToolConfig
       \<lparr>ro_RateLimit = po_RateLimit opts, ro_Timeout = po_Timeout opts,
        ro_ExtraArgs = (if dt_Phase tool = ''assessment'' \<and> ty = ScanTypeQuick then [(''profile'', ''fast'')] else []),
        ro_NucleiParams = None, ro_NaabuParams = None, ro_HttpxParams = None, ro_SubfinderParams = None, ro_DnsxParams = None\<rparr>
       (dt_Name tool) (po_ToolConfig opts)"

section \<open>The run as a state\<close>

record run_world =
  w_uuid :: "nat \<Rightarrow> string"
  w_clock :: "nat \<Rightarrow> time"
  w_done :: "nat \<Rightarrow> bool"
  w_other :: "nat \<Rightarrow> db \<Rightarrow> db"
  w_tool :: "nat \<Rightarrow> string \<Rightarrow> duration \<Rightarrow> string list \<Rightarrow> RunOptions \<Rightarrow> tool_outcome"
  w_order :: "nat \<Rightarrow> nat \<Rightarrow> (string \<times> string) list \<Rightarrow> (string \<times> string) list"

record run_state =
  rs_n :: nat
  rs_db :: db
  rs_scan :: Scan
  rs_inputs :: "string list"
  rs_hostnames :: "string list"
  rs_ips :: "(string \<times> string) list"
  rs_dropped :: int
  rs_phases :: "PhaseResult list"
  rs_log :: "ScanLog list"

text \<open>A call of the store: with the context of the run, with the background context, and a query.\<close>

definition write_bg :: "run_world \<Rightarrow> (time \<Rightarrow> string \<Rightarrow> db \<Rightarrow> db) \<Rightarrow> run_state \<Rightarrow> run_state" where
  "write_bg w f st =
     (let n = rs_n st in st\<lparr>rs_n := n + 1, rs_db := f (w_clock w n) (w_uuid w n) (w_other w n (rs_db st))\<rparr>)"

definition write_ctx :: "run_world \<Rightarrow> (time \<Rightarrow> string \<Rightarrow> db \<Rightarrow> db) \<Rightarrow> run_state \<Rightarrow> run_state" where
  "write_ctx w f st =
     (if w_done w (rs_n st) then st\<lparr>rs_n := rs_n st + 1, rs_db := w_other w (rs_n st) (rs_db st)\<rparr>
      else write_bg w f st)"

definition read_bg :: "run_world \<Rightarrow> (db \<Rightarrow> 'r) \<Rightarrow> run_state \<Rightarrow> 'r \<times> run_state" where
  "read_bg w q st = (let st = write_bg w (\<lambda>_ _ d. d) st in (q (rs_db st), st))"

definition read_ctx :: "run_world \<Rightarrow> (db \<Rightarrow> 'r) \<Rightarrow> run_state \<Rightarrow> 'r option \<times> run_state" where
  "read_ctx w q st =
     (case read_bg w q st of (r, st') \<Rightarrow> (if w_done w (rs_n st) then None else Some r, st'))"

definition log_lines :: "ScanLog list \<Rightarrow> run_state \<Rightarrow> run_state" where
  "log_lines ls st = st\<lparr>rs_log := rs_log st @ ls\<rparr>"

abbreviation save_scan :: "run_world \<Rightarrow> run_state \<Rightarrow> run_state" where
  "save_scan w st \<equiv> write_ctx w (\<lambda>now _ d. UpdateScan now (rs_scan st) d) st"

datatype phase_end = PhaseNext run_state | PhaseStop run_state | PhaseErr pipeline_error run_state

text \<open>Leaving a cancelled scan writes the row with the background context.\<close>

definition leave_cancelled :: "run_world \<Rightarrow> run_state \<Rightarrow> run_state" where
  "leave_cancelled w st =
     (let scan = (rs_scan st)\<lparr>sn_Status := ScanStatusCancelled, sn_Phase := ''cancelled'',
                   sn_FinishedAt := Some (w_clock w (rs_n st))\<rparr>;
          st = st\<lparr>rs_scan := scan\<rparr> in
      write_bg w (\<lambda>now _ d. UpdateScan now scan d) st)"

definition is_cancelled :: "string \<Rightarrow> db \<Rightarrow> bool" where
  "is_cancelled i d = (case GetScan d i of None \<Rightarrow> False | Some s \<Rightarrow> sn_Status s = ScanStatusCancelled)"

definition recordToolRunWithID ::
  "run_world \<Rightarrow> string \<Rightarrow> DetectionTool \<Rightarrow> time \<Rightarrow> duration \<Rightarrow> int \<Rightarrow> int \<Rightarrow> ToolRunStatus \<Rightarrow> string \<Rightarrow> ToolRun option
    \<Rightarrow> run_state \<Rightarrow> run_state" where
  "recordToolRunWithID w toolRunID tool startedAt dur inputCount outputCount status errMsg enrich st =
     (let tr = \<lparr>tr_ID = toolRunID, tr_ScanID = sn_ID (rs_scan st), tr_ToolName = dt_Name tool, tr_Phase = dt_Phase tool,
            tr_Status = status, tr_StartedAt = startedAt, tr_FinishedAt = Some (startedAt + dur),
            tr_DurationMs = milliseconds dur, tr_TargetsCount = inputCount, tr_FindingsCount = outputCount,
            tr_OutputSummary = [], tr_ErrorMessage = errMsg, tr_ExitCode = 0, tr_Config = [],
            tr_CreatedAt = zero_time, tr_UpdatedAt = zero_time\<rparr>;
          tr = (case enrich of
              None \<Rightarrow> tr
            | Some src \<Rightarrow> tr\<lparr>tr_OutputSummary := tr_OutputSummary src,
                tr_ErrorMessage := (if errMsg = [] \<and> tr_ErrorMessage src \<noteq> [] then tr_ErrorMessage src else errMsg),
                tr_Status := (case tr_Status src of
                    ToolRunSkipped \<Rightarrow> ToolRunSkipped | ToolRunFailed \<Rightarrow> ToolRunFailed
                  | ToolRunTimeout \<Rightarrow> ToolRunTimeout | _ \<Rightarrow> status),
                tr_Config := put_all (tr_Config src) []\<rparr>) in
      write_ctx w (\<lambda>now fresh d. ignore_err (CreateToolRun now fresh tr d) d) st)"

definition recordToolRun ::
  "run_world \<Rightarrow> DetectionTool \<Rightarrow> time \<Rightarrow> duration \<Rightarrow> int \<Rightarrow> int \<Rightarrow> ToolRunStatus \<Rightarrow> string \<Rightarrow> run_state \<Rightarrow> run_state" where
  "recordToolRun w tool startedAt dur inputCount outputCount status errMsg st =
     recordToolRunWithID w [] tool startedAt dur inputCount outputCount status errMsg None st"

definition skip_tool :: "run_world \<Rightarrow> DetectionTool \<Rightarrow> int \<Rightarrow> string \<Rightarrow> string \<Rightarrow> run_state \<Rightarrow> run_state" where
  "skip_tool w tool inputCount errMsg reason st =
     (let pr = \<lparr>ph_ToolName = dt_Name tool, ph_Phase = dt_Phase tool, ph_Status = ''skipped'', ph_DurationMs = 0,
            ph_InputCount = 0, ph_OutputCount = 0, ph_Error = []\<rparr>;
          st = st\<lparr>rs_phases := rs_phases st @ [pr]\<rparr>;
          st = recordToolRun w tool (w_clock w (rs_n st)) 0 inputCount 0 ToolRunSkipped errMsg st in
      log_lines (sink_ToolSkipped (sn_ID (rs_scan st)) (dt_Name tool) reason) st)"

section \<open>Persisting a result\<close>

definition persist_asset :: "run_world \<Rightarrow> string \<Rightarrow> AssetStatus option \<times> Asset \<Rightarrow> run_state \<Rightarrow> run_state" where
  "persist_asset w targetID e st =
     (let a = (snd e)\<lparr>as_TargetID := targetID, as_Status := or_else (fst e) AssetStatusNew\<rparr> in
      write_ctx w (\<lambda>now fresh d. ignore_err (UpsertAsset now fresh a d) d) st)"

definition buildAssetLookup :: "string \<Rightarrow> db \<Rightarrow> (string \<times> string) list" where
  "buildAssetLookup targetID d = put_all (map (\<lambda>a. (as_Value a, as_ID a)) (SnapshotAssets d targetID)) []"

definition persist_finding :: "run_world \<Rightarrow> string \<Rightarrow> (string \<times> string) list \<Rightarrow> string \<Rightarrow> Finding \<Rightarrow> run_state \<Rightarrow> run_state" where
  "persist_finding w scanID lookup fallback f st =
     (let resolved = resolveAssetID (w_order w (rs_n st)) (fi_AssetID f) lookup;
          resolved = (if resolved = [] then fallback else resolved) in
      if resolved = [] then st
      else write_ctx w (\<lambda>now fresh d. ignore_err (UpsertFinding now fresh (f\<lparr>fi_ScanID := scanID, fi_AssetID := resolved\<rparr>) d) d) st)"

definition persist_findings :: "run_world \<Rightarrow> string \<Rightarrow> Finding list \<Rightarrow> run_state \<Rightarrow> run_state" where
  "persist_findings w targetID fs st =
     (if fs = [] then st
      else
        let (found, st) = read_ctx w (buildAssetLookup targetID) st;
            lookup = or_else found [];
            fallback = resolveAssetID (w_order w (rs_n st)) [] lookup in
        fold (persist_finding w (sn_ID (rs_scan st)) lookup fallback) fs st)"

text \<open>Threading the output of a phase into the next one.\<close>

definition thread_outputs :: "string \<Rightarrow> string \<Rightarrow> Asset list \<Rightarrow> run_state \<Rightarrow> run_state" where
  "thread_outputs phase targetValue assets st =
     (let next = extractInputsForNextPhase phase assets;
          next = (if phase = ''discovery'' then Some (or_else next [targetValue]) else next);
          st = (if phase = ''discovery'' then st\<lparr>rs_hostnames := or_else next []\<rparr> else st);
          st = (if phase = ''resolution''
                then let (filtered, dropped) = narrowHostnamesByResolution (rs_hostnames st) assets in
                     st\<lparr>rs_ips := foldl add_resolution (rs_ips st) assets,
                        rs_hostnames := or_else filtered (rs_hostnames st), rs_dropped := dropped\<rparr>
                else st);
          next = (if phase = ''port_scan'' then Some (enrichHostports (or_else next []) (rs_ips st)) else next);
          next = (if phase = ''resolution'' \<or> phase = ''port_scan''
                  then Some (mergeHostnames (or_else next []) (rs_hostnames st)) else next) in
      case next of
        Some xs \<Rightarrow> st\<lparr>rs_inputs := xs\<rparr>
      | None \<Rightarrow> if phase \<noteq> ''assessment'' then st\<lparr>rs_inputs := []\<rparr> else st)"

section \<open>One phase\<close>

definition count_call :: "run_state \<Rightarrow> run_state" where
  "count_call st = st\<lparr>rs_n := rs_n st + 1\<rparr>"

definition phase_result :: "DetectionTool \<Rightarrow> duration \<Rightarrow> int \<Rightarrow> string \<Rightarrow> int \<Rightarrow> string \<Rightarrow> PhaseResult" where
  "phase_result tool dur inputCount status outputCount err =
     \<lparr>ph_ToolName = dt_Name tool, ph_Phase = dt_Phase tool, ph_Status = status, ph_DurationMs = milliseconds dur,
      ph_InputCount = inputCount, ph_OutputCount = outputCount, ph_Error = err\<rparr>"

text \<open>The tool returned an error.\<close>

definition phase_failed ::
  "run_world \<Rightarrow> DetectionTool \<Rightarrow> string \<Rightarrow> time \<Rightarrow> duration \<Rightarrow> string \<Rightarrow> RunResult option \<Rightarrow> run_state \<Rightarrow> phase_end" where
  "phase_failed w tool runID start dur msg res st =
     (let scanID = sn_ID (rs_scan st); name = dt_Name tool; n_in = int (length (rs_inputs st));
          (cancelled, st) = read_bg w (is_cancelled scanID) st in
      if cancelled then
        let st = recordToolRunWithID w runID tool start dur n_in 0 ToolRunFailed ''canceled'' None st;
            st = log_lines (sink_ToolFailed scanID runID name ''canceled'') st;
            st = leave_cancelled w st in
        PhaseErr ErrScanCancelled (log_lines (sink_ScanCancelled scanID (name @ '' terminated'')) st)
      else
        let st = st\<lparr>rs_phases := rs_phases st @ [phase_result tool dur n_in ''failed'' 0 msg]\<rparr>;
            st = recordToolRunWithID w runID tool start dur n_in 0 ToolRunFailed msg None st;
            st = log_lines (sink_ToolFailed scanID runID name msg) st;
            st = log_lines (case res of None \<Rightarrow> [] | Some r \<Rightarrow> flushToolStderr scanID runID name (rr_ToolRun r)) st in
        if isHardFailure tool then
          let err = name @ '' failed: '' @ msg;
              st = st\<lparr>rs_scan := (rs_scan st)\<lparr>sn_Status := ScanStatusFailed, sn_Error := err,
                        sn_FinishedAt := Some (w_clock w (rs_n st))\<rparr>\<rparr>;
              st = save_scan w st in
          PhaseErr (ErrToolFailed name msg) (log_lines (sink_ScanFailed scanID err) st)
        else PhaseNext st)"

definition skip_rest :: "run_world \<Rightarrow> ScanType \<Rightarrow> DetectionTool list \<Rightarrow> run_state \<Rightarrow> run_state" where
  "skip_rest w ty rest st =
     fold (\<lambda>t. skip_tool w t 0 ''no live URLs to assess'' ''no live URLs to assess'') (filter (\<lambda>t. \<not> shouldSkip t ty) rest) st"

text \<open>The tool returned a result: persist it, record it, thread its output; without any URL after the
  probe the remaining tools are skipped.\<close>

definition phase_completed ::
  "run_world \<Rightarrow> string \<Rightarrow> string \<Rightarrow> ScanType \<Rightarrow> DetectionTool list \<Rightarrow> DetectionTool \<Rightarrow> string \<Rightarrow> time \<Rightarrow> duration \<Rightarrow> RunResult
    \<Rightarrow> run_state \<Rightarrow> phase_end" where
  "phase_completed w targetID targetValue ty rest tool runID start dur res st =
     (let scanID = sn_ID (rs_scan st); name = dt_Name tool; n_in = int (length (rs_inputs st));
          n_out = int (length (rr_Assets res) + length (rr_Findings res));
          st = fold (persist_asset w targetID) (rr_Assets res) st;
          st = persist_findings w targetID (rr_Findings res) st;
          st = st\<lparr>rs_phases := rs_phases st @ [phase_result tool dur n_in ''completed'' n_out []]\<rparr>;
          st = recordToolRunWithID w runID tool start dur n_in (int (length (rr_Findings res))) ToolRunCompleted []
                 (Some (rr_ToolRun res)) st;
          st = log_lines (sink_ToolCompleted scanID runID name (milliseconds dur) n_out (tr_OutputSummary (rr_ToolRun res))) st;
          st = log_lines (flushToolStderr scanID runID name (rr_ToolRun res)) st;
          st = thread_outputs (dt_Phase tool) targetValue (map snd (rr_Assets res)) st in
      if dt_Phase tool = ''http_probe'' \<and> rs_inputs st = []
      then PhaseStop (skip_rest w ty rest st)
      else PhaseNext st)"

definition begin_tool :: "run_world \<Rightarrow> nat \<Rightarrow> nat \<Rightarrow> DetectionTool \<Rightarrow> run_state \<Rightarrow> string \<times> run_state" where
  "begin_tool w i n_tools tool st =
     (let scanID = sn_ID (rs_scan st);
          st = save_scan w (st\<lparr>rs_scan := (rs_scan st)\<lparr>sn_Phase := dt_Phase tool, sn_Progress := (100 * int i, int n_tools)\<rparr>\<rparr>);
          st = log_lines (sink_PhaseStarted scanID (dt_Phase tool) (dt_Name tool)) st;
          runID = w_uuid w (rs_n st) in
      (runID, log_lines (sink_ToolStarted scanID runID (dt_Name tool) (dt_Phase tool) (int (length (rs_inputs st)))) (count_call st)))"

definition run_phase ::
  "run_world \<Rightarrow> string \<Rightarrow> string \<Rightarrow> PipelineOptions \<Rightarrow> ScanType \<Rightarrow> nat \<Rightarrow> nat \<Rightarrow> DetectionTool list \<Rightarrow> DetectionTool
    \<Rightarrow> run_state \<Rightarrow> phase_end" where
  "run_phase w targetID targetValue opts ty i n_tools rest tool st =
     (let scanID = sn_ID (rs_scan st) in
      if w_done w (rs_n st) then PhaseErr ErrContext (leave_cancelled w (count_call st))
      else
        let (fresh, st) = read_ctx w (is_cancelled scanID) (count_call st) in
        if fresh = Some True
        then PhaseErr ErrScanCancelled (log_lines (sink_ScanCancelled scanID ''external'') (leave_cancelled w st))
        else if shouldSkip tool ty
        then PhaseNext (skip_tool w tool (int (length (rs_inputs st))) [] ''filtered by scan options'' st)
        else
          let (runID, st) = begin_tool w i n_tools tool st;
              start = w_clock w (rs_n st);
              out = w_tool w (rs_n st) (dt_Name tool) (phase_timeout opts (dt_Phase tool)) (rs_inputs st) (run_options opts ty tool);
              st = count_call st;
              dur = w_clock w (rs_n st) - start in
          case out of
            ToolErr msg res \<Rightarrow> phase_failed w tool runID start dur msg res st
          | ToolOk res \<Rightarrow> phase_completed w targetID targetValue ty rest tool runID start dur res st)"

fun run_loop ::
  "run_world \<Rightarrow> string \<Rightarrow> string \<Rightarrow> PipelineOptions \<Rightarrow> ScanType \<Rightarrow> nat \<Rightarrow> nat \<Rightarrow> DetectionTool list \<Rightarrow> run_state
    \<Rightarrow> (pipeline_error \<times> run_state, run_state) result" where
  "run_loop w targetID targetValue opts ty i n_tools [] st = Inr st"
| "run_loop w targetID targetValue opts ty i n_tools (tool # rest) st =
     (case run_phase w targetID targetValue opts ty i n_tools rest tool st of
        PhaseNext st \<Rightarrow> run_loop w targetID targetValue opts ty (i + 1) n_tools rest st
      | PhaseStop st \<Rightarrow> Inr st
      | PhaseErr e st \<Rightarrow> Inl (e, st))"

section \<open>The whole run\<close>

definition no_state :: TargetState where
  "no_state = \<lparr>ts_AssetsByType = [], ts_AssetsTotal = 0, ts_PortsByStatus = [], ts_FindingsOpen = [],
     ts_FindingsOpenTotal = 0, ts_FindingsByStatus = [], ts_Remediations = []\<rparr>"

definition no_delta :: ScanDelta where
  "no_delta = \<lparr>de_NewAssets = [], de_DisappearedAssets = [], de_ModifiedAssets = [], de_NewFindings = [],
     de_ResolvedFindings = [], de_ReturnedFindings = [], de_IsBaseline = False\<rparr>"

definition no_work :: "duration \<Rightarrow> ScanWork" where
  "no_work dur = \<lparr>wk_DurationMs = dur, wk_ToolsRun = 0, wk_ToolsFailed = 0, wk_ToolsSkipped = 0, wk_PhasesRun = [],
     wk_RawEmissions = 0\<rparr>"

definition start_of :: "Scan \<Rightarrow> time" where
  "start_of s = or_else (sn_StartedAt s) zero_time"

text \<open>The diff phase: snapshot, changes, statuses, findings.\<close>

definition diff_phase ::
  "run_world \<Rightarrow> string \<Rightarrow> Asset list \<Rightarrow> bool \<Rightarrow> run_state \<Rightarrow> (Finding list \<times> Finding list) \<times> run_state" where
  "diff_phase w targetID preAssets isFirstScan st =
     (let st = save_scan w (st\<lparr>rs_scan := (rs_scan st)\<lparr>sn_Phase := ''diffing''\<rparr>\<rparr>);
          scanID = sn_ID (rs_scan st);
          (post, st) = read_ctx w (\<lambda>d. SnapshotAssets d targetID) st;
          n = rs_n st;
          changes = ComputeChanges targetID scanID (\<lambda>k. w_uuid w (n + k)) preAssets (or_else post []) isFirstScan;
          st = st\<lparr>rs_n := n + length changes\<rparr>;
          st = fold (\<lambda>c. write_ctx w (\<lambda>now fresh d. ignore_err (CreateAssetChange now fresh c d) d)) changes st;
          st = write_ctx w (\<lambda>now _ d. ApplyStatusChanges now changes d) st;
          (found, st) = read_ctx w (\<lambda>d. ComputeFindingChanges d targetID scanID) st in
      case found of
        None \<Rightarrow> (([], []), st)
      | Some fs \<Rightarrow> (fs, write_ctx w (\<lambda>now _ d. AutoResolveFindings now (snd fs) d) st))"

definition finish_run ::
  "run_world \<Rightarrow> string \<Rightarrow> string \<Rightarrow> ScanType \<Rightarrow> Asset list \<Rightarrow> bool \<Rightarrow> run_state \<Rightarrow> PipelineResult \<times> run_state" where
  "finish_run w targetID targetValue ty preAssets isFirstScan st =
     (let (fs, st) = diff_phase w targetID preAssets isFirstScan st;
          scanID = sn_ID (rs_scan st);
          finishedAt = w_clock w (rs_n st);
          dur = finishedAt - start_of (rs_scan st);
          (delta, st) = read_ctx w (\<lambda>d. FinalizeScanDelta d scanID (fst fs) (snd fs)) (count_call st);
          (state, st) = read_ctx w (\<lambda>d. FinalizeTargetState d targetID) st;
          (work, st) = read_ctx w (\<lambda>d. FinalizeScanWork d scanID dur) st;
          delta = or_else delta no_delta; state = or_else state no_state; work = or_else work (no_work (milliseconds dur));
          st = save_scan w (st\<lparr>rs_scan := (rs_scan st)\<lparr>sn_TargetState := state, sn_Delta := delta, sn_Work := work,
                 sn_Status := ScanStatusCompleted, sn_Phase := ''completed'', sn_Progress := (100, 1),
                 sn_FinishedAt := Some finishedAt\<rparr>\<rparr>);
          st = write_ctx w (\<lambda>now _ d. ignore_err (UpdateTargetLastScan now targetID scanID finishedAt d) d) st;
          st = log_lines (sink_ScanCompleted scanID (milliseconds dur)) st in
      (\<lparr>pr_ScanID = scanID, pr_Target = targetValue, pr_Type = ty, pr_Duration = dur, pr_TargetState = state,
        pr_Delta = delta, pr_Work = work, pr_Phases = rs_phases st\<rparr>, st))"

definition new_scan :: "string \<Rightarrow> string \<Rightarrow> ScanType \<Rightarrow> time \<Rightarrow> Scan" where
  "new_scan scanID targetID ty now =
     \<lparr>sn_ID = scanID, sn_TargetID = targetID, sn_Type = ty, sn_Status = ScanStatusRunning, sn_Phase = ''initializing'',
      sn_Progress = (0, 1), sn_TargetState = no_state, sn_Delta = no_delta, sn_Work = no_work 0,
      sn_StartedAt = Some now, sn_FinishedAt = None, sn_Error = [], sn_CreatedAt = zero_time, sn_UpdatedAt = zero_time\<rparr>"

definition scan_type :: "PipelineOptions \<Rightarrow> ScanType" where
  "scan_type opts = or_else (po_ScanType opts) ScanTypeFull"

definition first_state :: "run_world \<Rightarrow> string \<Rightarrow> PipelineOptions \<Rightarrow> db \<Rightarrow> run_state" where
  "first_state w targetID opts d =
     \<lparr>rs_n = 1, rs_db = d, rs_scan = new_scan (w_uuid w 0) targetID (scan_type opts) (w_clock w 0),
      rs_inputs = [], rs_hostnames = [], rs_ips = [], rs_dropped = -1, rs_phases = [], rs_log = []\<rparr>"

text \<open>From the snapshot before the tools to the end.\<close>

definition run_target ::
  "run_world \<Rightarrow> DetectionTool list \<Rightarrow> string \<Rightarrow> PipelineOptions \<Rightarrow> string \<Rightarrow> run_state
    \<Rightarrow> (pipeline_error, PipelineResult) result \<times> run_state" where
  "run_target w allTools targetID opts targetValue st =
     (let ty = scan_type opts;
          (preScans, st) = read_ctx w (\<lambda>d. ListScans d targetID 2) st;
          isFirstScan = (length (or_else preScans []) \<le> 1);
          (pre, st) = read_ctx w (\<lambda>d. SnapshotAssets d targetID) st;
          st = write_ctx w (\<lambda>now _ d. NormalizeAssetStatuses now targetID d) st;
          tools = selectTools allTools opts;
          st = st\<lparr>rs_inputs := [targetValue], rs_hostnames := [targetValue]\<rparr>;
          st = log_lines (sink_ScanStarted (sn_ID (rs_scan st)) targetValue ty) st in
      case run_loop w targetID targetValue opts ty 0 (length tools) tools st of
        Inl (e, st) \<Rightarrow> (Inl e, st)
      | Inr st \<Rightarrow> (case finish_run w targetID targetValue ty (or_else pre []) isFirstScan st of
                     (res, st) \<Rightarrow> (Inr res, st)))"

definition Run ::
  "run_world \<Rightarrow> DetectionTool list \<Rightarrow> string \<Rightarrow> PipelineOptions \<Rightarrow> db \<Rightarrow> (pipeline_error, PipelineResult) result \<times> run_state" where
  "Run w allTools targetID opts d =
     (let st = first_state w targetID opts d; n = rs_n st;
          d = w_other w n (rs_db st);
          created = CreateScan (w_clock w n) (w_uuid w n) (rs_scan st) d;
          st = st\<lparr>rs_n := n + 1, rs_db := (if w_done w n then d else ignore_err created d)\<rparr> in
      if w_done w n then (Inl (ErrCreatingScan None), st)
      else case created of
        Inl e \<Rightarrow> (Inl (ErrCreatingScan (Some e)), st)
      | Inr _ \<Rightarrow>
        (case read_ctx w (\<lambda>d. GetTarget d targetID) st of
           (Some (Some target), st) \<Rightarrow> run_target w allTools targetID opts (tg_Value target) st
         | (_, st) \<Rightarrow> (Inl ErrGettingTarget, st)))"

text \<open>The runner of the daemon (\<open>internal/daemon/scan_runner.go\<close>) starts a full scan with the resolved tool
  configuration. The pipeline returns no result with an error, so an error comes without a scan.\<close>

definition ScanRunner_Run ::
  "run_world \<Rightarrow> DetectionTool list \<Rightarrow> string \<Rightarrow> EffectiveConfig \<Rightarrow> db \<Rightarrow> (string \<times> pipeline_error option) \<times> run_state" where
  "ScanRunner_Run w allTools targetID effective d =
     (case Run w allTools targetID
         \<lparr>po_ScanType = Some ScanTypeFull, po_Tools = [], po_RateLimit = 0, po_Timeout = 0, po_ToolConfig = ec_ToolConfig effective\<rparr> d of
        (Inl e, st) \<Rightarrow> (([], Some e), st)
      | (Inr result, st) \<Rightarrow> ((pr_ScanID result, None), st))"

end
