(* ===== verification/Locks.thy ===== *)
theory Locks
  imports Prelude
begin

text \<open>
  Per-target mutual exclusion, \<open>internal/daemon/intervalsched/locks.go\<close>. The lock of a
  target is a channel of capacity one, created on first use; the index keeps the number of
  elements in the buffer of each channel. The locale \<open>target_locks\<close> is the contract the
  scheduler relies on; the index is an instance of it.
\<close>

section \<open>The interface\<close>

locale target_locks =
  fixes holds :: "'i \<Rightarrow> string \<Rightarrow> bool"
    and acquire :: "'i \<Rightarrow> string \<Rightarrow> bool \<times> 'i"
    and release :: "'i \<Rightarrow> string \<Rightarrow> 'i"
    and good :: "'i \<Rightarrow> bool"
  assumes acquire_result: "good i \<Longrightarrow> fst (acquire i t) = (\<not> holds i t)"
    and acquire_holds: "good i \<Longrightarrow> holds (snd (acquire i t)) u = (u = t \<or> holds i u)"
    and acquire_good: "good i \<Longrightarrow> good (snd (acquire i t))"
    and release_holds: "good i \<Longrightarrow> holds (release i t) u = (u \<noteq> t \<and> holds i u)"
    and release_good: "good i \<Longrightarrow> good (release i t)"
begin

lemma acquire_twice: "good i \<Longrightarrow> fst (acquire (snd (acquire i t)) t) = False"
  by (simp add: acquire_result acquire_holds acquire_good)

lemma acquire_after_release: "good i \<Longrightarrow> fst (acquire (release i t) t) = True"
  by (simp add: acquire_result release_holds release_good)

lemma failed_acquire_keeps: "good i \<Longrightarrow> \<not> fst (acquire i t) \<Longrightarrow> holds (snd (acquire i t)) = holds i"
  by (rule ext) (auto simp: acquire_result acquire_holds)

lemma acquire_release_restores:
  "good i \<Longrightarrow> fst (acquire i t) \<Longrightarrow> holds (release (snd (acquire i t)) t) = holds i"
  by (rule ext) (auto simp: acquire_result acquire_holds release_holds acquire_good)

lemma release_idle: "good i \<Longrightarrow> \<not> holds i t \<Longrightarrow> holds (release i t) = holds i"
  by (rule ext) (auto simp: release_holds)

end

section \<open>The lock index\<close>

type_synonym TargetLockIndex = "(string \<times> nat) list"

definition NewTargetLockIndex :: TargetLockIndex where
  "NewTargetLockIndex = []"

text \<open>The buffered length of the target's channel, and the index with that channel in it.\<close>

definition channelFor :: "TargetLockIndex \<Rightarrow> string \<Rightarrow> nat \<times> TargetLockIndex" where
  "channelFor i targetID =
     (case map_of i targetID of
        Some n \<Rightarrow> (n, i)
      | None \<Rightarrow> (0, AList.update targetID 0 i))"

text \<open>The capacity of a channel is one: a send is possible when the buffer is not full.\<close>

definition TryAcquire :: "TargetLockIndex \<Rightarrow> string \<Rightarrow> bool \<times> TargetLockIndex" where
  "TryAcquire i targetID =
     (case channelFor i targetID of (n, i') \<Rightarrow>
        if n < 1 then (True, AList.update targetID (n + 1) i') else (False, i'))"

definition Release :: "TargetLockIndex \<Rightarrow> string \<Rightarrow> TargetLockIndex" where
  "Release i targetID =
     (case channelFor i targetID of (n, i') \<Rightarrow>
        if 0 < n then AList.update targetID (n - 1) i' else i')"

definition IsHeld :: "TargetLockIndex \<Rightarrow> string \<Rightarrow> bool" where
  "IsHeld i targetID = (0 < fst (channelFor i targetID))"

text \<open>No channel ever holds more than one element.\<close>

definition locks_ok :: "TargetLockIndex \<Rightarrow> bool" where
  "locks_ok i = (\<forall>e \<in> set i. snd e \<le> 1)"

lemma locks_ok_lookup: "locks_ok i \<Longrightarrow> map_of i t = Some n \<Longrightarrow> n \<le> 1"
  by (fastforce simp: locks_ok_def dest: map_of_SomeD)

lemma locks_ok_update: "locks_ok i \<Longrightarrow> n \<le> 1 \<Longrightarrow> locks_ok (AList.update t n i)"
  using set_AList_update [of t n i] by (fastforce simp: locks_ok_def)

lemma locks_ok_empty [simp]: "locks_ok NewTargetLockIndex" "\<not> IsHeld NewTargetLockIndex t"
  by (simp_all add: locks_ok_def NewTargetLockIndex_def IsHeld_def channelFor_def)

interpretation tl: target_locks IsHeld TryAcquire Release locks_ok
proof
  fix i t u
  assume ok: "locks_ok i"
  show "fst (TryAcquire i t) = (\<not> IsHeld i t)"
    by (auto simp: TryAcquire_def IsHeld_def channelFor_def split: option.splits)
  show "IsHeld (snd (TryAcquire i t)) u = (u = t \<or> IsHeld i u)"
    by (auto simp: TryAcquire_def IsHeld_def channelFor_def split: option.splits)
  show "locks_ok (snd (TryAcquire i t))"
    using ok by (auto simp: TryAcquire_def channelFor_def locks_ok_update split: option.splits)
  show "IsHeld (Release i t) u = (u \<noteq> t \<and> IsHeld i u)"
  proof (cases "map_of i t")
    case (Some n)
    then have "n \<le> 1" by (rule locks_ok_lookup [OF ok])
    then show ?thesis
      using Some by (auto simp: Release_def IsHeld_def channelFor_def split: option.splits)
  qed (auto simp: Release_def IsHeld_def channelFor_def split: option.splits)
  show "locks_ok (Release i t)"
    using ok locks_ok_lookup [OF ok]
    by (fastforce simp: Release_def channelFor_def intro!: locks_ok_update split: option.splits)
qed

end
