(* ===== verification/WorkerPool.thy ===== *)
theory WorkerPool
  imports Prelude
begin

text \<open>
  The bounded worker pool, \<open>internal/daemon/intervalsched/workerpool.go\<close>. The operations are
  functions on the pool record; the goroutines are the list \<open>wp_loops\<close> of their program
  points in \<open>workerLoop\<close>, and \<open>pool_step\<close> interleaves the atomic regions of the workers and
  of the callers. \<open>pool_reach ok n\<close> are the states reachable from a pool of \<open>n\<close> slots when
  every call of \<open>Resize\<close> satisfies \<open>ok\<close>.
\<close>

section \<open>State\<close>

text \<open>Program points of a worker: at the receive, with a job received but not counted, inside
  the job runner, at the check for a shrink token, and on the way out.\<close>

datatype 'j worker = Idle | Taken 'j | Running 'j | Checking | Exiting

record 'j pool =
  wp_size :: int
  wp_active :: int
  wp_jobs :: "'j list"
  wp_cap :: nat
  wp_started :: bool
  wp_stopped :: bool
  wp_ctx_done :: bool
  wp_workers :: int
  wp_excessQuit :: nat
  wp_loops :: "'j worker list"

definition excess_cap :: nat where "excess_cap = 1024"

section \<open>Operations\<close>

definition NewWorkerPool :: "int \<Rightarrow> 'j pool" where
  "NewWorkerPool size0 =
     (let size = (if size0 \<le> 0 then 1 else size0) in
      \<lparr>wp_size = size, wp_active = 0, wp_jobs = [], wp_cap = nat size, wp_started = False,
       wp_stopped = False, wp_ctx_done = False, wp_workers = 0, wp_excessQuit = 0, wp_loops = []\<rparr>)"

definition spawnWorkerLocked :: "'j pool \<Rightarrow> 'j pool" where
  "spawnWorkerLocked p = p\<lparr>wp_workers := wp_workers p + 1, wp_loops := wp_loops p @ [Idle]\<rparr>"

fun spawn_n :: "nat \<Rightarrow> 'j pool \<Rightarrow> 'j pool" where
  "spawn_n 0 p = p"
| "spawn_n (Suc n) p = spawn_n n (spawnWorkerLocked p)"

definition Pool_Start :: "'j pool \<Rightarrow> 'j pool" where
  "Pool_Start p =
     (if wp_started p then p
      else spawn_n (nat (wp_size p)) (p\<lparr>wp_started := True\<rparr>))"

definition Pool_Free :: "'j pool \<Rightarrow> int" where
  "Pool_Free p = (let free = wp_size p - wp_active p in if free < 0 then 0 else free)"

definition Pool_Active :: "'j pool \<Rightarrow> int" where
  "Pool_Active p = wp_active p"

text \<open>\<open>Dispatch\<close> reads the flag under the lock and sends after it has released the lock; a
  send on the closed channel panics.\<close>

datatype 'j sent = Sent 'j | QueueFull 'j | SendPanic

definition dispatch_check :: "'j pool \<Rightarrow> bool" where
  "dispatch_check p = (\<not> wp_stopped p)"

definition dispatch_send :: "'j \<Rightarrow> 'j pool \<Rightarrow> 'j pool sent" where
  "dispatch_send job p =
     (if wp_stopped p then SendPanic
      else if length (wp_jobs p) < wp_cap p then Sent (p\<lparr>wp_jobs := wp_jobs p @ [job]\<rparr>)
      else QueueFull p)"

text \<open>The call when nothing runs between the check and the send.\<close>

definition Dispatch :: "'j \<Rightarrow> 'j pool \<Rightarrow> bool \<times> 'j pool" where
  "Dispatch job p =
     (if \<not> dispatch_check p then (False, p)
      else case dispatch_send job p of
        Sent p' \<Rightarrow> (True, p')
      | QueueFull p' \<Rightarrow> (False, p')
      | SendPanic \<Rightarrow> (False, p))"

definition Pool_Resize :: "int \<Rightarrow> 'j pool \<Rightarrow> 'j pool" where
  "Pool_Resize newSize0 p =
     (let newSize = (if newSize0 \<le> 0 then 1 else newSize0) in
      if newSize = wp_size p then p
      else if wp_size p < newSize then
        (let toAdd = newSize - wp_size p; p' = p\<lparr>wp_size := newSize\<rparr> in
         if wp_started p \<and> \<not> wp_stopped p then spawn_n (nat toAdd) p' else p')
      else
        (let toRemove = nat (wp_size p - newSize) in
         p\<lparr>wp_size := newSize, wp_excessQuit := min excess_cap (wp_excessQuit p + toRemove)\<rparr>))"

definition Pool_Stop :: "'j pool \<Rightarrow> 'j pool" where
  "Pool_Stop p = (if wp_stopped p then p else p\<lparr>wp_stopped := True\<rparr>)"

text \<open>The atomic regions of \<open>workerLoop\<close> for the worker at index \<open>i\<close>.\<close>

definition set_loop :: "nat \<Rightarrow> 'j worker \<Rightarrow> 'j pool \<Rightarrow> 'j pool" where
  "set_loop i w p = p\<lparr>wp_loops := (wp_loops p)[i := w]\<rparr>"

definition worker_steps :: "nat \<Rightarrow> 'j pool \<Rightarrow> 'j pool list" where
  "worker_steps i p =
     (case wp_loops p ! i of
        Idle \<Rightarrow>
          (if wp_ctx_done p then [set_loop i Exiting p] else [])
          @ (case wp_jobs p of
               job # jobs \<Rightarrow> [set_loop i (Taken job) (p\<lparr>wp_jobs := jobs\<rparr>)]
             | [] \<Rightarrow> if wp_stopped p then [set_loop i Exiting p] else [])
      | Taken job \<Rightarrow> [set_loop i (Running job) (p\<lparr>wp_active := wp_active p + 1\<rparr>)]
      | Running job \<Rightarrow> [set_loop i Checking (p\<lparr>wp_active := wp_active p - 1\<rparr>)]
      | Checking \<Rightarrow>
          (if 0 < wp_excessQuit p
           then [set_loop i Exiting (p\<lparr>wp_excessQuit := wp_excessQuit p - 1\<rparr>)]
           else [set_loop i Idle p])
      | Exiting \<Rightarrow>
          [p\<lparr>wp_workers := wp_workers p - 1,
             wp_loops := take i (wp_loops p) @ drop (Suc i) (wp_loops p)\<rparr>])"

inductive pool_step :: "('j pool \<Rightarrow> int \<Rightarrow> bool) \<Rightarrow> 'j pool \<Rightarrow> 'j pool \<Rightarrow> bool" for ok where
  start: "pool_step ok p (Pool_Start p)"
| dispatch: "pool_step ok p (snd (Dispatch job p))"
| resize: "ok p n \<Longrightarrow> pool_step ok p (Pool_Resize n p)"
| stop: "pool_step ok p (Pool_Stop p)"
| cancel: "pool_step ok p (p\<lparr>wp_ctx_done := True\<rparr>)"
| worker: "i < length (wp_loops p) \<Longrightarrow> p' \<in> set (worker_steps i p) \<Longrightarrow> pool_step ok p p'"

inductive_cases pool_stepE: "pool_step ok p p'"

inductive pool_reach :: "('j pool \<Rightarrow> int \<Rightarrow> bool) \<Rightarrow> int \<Rightarrow> 'j pool \<Rightarrow> bool" for ok n where
  init: "pool_reach ok n (NewWorkerPool n)"
| step: "pool_reach ok n p \<Longrightarrow> pool_step ok p p' \<Longrightarrow> pool_reach ok n p'"

section \<open>Lemmas: counting workers\<close>

definition cnt :: "('a \<Rightarrow> bool) \<Rightarrow> 'a list \<Rightarrow> int" where
  "cnt P xs = int (length (filter P xs))"

lemma cnt_simps [simp]:
  "cnt P [] = 0" "cnt P (x # xs) = of_bool (P x) + cnt P xs" "cnt P (xs @ ys) = cnt P xs + cnt P ys"
  "0 \<le> cnt P xs"
  by (simp_all add: cnt_def)

lemma cnt_update:
  "i < length xs \<Longrightarrow> cnt P (xs[i := v]) = cnt P xs - of_bool (P (xs ! i)) + of_bool (P v)"
  by (induction xs arbitrary: i) (auto split: nat.splits)

lemma cnt_remove:
  "i < length xs \<Longrightarrow> cnt P (take i xs) + cnt P (drop (Suc i) xs) = cnt P xs - of_bool (P (xs ! i))"
proof (induction xs arbitrary: i)
  case (Cons x xs)
  then show ?case by (cases i) auto
qed simp

lemma cnt_le: "cnt P xs \<le> int (length xs)"
  by (simp add: cnt_def)

definition is_running :: "'j worker \<Rightarrow> bool" where
  "is_running w = (case w of Running _ \<Rightarrow> True | _ \<Rightarrow> False)"

definition is_live :: "'j worker \<Rightarrow> bool" where
  "is_live w = (w \<noteq> Exiting)"

lemma worker_class [simp]:
  "is_running (Running j)" "\<not> is_running Idle" "\<not> is_running (Taken j)" "\<not> is_running Checking"
  "\<not> is_running Exiting" "is_live (Running j)" "is_live Idle" "is_live (Taken j)" "is_live Checking"
  "\<not> is_live Exiting"
  by (simp_all add: is_running_def is_live_def)

lemma spawn_n_fields [simp]:
  "wp_size (spawn_n k p) = wp_size p" "wp_active (spawn_n k p) = wp_active p"
  "wp_jobs (spawn_n k p) = wp_jobs p" "wp_cap (spawn_n k p) = wp_cap p"
  "wp_started (spawn_n k p) = wp_started p" "wp_stopped (spawn_n k p) = wp_stopped p"
  "wp_ctx_done (spawn_n k p) = wp_ctx_done p" "wp_excessQuit (spawn_n k p) = wp_excessQuit p"
  "wp_workers (spawn_n k p) = wp_workers p + int k"
  "wp_loops (spawn_n k p) = wp_loops p @ replicate k Idle"
  by (induction k arbitrary: p) (auto simp: spawnWorkerLocked_def replicate_append_same [symmetric])

lemma cnt_replicate [simp]: "cnt P (replicate k x) = (if P x then int k else 0)"
  by (induction k) auto

section \<open>The invariant\<close>

definition pool_inv :: "'j pool \<Rightarrow> bool" where
  "pool_inv p \<longleftrightarrow>
     1 \<le> wp_size p \<and> wp_workers p = int (length (wp_loops p)) \<and>
     wp_active p = cnt is_running (wp_loops p) \<and> length (wp_jobs p) \<le> wp_cap p \<and>
     wp_excessQuit p \<le> excess_cap \<and> (\<not> wp_started p \<longrightarrow> wp_loops p = [])"

lemma pool_inv_init: "pool_inv (NewWorkerPool n)"
  by (simp add: pool_inv_def NewWorkerPool_def Let_def)

lemma pool_inv_start: "pool_inv p \<Longrightarrow> pool_inv (Pool_Start p)"
  by (auto simp: pool_inv_def Pool_Start_def)

lemma pool_inv_dispatch: "pool_inv p \<Longrightarrow> pool_inv (snd (Dispatch j p))"
  by (auto simp: pool_inv_def Dispatch_def dispatch_check_def dispatch_send_def)

lemma pool_inv_resize: "pool_inv p \<Longrightarrow> pool_inv (Pool_Resize n p)"
  by (auto simp: pool_inv_def Pool_Resize_def Let_def)

lemma pool_inv_stop: "pool_inv p \<Longrightarrow> pool_inv (Pool_Stop p)" "pool_inv p \<Longrightarrow> pool_inv (p\<lparr>wp_ctx_done := True\<rparr>)"
  by (auto simp: pool_inv_def Pool_Stop_def)

lemma pool_inv_worker:
  "pool_inv p \<Longrightarrow> i < length (wp_loops p) \<Longrightarrow> p' \<in> set (worker_steps i p) \<Longrightarrow> pool_inv p'"
  by (auto simp: pool_inv_def worker_steps_def set_loop_def cnt_update cnt_remove
      split: worker.splits list.splits if_splits)

lemmas pool_inv_ops = pool_inv_start pool_inv_dispatch pool_inv_resize pool_inv_stop pool_inv_worker

lemma pool_inv_step: "pool_step ok p p' \<Longrightarrow> pool_inv p \<Longrightarrow> pool_inv p'"
  by (erule pool_stepE) (auto intro: pool_inv_ops)

lemma pool_inv_reach: "pool_reach ok n p \<Longrightarrow> pool_inv p"
  by (induction rule: pool_reach.induct) (auto intro: pool_inv_init pool_inv_step)

text \<open>The balance of shrink tokens, as long as shrinking starts after \<open>Start\<close> and never
  overflows the token channel.\<close>

definition resize_after_start :: "'j pool \<Rightarrow> int \<Rightarrow> bool" where
  "resize_after_start p n =
     (let n' = (if n \<le> 0 then 1 else n) in
      wp_size p \<le> n' \<or> (wp_started p \<and> int (wp_excessQuit p) + (wp_size p - n') \<le> int excess_cap))"

definition token_balance :: "'j pool \<Rightarrow> bool" where
  "token_balance p \<longleftrightarrow>
     (\<not> wp_started p \<longrightarrow> wp_excessQuit p = 0) \<and>
     (wp_started p \<and> \<not> wp_stopped p \<and> \<not> wp_ctx_done p \<longrightarrow>
        cnt is_live (wp_loops p) = wp_size p + int (wp_excessQuit p))"

lemma token_balance_resize:
  "pool_inv p \<Longrightarrow> token_balance p \<Longrightarrow> resize_after_start p n \<Longrightarrow> token_balance (Pool_Resize n p)"
  by (auto simp: token_balance_def Pool_Resize_def resize_after_start_def Let_def min_def split: if_splits)

lemma token_balance_worker:
  "token_balance p \<Longrightarrow> pool_inv p \<Longrightarrow> i < length (wp_loops p) \<Longrightarrow> p' \<in> set (worker_steps i p) \<Longrightarrow>
   token_balance p'"
  by (auto simp: token_balance_def pool_inv_def worker_steps_def set_loop_def cnt_update cnt_remove
      split: worker.splits list.splits if_splits)

lemma token_balance_step:
  "pool_step resize_after_start p p' \<Longrightarrow> pool_inv p \<Longrightarrow> token_balance p \<Longrightarrow> token_balance p'"
proof (induction rule: pool_step.induct)
  case (start p)
  then show ?case by (auto simp: token_balance_def Pool_Start_def pool_inv_def)
next
  case (dispatch job p)
  then show ?case by (auto simp: token_balance_def Dispatch_def dispatch_check_def dispatch_send_def)
qed (auto simp: token_balance_resize token_balance_worker, auto simp: token_balance_def Pool_Stop_def)

lemma token_balance_reach: "pool_reach resize_after_start n p \<Longrightarrow> token_balance p"
proof (induction rule: pool_reach.induct)
  case init
  then show ?case by (simp add: token_balance_def NewWorkerPool_def Let_def)
next
  case (step p p')
  then show ?case using token_balance_step pool_inv_reach by blast
qed

lemma live_running: "cnt is_running xs \<le> cnt is_live xs" "cnt is_live xs \<le> int (length xs)"
proof -
  show "cnt is_running xs \<le> cnt is_live xs"
    by (induction xs) (auto simp: is_running_def is_live_def split: worker.splits)
qed (rule cnt_le)

lemma live_worker_step:
  assumes "i < length (wp_loops p)" "is_live (wp_loops p ! i)" "wp_jobs p \<noteq> []"
  shows "\<exists>p'. p' \<in> set (worker_steps i p)"
  using assms by (cases "wp_loops p ! i") (auto simp: worker_steps_def neq_Nil_conv)

lemma cnt_pos_ex: "0 < cnt P xs \<Longrightarrow> \<exists>i < length xs. P (xs ! i)"
  by (auto simp: cnt_def filter_empty_conv in_set_conv_nth)

section \<open>Properties\<close>

text \<open>The pool's counters. In every reachable state the number of jobs inside the runner is
  \<open>active\<close>, it never exceeds the number of worker goroutines, \<open>Free\<close> is never negative and
  never more than the size, and the queue never exceeds its capacity.\<close>

theorem pool_counters:
  assumes "pool_reach ok n p"
  shows "Pool_Active p = cnt is_running (wp_loops p) \<and> Pool_Active p \<le> wp_workers p \<and>
    0 \<le> Pool_Free p \<and> Pool_Free p \<le> wp_size p \<and> length (wp_jobs p) \<le> wp_cap p"
proof -
  have inv: "pool_inv p" by (rule pool_inv_reach [OF assms])
  then have "cnt is_running (wp_loops p) \<le> wp_workers p"
    using live_running [of "wp_loops p"] by (simp add: pool_inv_def)
  moreover have "0 \<le> wp_active p" using inv by (simp add: pool_inv_def)
  ultimately show ?thesis
    using inv by (auto simp: pool_inv_def Pool_Active_def Pool_Free_def Let_def)
qed

lemma pool_counters_witness:
  "Pool_Free (Pool_Start (NewWorkerPool 2) :: nat pool) \<le> 2"
proof -
  have "pool_reach (\<lambda>_ _. True) 2 (Pool_Start (NewWorkerPool 2 :: nat pool))"
    by (rule pool_reach.step [OF pool_reach.init pool_step.start])
  from pool_counters [OF this] show ?thesis
    by (auto simp: Pool_Start_def NewWorkerPool_def Let_def)
qed

text \<open>C4: Workers are neither lost nor leaked. When shrinking happens only after \<open>Start\<close> and
  within the capacity of the token channel, a running pool (started, not stopped, its
  context alive) always has exactly its size plus the outstanding shrink tokens live
  workers; so there is at least one, and a queued job can always make progress.\<close>

theorem pool_keeps_workers:
  assumes "pool_reach resize_after_start n p"
    and "wp_started p" "\<not> wp_stopped p" "\<not> wp_ctx_done p"
  shows "cnt is_live (wp_loops p) = wp_size p + int (wp_excessQuit p) \<and>
    1 \<le> cnt is_live (wp_loops p) \<and>
    (wp_jobs p = [] \<or> (\<exists>i p'. i < length (wp_loops p) \<and> p' \<in> set (worker_steps i p)))"
proof -
  have bal: "cnt is_live (wp_loops p) = wp_size p + int (wp_excessQuit p)"
    using token_balance_reach [OF assms(1)] assms(2-4) by (simp add: token_balance_def)
  moreover have "1 \<le> wp_size p"
    using pool_inv_reach [OF assms(1)] by (simp add: pool_inv_def)
  ultimately have one: "1 \<le> cnt is_live (wp_loops p)" by simp
  then obtain i where "i < length (wp_loops p)" "is_live (wp_loops p ! i)"
    using cnt_pos_ex [of is_live "wp_loops p"] by auto
  then show ?thesis using bal one live_worker_step by blast
qed

lemma pool_keeps_workers_witness:
  "1 \<le> cnt is_live (wp_loops (Pool_Start (NewWorkerPool 3) :: nat pool))"
  using pool_keeps_workers [OF pool_reach.step [OF pool_reach.init pool_step.start], of 3]
  by (simp add: Pool_Start_def NewWorkerPool_def Let_def)

fun run_worker :: "nat \<Rightarrow> 'j pool \<Rightarrow> 'j pool" where
  "run_worker 0 p = p"
| "run_worker (Suc n) p =
     (case wp_loops p of [] \<Rightarrow> p | _ \<Rightarrow>
       (case worker_steps 0 p of [] \<Rightarrow> p | p' # _ \<Rightarrow> run_worker n p'))"

lemma run_worker_reach: "pool_reach ok n p \<Longrightarrow> pool_reach ok n (run_worker k p)"
proof (induction k arbitrary: p)
  case (Suc k)
  show ?case
  proof (cases "wp_loops p = [] \<or> worker_steps 0 p = []")
    case True
    then show ?thesis using Suc.prems by (auto split: list.splits)
  next
    case False
    then obtain p' ps where p': "worker_steps 0 p = p' # ps" "wp_loops p \<noteq> []"
      by (auto simp: neq_Nil_conv)
    then have "pool_step ok p p'" by (intro pool_step.worker [of 0]) auto
    then have "pool_reach ok n (run_worker k p')"
      using Suc by (blast intro: pool_reach.step)
    then show ?thesis using p' by (auto split: list.splits)
  qed
qed simp

definition shrunk_pool :: "nat pool" where
  "shrunk_pool = snd (Dispatch 7 (Pool_Start (Pool_Resize 1 (NewWorkerPool 2))))"

lemma shrunk_pool_eq:
  "shrunk_pool = \<lparr>wp_size = 1, wp_active = 0, wp_jobs = [7], wp_cap = 2, wp_started = True,
     wp_stopped = False, wp_ctx_done = False, wp_workers = 1, wp_excessQuit = 1, wp_loops = [Idle]\<rparr>"
  by (simp add: shrunk_pool_def NewWorkerPool_def Pool_Resize_def Pool_Start_def Dispatch_def
      dispatch_check_def dispatch_send_def spawnWorkerLocked_def Let_def excess_cap_def)

lemma run_worker_shrunk:
  "run_worker 5 shrunk_pool = \<lparr>wp_size = 1, wp_active = 0, wp_jobs = [], wp_cap = 2, wp_started = True,
     wp_stopped = False, wp_ctx_done = False, wp_workers = 0, wp_excessQuit = 0, wp_loops = []\<rparr>"
proof -
  have five: "5 = Suc (Suc (Suc (Suc (Suc 0))))" by simp
  show ?thesis
    unfolding five shrunk_pool_eq by (simp add: worker_steps_def set_loop_def)
qed

text \<open>Shrinking before \<open>Start\<close> can kill the pool. \<open>Resize\<close> queues shrink tokens even when no
  worker has been spawned yet, while \<open>Start\<close> already spawns the reduced number of workers;
  after the first job the only worker of a pool resized from two to one leaves, and a
  started pool of size one is left with a queued job and no worker at all.\<close>

theorem shrink_before_start_kills_pool:
  "\<exists>p :: nat pool. pool_reach (\<lambda>_ _. True) 2 p \<and> wp_started p \<and> \<not> wp_stopped p \<and> \<not> wp_ctx_done p \<and>
     wp_size p = 1 \<and> wp_workers p = 0 \<and> wp_jobs p \<noteq> []"
proof -
  let ?p = "snd (Dispatch 8 (run_worker 5 shrunk_pool))"
  have "pool_reach (\<lambda>_ _. True) 2 shrunk_pool"
    unfolding shrunk_pool_def
    by (rule pool_reach.step [OF pool_reach.step [OF pool_reach.step [OF pool_reach.init
          pool_step.resize [OF TrueI]] pool_step.start] pool_step.dispatch])
  then have "pool_reach (\<lambda>_ _. True) 2 (run_worker 5 shrunk_pool)" by (rule run_worker_reach)
  then have "pool_reach (\<lambda>_ _. True) 2 ?p" by (rule pool_reach.step) (rule pool_step.dispatch)
  moreover have "wp_started ?p \<and> \<not> wp_stopped ?p \<and> \<not> wp_ctx_done ?p \<and> wp_size ?p = 1 \<and>
      wp_workers ?p = 0 \<and> wp_jobs ?p \<noteq> []"
    unfolding run_worker_shrunk by (simp add: Dispatch_def dispatch_check_def dispatch_send_def)
  ultimately show ?thesis by blast
qed

text \<open>\<open>Dispatch\<close> and its race with \<open>Stop\<close>. Undisturbed, \<open>Dispatch\<close> accepts a job exactly when
  the pool is not stopped and the queue has room, and then appends it to the queue; but the
  flag is read under the lock and the send happens after the lock is released, so from every
  state in which the check passes a \<open>Stop\<close> in between makes the send panic.\<close>

theorem dispatch_stop_race:
  "(fst (Dispatch job p) \<longleftrightarrow> \<not> wp_stopped p \<and> length (wp_jobs p) < wp_cap p) \<and>
   wp_jobs (snd (Dispatch job p)) = wp_jobs p @ (if fst (Dispatch job p) then [job] else []) \<and>
   (dispatch_check p = (\<exists>p'. pool_step ok p p' \<and> \<not> wp_stopped p \<and> dispatch_send job p' = SendPanic))"
proof (intro conjI)
  show "dispatch_check p = (\<exists>p'. pool_step ok p p' \<and> \<not> wp_stopped p \<and> dispatch_send job p' = SendPanic)"
  proof
    assume "dispatch_check p"
    then have "\<not> wp_stopped p" "dispatch_send job (Pool_Stop p) = SendPanic"
      by (simp_all add: dispatch_check_def dispatch_send_def Pool_Stop_def)
    then show "\<exists>p'. pool_step ok p p' \<and> \<not> wp_stopped p \<and> dispatch_send job p' = SendPanic"
      using pool_step.stop by blast
  qed (auto simp: dispatch_check_def)
qed (auto simp: Dispatch_def dispatch_check_def dispatch_send_def)

end
