(* ===== verification/Blackout.thy ===== *)
theory Blackout
  imports RRule
begin

text \<open>
  The blackout evaluator, \<open>internal/daemon/intervalsched/blackout.go\<close>: the cache of enabled
  windows, its refresh from the store, and the queries \<open>IsActive\<close> and \<open>NextWindowEnd\<close>. The
  answer of the store (\<open>None\<close> for an error) and the reading of the clock are arguments.
\<close>

definition cacheTTL :: duration where "cacheTTL = 30 * second"

definition blackoutHorizonPast :: duration where "blackoutHorizonPast = 7 * 24 * hour"

record 'r cachedWindow =
  cw_window :: BlackoutWindow
  cw_rule :: 'r
  cw_loc :: loc

record 'r BlackoutEvaluator =
  ev_global :: "'r cachedWindow list"
  ev_perTarget :: "(string \<times> 'r cachedWindow list) list"
  ev_lastRefresh :: time
  ev_refreshErr :: bool
  ev_populatedOK :: bool

definition NewBlackoutEvaluator :: "'r BlackoutEvaluator" where
  "NewBlackoutEvaluator =
     \<lparr>ev_global = [], ev_perTarget = [], ev_lastRefresh = zero_time, ev_refreshErr = False,
      ev_populatedOK = False\<rparr>"

definition buildCachedWindow :: "'r rrule_lib \<Rightarrow> BlackoutWindow \<Rightarrow> 'r cachedWindow option" where
  "buildCachedWindow lib w =
     (case LoadLocation lib (bo_Timezone w) of
        None \<Rightarrow> None
      | Some loc \<Rightarrow>
          (case StrToROption lib (bo_RRule w) of
             None \<Rightarrow> None
           | Some opt \<Rightarrow>
               let opt = (case ro_Dtstart opt of
                            None \<Rightarrow> opt\<lparr>ro_Dtstart := Some (bo_CreatedAt w, loc)\<rparr>
                          | Some d \<Rightarrow> opt\<lparr>ro_Dtstart := Some (fst d, loc)\<rparr>)
               in case NewRRule lib opt of
                    None \<Rightarrow> None
                  | Some rule \<Rightarrow> Some \<lparr>cw_window = w, cw_rule = rule, cw_loc = loc\<rparr>))"

text \<open>Appending to the slice of one key of the per-target map.\<close>

definition add_target :: "string \<Rightarrow> 'a \<Rightarrow> (string \<times> 'a list) list \<Rightarrow> (string \<times> 'a list) list" where
  "add_target t x m = AList.update t ((case map_of m t of None \<Rightarrow> [] | Some xs \<Rightarrow> xs) @ [x]) m"

definition refresh_one ::
  "'r rrule_lib \<Rightarrow> BlackoutWindow \<Rightarrow> 'r cachedWindow list \<times> (string \<times> 'r cachedWindow list) list
   \<Rightarrow> 'r cachedWindow list \<times> (string \<times> 'r cachedWindow list) list" where
  "refresh_one lib w acc =
     (case acc of (global, perTarget) \<Rightarrow>
        if \<not> bo_Enabled w then acc
        else case buildCachedWindow lib w of
          None \<Rightarrow> acc
        | Some cached \<Rightarrow>
            (case bo_Scope w of
               BlackoutScopeGlobal \<Rightarrow> (global @ [cached], perTarget)
             | BlackoutScopeTarget \<Rightarrow>
                 (case bo_TargetID w of
                    None \<Rightarrow> acc
                  | Some t \<Rightarrow> if t = [] then acc else (global, add_target t cached perTarget))))"

text \<open>The result is whether the listing succeeded.\<close>

definition Refresh ::
  "'r rrule_lib \<Rightarrow> BlackoutWindow list option \<Rightarrow> time \<Rightarrow> 'r BlackoutEvaluator
   \<Rightarrow> bool \<times> 'r BlackoutEvaluator" where
  "Refresh lib rows now e =
     (case rows of
        None \<Rightarrow> (False, e\<lparr>ev_refreshErr := True\<rparr>)
      | Some windows \<Rightarrow>
          (case fold (refresh_one lib) windows ([], []) of (global, perTarget) \<Rightarrow>
             (True, \<lparr>ev_global = global, ev_perTarget = perTarget, ev_lastRefresh = now,
                     ev_refreshErr = False, ev_populatedOK = True\<rparr>)))"

definition ensureFreshLocked ::
  "'r rrule_lib \<Rightarrow> BlackoutWindow list option \<Rightarrow> time \<Rightarrow> 'r BlackoutEvaluator \<Rightarrow> 'r BlackoutEvaluator" where
  "ensureFreshLocked lib rows now e =
     (let stale = (\<not> ev_populatedOK e \<or> now - ev_lastRefresh e > cacheTTL) in
      if \<not> stale then e else snd (Refresh lib rows now e))"

text \<open>The first occurrence of \<open>cw\<close> that covers \<open>at\<close>; \<open>occurrenceCovers\<close> asks whether there is
  one and \<open>activeOccurrenceEnd\<close> for its end.\<close>

fun first_covering :: "duration \<Rightarrow> time \<Rightarrow> time list \<Rightarrow> time option" where
  "first_covering dur at [] = None"
| "first_covering dur at (t # ts) =
     (let end = t + dur in
      if (at = t \<or> t < at) \<and> at < end then Some end else first_covering dur at ts)"

definition occurrenceCovers :: "'r rrule_lib \<Rightarrow> 'r cachedWindow \<Rightarrow> time \<Rightarrow> bool" where
  "occurrenceCovers lib cw at =
     (let dur = seconds (bo_DurationSec (cw_window cw)) in
      if dur \<le> 0 then False
      else
        let lower = at - blackoutHorizonPast; upper = at + 1
        in list_ex (\<lambda>t. (at = t \<or> t < at) \<and> at < t + dur) (Between lib (cw_rule cw) lower upper))"

definition activeOccurrenceEnd :: "'r rrule_lib \<Rightarrow> 'r cachedWindow \<Rightarrow> time \<Rightarrow> time option" where
  "activeOccurrenceEnd lib cw at =
     (let dur = seconds (bo_DurationSec (cw_window cw)) in
      if dur \<le> 0 then None
      else
        let lower = at - blackoutHorizonPast; upper = at + 1
        in first_covering dur at (Between lib (cw_rule cw) lower upper))"

fun firstActive :: "'r rrule_lib \<Rightarrow> 'r cachedWindow list \<Rightarrow> time \<Rightarrow> BlackoutWindow option" where
  "firstActive lib [] at = None"
| "firstActive lib (cw # cws) at =
     (if occurrenceCovers lib cw at then Some (cw_window cw) else firstActive lib cws at)"

definition target_windows :: "'r BlackoutEvaluator \<Rightarrow> string \<Rightarrow> 'r cachedWindow list" where
  "target_windows e targetID = (case map_of (ev_perTarget e) targetID of None \<Rightarrow> [] | Some ws \<Rightarrow> ws)"

definition active_window :: "'r rrule_lib \<Rightarrow> 'r BlackoutEvaluator \<Rightarrow> string \<Rightarrow> time \<Rightarrow> BlackoutWindow option" where
  "active_window lib e targetID at =
     (case firstActive lib (ev_global e) at of
        Some w \<Rightarrow> Some w
      | None \<Rightarrow> firstActive lib (target_windows e targetID) at)"

text \<open>\<open>IsActive\<close> also returns the evaluator, which an implicit refresh may have changed.\<close>

definition IsActive ::
  "'r rrule_lib \<Rightarrow> BlackoutWindow list option \<Rightarrow> time \<Rightarrow> 'r BlackoutEvaluator \<Rightarrow> string \<Rightarrow> time
   \<Rightarrow> BlackoutWindow option \<times> 'r BlackoutEvaluator" where
  "IsActive lib rows now e targetID at =
     (let e = ensureFreshLocked lib rows now e in (active_window lib e targetID at, e))"

fun first_end :: "'r rrule_lib \<Rightarrow> 'r cachedWindow list \<Rightarrow> time \<Rightarrow> time" where
  "first_end lib [] at = at + second"
| "first_end lib (cw # cws) at =
     (case activeOccurrenceEnd lib cw at of Some end \<Rightarrow> end | None \<Rightarrow> first_end lib cws at)"

definition findActiveEnd ::
  "'r rrule_lib \<Rightarrow> 'r BlackoutEvaluator \<Rightarrow> string \<Rightarrow> BlackoutWindow \<Rightarrow> time \<Rightarrow> time" where
  "findActiveEnd lib e targetID w at =
     first_end lib
       (filter (\<lambda>cw. bo_ID (cw_window cw) = bo_ID w) (ev_global e)
        @ filter (\<lambda>cw. bo_ID (cw_window cw) = bo_ID w) (target_windows e targetID)) at"

definition NextWindowEnd ::
  "'r rrule_lib \<Rightarrow> BlackoutWindow list option \<Rightarrow> time \<Rightarrow> 'r BlackoutEvaluator \<Rightarrow> string \<Rightarrow> time
   \<Rightarrow> time option \<times> 'r BlackoutEvaluator" where
  "NextWindowEnd lib rows now e targetID at =
     (case IsActive lib rows now e targetID at of
        (None, e') \<Rightarrow> (None, e')
      | (Some w, e') \<Rightarrow> (Some (findActiveEnd lib e' targetID w at), e'))"

section \<open>Lemmas\<close>

lemma ensureFresh_idem [simp]:
  "ensureFreshLocked lib rows now (ensureFreshLocked lib rows now e) = ensureFreshLocked lib rows now e"
  by (auto simp: ensureFreshLocked_def Refresh_def Let_def cacheTTL_def second_def
      split: option.splits prod.splits)

lemma IsActive_snd [simp]: "snd (IsActive lib rows now e t at) = ensureFreshLocked lib rows now e"
  by (simp add: IsActive_def Let_def)

lemma NextWindowEnd_snd [simp]: "snd (NextWindowEnd lib rows now e t at) = ensureFreshLocked lib rows now e"
  by (auto simp: NextWindowEnd_def IsActive_def Let_def split: option.splits)

lemma IsActive_fresh [simp]:
  "fst (IsActive lib rows now (ensureFreshLocked lib rows now e) t at) = fst (IsActive lib rows now e t at)"
  by (simp add: IsActive_def Let_def)

definition covers :: "'r rrule_lib \<Rightarrow> 'r cachedWindow \<Rightarrow> time \<Rightarrow> time \<Rightarrow> bool" where
  "covers lib cw t at \<longleftrightarrow> occurs lib (cw_rule cw) t \<and> t \<le> at \<and> at < t + seconds (bo_DurationSec (cw_window cw))"

lemma occurrenceCovers_iff:
  assumes "rrule_lib_ok lib"
  shows "occurrenceCovers lib cw at \<longleftrightarrow> (\<exists>t. covers lib cw t at \<and> at - blackoutHorizonPast \<le> t)"
proof -
  have "(\<exists>t \<in> set (Between lib (cw_rule cw) (at - blackoutHorizonPast) (at + 1)).
          (at = t \<or> t < at) \<and> at < t + d) \<longleftrightarrow>
        (\<exists>t. occurs lib (cw_rule cw) t \<and> t \<le> at \<and> at < t + d \<and> at - blackoutHorizonPast \<le> t)" for d
    unfolding Bex_def between_iff [OF assms] by auto
  then show ?thesis
    by (auto simp: occurrenceCovers_def covers_def Let_def list_ex_iff)
qed

lemma first_covering_Some:
  "first_covering dur at ts = Some e \<Longrightarrow> \<exists>t \<in> set ts. t \<le> at \<and> at < t + dur \<and> e = t + dur"
  by (induction ts) (auto simp: Let_def split: if_splits)

lemma first_covering_None:
  "first_covering dur at ts = None \<longleftrightarrow> (\<forall>t \<in> set ts. \<not> (t \<le> at \<and> at < t + dur))"
  by (induction ts) (auto simp: Let_def)

lemma activeOccurrenceEnd_None: "activeOccurrenceEnd lib cw at = None \<longleftrightarrow> \<not> occurrenceCovers lib cw at"
  by (auto simp: activeOccurrenceEnd_def occurrenceCovers_def Let_def first_covering_None list_ex_iff)

lemma activeOccurrenceEnd_Some:
  assumes "rrule_lib_ok lib" "activeOccurrenceEnd lib cw at = Some e"
  obtains t where "covers lib cw t at" "e = t + seconds (bo_DurationSec (cw_window cw))"
  using assms(2) between_iff [OF assms(1), of _ "cw_rule cw"]
  by (fastforce simp: activeOccurrenceEnd_def covers_def Let_def dest!: first_covering_Some split: if_splits)

lemma firstActive_Some:
  "firstActive lib cws at = Some w \<Longrightarrow> \<exists>cw \<in> set cws. occurrenceCovers lib cw at \<and> w = cw_window cw"
  by (induction cws) (auto split: if_splits)

lemma firstActive_None: "firstActive lib cws at = None \<longleftrightarrow> (\<forall>cw \<in> set cws. \<not> occurrenceCovers lib cw at)"
  by (induction cws) auto

lemma active_window_None:
  "active_window lib e t at = None \<longleftrightarrow>
     (\<forall>cw \<in> set (ev_global e) \<union> set (target_windows e t). \<not> occurrenceCovers lib cw at)"
proof (cases "firstActive lib (ev_global e) at")
  case None
  then have "\<forall>cw \<in> set (ev_global e). \<not> occurrenceCovers lib cw at" by (simp add: firstActive_None)
  then show ?thesis using None by (auto simp: active_window_def firstActive_None [of lib "target_windows e t"])
next
  case (Some w)
  then have "\<not> (\<forall>cw \<in> set (ev_global e). \<not> occurrenceCovers lib cw at)"
    by (metis firstActive_None option.distinct(1))
  then show ?thesis using Some by (auto simp: active_window_def)
qed

lemma first_end_covering:
  "\<exists>cw \<in> set cws. occurrenceCovers lib cw at \<Longrightarrow>
   \<exists>cw \<in> set cws. activeOccurrenceEnd lib cw at = Some (first_end lib cws at)"
proof (induction cws)
  case (Cons cw cws)
  show ?case
  proof (cases "activeOccurrenceEnd lib cw at")
    case None
    then have "\<exists>cw \<in> set cws. occurrenceCovers lib cw at"
      using Cons.prems activeOccurrenceEnd_None [of lib cw at] by auto
    from Cons.IH [OF this] show ?thesis using None by auto
  qed simp
qed simp

lemma active_window_Some:
  assumes "active_window lib e t at = Some w"
  obtains cw where "cw \<in> set (ev_global e) \<union> set (target_windows e t)" "occurrenceCovers lib cw at"
    "w = cw_window cw"
  using assms by (auto simp: active_window_def dest!: firstActive_Some split: option.splits)

lemma findActiveEnd_spec:
  assumes "active_window lib e t at = Some w"
  obtains cw where "cw \<in> set (ev_global e) \<union> set (target_windows e t)"
    "activeOccurrenceEnd lib cw at = Some (findActiveEnd lib e t w at)"
proof -
  let ?cs = "filter (\<lambda>cw. bo_ID (cw_window cw) = bo_ID w) (ev_global e)
        @ filter (\<lambda>cw. bo_ID (cw_window cw) = bo_ID w) (target_windows e t)"
  obtain c where "c \<in> set (ev_global e) \<union> set (target_windows e t)" "occurrenceCovers lib c at"
    "w = cw_window c"
    by (rule active_window_Some [OF assms])
  then have "\<exists>cw \<in> set ?cs. occurrenceCovers lib cw at" by auto
  from first_end_covering [OF this] that show ?thesis
    unfolding findActiveEnd_def by auto
qed

text \<open>The cache after a refresh holds exactly the enabled, buildable windows of the store.\<close>

definition cached_for :: "'r rrule_lib \<Rightarrow> BlackoutWindow list \<Rightarrow> string \<Rightarrow> 'r cachedWindow \<Rightarrow> bool" where
  "cached_for lib rows t cw \<longleftrightarrow>
     (\<exists>w \<in> set rows. bo_Enabled w \<and> buildCachedWindow lib w = Some cw \<and>
        (bo_Scope w = BlackoutScopeGlobal \<or>
         (bo_Scope w = BlackoutScopeTarget \<and> bo_TargetID w = Some t \<and> t \<noteq> [])))"

definition lookup_all :: "(string \<times> 'a list) list \<Rightarrow> string \<Rightarrow> 'a list" where
  "lookup_all m t = (case map_of m t of None \<Rightarrow> [] | Some xs \<Rightarrow> xs)"

lemma lookup_add_target:
  "lookup_all (add_target u x m) t = lookup_all m t @ (if t = u then [x] else [])"
  by (auto simp: lookup_all_def add_target_def split: option.splits)

lemma refresh_fold:
  "fold (refresh_one lib) ws (g, p) = (g', p') \<Longrightarrow>
   set g' \<union> set (lookup_all p' t) = set g \<union> set (lookup_all p t) \<union> Collect (cached_for lib ws t)"
proof (induction ws arbitrary: g p)
  case Nil
  then show ?case by (simp add: cached_for_def)
next
  case (Cons w ws)
  obtain g1 p1 where s: "refresh_one lib w (g, p) = (g1, p1)" by fastforce
  have one: "set g1 \<union> set (lookup_all p1 t) = set g \<union> set (lookup_all p t) \<union> Collect (cached_for lib [w] t)"
    using s by (auto simp: refresh_one_def cached_for_def lookup_add_target
        split: if_splits option.splits BlackoutScope.splits)
  have "Collect (cached_for lib (w # ws) t) = Collect (cached_for lib [w] t) \<union> Collect (cached_for lib ws t)"
    by (auto simp: cached_for_def)
  then show ?case using Cons s one by auto
qed

lemma refreshed_windows:
  assumes "Refresh lib (Some rows) now e = (ok, e')"
  shows "set (ev_global e') \<union> set (target_windows e' t) = Collect (cached_for lib rows t)"
proof -
  obtain g p where f: "fold (refresh_one lib) rows ([], []) = (g, p)" by fastforce
  then show ?thesis
    using assms refresh_fold [OF f, of t]
    by (auto simp: Refresh_def target_windows_def lookup_all_def [symmetric])
      (auto simp: lookup_all_def)
qed

definition is_stale :: "'r BlackoutEvaluator \<Rightarrow> time \<Rightarrow> bool" where
  "is_stale e now \<longleftrightarrow> \<not> ev_populatedOK e \<or> now - ev_lastRefresh e > cacheTTL"

lemma ensureFresh_stale: "is_stale e now \<Longrightarrow> ensureFreshLocked lib rows now e = snd (Refresh lib rows now e)"
  by (auto simp: ensureFreshLocked_def is_stale_def Let_def)

lemma built_window: "buildCachedWindow lib w = Some cw \<Longrightarrow> cw_window cw = w"
  by (auto simp: buildCachedWindow_def Let_def split: option.splits)

lemma cached_for_window: "cached_for lib rows t cw \<Longrightarrow> cw_window cw \<in> set rows"
  unfolding cached_for_def using built_window by blast

lemma fresh_windows:
  assumes "is_stale e now"
  shows "set (ev_global (ensureFreshLocked lib (Some rows) now e))
      \<union> set (target_windows (ensureFreshLocked lib (Some rows) now e) t) = Collect (cached_for lib rows t)"
  unfolding ensureFresh_stale [OF assms]
  by (rule refreshed_windows [of lib rows now e "fst (Refresh lib (Some rows) now e)"]) simp

lemma covers_positive: "covers lib cw t at \<Longrightarrow> 0 < seconds (bo_DurationSec (cw_window cw))"
  by (auto simp: covers_def)

lemma occurrenceCovers_short:
  assumes "rrule_lib_ok lib" "seconds (bo_DurationSec (cw_window cw)) \<le> blackoutHorizonPast"
  shows "occurrenceCovers lib cw at \<longleftrightarrow> (\<exists>t. covers lib cw t at)"
  using assms(2) by (auto simp: occurrenceCovers_iff [OF assms(1)] covers_def)

lemma blackout_end_lemma:
  assumes "rrule_lib_ok lib" "is_stale e now"
    and "\<forall>w \<in> set rows. seconds (bo_DurationSec w) \<le> blackoutHorizonPast"
  shows "(fst (NextWindowEnd lib (Some rows) now e targetID at) = None \<longleftrightarrow>
      fst (IsActive lib (Some rows) now e targetID at) = None) \<and>
    (\<forall>end. fst (NextWindowEnd lib (Some rows) now e targetID at) = Some end \<longrightarrow>
      at < end \<and> (\<forall>x. at \<le> x \<and> x < end \<longrightarrow>
        fst (IsActive lib (Some rows) now e targetID x) \<noteq> None))"
proof (intro conjI allI impI)
  let ?e = "ensureFreshLocked lib (Some rows) now e"
  show "fst (NextWindowEnd lib (Some rows) now e targetID at) = None \<longleftrightarrow>
      fst (IsActive lib (Some rows) now e targetID at) = None"
    by (auto simp: NextWindowEnd_def IsActive_def Let_def split: option.splits)
  fix "end" assume "fst (NextWindowEnd lib (Some rows) now e targetID at) = Some end"
  then obtain w where act: "active_window lib ?e targetID at = Some w"
    and fin: "end = findActiveEnd lib ?e targetID w at"
    by (auto simp: NextWindowEnd_def IsActive_def Let_def split: option.splits)
  obtain cw where cw: "cw \<in> set (ev_global ?e) \<union> set (target_windows ?e targetID)"
    "activeOccurrenceEnd lib cw at = Some end"
    using findActiveEnd_spec [OF act] fin by metis
  obtain t where t: "covers lib cw t at" "end = t + seconds (bo_DurationSec (cw_window cw))"
    using activeOccurrenceEnd_Some [OF assms(1) cw(2)] by metis
  show "at < end" using t by (simp add: covers_def)
  have "cached_for lib rows targetID cw"
    using cw(1) fresh_windows [OF assms(2), of lib rows targetID] by blast
  then have short: "seconds (bo_DurationSec (cw_window cw)) \<le> blackoutHorizonPast"
    using assms(3) cached_for_window by blast
  fix x assume "at \<le> x \<and> x < end"
  then have "covers lib cw t x" using t by (simp add: covers_def)
  then have "occurrenceCovers lib cw x" using occurrenceCovers_short [OF assms(1) short] by blast
  then show "fst (IsActive lib (Some rows) now e targetID x) \<noteq> None"
    using cw(1) by (auto simp: IsActive_def Let_def active_window_None)
qed

section \<open>Properties\<close>

text \<open>C5: Blackout decision. Right after a refresh, and as long as no stored window is longer than
  the seven days the evaluator looks back, a target is reported to be in a blackout exactly
  when some enabled window of the store, global or for that target, with a loadable zone
  and a valid rule, has an occurrence that started at or before the instant and has not
  ended.\<close>

theorem blackout_decision:
  assumes "rrule_lib_ok lib" "is_stale e now"
    and "\<forall>w \<in> set rows. seconds (bo_DurationSec w) \<le> blackoutHorizonPast"
  shows "fst (IsActive lib (Some rows) now e targetID at) \<noteq> None \<longleftrightarrow>
    (\<exists>w \<in> set rows. bo_Enabled w \<and>
       (bo_Scope w = BlackoutScopeGlobal \<or>
        bo_Scope w = BlackoutScopeTarget \<and> bo_TargetID w = Some targetID \<and> targetID \<noteq> []) \<and>
       (\<exists>cw t. buildCachedWindow lib w = Some cw \<and> occurs lib (cw_rule cw) t \<and>
          t \<le> at \<and> at < t + seconds (bo_DurationSec w)))"
proof -
  have "fst (IsActive lib (Some rows) now e targetID at) \<noteq> None \<longleftrightarrow>
      (\<exists>cw. cached_for lib rows targetID cw \<and> occurrenceCovers lib cw at)"
    using fresh_windows [OF assms(2), of lib rows targetID]
    unfolding IsActive_def Let_def fst_conv active_window_None by auto
  also have "\<dots> \<longleftrightarrow> (\<exists>cw. cached_for lib rows targetID cw \<and> (\<exists>t. covers lib cw t at))"
    using occurrenceCovers_short [OF assms(1)] assms(3) cached_for_window by blast
  finally show ?thesis
    unfolding cached_for_def covers_def using built_window by blast
qed

definition ex_blackout :: BlackoutWindow where
  "ex_blackout = \<lparr>bo_ID = ''b1'', bo_Scope = BlackoutScopeGlobal, bo_TargetID = None, bo_Name = ''nightly'',
     bo_RRule = ''FREQ=DAILY'', bo_DurationSec = 7200, bo_Timezone = ''UTC'', bo_Enabled = True,
     bo_CreatedAt = 0, bo_UpdatedAt = 0\<rparr>"

lemma ex_blackout_built:
  "buildCachedWindow simple_lib ex_blackout = Some \<lparr>cw_window = ex_blackout, cw_rule = (0, day), cw_loc = utc\<rparr>"
  by (simp add: buildCachedWindow_def ex_blackout_def simple_lib_def simple_opt_def simple_period_def)

lemma blackout_decision_witness:
  "fst (IsActive simple_lib (Some [ex_blackout]) 0 NewBlackoutEvaluator ''t1'' (day + hour)) \<noteq> None"
proof -
  have "seconds 7200 = 7200 * second" by (rule seconds_eq) simp_all
  moreover have "occurs simple_lib (0, day) day"
    unfolding simple_occurs by (auto intro: exI [of _ 1])
  ultimately show ?thesis
    by (subst blackout_decision [OF simple_lib_ok])
      (auto simp: is_stale_def NewBlackoutEvaluator_def ex_blackout_built, auto simp: ex_blackout_def duration_defs blackoutHorizonPast_def)
qed

text \<open>End of a blackout. An end is reported exactly when the target is in a blackout; it lies
  strictly after the instant, and the target stays in a blackout at every instant before it.\<close>

theorem blackout_end:
  assumes "rrule_lib_ok lib" "is_stale e now"
    and "\<forall>w \<in> set rows. seconds (bo_DurationSec w) \<le> blackoutHorizonPast"
  shows "(fst (NextWindowEnd lib (Some rows) now e targetID at) = None \<longleftrightarrow>
      fst (IsActive lib (Some rows) now e targetID at) = None) \<and>
    (\<forall>end. fst (NextWindowEnd lib (Some rows) now e targetID at) = Some end \<longrightarrow>
      at < end \<and> (\<forall>x. at \<le> x \<and> x < end \<longrightarrow>
        fst (IsActive lib (Some rows) now e targetID x) \<noteq> None))"
  by (rule blackout_end_lemma [OF assms])

lemma blackout_end_witness:
  "\<exists>end. fst (NextWindowEnd simple_lib (Some [ex_blackout]) 0 NewBlackoutEvaluator ''t1'' (day + hour)) = Some end \<and>
     day + hour < end"
proof -
  have ok: "is_stale (NewBlackoutEvaluator :: (time \<times> duration) BlackoutEvaluator) 0"
    "\<forall>w \<in> set [ex_blackout]. seconds (bo_DurationSec w) \<le> blackoutHorizonPast"
    by (simp_all add: is_stale_def NewBlackoutEvaluator_def ex_blackout_def seconds_eq duration_defs blackoutHorizonPast_def)
  have "occurs simple_lib (0, day) day"
    unfolding simple_occurs by (auto intro: exI [of _ 1])
  then have "\<exists>t. covers simple_lib \<lparr>cw_window = ex_blackout, cw_rule = (0, day), cw_loc = utc\<rparr> t (day + hour)
      \<and> day + hour - blackoutHorizonPast \<le> t"
    by (intro exI [of _ day]) (simp add: covers_def ex_blackout_def seconds_eq blackoutHorizonPast_def duration_defs)
  then have "occurrenceCovers simple_lib \<lparr>cw_window = ex_blackout, cw_rule = (0, day), cw_loc = utc\<rparr> (day + hour)"
    by (simp add: occurrenceCovers_iff [OF simple_lib_ok])
  then have "fst (IsActive simple_lib (Some [ex_blackout]) 0 NewBlackoutEvaluator ''t1'' (day + hour)) \<noteq> None"
    using ok(1) by (simp add: IsActive_def ensureFresh_stale Refresh_def refresh_one_def ex_blackout_built
        active_window_def) (simp add: ex_blackout_def)
  then show ?thesis
    using blackout_end [OF simple_lib_ok ok, of "''t1''" "day + hour"]
    by (metis option.exhaust)
qed

end
