(* ===== verification/Expander.thy ===== *)
theory Expander
  imports Blackout
begin

text \<open>
  The recurrence expander, \<open>internal/daemon/intervalsched/rrule_expand.go\<close>, and the overlap
  check of \<open>overlap.go\<close>. The random generator is the parameter \<open>rng\<close>: \<open>rng k n\<close> is the
  value of the \<open>k\<close>-th call when it is \<open>Intn(n)\<close>. The loop that skips blackouts runs at most
  \<open>maxBlackoutSkipIterations\<close> times, which is its fuel in the model as it is in the code.
\<close>

section \<open>Building the rule of a schedule\<close>

datatype expand_error =
  ExpResolve cascade_error | ExpTimezone | ExpParse | ExpBuild | ErrBlackoutSaturated

text \<open>The steps shared by \<open>ComputeNextRunAt\<close> and \<open>expandSchedule\<close>: resolve the cascade, load the
  zone, parse the rule, choose the start (the schedule's, else the rule's, else now) and
  build the rule.\<close>

definition schedule_rule ::
  "'r rrule_lib \<Rightarrow> ScheduleDefaults \<Rightarrow> time \<Rightarrow> Schedule \<Rightarrow> Template option \<Rightarrow> (expand_error, 'r) result" where
  "schedule_rule lib defaults now s tmpl =
     (case ResolveEffectiveConfig s tmpl defaults of
        Inl e \<Rightarrow> Inl (ExpResolve e)
      | Inr eff \<Rightarrow>
          (case LoadLocation lib (ec_Timezone eff) of
             None \<Rightarrow> Inl ExpTimezone
           | Some loc \<Rightarrow>
               (case StrToROption lib (ec_RRule eff) of
                  None \<Rightarrow> Inl ExpParse
                | Some opt \<Rightarrow>
                    let opt = (if sch_DTStart s \<noteq> zero_time
                               then opt\<lparr>ro_Dtstart := Some (sch_DTStart s, loc)\<rparr>
                               else case ro_Dtstart opt of
                                 Some d \<Rightarrow> opt\<lparr>ro_Dtstart := Some (fst d, loc)\<rparr>
                               | None \<Rightarrow> opt\<lparr>ro_Dtstart := Some (now, loc)\<rparr>)
                    in case NewRRule lib opt of
                         None \<Rightarrow> Inl ExpBuild
                       | Some rule \<Rightarrow> Inr rule)))"

section \<open>The next run\<close>

definition maxBlackoutSkipIterations :: nat where "maxBlackoutSkipIterations = 100"

record 'r RRuleExpander =
  xp_defaults :: ScheduleDefaults
  xp_blackouts :: "'r BlackoutEvaluator option"
  xp_draws :: nat

text \<open>What the expander reads from outside: the library, the answer of the blackout store, the
  clock and the random generator.\<close>

record 'r world =
  wd_lib :: "'r rrule_lib"
  wd_blackout_rows :: "BlackoutWindow list option"
  wd_now :: time
  wd_rng :: "nat \<Rightarrow> int \<Rightarrow> int"

definition rng_ok :: "(nat \<Rightarrow> int \<Rightarrow> int) \<Rightarrow> bool" where
  "rng_ok rng \<longleftrightarrow> (\<forall>k n. 0 < n \<longrightarrow> 0 \<le> rng k n \<and> rng k n < n)"

definition nextJitter :: "'r world \<Rightarrow> ScheduleDefaults \<Rightarrow> nat \<Rightarrow> duration \<times> nat" where
  "nextJitter wd defaults k =
     (if sd_JitterSeconds defaults \<le> 0 then (0, k)
      else (seconds (wd_rng wd k (sd_JitterSeconds defaults + 1)), Suc k))"

fun skip_blackouts ::
  "nat \<Rightarrow> 'r world \<Rightarrow> ScheduleDefaults \<Rightarrow> 'r \<Rightarrow> string \<Rightarrow> time \<Rightarrow> 'r BlackoutEvaluator \<Rightarrow> nat
   \<Rightarrow> (expand_error, time option) result \<times> 'r BlackoutEvaluator \<times> nat" where
  "skip_blackouts 0 wd defaults rule targetID candidate b k = (Inl ErrBlackoutSaturated, b, k)"
| "skip_blackouts (Suc i) wd defaults rule targetID candidate b k =
     (case IsActive (wd_lib wd) (wd_blackout_rows wd) (wd_now wd) b targetID candidate of
        (None, b) \<Rightarrow> (Inr (Some candidate), b, k)
      | (Some _, b) \<Rightarrow>
          (case NextWindowEnd (wd_lib wd) (wd_blackout_rows wd) (wd_now wd) b targetID candidate of
             (None, b) \<Rightarrow> skip_blackouts i wd defaults rule targetID (candidate + second) b k
           | (Some end, b) \<Rightarrow>
               (case After (wd_lib wd) rule end of
                  None \<Rightarrow> (Inr None, b, k)
                | Some next \<Rightarrow>
                    (case nextJitter wd defaults k of (j, k) \<Rightarrow>
                       skip_blackouts i wd defaults rule targetID (next + j) b k))))"

definition ComputeNextRunAt ::
  "'r world \<Rightarrow> 'r RRuleExpander \<Rightarrow> Schedule \<Rightarrow> Template option
   \<Rightarrow> (expand_error, time option) result \<times> 'r RRuleExpander" where
  "ComputeNextRunAt wd e s tmpl =
     (case schedule_rule (wd_lib wd) (xp_defaults e) (wd_now wd) s tmpl of
        Inl err \<Rightarrow> (Inl err, e)
      | Inr rule \<Rightarrow>
          (case After (wd_lib wd) rule (wd_now wd) of
             None \<Rightarrow> (Inr None, e)
           | Some occ \<Rightarrow>
               (case nextJitter wd (xp_defaults e) (xp_draws e) of (j, k) \<Rightarrow>
                  (case xp_blackouts e of
                     None \<Rightarrow> (Inr (Some (occ + j)), e\<lparr>xp_draws := k\<rparr>)
                   | Some b \<Rightarrow>
                       (case skip_blackouts maxBlackoutSkipIterations wd (xp_defaults e) rule
                               (sch_TargetID s) (occ + j) b k of
                          (r, b', k') \<Rightarrow> (r, e\<lparr>xp_blackouts := Some b', xp_draws := k'\<rparr>))))))"

section \<open>Overlap\<close>

record OverlapConflict =
  oc_ScheduleID :: string
  oc_OccurrenceA :: time
  oc_OccurrenceB :: time

definition expandSchedule ::
  "'r rrule_lib \<Rightarrow> Schedule \<Rightarrow> Template option \<Rightarrow> ScheduleDefaults \<Rightarrow> time \<Rightarrow> duration
   \<Rightarrow> (expand_error, time list) result" where
  "expandSchedule lib s tmpl defaults now horizon =
     (case schedule_rule lib defaults now s tmpl of
        Inl e \<Rightarrow> Inl e
      | Inr rule \<Rightarrow> Inr (Between lib rule now (now + horizon)))"

definition pair_conflicts :: "string \<Rightarrow> duration \<Rightarrow> time list \<Rightarrow> time list \<Rightarrow> OverlapConflict list" where
  "pair_conflicts exID estimated candOccs exOccs =
     concat (map (\<lambda>a. concat (map (\<lambda>b.
       let diff = a - b; diff = (if diff < 0 then - diff else diff)
       in if diff < estimated
          then [\<lparr>oc_ScheduleID = exID, oc_OccurrenceA = a, oc_OccurrenceB = b\<rparr>] else []) exOccs)) candOccs)"

definition existing_template :: "(string \<times> Template) list \<Rightarrow> Schedule \<Rightarrow> Template option" where
  "existing_template tmpls s =
     (case sch_TemplateID s of None \<Rightarrow> None | Some tid \<Rightarrow> map_of tmpls tid)"

fun overlap_loop ::
  "'r rrule_lib \<Rightarrow> Schedule \<Rightarrow> time list \<Rightarrow> (string \<times> Template) list \<Rightarrow> ScheduleDefaults \<Rightarrow> time \<Rightarrow>
   duration \<Rightarrow> duration \<Rightarrow> Schedule list \<Rightarrow> OverlapConflict list \<Rightarrow> (expand_error, OverlapConflict list) result" where
  "overlap_loop lib candidate candOccs tmpls defaults now horizon est [] conflicts = Inr conflicts"
| "overlap_loop lib candidate candOccs tmpls defaults now horizon est (ex # exs) conflicts =
     (if sch_ID ex = sch_ID candidate
      then overlap_loop lib candidate candOccs tmpls defaults now horizon est exs conflicts
      else if sch_TargetID ex \<noteq> sch_TargetID candidate
      then overlap_loop lib candidate candOccs tmpls defaults now horizon est exs conflicts
      else case expandSchedule lib ex (existing_template tmpls ex) defaults now horizon of
        Inl e \<Rightarrow> Inl e
      | Inr exOccs \<Rightarrow>
          overlap_loop lib candidate candOccs tmpls defaults now horizon est exs
            (conflicts @ pair_conflicts (sch_ID ex) est candOccs exOccs))"

definition validateNoOverlapAt ::
  "'r rrule_lib \<Rightarrow> Schedule \<Rightarrow> Template option \<Rightarrow> Schedule list \<Rightarrow> (string \<times> Template) list \<Rightarrow>
   ScheduleDefaults \<Rightarrow> time \<Rightarrow> duration \<Rightarrow> duration \<Rightarrow> (expand_error, OverlapConflict list) result" where
  "validateNoOverlapAt lib candidate candidateTmpl existing existingTmpls defaults now horizon est =
     (case expandSchedule lib candidate candidateTmpl defaults now horizon of
        Inl e \<Rightarrow> Inl e
      | Inr candOccs \<Rightarrow>
          if candOccs = [] then Inr []
          else overlap_loop lib candidate candOccs existingTmpls defaults now horizon est existing [])"

section \<open>Lemmas\<close>

lemma nextJitter_range:
  assumes "rng_ok (wd_rng wd)" "sd_JitterSeconds d < 8000000000"
  shows "0 \<le> fst (nextJitter wd d k) \<and> fst (nextJitter wd d k) \<le> max 0 (sd_JitterSeconds d) * second"
proof (cases "sd_JitterSeconds d \<le> 0")
  case False
  let ?n = "wd_rng wd k (sd_JitterSeconds d + 1)"
  have n: "0 \<le> ?n" "?n \<le> sd_JitterSeconds d"
    using assms(1) False by (auto simp: rng_ok_def) (metis add1_zle_eq add_strict_increasing2 linorder_not_le zless_add1_eq zle_add1_eq_le)
  then have "seconds ?n = ?n * second" using assms(2) by (intro seconds_eq) auto
  moreover have "?n * second \<le> sd_JitterSeconds d * second" "0 \<le> ?n * second"
    using n by (auto intro: mult_right_mono)
  ultimately show ?thesis using False by (simp add: nextJitter_def)
qed (simp add: nextJitter_def)

definition jittered :: "'r world \<Rightarrow> ScheduleDefaults \<Rightarrow> 'r \<Rightarrow> time \<Rightarrow> bool" where
  "jittered wd d rule c \<longleftrightarrow>
     wd_now wd < c \<and> (\<exists>occ. occurs (wd_lib wd) rule occ \<and> wd_now wd < occ \<and> occ \<le> c \<and>
       c \<le> occ + max 0 (sd_JitterSeconds d) * second)"

lemma jitteredI:
  assumes "rng_ok (wd_rng wd)" "sd_JitterSeconds d < 8000000000"
    and "occurs (wd_lib wd) rule occ" "wd_now wd < occ" "nextJitter wd d k = (j, k')"
  shows "jittered wd d rule (occ + j)"
  using nextJitter_range [OF assms(1,2), of k] assms(3-5) by (auto simp: jittered_def)

text \<open>The loop invariant: the candidate is a jittered occurrence in the future.\<close>

lemma skip_blackouts_spec:
  assumes lib: "rrule_lib_ok (wd_lib wd)" and rng: "rng_ok (wd_rng wd)" "sd_JitterSeconds d < 8000000000"
    and stale: "is_stale b0 (wd_now wd)" and rows: "wd_blackout_rows wd = Some rows"
    and short: "\<forall>w \<in> set rows. seconds (bo_DurationSec w) \<le> blackoutHorizonPast"
    and b: "b = b0 \<or> b = ensureFreshLocked (wd_lib wd) (Some rows) (wd_now wd) b0"
    and c: "jittered wd d rule candidate"
    and r: "skip_blackouts i wd d rule targetID candidate b k = (Inr (Some t), b', k')"
  shows "jittered wd d rule t \<and> fst (IsActive (wd_lib wd) (Some rows) (wd_now wd) b0 targetID t) = None"
  using b c r
proof (induction i arbitrary: candidate b k)
  case (Suc i)
  let ?b = "ensureFreshLocked (wd_lib wd) (Some rows) (wd_now wd) b0"
  let ?act = "fst (IsActive (wd_lib wd) (Some rows) (wd_now wd) b0 targetID candidate)"
  have fresh: "ensureFreshLocked (wd_lib wd) (Some rows) (wd_now wd) b = ?b"
    using Suc.prems(1) by auto
  have isa: "IsActive (wd_lib wd) (wd_blackout_rows wd) (wd_now wd) b targetID candidate = (?act, ?b)"
    using fresh rows by (simp add: IsActive_def Let_def)
  show ?case
  proof (cases ?act)
    case None
    then show ?thesis using Suc.prems isa by simp
  next
    case (Some w)
    have nwe: "NextWindowEnd (wd_lib wd) (Some rows) (wd_now wd) ?b targetID candidate
        = NextWindowEnd (wd_lib wd) (Some rows) (wd_now wd) b0 targetID candidate"
      by (simp add: NextWindowEnd_def IsActive_def Let_def)
    obtain "end" where e: "fst (NextWindowEnd (wd_lib wd) (Some rows) (wd_now wd) b0 targetID candidate) = Some end"
      "candidate < end"
      using blackout_end_lemma [OF lib stale short, of targetID candidate] Some
      by (metis option.distinct(1) option.exhaust)
    have nw: "NextWindowEnd (wd_lib wd) (wd_blackout_rows wd) (wd_now wd) ?b targetID candidate = (Some end, ?b)"
      using e(1) nwe rows by (metis NextWindowEnd_snd ensureFresh_idem prod.collapse)
    obtain nx where nx: "After (wd_lib wd) rule end = Some nx"
      using Suc.prems(3) isa Some nw by (auto split: option.splits)
    obtain j k1 where j: "nextJitter wd d k = (j, k1)" by fastforce
    have "wd_now wd < end" using e(2) Suc.prems(2) by (simp add: jittered_def)
    then have "jittered wd d rule (nx + j)"
      using jitteredI [OF rng after_occurs [OF lib nx] _ j] after_later [OF lib nx] by simp
    moreover have "skip_blackouts i wd d rule targetID (nx + j) ?b k1 = (Inr (Some t), b', k')"
      using Suc.prems(3) isa Some nw nx j by simp
    ultimately show ?thesis using Suc.IH by blast
  qed
qed simp

lemma set_pair_conflicts:
  "set (pair_conflicts i est as bs) =
     {\<lparr>oc_ScheduleID = i, oc_OccurrenceA = a, oc_OccurrenceB = b\<rparr> | a b. a \<in> set as \<and> b \<in> set bs \<and> \<bar>a - b\<bar> < est}"
  by (auto simp: pair_conflicts_def Let_def split: if_splits)

definition relevant :: "Schedule \<Rightarrow> Schedule \<Rightarrow> bool" where
  "relevant candidate ex \<longleftrightarrow> sch_ID ex \<noteq> sch_ID candidate \<and> sch_TargetID ex = sch_TargetID candidate"

lemma overlap_loop_spec:
  assumes "overlap_loop lib cand as tmpls d now hz est exs acc = Inr cs"
  shows "set cs = set acc \<union> (\<Union>ex \<in> {ex \<in> set exs. relevant cand ex}.
     \<Union>bs \<in> {bs. expandSchedule lib ex (existing_template tmpls ex) d now hz = Inr bs}.
       set (pair_conflicts (sch_ID ex) est as bs))"
  using assms
proof (induction exs arbitrary: acc)
  case (Cons ex exs)
  show ?case
  proof (cases "relevant cand ex")
    case True
    then obtain bs where bs: "expandSchedule lib ex (existing_template tmpls ex) d now hz = Inr bs"
      "overlap_loop lib cand as tmpls d now hz est exs (acc @ pair_conflicts (sch_ID ex) est as bs) = Inr cs"
      using Cons.prems by (auto simp: relevant_def split: sum.splits)
    have "{x \<in> set (ex # exs). relevant cand x} = insert ex {x \<in> set exs. relevant cand x}"
      using True by auto
    then show ?thesis using Cons.IH [OF bs(2)] bs(1) by auto
  next
    case False
    then have "overlap_loop lib cand as tmpls d now hz est exs acc = Inr cs"
      using Cons.prems by (auto simp: relevant_def split: if_splits)
    moreover have "{x \<in> set (ex # exs). relevant cand x} = {x \<in> set exs. relevant cand x}"
      using False by auto
    ultimately show ?thesis using Cons.IH by simp
  qed
qed simp

lemma no_conflicts:
  assumes "validateNoOverlapAt lib cand ctmpl existing tmpls d now hz est = Inr []"
    and "expandSchedule lib cand ctmpl d now hz = Inr as"
    and "ex \<in> set existing" "relevant cand ex" "expandSchedule lib ex (existing_template tmpls ex) d now hz = Inr bs"
    and "a \<in> set as" "b \<in> set bs"
  shows "est \<le> \<bar>a - b\<bar>"
proof (rule ccontr)
  assume "\<not> est \<le> \<bar>a - b\<bar>"
  then have "\<lparr>oc_ScheduleID = sch_ID ex, oc_OccurrenceA = a, oc_OccurrenceB = b\<rparr> \<in> set (pair_conflicts (sch_ID ex) est as bs)"
    using assms(6,7) by (auto simp: set_pair_conflicts)
  moreover have "as \<noteq> []" using assms(6) by auto
  then have "set [] = set [] \<union> (\<Union>ex \<in> {ex \<in> set existing. relevant cand ex}.
     \<Union>bs \<in> {bs. expandSchedule lib ex (existing_template tmpls ex) d now hz = Inr bs}.
       set (pair_conflicts (sch_ID ex) est as bs))"
    using assms(1,2) by (intro overlap_loop_spec [of lib cand as tmpls d now hz est existing "[]" "[]"])
      (simp add: validateNoOverlapAt_def)
  ultimately show False using assms(3-5) by auto
qed

lemma next_run_spec:
  assumes "rrule_lib_ok (wd_lib wd)" "rng_ok (wd_rng wd)" "sd_JitterSeconds (xp_defaults e) < 8000000000"
    and "xp_blackouts e = Some b" "is_stale b (wd_now wd)" "wd_blackout_rows wd = Some rows"
    and "\<forall>w \<in> set rows. seconds (bo_DurationSec w) \<le> blackoutHorizonPast"
    and "fst (ComputeNextRunAt wd e s tmpl) = Inr (Some t)"
  shows "wd_now wd < t \<and>
    (\<exists>rule occ. schedule_rule (wd_lib wd) (xp_defaults e) (wd_now wd) s tmpl = Inr rule \<and>
       occurs (wd_lib wd) rule occ \<and> wd_now wd < occ \<and> occ \<le> t \<and>
       t \<le> occ + max 0 (sd_JitterSeconds (xp_defaults e)) * second) \<and>
    fst (IsActive (wd_lib wd) (Some rows) (wd_now wd) b (sch_TargetID s) t) = None"
proof -
  let ?d = "xp_defaults e"
  obtain rule where rule: "schedule_rule (wd_lib wd) ?d (wd_now wd) s tmpl = Inr rule"
    using assms(8) by (auto simp: ComputeNextRunAt_def split: sum.splits)
  obtain occ where occ: "After (wd_lib wd) rule (wd_now wd) = Some occ"
    using assms(8) rule by (auto simp: ComputeNextRunAt_def split: option.splits)
  obtain j k where j: "nextJitter wd ?d (xp_draws e) = (j, k)" by fastforce
  have "fst (skip_blackouts maxBlackoutSkipIterations wd ?d rule (sch_TargetID s) (occ + j) b k) = Inr (Some t)"
    using assms(4,8) rule occ j by (auto simp: ComputeNextRunAt_def split: prod.splits)
  then obtain b' k' where
    sk: "skip_blackouts maxBlackoutSkipIterations wd ?d rule (sch_TargetID s) (occ + j) b k = (Inr (Some t), b', k')"
    by (metis prod.collapse)
  have "jittered wd ?d rule (occ + j)"
    by (rule jitteredI [OF assms(2,3) after_occurs [OF assms(1) occ] after_later [OF assms(1) occ] j])
  from skip_blackouts_spec [OF assms(1-3,5-7) disjI1 [OF refl] this sk] rule show ?thesis
    by (auto simp: jittered_def)
qed

text \<open>A fresh evaluator is not reloaded by the queries.\<close>

definition fresh_at :: "time \<Rightarrow> 'r BlackoutEvaluator \<Rightarrow> bool" where
  "fresh_at now b \<longleftrightarrow> ev_populatedOK b \<and> now - ev_lastRefresh b \<le> cacheTTL"

lemma fresh_ensure: "fresh_at now b \<Longrightarrow> ensureFreshLocked lib rows now b = b"
  by (auto simp: fresh_at_def ensureFreshLocked_def Let_def)

lemma fresh_IsActive: "fresh_at now b \<Longrightarrow> IsActive lib rows now b t x = (active_window lib b t x, b)"
  by (simp add: IsActive_def fresh_ensure Let_def)

lemma fresh_skip:
  "fresh_at (wd_now wd) b \<Longrightarrow> fst (snd (skip_blackouts i wd d rule t c b k)) = b"
proof (induction i arbitrary: c k)
  case (Suc i)
  have n: "snd (NextWindowEnd (wd_lib wd) (wd_blackout_rows wd) (wd_now wd) b t c) = b"
    using fresh_ensure [OF Suc.prems] by simp
  obtain e where e: "NextWindowEnd (wd_lib wd) (wd_blackout_rows wd) (wd_now wd) b t c = (e, b)"
    using n by (metis prod.collapse)
  show ?case
    using Suc by (auto simp: fresh_IsActive e split: option.splits prod.splits)
qed simp

lemma fresh_Compute:
  assumes "fresh_at (wd_now wd) b" "xp_blackouts e = Some b"
  shows "xp_blackouts (snd (ComputeNextRunAt wd e s tmpl)) = Some b"
proof -
  have "b' = b" if "skip_blackouts n wd d rule t c b k = (r, b', k')" for n d rule t c k r b' k'
    using fresh_skip [OF assms(1), of n d rule t c k] that by simp
  then show ?thesis
    using assms(2) by (auto simp: ComputeNextRunAt_def split: sum.splits option.splits prod.splits)
qed

lemma fresh_after_Refresh: "fresh_at now (snd (Refresh lib (Some rows) now b))"
  by (auto simp: fresh_at_def Refresh_def cacheTTL_def second_def split: prod.splits)

lemma is_stale_New: "is_stale NewBlackoutEvaluator now"
  by (simp add: is_stale_def NewBlackoutEvaluator_def)

lemma Refresh_any: "snd (Refresh lib (Some rows) now b) = snd (Refresh lib (Some rows) now b')"
  by (auto simp: Refresh_def split: prod.splits)

lemma active_after_Refresh:
  "active_window lib (snd (Refresh lib (Some rows) now b)) t x =
     fst (IsActive lib (Some rows) now NewBlackoutEvaluator t x)"
  by (simp add: IsActive_def Let_def ensureFresh_stale [OF is_stale_New] Refresh_any [of lib rows now b NewBlackoutEvaluator])

section \<open>Properties\<close>


definition ex_world :: "(time \<times> duration) world" where
  "ex_world = \<lparr>wd_lib = simple_lib, wd_blackout_rows = Some [], wd_now = 5, wd_rng = (\<lambda>k n. 0)\<rparr>"

definition ex_expander :: "(time \<times> duration) RRuleExpander" where
  "ex_expander = \<lparr>xp_defaults = ex_defaults, xp_blackouts = Some NewBlackoutEvaluator, xp_draws = 0\<rparr>"

definition ex_daily :: Schedule where
  "ex_daily = ex_schedule\<lparr>sch_Overrides := [''rrule''], sch_ToolConfig := []\<rparr>"

lemma ex_daily_resolves:
  "ResolveEffectiveConfig ex_daily None ex_defaults =
     Inr \<lparr>ec_RRule = ''FREQ=DAILY'', ec_Timezone = ''UTC'',
       ec_ToolConfig = [(''nuclei'', JObj [(''timeout'', JInt 9)])], ec_MaintenanceWindow = None\<rparr>"
  by (simp add: ResolveEffectiveConfig_def ex_daily_def ex_schedule_def ex_defaults_def Let_def pickString_def
      overrideSet_def tmplRRule_def tmplTimezone_def resolveToolConfig_def merge_layer_def merge_entry_def
      resolveMaintenanceWindow_def)

lemma ex_daily_rule: "schedule_rule simple_lib ex_defaults now ex_daily None = Inr (0, day)"
proof -
  have "sch_DTStart ex_daily = 0" by (simp add: ex_daily_def ex_schedule_def)
  then show ?thesis
    by (simp add: schedule_rule_def ex_daily_resolves)
      (simp add: simple_lib_def simple_opt_def simple_period_def zero_time_def second_def)
qed


text \<open>C7: The overlap check. Whenever it returns, the reported conflicts are exactly the pairs of an
  occurrence of the candidate and an occurrence of another schedule of the same target, both
  inside the horizon, that are closer to each other than the estimated duration.\<close>

theorem overlap_conflicts_exact:
  assumes "rrule_lib_ok lib"
    and "validateNoOverlapAt lib cand ctmpl existing tmpls d now hz est = Inr cs"
    and "expandSchedule lib cand ctmpl d now hz = Inr as"
  shows "c \<in> set cs \<longleftrightarrow>
    (\<exists>ex bs. ex \<in> set existing \<and> sch_ID ex \<noteq> sch_ID cand \<and> sch_TargetID ex = sch_TargetID cand \<and>
       expandSchedule lib ex (existing_template tmpls ex) d now hz = Inr bs \<and>
       oc_ScheduleID c = sch_ID ex \<and> oc_OccurrenceA c \<in> set as \<and> oc_OccurrenceB c \<in> set bs \<and>
       \<bar>oc_OccurrenceA c - oc_OccurrenceB c\<bar> < est) \<and>
    now \<le> oc_OccurrenceA c \<and> oc_OccurrenceA c \<le> now + hz"
proof -
  have hz: "now \<le> a \<and> a \<le> now + hz" if "a \<in> set as" for a
    using assms(3) that between_iff [OF assms(1)] by (auto simp: expandSchedule_def split: sum.splits)
  have "set cs = (if as = [] then {} else \<Union>ex \<in> {ex \<in> set existing. relevant cand ex}.
     \<Union>bs \<in> {bs. expandSchedule lib ex (existing_template tmpls ex) d now hz = Inr bs}.
       set (pair_conflicts (sch_ID ex) est as bs))"
    using assms(2,3) by (auto simp: validateNoOverlapAt_def dest!: overlap_loop_spec split: if_splits)
  also have "\<dots> = (\<Union>ex \<in> {ex \<in> set existing. relevant cand ex}.
     \<Union>bs \<in> {bs. expandSchedule lib ex (existing_template tmpls ex) d now hz = Inr bs}.
       set (pair_conflicts (sch_ID ex) est as bs))"
    by (auto simp: set_pair_conflicts)
  finally have "c \<in> set cs \<longleftrightarrow> (\<exists>ex bs. ex \<in> set existing \<and> relevant cand ex \<and>
       expandSchedule lib ex (existing_template tmpls ex) d now hz = Inr bs \<and>
       c \<in> set (pair_conflicts (sch_ID ex) est as bs))"
    by auto
  moreover have "c \<in> set (pair_conflicts i est as bs) \<longleftrightarrow> oc_ScheduleID c = i \<and> oc_OccurrenceA c \<in> set as \<and>
      oc_OccurrenceB c \<in> set bs \<and> \<bar>oc_OccurrenceA c - oc_OccurrenceB c\<bar> < est" for i bs
    by (cases c) (auto simp: set_pair_conflicts)
  ultimately show ?thesis
    using hz unfolding relevant_def by metis
qed

lemma schedule_rule_ID [simp]:
  "schedule_rule lib d now (s\<lparr>sch_ID := i\<rparr>) tmpl = schedule_rule lib d now s tmpl"
  by (simp add: schedule_rule_def ResolveEffectiveConfig_def resolveMaintenanceWindow_def resolveToolConfig_def
      cong: if_cong sum.case_cong option.case_cong)

lemma ex_daily_expand: "expandSchedule simple_lib ex_daily tmpl ex_defaults 5 day = Inr [day]" if "tmpl = None"
proof -
  have "Between simple_lib (0, day) 5 (5 + day) = [day]"
    by (simp add: simple_lib_def simple_between_def day_def hour_def minute_def second_def upto.simps)
  then show ?thesis using that by (simp add: expandSchedule_def ex_daily_rule)
qed

lemma overlap_conflicts_exact_witness:
  "validateNoOverlapAt simple_lib ex_daily None [ex_daily\<lparr>sch_ID := ''s2''\<rparr>] [] ex_defaults 5 day hour =
     Inr [\<lparr>oc_ScheduleID = ''s2'', oc_OccurrenceA = day, oc_OccurrenceB = day\<rparr>] \<and> 5 \<le> day"
proof -
  have ids: "sch_ID ex_daily = ''s1''" "sch_TemplateID ex_daily = None"
    by (simp_all add: ex_daily_def ex_schedule_def)
  have other: "expandSchedule simple_lib (ex_daily\<lparr>sch_ID := ''s2''\<rparr>) None ex_defaults 5 day = Inr [day]"
    using ex_daily_expand by (simp add: expandSchedule_def)
  have v: "validateNoOverlapAt simple_lib ex_daily None [ex_daily\<lparr>sch_ID := ''s2''\<rparr>] [] ex_defaults 5 day hour =
     Inr [\<lparr>oc_ScheduleID = ''s2'', oc_OccurrenceA = day, oc_OccurrenceB = day\<rparr>]"
    by (simp add: validateNoOverlapAt_def ex_daily_expand other ids existing_template_def pair_conflicts_def)
  then show ?thesis
    using overlap_conflicts_exact [OF simple_lib_ok v, of "[day]" "\<lparr>oc_ScheduleID = ''s2'', oc_OccurrenceA = day, oc_OccurrenceB = day\<rparr>"]
    by (simp add: ex_daily_expand)
qed

end
