(* ===== verification/Scheduler.thy ===== *)
theory Scheduler
  imports Locks WorkerPool Expander ScheduleStore
begin

text \<open>
  The master ticker, \<open>internal/daemon/intervalsched/scheduler.go\<close>: construction, the dispatch
  round \<open>tick\<close>, the blackout skip, the pause of running scans, ad-hoc dispatch, and the job
  runner that executes a scan while it holds the target's lock. \<open>sched_step\<close> interleaves the
  ticker, the ad-hoc callers and the workers of the pool; one iteration of the dispatch loop
  is one step, so that other goroutines run between two of them. The scan itself is the
  parameter \<open>outcome\<close>: the scan identifier, the error and its effect on the database.
\<close>

section \<open>State\<close>

definition DefaultTickInterval :: duration where "DefaultTickInterval = 30 * second"

definition listDueOverhead :: int where "listDueOverhead = 5"

datatype payload = PayloadSchedule Schedule | PayloadAdHoc AdHocScanRun

record Job =
  jb_ScheduleID :: string
  jb_TargetID :: string
  jb_Payload :: payload

text \<open>The cause attached to a job's context by its first cancellation.\<close>

datatype cancel_cause = ErrBlackoutPause | ParentCanceled

record inflightJob =
  ij_scheduleID :: string
  ij_targetID :: string
  ij_acquiredAt :: time
  ij_cause :: "cancel_cause option"

record 'r Scheduler =
  sc_db :: db
  sc_defaults :: ScheduleDefaults
  sc_pool :: "Job pool"
  sc_locks :: TargetLockIndex
  sc_blackouts :: "'r BlackoutEvaluator"
  sc_draws :: nat
  sc_inflight :: "(string \<times> inflightJob) list"
  sc_started :: bool

text \<open>The environment of one atomic region: the library, the random generator and the clock.\<close>

record 'r env =
  en_lib :: "'r rrule_lib"
  en_rng :: "nat \<Rightarrow> int \<Rightarrow> int"
  en_now :: time

definition ctx_done :: "'r Scheduler \<Rightarrow> bool" where
  "ctx_done s = wp_ctx_done (sc_pool s)"

definition jobKey :: "string \<Rightarrow> string" where "jobKey scheduleID = scheduleID"

definition adHocJobKey :: "string \<Rightarrow> string" where "adHocJobKey adHocID = ''adhoc:'' @ adHocID"

definition new_scheduler :: "'r env \<Rightarrow> db \<Rightarrow> (store_error, 'r Scheduler) result" where
  "new_scheduler en d =
     (case def_Get d of
        Inl e \<Rightarrow> Inl e
      | Inr defaults \<Rightarrow>
          let blackouts = snd (Refresh (en_lib en) (Some (bo_List d)) (en_now en) NewBlackoutEvaluator);
              maxConcurrent = (if sd_MaxConcurrentScans defaults \<le> 0 then 1 else sd_MaxConcurrentScans defaults)
          in Inr \<lparr>sc_db = d, sc_defaults = defaults, sc_pool = NewWorkerPool maxConcurrent,
                  sc_locks = NewTargetLockIndex, sc_blackouts = blackouts, sc_draws = 0,
                  sc_inflight = [], sc_started = False\<rparr>)"

definition sc_Start :: "'r Scheduler \<Rightarrow> 'r Scheduler" where
  "sc_Start s = (if sc_started s then s else s\<lparr>sc_started := True, sc_pool := Pool_Start (sc_pool s)\<rparr>)"

text \<open>Stopping cancels the context of the ticker and of every job, then stops the pool.\<close>

definition cancel_job :: "cancel_cause \<Rightarrow> inflightJob \<Rightarrow> inflightJob" where
  "cancel_job c j = (case ij_cause j of None \<Rightarrow> j\<lparr>ij_cause := Some c\<rparr> | Some _ \<Rightarrow> j)"

definition sc_Stop :: "'r Scheduler \<Rightarrow> 'r Scheduler" where
  "sc_Stop s =
     (if \<not> sc_started s then s
      else s\<lparr>sc_started := False,
             sc_inflight := map (\<lambda>(k, j). (k, cancel_job ParentCanceled j)) (sc_inflight s),
             sc_pool := Pool_Stop ((sc_pool s)\<lparr>wp_ctx_done := True\<rparr>)\<rparr>)"

definition sc_Next :: "'r env \<Rightarrow> 'r Scheduler \<Rightarrow> time" where
  "sc_Next en s =
     (case sched_ListDue (sc_db s) (en_now en + 365 * 24 * hour) 1 of
        [] \<Rightarrow> zero_time
      | d # _ \<Rightarrow> (case sch_NextRunAt d of None \<Rightarrow> zero_time | Some t \<Rightarrow> t))"

section \<open>Helpers\<close>

definition loadTemplate :: "'r Scheduler \<Rightarrow> string option \<Rightarrow> Template option" where
  "loadTemplate s i =
     (case nullableString i of
        None \<Rightarrow> None
      | Some t \<Rightarrow> if ctx_done s then None else tmpl_Get (sc_db s) t)"

text \<open>A statement executed under the scheduler's context: it fails when the context is done,
  and the callers only log its failure.\<close>

definition ctx_exec :: "(db \<Rightarrow> (store_error, db) result) \<Rightarrow> 'r Scheduler \<Rightarrow> 'r Scheduler" where
  "ctx_exec f s =
     (if ctx_done s then s
      else case f (sc_db s) of Inl _ \<Rightarrow> s | Inr d \<Rightarrow> s\<lparr>sc_db := d\<rparr>)"

text \<open>A statement under a background context.\<close>

definition bg_exec :: "(db \<Rightarrow> (store_error, db) result) \<Rightarrow> 'r Scheduler \<Rightarrow> 'r Scheduler" where
  "bg_exec f s = (case f (sc_db s) of Inl _ \<Rightarrow> s | Inr d \<Rightarrow> s\<lparr>sc_db := d\<rparr>)"

definition sc_active :: "'r env \<Rightarrow> string \<Rightarrow> time \<Rightarrow> 'r Scheduler \<Rightarrow> bool \<times> 'r Scheduler" where
  "sc_active en targetID t s =
     (case IsActive (en_lib en) (Some (bo_List (sc_db s))) (en_now en) (sc_blackouts s) targetID t of
        (w, b) \<Rightarrow> (w \<noteq> None, s\<lparr>sc_blackouts := b\<rparr>))"

definition sc_compute_next ::
  "'r env \<Rightarrow> Schedule \<Rightarrow> Template option \<Rightarrow> 'r Scheduler \<Rightarrow> (expand_error, time option) result \<times> 'r Scheduler" where
  "sc_compute_next en sched tmpl s =
     (case ComputeNextRunAt
             \<lparr>wd_lib = en_lib en, wd_blackout_rows = Some (bo_List (sc_db s)), wd_now = en_now en, wd_rng = en_rng en\<rparr>
             \<lparr>xp_defaults = sc_defaults s, xp_blackouts = Some (sc_blackouts s), xp_draws = sc_draws s\<rparr> sched tmpl of
        (r, e) \<Rightarrow> (r, s\<lparr>sc_blackouts := (case xp_blackouts e of None \<Rightarrow> sc_blackouts s | Some b \<Rightarrow> b),
                        sc_draws := xp_draws e\<rparr>))"

definition advance_next :: "'r env \<Rightarrow> Schedule \<Rightarrow> Template option \<Rightarrow> 'r Scheduler \<Rightarrow> 'r Scheduler" where
  "advance_next en sched tmpl s =
     (case sc_compute_next en sched tmpl s of
        (Inl _, s) \<Rightarrow> s
      | (Inr next, s) \<Rightarrow> ctx_exec (sched_SetNextRunAt (en_now en) (sch_ID sched) next) s)"

section \<open>The dispatch round\<close>

definition handleBlackoutSkip :: "'r env \<Rightarrow> Schedule \<Rightarrow> time \<Rightarrow> 'r Scheduler \<Rightarrow> 'r Scheduler" where
  "handleBlackoutSkip en sched now s =
     (let s = ctx_exec (sched_RecordRun (en_now en) (sch_ID sched) ScheduleRunSkippedBlackout None now) s
      in advance_next en sched (loadTemplate s (sch_TemplateID sched)) s)"

fun evaluateInFlightBlackouts ::
  "'r env \<Rightarrow> time \<Rightarrow> (string \<times> inflightJob) list \<Rightarrow> 'r Scheduler \<Rightarrow> (string \<times> inflightJob) list \<times> 'r Scheduler" where
  "evaluateInFlightBlackouts en now [] s = ([], s)"
| "evaluateInFlightBlackouts en now ((k, job) # js) s =
     (case sc_active en (ij_targetID job) now s of
        (activeNow, s) \<Rightarrow>
          (case (if activeNow then sc_active en (ij_targetID job) (ij_acquiredAt job) s else (True, s)) of
             (activeThen, s) \<Rightarrow>
               (let job' = (if activeNow \<and> \<not> activeThen then cancel_job ErrBlackoutPause job else job) in
                case evaluateInFlightBlackouts en now js s of (js', s) \<Rightarrow> ((k, job') # js', s))))"

datatype tick_result = TickContinue | TickDispatched | TickBreak

text \<open>One iteration of the loop over the due schedules.\<close>

definition tick_one :: "'r env \<Rightarrow> time \<Rightarrow> Schedule \<Rightarrow> 'r Scheduler \<Rightarrow> tick_result \<times> 'r Scheduler" where
  "tick_one en now sched s =
     (case TryAcquire (sc_locks s) (sch_TargetID sched) of
        (ok, locks) \<Rightarrow>
          let s = s\<lparr>sc_locks := locks\<rparr> in
          if \<not> ok then (TickContinue, s)
          else (case sc_active en (sch_TargetID sched) now s of
            (active, s) \<Rightarrow>
              if active then
                (TickContinue,
                 handleBlackoutSkip en sched now (s\<lparr>sc_locks := Release (sc_locks s) (sch_TargetID sched)\<rparr>))
              else
                let job = \<lparr>jb_ScheduleID = sch_ID sched, jb_TargetID = sch_TargetID sched,
                           jb_Payload = PayloadSchedule sched\<rparr>
                in case Dispatch job (sc_pool s) of
                     (sent, pool) \<Rightarrow>
                       if \<not> sent then
                         (TickBreak, s\<lparr>sc_pool := pool, sc_locks := Release (sc_locks s) (sch_TargetID sched)\<rparr>)
                       else (TickDispatched, s\<lparr>sc_pool := pool\<rparr>)))"

fun tick_loop :: "'r env \<Rightarrow> time \<Rightarrow> int \<Rightarrow> int \<Rightarrow> Schedule list \<Rightarrow> 'r Scheduler \<Rightarrow> 'r Scheduler" where
  "tick_loop en now free dispatched [] s = s"
| "tick_loop en now free dispatched (sched # due) s =
     (if dispatched \<ge> free then s
      else case tick_one en now sched s of
        (TickContinue, s) \<Rightarrow> tick_loop en now free dispatched due s
      | (TickDispatched, s) \<Rightarrow> tick_loop en now free (dispatched + 1) due s
      | (TickBreak, s) \<Rightarrow> s)"

text \<open>The first half of \<open>tick\<close>: refresh, pause of running jobs, the free slots and the list of
  due schedules.\<close>

definition tick_begin :: "'r env \<Rightarrow> time \<Rightarrow> 'r Scheduler \<Rightarrow> int \<times> Schedule list \<times> 'r Scheduler" where
  "tick_begin en now s =
     (let rows = (if ctx_done s then None else Some (bo_List (sc_db s)));
          s = s\<lparr>sc_blackouts := snd (Refresh (en_lib en) rows (en_now en) (sc_blackouts s))\<rparr>
      in case evaluateInFlightBlackouts en now (sc_inflight s) s of
           (inflight, s) \<Rightarrow>
             let s = s\<lparr>sc_inflight := inflight\<rparr>;
                 free = Pool_Free (sc_pool s)
             in if free \<le> 0 then (free, [], s)
                else if ctx_done s then (free, [], s)
                else (free, sched_ListDue (sc_db s) now (free + listDueOverhead), s))"

definition tick :: "'r env \<Rightarrow> time \<Rightarrow> 'r Scheduler \<Rightarrow> 'r Scheduler" where
  "tick en now s = (case tick_begin en now s of (free, due, s) \<Rightarrow> tick_loop en now free 0 due s)"

section \<open>Ad-hoc dispatch\<close>

datatype dispatch_error = TargetRequired | ErrTargetBusy | ErrInBlackout | PoolFull

definition DispatchAdHoc ::
  "'r env \<Rightarrow> string \<Rightarrow> AdHocScanRun \<Rightarrow> 'r Scheduler \<Rightarrow> (dispatch_error, unit) result \<times> 'r Scheduler" where
  "DispatchAdHoc en fresh run s =
     (if ah_TargetID run = [] then (Inl TargetRequired, s)
      else case TryAcquire (sc_locks s) (ah_TargetID run) of
        (ok, locks) \<Rightarrow>
          let s = s\<lparr>sc_locks := locks\<rparr> in
          if \<not> ok then (Inl ErrTargetBusy, s)
          else (case sc_active en (ah_TargetID run) (en_now en) s of
            (active, s) \<Rightarrow>
              if active then (Inl ErrInBlackout, s\<lparr>sc_locks := Release (sc_locks s) (ah_TargetID run)\<rparr>)
              else
                let run = (if ah_ID run = [] then run\<lparr>ah_ID := fresh\<rparr> else run);
                    s = bg_exec (ah_UpdateStatus (ah_ID run) AdHocRunning (en_now en)) s;
                    job = \<lparr>jb_ScheduleID = adHocJobKey (ah_ID run), jb_TargetID = ah_TargetID run,
                           jb_Payload = PayloadAdHoc run\<rparr>
                in case Dispatch job (sc_pool s) of
                     (sent, pool) \<Rightarrow>
                       if \<not> sent then
                         (Inl PoolFull,
                          bg_exec (ah_UpdateStatus (ah_ID run) AdHocFailed (en_now en))
                            (s\<lparr>sc_pool := pool, sc_locks := Release (sc_locks s) (ah_TargetID run)\<rparr>))
                       else (Inr (), s\<lparr>sc_pool := pool\<rparr>)))"

section \<open>The job runner\<close>

text \<open>What a scan returns: its identifier, whether it failed, and its effect on the database.\<close>

datatype run_error = RunCanceled | RunOther

record outcome =
  oc_scanID :: string
  oc_err :: "run_error option"
  oc_effect :: "db \<Rightarrow> db"

definition pseudo_schedule :: "ScheduleDefaults \<Rightarrow> AdHocScanRun \<Rightarrow> Schedule" where
  "pseudo_schedule defaults run =
     \<lparr>sch_ID = [], sch_TargetID = ah_TargetID run, sch_Name = [], sch_RRule = sd_DefaultRRule defaults,
      sch_DTStart = zero_time, sch_Timezone = sd_DefaultTimezone defaults, sch_TemplateID = ah_TemplateID run,
      sch_ToolConfig = ah_ToolConfig run, sch_Overrides = [], sch_MaintenanceWindow = None, sch_Enabled = False,
      sch_NextRunAt = None, sch_LastRunAt = None, sch_LastRunStatus = None, sch_LastScanID = None,
      sch_CreatedAt = zero_time, sch_UpdatedAt = zero_time\<rparr>"

definition job_schedule :: "'r Scheduler \<Rightarrow> Job \<Rightarrow> Schedule" where
  "job_schedule s job = (case jb_Payload job of
      PayloadSchedule sched \<Rightarrow> sched | PayloadAdHoc run \<Rightarrow> pseudo_schedule (sc_defaults s) run)"

definition job_key :: "Job \<Rightarrow> string" where
  "job_key job = (case jb_Payload job of
      PayloadSchedule sched \<Rightarrow> jobKey (sch_ID sched) | PayloadAdHoc run \<Rightarrow> adHocJobKey (ah_ID run))"

text \<open>The first half of \<open>Run\<close>: resolve the configuration; on success enter the job into the
  in-flight table, on failure record it, release the lock and end the job.\<close>

definition job_begin :: "'r env \<Rightarrow> Job \<Rightarrow> 'r Scheduler \<Rightarrow> bool \<times> 'r Scheduler" where
  "job_begin en job s =
     (let sched = job_schedule s job; tmpl = loadTemplate s (sch_TemplateID sched) in
      case ResolveEffectiveConfig sched tmpl (sc_defaults s) of
        Inr _ \<Rightarrow>
          (True, s\<lparr>sc_inflight := AList.update (job_key job)
             \<lparr>ij_scheduleID = (case jb_Payload job of PayloadSchedule x \<Rightarrow> sch_ID x | PayloadAdHoc r \<Rightarrow> ah_ID r),
              ij_targetID = sch_TargetID sched, ij_acquiredAt = en_now en,
              ij_cause = (if ctx_done s then Some ParentCanceled else None)\<rparr> (sc_inflight s)\<rparr>)
      | Inl _ \<Rightarrow>
          let s = (case jb_Payload job of
                PayloadSchedule x \<Rightarrow>
                  ctx_exec (sched_RecordRun (en_now en) (sch_ID x) ScheduleRunFailed None (en_now en)) s
              | PayloadAdHoc r \<Rightarrow> bg_exec (ah_UpdateStatus (ah_ID r) AdHocFailed (en_now en)) s)
          in (False, s\<lparr>sc_locks := Release (sc_locks s) (jb_TargetID job)\<rparr>))"

definition run_status :: "run_error option \<Rightarrow> cancel_cause option \<Rightarrow> ScheduleRunStatus" where
  "run_status err cause =
     (case err of
        None \<Rightarrow> ScheduleRunSuccess
      | Some RunCanceled \<Rightarrow> if cause = Some ErrBlackoutPause then ScheduleRunPausedBlackout else ScheduleRunFailed
      | Some RunOther \<Rightarrow> ScheduleRunFailed)"

definition job_cause :: "'r Scheduler \<Rightarrow> Job \<Rightarrow> cancel_cause option" where
  "job_cause s job = (case map_of (sc_inflight s) (job_key job) of None \<Rightarrow> None | Some j \<Rightarrow> ij_cause j)"

text \<open>The second half, after the scan: record the outcome, advance the next run, leave the
  in-flight table and release the lock.\<close>

definition finish_schedule :: "'r env \<Rightarrow> Schedule \<Rightarrow> Template option \<Rightarrow> cancel_cause option \<Rightarrow> outcome \<Rightarrow> 'r Scheduler \<Rightarrow> 'r Scheduler" where
  "finish_schedule en sched tmpl cause oc s =
     (let scanIDPtr = (if oc_scanID oc \<noteq> [] then Some (oc_scanID oc) else None);
          s = ctx_exec (sched_RecordRun (en_now en) (sch_ID sched) (run_status (oc_err oc) cause) scanIDPtr (en_now en)) s
      in advance_next en sched tmpl s)"

definition finish_adhoc :: "'r env \<Rightarrow> AdHocScanRun \<Rightarrow> outcome \<Rightarrow> 'r Scheduler \<Rightarrow> 'r Scheduler" where
  "finish_adhoc en run oc s =
     (let s = (if oc_scanID oc \<noteq> [] then bg_exec (ah_AttachScan (ah_ID run) (oc_scanID oc)) s else s);
          finalStatus = (if oc_err oc = None then AdHocCompleted else AdHocFailed)
      in bg_exec (ah_UpdateStatus (ah_ID run) finalStatus (en_now en)) s)"

text \<open>The template is the one loaded when the job began.\<close>

definition job_finish :: "'r env \<Rightarrow> Job \<Rightarrow> Template option \<Rightarrow> outcome \<Rightarrow> 'r Scheduler \<Rightarrow> 'r Scheduler" where
  "job_finish en job tmpl oc s =
     (let cause = job_cause s job;
          s = s\<lparr>sc_db := oc_effect oc (sc_db s)\<rparr>;
          s = (case jb_Payload job of
                PayloadSchedule sched \<Rightarrow> finish_schedule en sched tmpl cause oc s
              | PayloadAdHoc run \<Rightarrow> finish_adhoc en run oc s);
          s = s\<lparr>sc_inflight := AList.delete (job_key job) (sc_inflight s)\<rparr>
      in s\<lparr>sc_locks := Release (sc_locks s) (jb_TargetID job)\<rparr>)"

section \<open>Interleaving\<close>

text \<open>The local state of the ticker between two iterations: free slots, jobs dispatched so far,
  the due schedules still to visit, and the time of the tick.\<close>

type_synonym ticking = "(int \<times> int \<times> Schedule list \<times> time) option"

definition after_one :: "tick_result \<Rightarrow> int \<Rightarrow> int \<Rightarrow> Schedule list \<Rightarrow> time \<Rightarrow> ticking" where
  "after_one r free n due now =
     (case r of TickContinue \<Rightarrow> Some (free, n, due, now) | TickDispatched \<Rightarrow> Some (free, n + 1, due, now)
      | TickBreak \<Rightarrow> None)"

definition with_loop :: "nat \<Rightarrow> Job worker \<Rightarrow> int \<Rightarrow> 'r Scheduler \<Rightarrow> 'r Scheduler" where
  "with_loop i w da s = s\<lparr>sc_pool := set_loop i w ((sc_pool s)\<lparr>wp_active := wp_active (sc_pool s) + da\<rparr>)\<rparr>"

inductive sched_step :: "'r Scheduler \<times> ticking \<Rightarrow> 'r Scheduler \<times> ticking \<Rightarrow> bool" where
  start: "sched_step (s, tk) (sc_Start s, tk)"
| stop: "sched_step (s, tk) (sc_Stop s, tk)"
| tick_begin: "tick_begin en now s = (free, due, s') \<Longrightarrow> sched_step (s, None) (s', Some (free, 0, due, now))"
| tick_iter: "n < free \<Longrightarrow> tick_one en now sched s = (r, s') \<Longrightarrow>
    sched_step (s, Some (free, n, sched # due, now)) (s', after_one r free n due now)"
| tick_end: "due = [] \<or> free \<le> n \<Longrightarrow> sched_step (s, Some (free, n, due, now)) (s, None)"
| adhoc: "DispatchAdHoc en fresh run s = (r, s') \<Longrightarrow> sched_step (s, tk) (s', tk)"
| worker_idle: "i < length (wp_loops (sc_pool s)) \<Longrightarrow> wp_loops (sc_pool s) ! i \<in> {Idle, Checking, Exiting} \<Longrightarrow>
    pool' \<in> set (worker_steps i (sc_pool s)) \<Longrightarrow> sched_step (s, tk) (s\<lparr>sc_pool := pool'\<rparr>, tk)"
| job_run: "i < length (wp_loops (sc_pool s)) \<Longrightarrow> wp_loops (sc_pool s) ! i = Taken job \<Longrightarrow>
    job_begin en job s = (True, s') \<Longrightarrow> sched_step (s, tk) (with_loop i (Running job) 1 s', tk)"
| job_refused: "i < length (wp_loops (sc_pool s)) \<Longrightarrow> wp_loops (sc_pool s) ! i = Taken job \<Longrightarrow>
    job_begin en job s = (False, s') \<Longrightarrow> sched_step (s, tk) (with_loop i Checking 0 s', tk)"
| job_done: "i < length (wp_loops (sc_pool s)) \<Longrightarrow> wp_loops (sc_pool s) ! i = Running job \<Longrightarrow>
    sched_step (s, tk) (with_loop i Checking (-1) (job_finish en job tmpl oc s), tk)"

inductive sched_reach :: "'r env \<Rightarrow> db \<Rightarrow> 'r Scheduler \<times> ticking \<Rightarrow> bool" for en d where
  sr_new: "new_scheduler en d = Inr s \<Longrightarrow> sched_reach en d (s, None)"
| sr_step: "sched_reach en d c \<Longrightarrow> sched_step c c' \<Longrightarrow> sched_reach en d c'"

section \<open>Lemmas: what each helper leaves alone\<close>

lemma exec_frame [simp]:
  "sc_pool (ctx_exec f s) = sc_pool s" "sc_locks (ctx_exec f s) = sc_locks s"
  "sc_inflight (ctx_exec f s) = sc_inflight s" "sc_defaults (ctx_exec f s) = sc_defaults s"
  "sc_blackouts (ctx_exec f s) = sc_blackouts s" "sc_draws (ctx_exec f s) = sc_draws s"
  "sc_pool (bg_exec f s) = sc_pool s" "sc_locks (bg_exec f s) = sc_locks s"
  "sc_inflight (bg_exec f s) = sc_inflight s" "sc_defaults (bg_exec f s) = sc_defaults s"
  by (auto simp: ctx_exec_def bg_exec_def split: sum.splits)

lemma active_frame:
  "sc_active en t x s = (b, s') \<Longrightarrow> sc_pool s' = sc_pool s \<and> sc_locks s' = sc_locks s \<and>
     sc_db s' = sc_db s \<and> sc_inflight s' = sc_inflight s \<and> sc_defaults s' = sc_defaults s"
  by (auto simp: sc_active_def split: prod.splits)

lemma compute_frame:
  "sc_compute_next en sched tmpl s = (r, s') \<Longrightarrow> sc_pool s' = sc_pool s \<and> sc_locks s' = sc_locks s \<and>
     sc_db s' = sc_db s \<and> sc_inflight s' = sc_inflight s"
  by (auto simp: sc_compute_next_def split: prod.splits)

lemma advance_frame [simp]:
  "sc_pool (advance_next en sched tmpl s) = sc_pool s" "sc_locks (advance_next en sched tmpl s) = sc_locks s"
  "sc_inflight (advance_next en sched tmpl s) = sc_inflight s"
  by (auto simp: advance_next_def dest: compute_frame split: prod.splits sum.splits)

lemma skip_frame [simp]:
  "sc_pool (handleBlackoutSkip en sched now s) = sc_pool s"
  "sc_locks (handleBlackoutSkip en sched now s) = sc_locks s"
  by (simp_all add: handleBlackoutSkip_def Let_def)

lemma inflight_frame:
  "evaluateInFlightBlackouts en now js s = (js', s') \<Longrightarrow> sc_pool s' = sc_pool s \<and> sc_locks s' = sc_locks s"
proof (induction en now js s arbitrary: js' s' rule: evaluateInFlightBlackouts.induct)
  case (2 en now k job js s)
  obtain a s1 where a: "sc_active en (ij_targetID job) now s = (a, s1)" by fastforce
  obtain b s2 where b: "(if a then sc_active en (ij_targetID job) (ij_acquiredAt job) s1 else (True, s1)) = (b, s2)"
    by fastforce
  obtain js2 s3 where c: "evaluateInFlightBlackouts en now js s2 = (js2, s3)" by fastforce
  have "sc_pool s3 = sc_pool s2 \<and> sc_locks s3 = sc_locks s2"
    using "2.IH" [OF a [symmetric] b [symmetric] refl c] by simp
  moreover have "sc_pool s2 = sc_pool s \<and> sc_locks s2 = sc_locks s"
    using active_frame [OF a] b by (auto split: if_splits dest: active_frame)
  moreover have "s' = s3" using "2.prems" a b c by (simp add: Let_def split: prod.splits)
  ultimately show ?case by simp
qed simp

lemma begin_frame:
  "tick_begin en now s = (free, due, s') \<Longrightarrow> sc_pool s' = sc_pool s \<and> sc_locks s' = sc_locks s"
  by (auto simp: tick_begin_def Let_def dest: inflight_frame split: prod.splits if_splits)

section \<open>Lemmas: one job per held lock\<close>

definition worker_on :: "string \<Rightarrow> Job worker \<Rightarrow> bool" where
  "worker_on t w = (case w of Taken j \<Rightarrow> jb_TargetID j = t | Running j \<Rightarrow> jb_TargetID j = t | _ \<Rightarrow> False)"

lemma worker_on_simps [simp]:
  "worker_on t (Taken j) = (jb_TargetID j = t)" "worker_on t (Running j) = (jb_TargetID j = t)"
  "\<not> worker_on t Idle" "\<not> worker_on t Checking" "\<not> worker_on t Exiting"
  by (simp_all add: worker_on_def)

definition jobs_on :: "string \<Rightarrow> Job pool \<Rightarrow> int" where
  "jobs_on t p = cnt (\<lambda>j. jb_TargetID j = t) (wp_jobs p) + cnt (worker_on t) (wp_loops p)"

definition lock_inv :: "'r Scheduler \<Rightarrow> bool" where
  "lock_inv s \<longleftrightarrow> locks_ok (sc_locks s) \<and> (\<forall>t. jobs_on t (sc_pool s) = of_bool (IsHeld (sc_locks s) t))"

lemma lock_inv_cong: "sc_pool s' = sc_pool s \<Longrightarrow> sc_locks s' = sc_locks s \<Longrightarrow> lock_inv s' = lock_inv s"
  by (simp add: lock_inv_def)

lemma jobs_on_Dispatch:
  "Dispatch job p = (sent, p') \<Longrightarrow> jobs_on t p' = jobs_on t p + of_bool (sent \<and> jb_TargetID job = t)"
  by (auto simp: Dispatch_def dispatch_check_def dispatch_send_def jobs_on_def split: if_splits)

lemma jobs_on_spawn [simp]: "jobs_on t (spawn_n k p) = jobs_on t p"
  by (simp add: jobs_on_def)

lemma jobs_on_Start [simp]: "jobs_on t (Pool_Start p) = jobs_on t p"
proof (cases "wp_started p")
  case False
  then have "Pool_Start p = spawn_n (nat (wp_size p)) (p\<lparr>wp_started := True\<rparr>)" by (simp add: Pool_Start_def)
  then show ?thesis by (simp add: jobs_on_def)
qed (simp add: Pool_Start_def)

lemma jobs_on_worker:
  "i < length (wp_loops p) \<Longrightarrow> wp_loops p ! i \<in> {Idle, Checking, Exiting} \<Longrightarrow> p' \<in> set (worker_steps i p) \<Longrightarrow>
   jobs_on t p' = jobs_on t p"
  by (auto simp: jobs_on_def worker_steps_def set_loop_def cnt_update cnt_remove split: list.splits if_splits)

lemma jobs_on_with_loop:
  "i < length (wp_loops (sc_pool s)) \<Longrightarrow>
   jobs_on t (sc_pool (with_loop i w da s)) =
     jobs_on t (sc_pool s) - of_bool (worker_on t (wp_loops (sc_pool s) ! i)) + of_bool (worker_on t w)"
  by (simp add: jobs_on_def with_loop_def set_loop_def cnt_update)

lemma with_loop_locks [simp]: "sc_locks (with_loop i w da s) = sc_locks s"
  by (simp add: with_loop_def)

text \<open>Taking the lock and enqueueing the job belong together: this is the shared core of the
  ticker's iteration and of the ad-hoc dispatch.\<close>

lemma lock_inv_enqueue:
  assumes inv: "lock_inv s" and acq: "TryAcquire (sc_locks s) t = (True, locks)"
    and disp: "Dispatch job (sc_pool s) = (sent, pool)" and j: "jb_TargetID job = t"
    and s': "sc_pool s' = pool" "sc_locks s' = (if sent then locks else Release locks t)"
  shows "lock_inv s'"
proof -
  have ok: "locks_ok (sc_locks s)" using inv by (simp add: lock_inv_def)
  have free: "\<not> IsHeld (sc_locks s) t" using tl.acquire_result [OF ok, of t] acq by simp
  have l: "locks = snd (TryAcquire (sc_locks s) t)" using acq by simp
  show ?thesis
    using inv ok free j
    by (auto simp: lock_inv_def s' l tl.acquire_good tl.acquire_holds tl.release_good tl.release_holds
        jobs_on_Dispatch [OF disp])
qed

lemma lock_inv_busy:
  assumes "lock_inv s" "TryAcquire (sc_locks s) t = (False, locks)" "sc_pool s' = sc_pool s" "sc_locks s' = locks"
  shows "lock_inv s'"
proof -
  have ok: "locks_ok (sc_locks s)" using assms(1) by (simp add: lock_inv_def)
  have "\<not> fst (TryAcquire (sc_locks s) t)" using assms(2) by simp
  from tl.failed_acquire_keeps [OF ok this] tl.acquire_good [OF ok, of t] show ?thesis
    using assms by (simp add: lock_inv_def)
qed

lemma lock_inv_acquire_release:
  assumes "lock_inv s" "TryAcquire (sc_locks s) t = (True, locks)" "sc_pool s' = sc_pool s"
    "sc_locks s' = Release locks t"
  shows "lock_inv s'"
proof -
  have ok: "locks_ok (sc_locks s)" using assms(1) by (simp add: lock_inv_def)
  have "fst (TryAcquire (sc_locks s) t)" using assms(2) by simp
  from tl.acquire_release_restores [OF ok this] tl.acquire_good [OF ok, of t] tl.release_good show ?thesis
    using assms by (simp add: lock_inv_def)
qed

lemma lock_inv_tick_one:
  assumes inv: "lock_inv s" and one: "tick_one en now sched s = (r, s')"
  shows "lock_inv s'"
proof -
  let ?t = "sch_TargetID sched"
  obtain ok locks where acq: "TryAcquire (sc_locks s) ?t = (ok, locks)" by fastforce
  obtain act s1 where act: "sc_active en ?t now (s\<lparr>sc_locks := locks\<rparr>) = (act, s1)" by fastforce
  have f: "sc_pool s1 = sc_pool s" "sc_locks s1 = locks" using active_frame [OF act] by auto
  show ?thesis
  proof (cases ok)
    case False
    then show ?thesis using one acq lock_inv_busy [OF inv, of ?t locks s'] by (auto simp: tick_one_def)
  next
    case True
    obtain sent pool where d: "Dispatch \<lparr>jb_ScheduleID = sch_ID sched, jb_TargetID = ?t,
        jb_Payload = PayloadSchedule sched\<rparr> (sc_pool s) = (sent, pool)" by fastforce
    show ?thesis
    proof (cases act)
      case True
      with \<open>ok\<close> one acq act f show ?thesis
        by (auto simp: tick_one_def Let_def intro!: lock_inv_acquire_release [OF inv])
    next
      case False
      with \<open>ok\<close> one acq act f d show ?thesis
        by (auto simp: tick_one_def Let_def intro!: lock_inv_enqueue [OF inv _ d] split: if_splits)
    qed
  qed
qed

lemma lock_inv_DispatchAdHoc:
  assumes inv: "lock_inv s" and one: "DispatchAdHoc en fresh run s = (r, s')"
  shows "lock_inv s'"
proof -
  let ?t = "ah_TargetID run" and ?run = "if ah_ID run = [] then run\<lparr>ah_ID := fresh\<rparr> else run"
  have rt: "ah_TargetID ?run = ?t" by simp
  obtain ok locks where acq: "TryAcquire (sc_locks s) ?t = (ok, locks)" by fastforce
  obtain act s1 where act: "sc_active en ?t (en_now en) (s\<lparr>sc_locks := locks\<rparr>) = (act, s1)" by fastforce
  have f: "sc_pool s1 = sc_pool s" "sc_locks s1 = locks" using active_frame [OF act] by auto
  obtain sent pool where d: "Dispatch \<lparr>jb_ScheduleID = adHocJobKey (ah_ID ?run), jb_TargetID = ah_TargetID ?run,
      jb_Payload = PayloadAdHoc ?run\<rparr> (sc_pool s) = (sent, pool)" by fastforce
  consider "?t = []" | "?t \<noteq> []" "\<not> ok" | "?t \<noteq> []" ok act | "?t \<noteq> []" ok "\<not> act" by blast
  then show ?thesis
  proof cases
    case 1 then show ?thesis using one inv by (simp add: DispatchAdHoc_def)
  next
    case 2 then show ?thesis
      using one acq lock_inv_busy [OF inv, of ?t locks s'] by (auto simp: DispatchAdHoc_def)
  next
    case 3 then show ?thesis
      using one acq act f by (auto simp: DispatchAdHoc_def intro!: lock_inv_acquire_release [OF inv])
  next
    case 4 then show ?thesis
      using one acq act f d rt
      by (auto simp: DispatchAdHoc_def Let_def simp del: rt intro!: lock_inv_enqueue [OF inv _ d] split: if_splits)
  qed
qed

lemma lock_inv_release_job:
  assumes inv: "lock_inv s" and i: "i < length (wp_loops (sc_pool s))"
    and w: "worker_on (jb_TargetID job) (wp_loops (sc_pool s) ! i)"
      "\<And>t. worker_on t (wp_loops (sc_pool s) ! i) = (jb_TargetID job = t)"
    and s': "sc_pool s' = sc_pool s" "sc_locks s' = Release (sc_locks s) (jb_TargetID job)"
  shows "lock_inv (with_loop i Checking da s')"
proof -
  have ok: "locks_ok (sc_locks s)" using inv by (simp add: lock_inv_def)
  have "jobs_on t (sc_pool (with_loop i Checking da s')) = of_bool (IsHeld (sc_locks s') t)" for t
  proof -
    have n: "0 \<le> jobs_on t (sc_pool (with_loop i Checking da s'))"
      by (simp add: jobs_on_def)
    have "jobs_on t (sc_pool (with_loop i Checking da s')) =
        jobs_on t (sc_pool s) - of_bool (jb_TargetID job = t)"
      using jobs_on_with_loop [of i s' t Checking da] i w(2) [of t] by (simp add: s'(1))
    moreover have "jobs_on t (sc_pool s) = of_bool (IsHeld (sc_locks s) t)" using inv by (simp add: lock_inv_def)
    ultimately show ?thesis
      using n by (auto simp: s'(2) tl.release_holds [OF ok])
  qed
  then show ?thesis using tl.release_good [OF ok] by (simp add: lock_inv_def s'(2))
qed

lemma job_begin_frame:
  "job_begin en job s = (True, s') \<Longrightarrow> sc_pool s' = sc_pool s \<and> sc_locks s' = sc_locks s"
  "job_begin en job s = (False, s') \<Longrightarrow>
     sc_pool s' = sc_pool s \<and> sc_locks s' = Release (sc_locks s) (jb_TargetID job)"
  by (auto simp: job_begin_def Let_def split: sum.splits payload.splits)

lemma finish_frame [simp]:
  "sc_pool (finish_schedule en sched tmpl cause oc s) = sc_pool s"
  "sc_locks (finish_schedule en sched tmpl cause oc s) = sc_locks s"
  "sc_pool (finish_adhoc en run oc s) = sc_pool s"
  "sc_locks (finish_adhoc en run oc s) = sc_locks s"
  by (simp_all add: finish_schedule_def finish_adhoc_def Let_def)

lemma job_finish_frame:
  "sc_pool (job_finish en job tmpl oc s) = sc_pool s"
  "sc_locks (job_finish en job tmpl oc s) = Release (sc_locks s) (jb_TargetID job)"
  by (simp_all add: job_finish_def Let_def split: payload.splits)

lemma lock_inv_step: "sched_step c c' \<Longrightarrow> lock_inv (fst c) \<Longrightarrow> lock_inv (fst c')"
proof (induction rule: sched_step.induct)
  case (start s tk)
  then show ?case by (simp add: lock_inv_def sc_Start_def)
next
  case (stop s tk)
  then show ?case by (simp add: lock_inv_def sc_Stop_def Pool_Stop_def jobs_on_def)
next
  case (tick_begin en now s free due s')
  then show ?case using begin_frame lock_inv_cong by fastforce
next
  case (tick_iter n free en now sched s r s' due)
  then show ?case using lock_inv_tick_one by fastforce
next
  case (adhoc en fresh run s r s' tk)
  then show ?case using lock_inv_DispatchAdHoc by fastforce
next
  case (worker_idle i s pool' tk)
  then show ?case by (simp add: lock_inv_def jobs_on_worker)
next
  case (job_run i s job en s' tk)
  then have f: "sc_pool s' = sc_pool s" "sc_locks s' = sc_locks s" using job_begin_frame(1) by blast+
  then show ?case using job_run by (simp add: lock_inv_def jobs_on_with_loop)
next
  case (job_refused i s job en s' tk)
  then show ?case using job_begin_frame(2) [of en job s s']
    by (auto intro!: lock_inv_release_job [where s = s and job = job])
next
  case (job_done i s job tk en tmpl oc)
  then show ?case
    by (auto intro!: lock_inv_release_job [where s = s and job = job] simp: job_finish_frame)
qed auto

lemma lock_inv_reach: "sched_reach en d c \<Longrightarrow> lock_inv (fst c)"
proof (induction rule: sched_reach.induct)
  case (sr_new s)
  then show ?case
    by (auto simp: new_scheduler_def Let_def lock_inv_def jobs_on_def NewWorkerPool_def split: sum.splits)
next
  case (sr_step c c')
  then show ?case by (blast intro: lock_inv_step)
qed

section \<open>Lemmas: a tick against a fresh cache\<close>

definition sc_fresh :: "'r env \<Rightarrow> 'r BlackoutEvaluator \<Rightarrow> 'r Scheduler \<Rightarrow> bool" where
  "sc_fresh en b s \<longleftrightarrow> sc_blackouts s = b \<and> fresh_at (en_now en) b"

lemma fresh_active:
  "sc_fresh en b s \<Longrightarrow> sc_active en t x s = (active_window (en_lib en) b t x \<noteq> None, s)"
  by (simp add: sc_active_def sc_fresh_def fresh_IsActive)

lemma fresh_compute: "sc_fresh en b s \<Longrightarrow> sc_compute_next en sched tmpl s = (r, s') \<Longrightarrow> sc_fresh en b s'"
proof -
  assume f: "sc_fresh en b s" and c: "sc_compute_next en sched tmpl s = (r, s')"
  let ?wd = "\<lparr>wd_lib = en_lib en, wd_blackout_rows = Some (bo_List (sc_db s)), wd_now = en_now en, wd_rng = en_rng en\<rparr>"
  let ?e = "\<lparr>xp_defaults = sc_defaults s, xp_blackouts = Some (sc_blackouts s), xp_draws = sc_draws s\<rparr>"
  have "xp_blackouts (snd (ComputeNextRunAt ?wd ?e sched tmpl)) = Some b"
    by (rule fresh_Compute) (use f in \<open>simp_all add: sc_fresh_def\<close>)
  then show ?thesis using f c by (auto simp: sc_compute_next_def sc_fresh_def split: prod.splits)
qed

lemma fresh_exec: "sc_fresh en b s \<Longrightarrow> sc_fresh en b (ctx_exec f s)"
  by (simp add: sc_fresh_def)

lemma fresh_advance: "sc_fresh en b s \<Longrightarrow> sc_fresh en b (advance_next en sched tmpl s)"
  by (auto simp: advance_next_def dest: fresh_compute intro: fresh_exec split: prod.splits sum.splits)

lemma fresh_skip_run: "sc_fresh en b s \<Longrightarrow> sc_fresh en b (handleBlackoutSkip en sched now s)"
  by (simp add: handleBlackoutSkip_def Let_def fresh_advance fresh_exec)

definition schedule_job :: "Schedule \<Rightarrow> Job" where
  "schedule_job sched = \<lparr>jb_ScheduleID = sch_ID sched, jb_TargetID = sch_TargetID sched,
     jb_Payload = PayloadSchedule sched\<rparr>"

lemma tick_one_fresh:
  assumes f: "sc_fresh en b s" and one: "tick_one en now sched s = (r, s')"
  shows "sc_fresh en b s' \<and>
    (r = TickDispatched \<longrightarrow> wp_jobs (sc_pool s') = wp_jobs (sc_pool s) @ [schedule_job sched] \<and>
       active_window (en_lib en) b (sch_TargetID sched) now = None) \<and>
    (r \<noteq> TickDispatched \<longrightarrow> wp_jobs (sc_pool s') = wp_jobs (sc_pool s))"
proof -
  let ?t = "sch_TargetID sched"
  obtain ok locks where acq: "TryAcquire (sc_locks s) ?t = (ok, locks)" by fastforce
  have f1: "sc_fresh en b (s\<lparr>sc_locks := l\<rparr>)" for l using f by (simp add: sc_fresh_def)
  obtain sent pool where d: "Dispatch (schedule_job sched) (sc_pool s) = (sent, pool)" by fastforce
  have jobs: "wp_jobs pool = wp_jobs (sc_pool s) @ (if sent then [schedule_job sched] else [])"
    using d by (auto simp: Dispatch_def dispatch_check_def dispatch_send_def split: if_splits)
  show ?thesis
  proof (cases "ok \<and> active_window (en_lib en) b ?t now = None")
    case True
    then show ?thesis
      using one acq fresh_active [OF f1, of ?t now] d jobs f
      by (auto simp: tick_one_def Let_def schedule_job_def sc_fresh_def split: if_splits)
  next
    case False
    have "sc_fresh en b (handleBlackoutSkip en sched now (s\<lparr>sc_locks := l\<rparr>))" for l
      by (rule fresh_skip_run [OF f1])
    then show ?thesis
      using False one acq fresh_active [OF f1, of ?t now] f1
      by (auto simp: tick_one_def Let_def split: if_splits)
  qed
qed

lemma tick_loop_fresh:
  assumes "sc_fresh en b s"
  shows "\<exists>js. wp_jobs (sc_pool (tick_loop en now free n due s)) = wp_jobs (sc_pool s) @ js \<and>
    int (length js) \<le> max 0 (free - n) \<and>
    (\<forall>j \<in> set js. \<exists>sched \<in> set due. j = schedule_job sched \<and>
       active_window (en_lib en) b (sch_TargetID sched) now = None)"
  using assms
proof (induction due arbitrary: n s)
  case (Cons sched due)
  show ?case
  proof (cases "free \<le> n")
    case False
    obtain r s1 where one: "tick_one en now sched s = (r, s1)" by fastforce
    note spec = tick_one_fresh [OF Cons.prems one]
    show ?thesis
    proof (cases r)
      case TickContinue
      then show ?thesis using Cons.IH [of s1 n] spec one False by fastforce
    next
      case TickDispatched
      obtain js where js: "wp_jobs (sc_pool (tick_loop en now free (n + 1) due s1)) = wp_jobs (sc_pool s1) @ js"
        "int (length js) \<le> max 0 (free - (n + 1))"
        "\<forall>j \<in> set js. \<exists>sched \<in> set due. j = schedule_job sched \<and>
           active_window (en_lib en) b (sch_TargetID sched) now = None"
        using Cons.IH [of s1 "n + 1"] spec by blast
      then show ?thesis
        using TickDispatched spec one False
        by (intro exI [of _ "schedule_job sched # js"]) auto
    next
      case TickBreak
      then show ?thesis using spec one False by simp
    qed
  qed simp
qed simp

lemma evaluate_fresh:
  "sc_fresh en b s \<Longrightarrow> evaluateInFlightBlackouts en now js s =
     (map (\<lambda>(k, j). (k, if active_window (en_lib en) b (ij_targetID j) now \<noteq> None \<and>
                           active_window (en_lib en) b (ij_targetID j) (ij_acquiredAt j) = None
                        then cancel_job ErrBlackoutPause j else j)) js, s)"
  by (induction js) (auto simp: fresh_active Let_def)

lemma tick_begin_fresh:
  assumes "\<not> ctx_done s" "tick_begin en now s = (free, due, s')"
  shows "sc_fresh en (snd (Refresh (en_lib en) (Some (bo_List (sc_db s))) (en_now en) (sc_blackouts s))) s' \<and>
    set due \<subseteq> {x \<in> set (db_schedules (sc_db s)). is_due now x} \<and> free = Pool_Free (sc_pool s) \<and>
    sc_pool s' = sc_pool s"
proof -
  let ?b = "snd (Refresh (en_lib en) (Some (bo_List (sc_db s))) (en_now en) (sc_blackouts s))"
  have f: "sc_fresh en ?b (s\<lparr>sc_blackouts := ?b\<rparr>)"
    by (simp add: sc_fresh_def fresh_after_Refresh)
  then have f2: "sc_fresh en ?b (s\<lparr>sc_blackouts := ?b, sc_inflight := x\<rparr>)" for x
    by (simp add: sc_fresh_def)
  show ?thesis
    using assms f2 set_ListDue [of "sc_db s" now]
    by (auto simp: tick_begin_def Let_def evaluate_fresh [OF f] ctx_done_def split: if_splits)
qed

section \<open>Lemmas: the end of a job\<close>

lemma fresh_job_finish: "sc_fresh en b s \<Longrightarrow> sc_fresh en b (job_finish en job tmpl oc s)"
proof -
  assume f: "sc_fresh en b s"
  have upd: "sc_fresh en b (x\<lparr>sc_db := d\<rparr>)" "sc_fresh en b (x\<lparr>sc_inflight := i\<rparr>)" "sc_fresh en b (x\<lparr>sc_locks := l\<rparr>)"
    "sc_fresh en b (bg_exec g x)" if "sc_fresh en b x" for x :: "'a Scheduler" and d i l g
    using that by (auto simp: sc_fresh_def bg_exec_def split: sum.splits)
  have "sc_fresh en b (finish_schedule en sched tmpl cause oc x)" if "sc_fresh en b x" for x :: "'a Scheduler" and sched cause
    using that by (simp add: finish_schedule_def Let_def fresh_advance fresh_exec)
  moreover have "sc_fresh en b (finish_adhoc en run oc x)" if "sc_fresh en b x" for x :: "'a Scheduler" and run
    using that by (simp add: finish_adhoc_def Let_def upd)
  ultimately show ?thesis using f by (auto simp: job_finish_def Let_def upd split: payload.splits)
qed

lemma tick_one_free_lock:
  assumes f: "sc_fresh en b s" and ok: "locks_ok (sc_locks s)" "\<not> IsHeld (sc_locks s) (sch_TargetID sched)"
    and act: "active_window (en_lib en) b (sch_TargetID sched) now = None"
    and room: "\<not> wp_stopped (sc_pool s)" "length (wp_jobs (sc_pool s)) < wp_cap (sc_pool s)"
  shows "fst (tick_one en now sched s) = TickDispatched"
proof -
  obtain a locks where acq: "TryAcquire (sc_locks s) (sch_TargetID sched) = (a, locks)" by fastforce
  then have "a" using tl.acquire_result [OF ok(1), of "sch_TargetID sched"] ok(2) by simp
  moreover have "sc_fresh en b (s\<lparr>sc_locks := locks\<rparr>)" using f by (simp add: sc_fresh_def)
  ultimately show ?thesis
    using acq act room
    by (auto simp: tick_one_def Let_def fresh_active Dispatch_def dispatch_check_def dispatch_send_def)
qed

lemma compute_db_cong:
  "db_blackouts d = db_blackouts (sc_db s) \<Longrightarrow>
   fst (sc_compute_next en sched tmpl (s\<lparr>sc_db := d\<rparr>)) = fst (sc_compute_next en sched tmpl s)"
  by (auto simp: sc_compute_next_def bo_List_def split: prod.splits)

lemma compute_db_frame: "sc_db (snd (sc_compute_next en sched tmpl s)) = sc_db s"
  "sc_pool (snd (sc_compute_next en sched tmpl s)) = sc_pool s"
  using compute_frame [of en sched tmpl s] by (metis prod.collapse)+

lemma sched_Get_update:
  "(\<And>r. sch_ID (f r) = sch_ID r) \<Longrightarrow>
   sched_Get (d\<lparr>db_schedules := update_where (\<lambda>x. sch_ID x = i) f (db_schedules d)\<rparr>) i = map_option f (sched_Get d i)"
  by (simp add: sched_Get_def row_update)

lemma finish_schedule_row:
  assumes live: "\<not> ctx_done s" and row: "sched_Get (sc_db s) (sch_ID sched) = Some x"
    and scan: "oc_scanID oc = [] \<or> has_scan (sc_db s) (Some (oc_scanID oc))"
  shows "\<exists>x'. sched_Get (sc_db (finish_schedule en sched tmpl cause oc s)) (sch_ID sched) = Some x' \<and>
    sch_LastRunStatus x' = Some (run_status (oc_err oc) cause) \<and> sch_LastRunAt x' = Some (trunc_sec (en_now en)) \<and>
    sch_LastScanID x' = (if oc_scanID oc = [] then None else Some (oc_scanID oc)) \<and>
    sch_NextRunAt x' = (case fst (sc_compute_next en sched tmpl s) of
      Inl _ \<Rightarrow> sch_NextRunAt x | Inr next \<Rightarrow> timePtrUTC next)"
proof -
  let ?i = "sch_ID sched" and ?sc = "if oc_scanID oc \<noteq> [] then Some (oc_scanID oc) else None"
  let ?f = "\<lambda>x. x\<lparr>sch_LastRunAt := Some (trunc_sec (en_now en)), sch_LastRunStatus := Some (run_status (oc_err oc) cause),
     sch_LastScanID := nullableString ?sc, sch_UpdatedAt := trunc_sec (en_now en)\<rparr>"
  let ?d = "(sc_db s)\<lparr>db_schedules := update_where (\<lambda>x. sch_ID x = ?i) ?f (db_schedules (sc_db s))\<rparr>"
  have sc: "has_scan (sc_db s) (nullableString ?sc)" "nullableString ?sc = ?sc"
    using scan by (auto simp: nullableString_def has_scan_def split: if_splits)
  have rec: "ctx_exec (sched_RecordRun (en_now en) ?i (run_status (oc_err oc) cause) ?sc (en_now en)) s = s\<lparr>sc_db := ?d\<rparr>"
    using live row sc(1) by (simp add: ctx_exec_def sched_RecordRun_def)
  have g1: "sched_Get ?d ?i = Some (?f x)"
    using row by (subst sched_Get_update) auto
  have cn: "fst (sc_compute_next en sched tmpl (s\<lparr>sc_db := ?d\<rparr>)) = fst (sc_compute_next en sched tmpl s)"
    by (rule compute_db_cong) simp
  obtain r s2 where c: "sc_compute_next en sched tmpl (s\<lparr>sc_db := ?d\<rparr>) = (r, s2)" by fastforce
  have s2: "sc_db s2 = ?d" "\<not> ctx_done s2" using compute_frame [OF c] live by (auto simp: ctx_done_def)
  have rr: "fst (sc_compute_next en sched tmpl s) = r" using c cn by simp
  have fin: "finish_schedule en sched tmpl cause oc s = advance_next en sched tmpl (s\<lparr>sc_db := ?d\<rparr>)"
    unfolding finish_schedule_def Let_def rec ..
  show ?thesis
  proof (cases r)
    case (Inl e)
    then have "sc_db (finish_schedule en sched tmpl cause oc s) = ?d"
      using fin c s2 by (simp add: advance_next_def)
    then show ?thesis using g1 sc(2) by (simp add: rr Inl)
  next
    case (Inr nx)
    then have "sc_db (finish_schedule en sched tmpl cause oc s) =
        ?d\<lparr>db_schedules := update_where (\<lambda>x. sch_ID x = ?i)
           (\<lambda>x. x\<lparr>sch_NextRunAt := timePtrUTC nx, sch_UpdatedAt := trunc_sec (en_now en)\<rparr>) (db_schedules ?d)\<rparr>"
      using fin c s2 g1 by (simp add: advance_next_def ctx_exec_def sched_SetNextRunAt_def)
    then have "sched_Get (sc_db (finish_schedule en sched tmpl cause oc s)) ?i =
        map_option (\<lambda>x. x\<lparr>sch_NextRunAt := timePtrUTC nx, sch_UpdatedAt := trunc_sec (en_now en)\<rparr>) (sched_Get ?d ?i)"
      by (simp only: sched_Get_update) (subst sched_Get_update, auto)
    then show ?thesis using g1 sc(2) by (simp add: rr Inr)
  qed
qed

section \<open>Properties\<close>

text \<open>C9: One scan per target. In every state the scheduler can reach, under any interleaving of
  ticks, ad-hoc dispatches, workers and shutdown, at most one job of a target is queued or
  running, and exactly one when the target's lock is held.\<close>

theorem target_mutual_exclusion:
  assumes "sched_reach en d (s, tk)"
  shows "jobs_on t (sc_pool s) = (if IsHeld (sc_locks s) t then 1 else 0) \<and> jobs_on t (sc_pool s) \<le> 1"
  using lock_inv_reach [OF assms] by (simp add: lock_inv_def)

definition ex_env :: "(time \<times> duration) env" where
  "ex_env = \<lparr>en_lib = simple_lib, en_rng = (\<lambda>k n. 0), en_now = 5\<rparr>"

lemma target_mutual_exclusion_witness:
  "\<exists>s. new_scheduler ex_env ex_db = Inr s \<and> jobs_on ''t1'' (sc_pool s) \<le> 1"
proof -
  obtain s where s: "new_scheduler ex_env ex_db = Inr s"
    by (auto simp: new_scheduler_def def_Get_def ex_db_def empty_db_def Let_def)
  then show ?thesis
    using target_mutual_exclusion [OF sr_new [OF s], of "''t1''"] by blast
qed

text \<open>C10: What a tick dispatches. With a live context, a tick appends to the queue only jobs of
  schedules that are enabled, due and not inside a blackout of their target at the time of
  the tick, and never more than the free slots of the pool.\<close>

theorem tick_dispatches_due_only:
  assumes "\<not> ctx_done s"
  shows "\<exists>js. wp_jobs (sc_pool (tick en now s)) = wp_jobs (sc_pool s) @ js \<and>
    int (length js) \<le> Pool_Free (sc_pool s) \<and>
    (\<forall>j \<in> set js. \<exists>sched \<in> set (db_schedules (sc_db s)). j = schedule_job sched \<and>
       sch_Enabled sched \<and> (\<exists>t. sch_NextRunAt sched = Some t \<and> t \<le> trunc_sec now) \<and>
       fst (IsActive (en_lib en) (Some (bo_List (sc_db s))) (en_now en) NewBlackoutEvaluator
              (sch_TargetID sched) now) = None)"
proof -
  obtain free due s' where b: "tick_begin en now s = (free, due, s')" by (metis prod.exhaust)
  note spec = tick_begin_fresh [OF assms b]
  obtain js where js: "wp_jobs (sc_pool (tick_loop en now free 0 due s')) = wp_jobs (sc_pool s') @ js"
    "int (length js) \<le> max 0 (free - 0)"
    "\<forall>j \<in> set js. \<exists>sched \<in> set due. j = schedule_job sched \<and>
       active_window (en_lib en) (snd (Refresh (en_lib en) (Some (bo_List (sc_db s))) (en_now en) (sc_blackouts s)))
         (sch_TargetID sched) now = None"
    using tick_loop_fresh [OF conjunct1 [OF spec], of now free 0 due] by blast
  have "0 \<le> Pool_Free (sc_pool s)" by (simp add: Pool_Free_def Let_def)
  then show ?thesis
    using js spec b by (intro exI [of _ js]) (fastforce simp: tick_def active_after_Refresh is_due_iff)
qed

lemma tick_dispatches_due_only_witness:
  "\<exists>s js. new_scheduler ex_env ex_db = Inr s \<and> wp_jobs (sc_pool (tick ex_env 5 s)) = wp_jobs (sc_pool s) @ js"
proof -
  obtain s where s: "new_scheduler ex_env ex_db = Inr s" "wp_ctx_done (sc_pool s) = False"
    by (auto simp: new_scheduler_def def_Get_def ex_db_def empty_db_def Let_def NewWorkerPool_def)
  then show ?thesis
    using tick_dispatches_due_only [of s ex_env 5] by (auto simp: ctx_done_def)
qed

text \<open>C11: The end of a scheduled scan. With a live context, when the schedule's row and the scan's
  row exist, finishing the job records the status (success, failed, or paused by a blackout
  when the scan was cancelled for that cause), the time and the scan; the next run becomes
  what the expander computes, or stays when it fails; and the target's lock is free again.\<close>

theorem scheduled_job_outcome:
  assumes "\<not> ctx_done s" "sched_Get (oc_effect oc (sc_db s)) (sch_ID sched) = Some x"
    and "oc_scanID oc = [] \<or> has_scan (oc_effect oc (sc_db s)) (Some (oc_scanID oc))"
    and "locks_ok (sc_locks s)"
  shows "\<not> IsHeld (sc_locks (job_finish en (schedule_job sched) tmpl oc s)) (sch_TargetID sched) \<and>
    (\<exists>x'. sched_Get (sc_db (job_finish en (schedule_job sched) tmpl oc s)) (sch_ID sched) = Some x' \<and>
       sch_LastRunStatus x' = Some (case oc_err oc of
           None \<Rightarrow> ScheduleRunSuccess
         | Some e \<Rightarrow> if e = RunCanceled \<and> job_cause s (schedule_job sched) = Some ErrBlackoutPause
                     then ScheduleRunPausedBlackout else ScheduleRunFailed) \<and>
       sch_LastRunAt x' = Some (trunc_sec (en_now en)) \<and>
       sch_LastScanID x' = (if oc_scanID oc = [] then None else Some (oc_scanID oc)) \<and>
       sch_NextRunAt x' = (case fst (sc_compute_next en sched tmpl (s\<lparr>sc_db := oc_effect oc (sc_db s)\<rparr>)) of
         Inl _ \<Rightarrow> sch_NextRunAt x | Inr next \<Rightarrow> timePtrUTC next))"
proof (intro conjI)
  have j: "jb_TargetID (schedule_job sched) = sch_TargetID sched" "jb_Payload (schedule_job sched) = PayloadSchedule sched"
    by (simp_all add: schedule_job_def)
  show "\<not> IsHeld (sc_locks (job_finish en (schedule_job sched) tmpl oc s)) (sch_TargetID sched)"
    using assms(4) by (simp add: job_finish_frame j tl.release_holds)
  have "\<not> ctx_done (s\<lparr>sc_db := oc_effect oc (sc_db s)\<rparr>)" using assms(1) by (simp add: ctx_done_def)
  moreover have "run_status e c = (case e of None \<Rightarrow> ScheduleRunSuccess
     | Some e \<Rightarrow> if e = RunCanceled \<and> c = Some ErrBlackoutPause then ScheduleRunPausedBlackout else ScheduleRunFailed)"
    for e c by (auto simp: run_status_def split: option.splits run_error.splits)
  moreover have "sc_db (job_finish en (schedule_job sched) tmpl oc s) =
      sc_db (finish_schedule en sched tmpl (job_cause s (schedule_job sched)) oc (s\<lparr>sc_db := oc_effect oc (sc_db s)\<rparr>))"
    by (simp add: job_finish_def Let_def j)
  ultimately show "\<exists>x'. sched_Get (sc_db (job_finish en (schedule_job sched) tmpl oc s)) (sch_ID sched) = Some x' \<and>
       sch_LastRunStatus x' = Some (case oc_err oc of
           None \<Rightarrow> ScheduleRunSuccess
         | Some e \<Rightarrow> if e = RunCanceled \<and> job_cause s (schedule_job sched) = Some ErrBlackoutPause
                     then ScheduleRunPausedBlackout else ScheduleRunFailed) \<and>
       sch_LastRunAt x' = Some (trunc_sec (en_now en)) \<and>
       sch_LastScanID x' = (if oc_scanID oc = [] then None else Some (oc_scanID oc)) \<and>
       sch_NextRunAt x' = (case fst (sc_compute_next en sched tmpl (s\<lparr>sc_db := oc_effect oc (sc_db s)\<rparr>)) of
         Inl _ \<Rightarrow> sch_NextRunAt x | Inr next \<Rightarrow> timePtrUTC next)"
    using finish_schedule_row [of "s\<lparr>sc_db := oc_effect oc (sc_db s)\<rparr>" sched x oc en tmpl
        "job_cause s (schedule_job sched)"] assms(2,3) by simp
qed

definition ex_sched_state :: "(time \<times> duration) Scheduler" where
  "ex_sched_state = \<lparr>sc_db = ex_db\<lparr>db_schedules := [ex_daily]\<rparr>, sc_defaults = ex_defaults,
     sc_pool = Pool_Start (NewWorkerPool 2), sc_locks = [(''t1'', 1)],
     sc_blackouts = snd (Refresh simple_lib (Some []) 5 NewBlackoutEvaluator), sc_draws = 0,
     sc_inflight = [], sc_started = True\<rparr>"

definition ex_outcome :: outcome where
  "ex_outcome = \<lparr>oc_scanID = [], oc_err = Some RunOther, oc_effect = (\<lambda>d. d)\<rparr>"

lemma ex_sched_state_facts:
  "\<not> ctx_done ex_sched_state" "sched_Get (sc_db ex_sched_state) (sch_ID ex_daily) = Some ex_daily"
  "locks_ok (sc_locks ex_sched_state)" "sc_fresh ex_env (sc_blackouts ex_sched_state) ex_sched_state"
  "\<not> wp_stopped (sc_pool ex_sched_state)" "wp_jobs (sc_pool ex_sched_state) = []" "wp_cap (sc_pool ex_sched_state) = 2"
  by (simp_all add: ex_sched_state_def ctx_done_def sched_Get_def row_def locks_ok_def sc_fresh_def ex_env_def
      fresh_after_Refresh Pool_Start_def NewWorkerPool_def Let_def)

lemma scheduled_job_outcome_witness:
  "\<exists>x'. sched_Get (sc_db (job_finish ex_env (schedule_job ex_daily) None ex_outcome ex_sched_state)) (sch_ID ex_daily) = Some x' \<and>
     sch_LastRunStatus x' = Some ScheduleRunFailed"
  using scheduled_job_outcome [of ex_sched_state ex_outcome ex_daily ex_daily ex_env None] ex_sched_state_facts
  by (auto simp: ex_outcome_def)

text \<open>A shutdown loses the record of a scheduled scan. When the scheduler's context is
  cancelled before the scan ends, every statement that would record the run or advance the
  next run fails under that context, so the row of the schedule is left as it was, whatever
  the outcome; the ad-hoc path uses a fresh context and does record its outcome.\<close>

theorem shutdown_loses_schedule_record:
  assumes "ctx_done s"
  shows "sc_db (job_finish en (schedule_job sched) tmpl oc s) = oc_effect oc (sc_db s) \<and>
    (ah_Get (oc_effect oc (sc_db s)) (ah_ID run) \<noteq> None \<and> oc_scanID oc = [] \<longrightarrow>
      map_option ah_Status (ah_Get (sc_db (job_finish en
        \<lparr>jb_ScheduleID = adHocJobKey (ah_ID run), jb_TargetID = ah_TargetID run, jb_Payload = PayloadAdHoc run\<rparr>
        tmpl oc s)) (ah_ID run)) =
      Some (if oc_err oc = None then AdHocCompleted else AdHocFailed))"
proof (intro conjI impI)
  have d: "ctx_exec f x = x" if "wp_ctx_done (sc_pool x)" for f and x :: "'a Scheduler"
    using that by (simp add: ctx_exec_def ctx_done_def)
  have adv: "sc_db (advance_next en sched tmpl x) = sc_db x" if "wp_ctx_done (sc_pool x)" for x :: "'a Scheduler"
  proof -
    obtain r x' where c: "sc_compute_next en sched tmpl x = (r, x')" by fastforce
    then have "sc_db x' = sc_db x" "wp_ctx_done (sc_pool x')" using compute_frame [OF c] that by auto
    then show ?thesis using c d by (simp add: advance_next_def split: sum.splits)
  qed
  show "sc_db (job_finish en (schedule_job sched) tmpl oc s) = oc_effect oc (sc_db s)"
    using assms by (simp add: job_finish_def Let_def schedule_job_def finish_schedule_def d adv ctx_done_def)
  assume r: "ah_Get (oc_effect oc (sc_db s)) (ah_ID run) \<noteq> None \<and> oc_scanID oc = []"
  then obtain x where x: "row ah_ID (db_adhoc (oc_effect oc (sc_db s))) (ah_ID run) = Some x"
    by (auto simp: ah_Get_def)
  then have "row ah_ID (update_where (\<lambda>r. ah_ID r = ah_ID run) (ah_stamp st (en_now en))
      (db_adhoc (oc_effect oc (sc_db s)))) (ah_ID run) = Some (ah_stamp st (en_now en) x)" for st
    by (subst row_update) (auto simp: ah_stamp_def)
  then show "map_option ah_Status (ah_Get (sc_db (job_finish en
        \<lparr>jb_ScheduleID = adHocJobKey (ah_ID run), jb_TargetID = ah_TargetID run, jb_Payload = PayloadAdHoc run\<rparr>
        tmpl oc s)) (ah_ID run)) = Some (if oc_err oc = None then AdHocCompleted else AdHocFailed)"
    using r x by (simp add: job_finish_def Let_def finish_adhoc_def bg_exec_def ah_UpdateStatus_def ah_Get_def ah_stamp_def)
qed

lemma shutdown_loses_schedule_record_witness:
  "sc_db (job_finish ex_env (schedule_job ex_daily) None ex_outcome (sc_Stop ex_sched_state)) = sc_db ex_sched_state"
proof -
  have "ctx_done (sc_Stop ex_sched_state)" "sc_db (sc_Stop ex_sched_state) = sc_db ex_sched_state"
    by (simp_all add: sc_Stop_def ex_sched_state_def ctx_done_def Pool_Stop_def)
  then show ?thesis
    using shutdown_loses_schedule_record [of "sc_Stop ex_sched_state" ex_env ex_daily None ex_outcome]
    by (simp add: ex_outcome_def)
qed

text \<open>A stale due list fires a schedule twice. The ticker lists the due schedules once and then
  tries their locks one by one. When the worker that runs a listed schedule finishes in
  between (and so has advanced the next run and released the lock), the iteration for that
  schedule dispatches it again, and it does so whatever its row now says: the decision does
  not read the row again.\<close>

theorem stale_due_list_fires_twice:
  assumes "locks_ok (sc_locks s)" "sc_fresh en b s"
    and "active_window (en_lib en) b (sch_TargetID sched) now = None"
    and "\<not> wp_stopped (sc_pool s)" "length (wp_jobs (sc_pool s)) < wp_cap (sc_pool s)"
  shows "fst (tick_one en now sched ((job_finish en (schedule_job sched) tmpl oc s)\<lparr>sc_db := d\<rparr>)) = TickDispatched"
proof (rule tick_one_free_lock)
  show "sc_fresh en b ((job_finish en (schedule_job sched) tmpl oc s)\<lparr>sc_db := d\<rparr>)"
    using fresh_job_finish [OF assms(2)] by (simp add: sc_fresh_def)
qed (use assms in \<open>simp_all add: job_finish_frame tl.release_good tl.release_holds schedule_job_def\<close>)

lemma stale_due_list_fires_twice_witness:
  "fst (tick_one ex_env 5 ex_daily ((job_finish ex_env (schedule_job ex_daily) None ex_outcome ex_sched_state)
     \<lparr>sc_db := ex_db\<lparr>db_schedules := [ex_daily\<lparr>sch_NextRunAt := Some (2 * day)\<rparr>]\<rparr>\<rparr>)) = TickDispatched"
proof -
  have "active_window simple_lib (sc_blackouts ex_sched_state) t 5 = None" for t
    by (simp add: ex_sched_state_def Refresh_def active_window_def target_windows_def)
  then show ?thesis
    using stale_due_list_fires_twice [of ex_sched_state ex_env "sc_blackouts ex_sched_state" ex_daily 5]
      ex_sched_state_facts by (simp add: ex_env_def)
qed

lemma tick_one_inflight: "tick_one en now sched s = (r, s') \<Longrightarrow> sc_inflight s' = sc_inflight s"
  by (auto simp: tick_one_def Let_def handleBlackoutSkip_def dest!: active_frame split: prod.splits if_splits)

lemma tick_loop_inflight: "sc_inflight (tick_loop en now free n due s) = sc_inflight s"
proof (induction due arbitrary: n s)
  case (Cons sched due)
  obtain r s1 where one: "tick_one en now sched s = (r, s1)" by fastforce
  then show ?case using Cons tick_one_inflight [OF one] by (simp split: tick_result.splits)
qed simp

text \<open>Pausing running scans. With a live context a tick cancels, with the blackout cause, exactly
  the running jobs whose target is in a blackout now and was not when the job began, unless
  they were cancelled before; all other jobs keep their cause.\<close>

theorem tick_pauses_running_scans:
  assumes "\<not> ctx_done s"
  shows "sc_inflight (tick en now s) = map (\<lambda>(k, j). (k,
     if ij_cause j = None \<and>
        fst (IsActive (en_lib en) (Some (bo_List (sc_db s))) (en_now en) NewBlackoutEvaluator (ij_targetID j) now) \<noteq> None \<and>
        fst (IsActive (en_lib en) (Some (bo_List (sc_db s))) (en_now en) NewBlackoutEvaluator (ij_targetID j) (ij_acquiredAt j)) = None
     then j\<lparr>ij_cause := Some ErrBlackoutPause\<rparr> else j)) (sc_inflight s)"
proof -
  let ?b = "snd (Refresh (en_lib en) (Some (bo_List (sc_db s))) (en_now en) (sc_blackouts s))"
  have f: "sc_fresh en ?b (s\<lparr>sc_blackouts := ?b\<rparr>)" by (simp add: sc_fresh_def fresh_after_Refresh)
  obtain free due s' where b: "tick_begin en now s = (free, due, s')" by (metis prod.exhaust)
  have "sc_inflight s' = map (\<lambda>(k, j). (k, if active_window (en_lib en) ?b (ij_targetID j) now \<noteq> None \<and>
      active_window (en_lib en) ?b (ij_targetID j) (ij_acquiredAt j) = None
      then cancel_job ErrBlackoutPause j else j)) (sc_inflight s)"
    using b assms by (auto simp: tick_begin_def Let_def evaluate_fresh [OF f] split: if_splits)
  then show ?thesis
    using b by (auto simp: tick_def tick_loop_inflight active_after_Refresh cancel_job_def split: option.splits)
qed

definition ex_running :: inflightJob where
  "ex_running = \<lparr>ij_scheduleID = ''s1'', ij_targetID = ''t1'', ij_acquiredAt = - 1, ij_cause = None\<rparr>"

lemma ex_blackout_active:
  "fst (IsActive simple_lib (Some [ex_blackout]) 5 NewBlackoutEvaluator t 5) \<noteq> None"
  "fst (IsActive simple_lib (Some [ex_blackout]) 5 NewBlackoutEvaluator t (- 1)) = None"
proof -
  let ?cw = "\<lparr>cw_window = ex_blackout, cw_rule = (0, day), cw_loc = utc\<rparr>"
  have act: "fst (IsActive simple_lib (Some [ex_blackout]) 5 NewBlackoutEvaluator t x) =
      (if occurrenceCovers simple_lib ?cw x then Some ex_blackout else None)" for x
  proof -
    have "bo_Enabled ex_blackout" "bo_Scope ex_blackout = BlackoutScopeGlobal" by (simp_all add: ex_blackout_def)
    then show ?thesis
      by (simp add: IsActive_def Let_def ensureFresh_stale [OF is_stale_New] Refresh_def refresh_one_def
        ex_blackout_built active_window_def target_windows_def)
  qed
  have dur: "seconds (bo_DurationSec ex_blackout) = 7200 * second"
    by (simp add: ex_blackout_def seconds_eq)
  have "covers simple_lib ?cw 0 5 \<and> 5 - blackoutHorizonPast \<le> 0"
    by (auto simp: covers_def dur simple_occurs second_def blackoutHorizonPast_def duration_defs)
  then show "fst (IsActive simple_lib (Some [ex_blackout]) 5 NewBlackoutEvaluator t 5) \<noteq> None"
    unfolding act occurrenceCovers_iff [OF simple_lib_ok] by auto
  have "\<not> covers simple_lib ?cw u (- 1)" for u
  proof
    assume "covers simple_lib ?cw u (- 1)"
    then obtain k where "0 \<le> k" "u = day * k" "u \<le> - 1" by (auto simp: covers_def simple_occurs)
    moreover from this have "0 \<le> day * k" by (intro mult_nonneg_nonneg) simp_all
    ultimately show False by simp
  qed
  then show "fst (IsActive simple_lib (Some [ex_blackout]) 5 NewBlackoutEvaluator t (- 1)) = None"
    unfolding act occurrenceCovers_iff [OF simple_lib_ok] by simp
qed

lemma tick_pauses_running_scans_witness:
  "sc_inflight (tick ex_env 5 (ex_sched_state\<lparr>sc_db := ex_db\<lparr>db_blackouts := [ex_blackout]\<rparr>,
      sc_inflight := [(''s1'', ex_running)]\<rparr>)) = [(''s1'', ex_running\<lparr>ij_cause := Some ErrBlackoutPause\<rparr>)]"
proof -
  let ?s = "ex_sched_state\<lparr>sc_db := ex_db\<lparr>db_blackouts := [ex_blackout]\<rparr>, sc_inflight := [(''s1'', ex_running)]\<rparr>"
  have "\<not> ctx_done ?s" using ex_sched_state_facts(1) by (simp add: ctx_done_def)
  moreover have "bo_List (sc_db ?s) = [ex_blackout]" by (simp add: bo_List_def)
  moreover have "ij_cause ex_running = None" "ij_acquiredAt ex_running = - 1" by (simp_all add: ex_running_def)
  moreover have "en_lib ex_env = simple_lib" "en_now ex_env = 5" by (simp_all add: ex_env_def)
  ultimately show ?thesis
    using tick_pauses_running_scans [of ?s ex_env 5] by (simp add: ex_blackout_active)
qed

end
