(* ===== verification/Startup.thy ===== *)
theory Startup
  imports Scheduler StoreInv
begin

text \<open>
  What guards a scheduler's start: the singleton lock (\<open>internal/storage/scheduler_lock.go\<close>,
  \<open>internal/cli/scheduler_lock.go\<close>), the repair of the rows a crashed process left
  (\<open>storage/zombie_reap.go\<close>, \<open>intervalsched/zombie_reap.go\<close>), and the recomputation of next runs
  after a template changed (\<open>intervalsched/cascade_recompute.go\<close>).
\<close>

section \<open>Repairing orphaned scans\<close>

definition reapBatchSize :: nat where "reapBatchSize = 500"

function chunk_from :: "nat \<Rightarrow> 'a list \<Rightarrow> 'a list list" where
  "chunk_from n ids = (if ids = [] \<or> n = 0 then [] else take n ids # chunk_from n (drop n ids))"
  by pat_completeness auto

termination by (relation "measure (\<lambda>(_, ids). length ids)") auto

declare chunk_from.simps [simp del]

definition chunkIDs :: "string list \<Rightarrow> nat \<Rightarrow> string list list" where
  "chunkIDs ids n = (if n = 0 \<or> length ids \<le> n then [ids] else chunk_from n ids)"

definition listOrphanedScanIDs :: "db \<Rightarrow> string list" where
  "listOrphanedScanIDs d = map sn_ID (filter (\<lambda>s. sn_Status s = ScanStatusRunning) (db_scans d))"

text \<open>One batch of each update, and the loop over the batches that adds up the affected rows.\<close>

definition fail_scan :: "time \<Rightarrow> string \<Rightarrow> time \<Rightarrow> Scan \<Rightarrow> Scan" where
  "fail_scan now msg finished s =
     s\<lparr>sn_Status := ScanStatusFailed, sn_Error := msg, sn_FinishedAt := Some (trunc_sec finished),
       sn_UpdatedAt := trunc_sec now\<rparr>"

definition orphan_scan :: "string list \<Rightarrow> Scan \<Rightarrow> bool" where
  "orphan_scan ids s = (sn_Status s = ScanStatusRunning \<and> sn_ID s \<in> set ids)"

definition fail_adhoc :: "time \<Rightarrow> AdHocScanRun \<Rightarrow> AdHocScanRun" where
  "fail_adhoc finished r = r\<lparr>ah_Status := AdHocFailed, ah_CompletedAt := Some (trunc_sec finished)\<rparr>"

definition orphan_adhoc :: "string list \<Rightarrow> AdHocScanRun \<Rightarrow> bool" where
  "orphan_adhoc ids r = ((ah_Status r = AdHocPending \<or> ah_Status r = AdHocRunning) \<and>
     (case ah_ScanID r of None \<Rightarrow> False | Some i \<Rightarrow> i \<in> set ids))"

definition orphanedScanError :: string where
  "orphanedScanError = ''orphaned on scheduler restart''"

definition fail_tool :: "time \<Rightarrow> time \<Rightarrow> ToolRun \<Rightarrow> ToolRun" where
  "fail_tool now finished r =
     r\<lparr>tr_Status := ToolRunFailed, tr_FinishedAt := Some (trunc_sec finished),
       tr_ErrorMessage := ''orphaned on scheduler restart'', tr_UpdatedAt := trunc_sec now\<rparr>"

definition orphan_tool :: "string list \<Rightarrow> ToolRun \<Rightarrow> bool" where
  "orphan_tool ids r = (tr_Status r = ToolRunRunning \<and> tr_ScanID r \<in> set ids)"

fun batches :: "(string list \<Rightarrow> 'r \<Rightarrow> bool) \<Rightarrow> ('r \<Rightarrow> 'r) \<Rightarrow> string list list \<Rightarrow> 'r list \<times> nat \<Rightarrow> 'r list \<times> nat" where
  "batches P f [] (rs, n) = (rs, n)"
| "batches P f (c # cs) (rs, n) =
     batches P f cs (update_where (P c) f rs, n + length (filter (P c) rs))"

definition markScansFailed :: "time \<Rightarrow> string list \<Rightarrow> string \<Rightarrow> time \<Rightarrow> db \<Rightarrow> db \<times> nat" where
  "markScansFailed now ids msg finished d =
     (if ids = [] then (d, 0)
      else case batches orphan_scan (fail_scan now msg finished) (chunkIDs ids reapBatchSize) (db_scans d, 0) of
        (rs, n) \<Rightarrow> (d\<lparr>db_scans := rs\<rparr>, n))"

definition markAdHocRunsFailed :: "string list \<Rightarrow> time \<Rightarrow> db \<Rightarrow> db \<times> nat" where
  "markAdHocRunsFailed ids finished d =
     (if ids = [] then (d, 0)
      else case batches orphan_adhoc (fail_adhoc finished) (chunkIDs ids reapBatchSize) (db_adhoc d, 0) of
        (rs, n) \<Rightarrow> (d\<lparr>db_adhoc := rs\<rparr>, n))"

definition markToolRunsFailed :: "time \<Rightarrow> string list \<Rightarrow> time \<Rightarrow> db \<Rightarrow> db \<times> nat" where
  "markToolRunsFailed now ids finished d =
     (if ids = [] then (d, 0)
      else case batches orphan_tool (fail_tool now finished) (chunkIDs ids reapBatchSize) (db_tool_runs d, 0) of
        (rs, n) \<Rightarrow> (d\<lparr>db_tool_runs := rs\<rparr>, n))"

record ReapReport =
  rp_ScansReaped :: nat
  rp_AdHocRunsReaped :: nat
  rp_ToolRunsReaped :: nat
  rp_Duration :: duration

text \<open>The whole transaction; \<open>start\<close>, \<open>finished\<close> and \<open>stop\<close> are readings of the scheduler's clock and
  \<open>now\<close> of the store's.\<close>

definition ReapOrphanedScans :: "time \<Rightarrow> time \<Rightarrow> time \<Rightarrow> time \<Rightarrow> db \<Rightarrow> db \<times> ReapReport" where
  "ReapOrphanedScans start finished stop now d =
     (let ids = listOrphanedScanIDs d in
      if ids = []
      then (d, \<lparr>rp_ScansReaped = 0, rp_AdHocRunsReaped = 0, rp_ToolRunsReaped = 0, rp_Duration = stop - start\<rparr>)
      else
        (case markScansFailed now ids orphanedScanError finished d of (d, scansN) \<Rightarrow>
         (case markAdHocRunsFailed ids finished d of (d, adhocN) \<Rightarrow>
          (case markToolRunsFailed now ids finished d of (d, toolsN) \<Rightarrow>
            (d, \<lparr>rp_ScansReaped = scansN, rp_AdHocRunsReaped = adhocN, rp_ToolRunsReaped = toolsN,
                 rp_Duration = stop - start\<rparr>)))))"

section \<open>The scheduler lock\<close>

definition Age :: "LockRow \<Rightarrow> time \<Rightarrow> duration" where
  "Age l now = (if lk_HeartbeatAt l = zero_time then 0 else now - lk_HeartbeatAt l)"

definition lock_for :: "int \<Rightarrow> string \<Rightarrow> time \<Rightarrow> LockRow" where
  "lock_for pid host now = \<lparr>lk_PID = pid, lk_Hostname = host, lk_AcquiredAt = trunc_sec now, lk_HeartbeatAt = trunc_sec now\<rparr>"

text \<open>\<open>Inl holder\<close> is \<open>ErrLockHeld\<close> with the current holder; \<open>Inr row\<close> the new row.\<close>

definition AcquireSchedulerLock ::
  "time \<Rightarrow> int \<Rightarrow> string \<Rightarrow> duration \<Rightarrow> LockRow option \<Rightarrow> (LockRow, LockRow) result" where
  "AcquireSchedulerLock now pid host staleAfter rw =
     (case rw of
        Some held \<Rightarrow>
          if lk_HeartbeatAt held \<noteq> zero_time \<and> now - lk_HeartbeatAt held \<le> staleAfter then Inl held
          else Inr (lock_for pid host now)
      | None \<Rightarrow> Inr (lock_for pid host now))"

definition owns :: "int \<Rightarrow> string \<Rightarrow> LockRow option \<Rightarrow> bool" where
  "owns pid host rw = (case rw of None \<Rightarrow> False | Some l \<Rightarrow> lk_PID l = pid \<and> lk_Hostname l = host)"

text \<open>The refresh fails (\<open>None\<close>) when the row is no longer the caller's.\<close>

definition RefreshSchedulerLock :: "time \<Rightarrow> int \<Rightarrow> string \<Rightarrow> LockRow option \<Rightarrow> LockRow option option" where
  "RefreshSchedulerLock now pid host rw =
     (if owns pid host rw then Some (map_option (\<lambda>l. l\<lparr>lk_HeartbeatAt := trunc_sec now\<rparr>) rw) else None)"

definition ReleaseSchedulerLock :: "int \<Rightarrow> string \<Rightarrow> LockRow option \<Rightarrow> LockRow option" where
  "ReleaseSchedulerLock pid host rw = (if owns pid host rw then None else rw)"

definition schedulerLockStaleAfter :: duration where "schedulerLockStaleAfter = 60 * second"
definition schedulerLockRefreshInterval :: duration where "schedulerLockRefreshInterval = 15 * second"

text \<open>The acquisition of a process. \<open>alive\<close> is the liveness probe of a PID on this host; the two
  clock readings are those of the two attempts.\<close>

definition acquireSchedulerLock ::
  "(int \<Rightarrow> bool) \<Rightarrow> time \<Rightarrow> time \<Rightarrow> int \<Rightarrow> string \<Rightarrow> LockRow option \<Rightarrow> (LockRow, LockRow) result" where
  "acquireSchedulerLock alive now now2 pid host rw =
     (case AcquireSchedulerLock now pid host schedulerLockStaleAfter rw of
        Inr l \<Rightarrow> Inr l
      | Inl held \<Rightarrow>
          if lk_Hostname held = host \<and> \<not> alive (lk_PID held)
          then AcquireSchedulerLock now2 pid host 0 rw
          else Inl held)"

section \<open>Processes around the lock\<close>

text \<open>The system of processes: the clock, the row, and the processes that hold a lock handle and so
  run a scheduler. The heartbeat goroutine logs a failed refresh and goes on, so a handle ends
  only by \<open>Close\<close> or by the end of its process. \<open>timely\<close> says that no running scheduler stays
  silent for longer than the stale limit.\<close>

record lock_sys =
  ls_now :: time
  ls_row :: "LockRow option"
  ls_active :: "(int \<times> string) list"

definition fresh_row :: "time \<Rightarrow> LockRow option \<Rightarrow> bool" where
  "fresh_row now rw = (case rw of None \<Rightarrow> True | Some l \<Rightarrow> now - lk_HeartbeatAt l \<le> schedulerLockStaleAfter)"

inductive lock_step :: "bool \<Rightarrow> lock_sys \<Rightarrow> lock_sys \<Rightarrow> bool" for timely where
  ls_acquire: "(\<And>p. (p, host) \<in> set (ls_active s) \<Longrightarrow> alive p) \<Longrightarrow>
     acquireSchedulerLock alive (ls_now s) (ls_now s) pid host (ls_row s) = Inr l \<Longrightarrow>
     lock_step timely s (s\<lparr>ls_row := Some l, ls_active := (pid, host) # ls_active s\<rparr>)"
| ls_refresh: "(pid, host) \<in> set (ls_active s) \<Longrightarrow>
     lock_step timely s (s\<lparr>ls_row := (case RefreshSchedulerLock (ls_now s) pid host (ls_row s) of
        None \<Rightarrow> ls_row s | Some r \<Rightarrow> r)\<rparr>)"
| ls_close: "(pid, host) \<in> set (ls_active s) \<Longrightarrow>
     lock_step timely s (s\<lparr>ls_row := ReleaseSchedulerLock pid host (ls_row s),
       ls_active := remove1 (pid, host) (ls_active s)\<rparr>)"
| ls_crash: "lock_step timely s (s\<lparr>ls_active := remove1 ph (ls_active s)\<rparr>)"
| ls_wait: "ls_now s \<le> t \<Longrightarrow> (timely \<Longrightarrow> ls_active s \<noteq> [] \<Longrightarrow> fresh_row t (ls_row s)) \<Longrightarrow>
     lock_step timely s (s\<lparr>ls_now := t\<rparr>)"

definition lock_init :: "time \<Rightarrow> lock_sys" where
  "lock_init t = \<lparr>ls_now = t, ls_row = None, ls_active = []\<rparr>"

section \<open>Recomputing next runs\<close>

definition overrideContains :: "string list \<Rightarrow> string \<Rightarrow> bool" where
  "overrideContains overrides name = list_ex (\<lambda>o'. o' = name) overrides"

fun recompute_loop ::
  "'r world \<Rightarrow> Template \<Rightarrow> Schedule list \<Rightarrow> 'r RRuleExpander \<times> db \<times> nat \<Rightarrow> 'r RRuleExpander \<times> db \<times> nat" where
  "recompute_loop wd tmpl [] st = st"
| "recompute_loop wd tmpl (s # ss) (e, d, affected) =
     (if overrideContains (sch_Overrides s) ''rrule'' \<or> overrideContains (sch_Overrides s) ''timezone''
      then recompute_loop wd tmpl ss (e, d, affected)
      else case ComputeNextRunAt wd e s (Some tmpl) of
        (Inl _, e) \<Rightarrow> recompute_loop wd tmpl ss (e, d, affected)
      | (Inr next, e) \<Rightarrow>
          (case sched_SetNextRunAt (wd_now wd) (sch_ID s) next d of
             Inl _ \<Rightarrow> recompute_loop wd tmpl ss (e, d, affected)
           | Inr d \<Rightarrow> recompute_loop wd tmpl ss (e, d, affected + 1)))"

definition RecomputeNextRunForTemplate ::
  "'r world \<Rightarrow> string \<Rightarrow> 'r RRuleExpander \<times> db \<Rightarrow> (store_error, nat) result \<times> 'r RRuleExpander \<times> db" where
  "RecomputeNextRunForTemplate wd templateID st =
     (case st of (e, d) \<Rightarrow>
        (case tmpl_Get d templateID of
           None \<Rightarrow> (Inl ErrNotFound, e, d)
         | Some tmpl \<Rightarrow>
             (case recompute_loop wd tmpl (sched_ListByTemplate d templateID) (e, d, 0) of
                (e, d, affected) \<Rightarrow> (Inr affected, e, d))))"

section \<open>Lemmas: batches\<close>

lemma concat_chunk_from: "0 < n \<Longrightarrow> concat (chunk_from n ids) = ids"
proof (induction n ids rule: chunk_from.induct)
  case (1 n ids)
  then show ?case by (subst chunk_from.simps) auto
qed

lemma chunk_from_size: "c \<in> set (chunk_from n ids) \<Longrightarrow> length c \<le> n"
proof (induction n ids rule: chunk_from.induct)
  case (1 n ids)
  then show ?case by (subst (asm) chunk_from.simps) (auto split: if_splits)
qed

lemma chunkIDs_concat: "concat (chunkIDs ids n) = ids"
  by (auto simp: chunkIDs_def concat_chunk_from)

text \<open>Updating batch by batch is one update by membership in any batch, when a rewritten row is
  never selected again.\<close>

lemma batches_eq:
  assumes "\<And>c c' r. P c r \<Longrightarrow> \<not> P c' (f r)"
  shows "batches P f cs (rs, n) =
    (update_where (\<lambda>r. \<exists>c \<in> set cs. P c r) f rs, n + length (filter (\<lambda>r. \<exists>c \<in> set cs. P c r) rs))"
proof (induction cs arbitrary: rs n)
  case Nil
  then show ?case by (simp add: update_where_def)
next
  case (Cons c cs)
  have 1: "update_where (\<lambda>r. \<exists>c \<in> set cs. P c r) f (update_where (P c) f rs) =
      update_where (\<lambda>r. \<exists>c \<in> set (c # cs). P c r) f rs"
    using assms by (auto simp: update_where_def)
  have 2: "length (filter (\<lambda>r. \<exists>c \<in> set cs. P c r) (update_where (P c) f rs)) + length (filter (P c) rs) =
      length (filter (\<lambda>r. \<exists>c \<in> set (c # cs). P c r) rs)"
    using assms by (induction rs) (auto simp: update_where_def)
  show ?case using 2 by (simp add: Cons 1 [simplified])
qed

lemma batch_member:
  "(\<exists>c \<in> set (chunkIDs ids n). orphan_scan c s) \<longleftrightarrow> orphan_scan ids s"
  "(\<exists>c \<in> set (chunkIDs ids n). orphan_adhoc c r) \<longleftrightarrow> orphan_adhoc ids r"
  "(\<exists>c \<in> set (chunkIDs ids n). orphan_tool c t) \<longleftrightarrow> orphan_tool ids t"
proof -
  have u: "i \<in> set ids \<longleftrightarrow> (\<exists>c \<in> set (chunkIDs ids n). i \<in> set c)" for i
    by (subst chunkIDs_concat [of ids n, symmetric]) auto
  show "(\<exists>c \<in> set (chunkIDs ids n). orphan_scan c s) \<longleftrightarrow> orphan_scan ids s"
    "(\<exists>c \<in> set (chunkIDs ids n). orphan_adhoc c r) \<longleftrightarrow> orphan_adhoc ids r"
    "(\<exists>c \<in> set (chunkIDs ids n). orphan_tool c t) \<longleftrightarrow> orphan_tool ids t"
    by (auto simp: orphan_scan_def orphan_adhoc_def orphan_tool_def u split: option.splits)
qed

lemma marks_eq:
  "ids \<noteq> [] \<Longrightarrow> markScansFailed now ids msg t d =
     (d\<lparr>db_scans := update_where (orphan_scan ids) (fail_scan now msg t) (db_scans d)\<rparr>,
      length (filter (orphan_scan ids) (db_scans d)))"
  "ids \<noteq> [] \<Longrightarrow> markAdHocRunsFailed ids t d =
     (d\<lparr>db_adhoc := update_where (orphan_adhoc ids) (fail_adhoc t) (db_adhoc d)\<rparr>,
      length (filter (orphan_adhoc ids) (db_adhoc d)))"
  "ids \<noteq> [] \<Longrightarrow> markToolRunsFailed now ids t d =
     (d\<lparr>db_tool_runs := update_where (orphan_tool ids) (fail_tool now t) (db_tool_runs d)\<rparr>,
      length (filter (orphan_tool ids) (db_tool_runs d)))"
proof -
  have 1: "\<not> orphan_scan c' (fail_scan now msg t r)" for c' r by (simp add: orphan_scan_def fail_scan_def)
  have 2: "\<not> orphan_adhoc c' (fail_adhoc t r)" for c' r by (simp add: orphan_adhoc_def fail_adhoc_def)
  have 3: "\<not> orphan_tool c' (fail_tool now t r)" for c' r by (simp add: orphan_tool_def fail_tool_def)
  show "ids \<noteq> [] \<Longrightarrow> markScansFailed now ids msg t d =
     (d\<lparr>db_scans := update_where (orphan_scan ids) (fail_scan now msg t) (db_scans d)\<rparr>,
      length (filter (orphan_scan ids) (db_scans d)))"
    "ids \<noteq> [] \<Longrightarrow> markAdHocRunsFailed ids t d =
     (d\<lparr>db_adhoc := update_where (orphan_adhoc ids) (fail_adhoc t) (db_adhoc d)\<rparr>,
      length (filter (orphan_adhoc ids) (db_adhoc d)))"
    "ids \<noteq> [] \<Longrightarrow> markToolRunsFailed now ids t d =
     (d\<lparr>db_tool_runs := update_where (orphan_tool ids) (fail_tool now t) (db_tool_runs d)\<rparr>,
      length (filter (orphan_tool ids) (db_tool_runs d)))"
    by (simp_all add: markScansFailed_def markAdHocRunsFailed_def markToolRunsFailed_def batches_eq 1 2 3 batch_member)
qed

text \<open>Both branches of the reap in one form.\<close>

lemma reap_eq:
  "fst (ReapOrphanedScans start finished stop now d) =
     (let ids = listOrphanedScanIDs d in
      d\<lparr>db_scans := update_where (orphan_scan ids) (fail_scan now orphanedScanError finished) (db_scans d),
        db_adhoc := update_where (orphan_adhoc ids) (fail_adhoc finished) (db_adhoc d),
        db_tool_runs := update_where (orphan_tool ids) (fail_tool now finished) (db_tool_runs d)\<rparr>)"
proof (cases "listOrphanedScanIDs d = []")
  case True
  have "update_where (orphan_scan []) f rs = rs" for f rs
    by (rule update_where_none) (simp add: orphan_scan_def)
  moreover have "update_where (orphan_adhoc []) f rs = rs" for f rs
    by (rule update_where_none) (simp add: orphan_adhoc_def split: option.splits)
  moreover have "update_where (orphan_tool []) f rs = rs" for f rs
    by (rule update_where_none) (simp add: orphan_tool_def)
  ultimately show ?thesis using True by (simp add: ReapOrphanedScans_def Let_def)
next
  case False
  then show ?thesis by (simp add: ReapOrphanedScans_def Let_def marks_eq)
qed

section \<open>Lemmas: the lock\<close>

text \<open>With timely heartbeats there is at most one running scheduler, and the row is its own and fresh.\<close>

definition lock_ok :: "lock_sys \<Rightarrow> bool" where
  "lock_ok s \<longleftrightarrow> 0 \<le> ls_now s \<and>
     (ls_active s = [] \<or> (\<exists>p h l. ls_active s = [(p, h)] \<and> ls_row s = Some l \<and> lk_PID l = p \<and> lk_Hostname l = h \<and>
        0 \<le> lk_HeartbeatAt l \<and> ls_now s - lk_HeartbeatAt l \<le> schedulerLockStaleAfter))"

lemma zero_time_neg: "zero_time < 0"
  by (simp add: zero_time_def second_def)

lemma trunc_fresh: "0 \<le> t \<Longrightarrow> 0 \<le> trunc_sec t \<and> t - trunc_sec t \<le> schedulerLockStaleAfter"
  using trunc_sec_gt [of t] trunc_sec_mono [of 0 t] by (simp add: schedulerLockStaleAfter_def trunc_sec_def second_def)

lemma acquire_row: "AcquireSchedulerLock now pid host st rw = Inr l \<Longrightarrow> l = lock_for pid host now"
  by (auto simp: AcquireSchedulerLock_def split: option.splits if_splits)

lemma acquire_blocked:
  assumes "rw = Some l" "0 \<le> lk_HeartbeatAt l" "now - lk_HeartbeatAt l \<le> schedulerLockStaleAfter"
    and "lk_Hostname l = host \<Longrightarrow> alive (lk_PID l)"
  shows "acquireSchedulerLock alive now now2 pid host rw = Inl l"
  using assms zero_time_neg by (auto simp: acquireSchedulerLock_def AcquireSchedulerLock_def)

lemma lock_step_ok:
  assumes "lock_step True s s'" "lock_ok s"
  shows "lock_ok s'"
  using assms
proof (cases rule: lock_step.cases)
  case (ls_acquire host alive pid l)
  have now: "0 \<le> ls_now s" using assms(2) by (simp add: lock_ok_def)
  show ?thesis
  proof (cases "ls_active s = []")
    case True
    have "l = lock_for pid host (ls_now s)" using ls_acquire(3)
      by (auto simp: acquireSchedulerLock_def dest: acquire_row split: sum.splits if_splits)
    then show ?thesis using True ls_acquire(1) now trunc_fresh [OF now] by (simp add: lock_ok_def lock_for_def)
  next
    case False
    then obtain k where k: "ls_active s = [(lk_PID k, lk_Hostname k)]" "ls_row s = Some k" "0 \<le> lk_HeartbeatAt k"
      "ls_now s - lk_HeartbeatAt k \<le> schedulerLockStaleAfter"
      using assms(2) by (auto simp: lock_ok_def)
    have "acquireSchedulerLock alive (ls_now s) (ls_now s) pid host (ls_row s) = Inl k"
      by (rule acquire_blocked) (use k ls_acquire(2) in auto)
    then show ?thesis using ls_acquire(3) by simp
  qed
next
  case (ls_refresh pid host)
  have now: "0 \<le> ls_now s" using assms(2) by (simp add: lock_ok_def)
  then show ?thesis using ls_refresh assms(2) trunc_fresh [OF now]
    by (auto simp: lock_ok_def RefreshSchedulerLock_def owns_def)
next
  case (ls_close pid host)
  then show ?thesis using assms(2) by (auto simp: lock_ok_def)
next
  case (ls_crash ph)
  then show ?thesis using assms(2) by (cases ph) (auto simp: lock_ok_def split: if_splits)
next
  case (ls_wait t)
  then show ?thesis using assms(2) by (auto simp: lock_ok_def fresh_row_def)
qed

lemma reach_lock_ok:
  assumes "rtranclp (lock_step True) (lock_init t) s" "0 \<le> t"
  shows "lock_ok s"
  using assms(1)
proof (induction rule: rtranclp_induct)
  case base
  then show ?case using assms(2) by (simp add: lock_init_def lock_ok_def)
next
  case (step s s')
  then show ?case by (blast intro: lock_step_ok)
qed

section \<open>Properties\<close>


lemma lock_first: "lock_step timely (lock_init 0)
   \<lparr>ls_now = 0, ls_row = Some (lock_for 1 ''a'' 0), ls_active = [(1, ''a'')]\<rparr>"
  using lock_step.ls_acquire [of "''a''" "lock_init 0" "\<lambda>_. True" 1 "lock_for 1 ''a'' 0" timely]
  by (simp add: lock_init_def acquireSchedulerLock_def AcquireSchedulerLock_def)


text \<open>A suspended scheduler comes back beside its successor. When the holder is silent for longer
  than the limit (a suspended machine), a second process takes the lock over; the first one then fails
  to refresh it, which is only logged, and goes on: two schedulers run on one database.\<close>

theorem suspended_holder_keeps_running:
  "\<exists>s s'. rtranclp (lock_step False) (lock_init 0) s \<and> ls_active s = [(2, ''a''), (1, ''a'')] \<and>
     RefreshSchedulerLock (ls_now s) 1 ''a'' (ls_row s) = None \<and>
     lock_step False s s' \<and> ls_active s' = ls_active s \<and> ls_row s' = ls_row s"
proof -
  let ?s1 = "\<lparr>ls_now = 0, ls_row = Some (lock_for 1 ''a'' 0), ls_active = [(1, ''a'')]\<rparr>"
  let ?s2 = "?s1\<lparr>ls_now := 61 * second\<rparr>"
  let ?s3 = "?s2\<lparr>ls_row := Some (lock_for 2 ''a'' (61 * second)), ls_active := [(2, ''a''), (1, ''a'')]\<rparr>"
  have 2: "lock_step False ?s1 ?s2"
    using lock_step.ls_wait [of ?s1 "61 * second" False] by simp
  have "acquireSchedulerLock (\<lambda>_. True) (61 * second) (61 * second) 2 ''a'' (ls_row ?s2) = Inr (lock_for 2 ''a'' (61 * second))"
    by (simp add: acquireSchedulerLock_def AcquireSchedulerLock_def lock_for_def trunc_sec_def
        schedulerLockStaleAfter_def zero_time_def second_def)
  then have 3: "lock_step False ?s2 ?s3"
    using lock_step.ls_acquire [of "''a''" ?s2 "\<lambda>_. True" 2 "lock_for 2 ''a'' (61 * second)" False] by simp
  have f: "RefreshSchedulerLock (ls_now ?s3) 1 ''a'' (ls_row ?s3) = None"
    by (simp add: RefreshSchedulerLock_def owns_def lock_for_def)
  have 4: "lock_step False ?s3 ?s3"
    using lock_step.ls_refresh [of 1 "''a''" ?s3 False] f by simp
  have "rtranclp (lock_step False) (lock_init 0) ?s3"
    using lock_first [of False] 2 3 by (meson rtranclp.rtrancl_into_rtrancl rtranclp.rtrancl_refl)
  with f 4 show ?thesis by (intro exI [of _ ?s3] conjI) simp_all
qed

text \<open>C17: Repair after a crash. After the reap no scan is running, every scan that was running is failed
  with the canonical message and its report counts it, no tool run of such a scan is running and no
  ad-hoc run linked to it is pending or running; scans that were not running are untouched, and
  a second reap finds nothing.\<close>

theorem reap_repairs:
  assumes "ReapOrphanedScans start finished stop now d = (d', rep)"
  shows "(\<forall>s \<in> set (db_scans d'). sn_Status s \<noteq> ScanStatusRunning) \<and>
    rp_ScansReaped rep = length (filter (\<lambda>s. sn_Status s = ScanStatusRunning) (db_scans d)) \<and>
    (\<forall>s \<in> set (db_scans d). sn_Status s = ScanStatusRunning \<longrightarrow> fail_scan now orphanedScanError finished s \<in> set (db_scans d')) \<and>
    (\<forall>s \<in> set (db_scans d). sn_Status s \<noteq> ScanStatusRunning \<longrightarrow> s \<in> set (db_scans d')) \<and>
    (\<forall>r \<in> set (db_tool_runs d'). \<not> orphan_tool (listOrphanedScanIDs d) r) \<and>
    (\<forall>r \<in> set (db_adhoc d'). \<not> orphan_adhoc (listOrphanedScanIDs d) r) \<and>
    fst (ReapOrphanedScans start2 finished2 stop2 now2 d') = d'"
proof -
  let ?ids = "listOrphanedScanIDs d"
  have o: "orphan_scan ?ids s \<longleftrightarrow> sn_Status s = ScanStatusRunning" if "s \<in> set (db_scans d)" for s
    using that by (auto simp: orphan_scan_def listOrphanedScanIDs_def)
  have d': "d' = d\<lparr>db_scans := update_where (orphan_scan ?ids) (fail_scan now orphanedScanError finished) (db_scans d),
      db_adhoc := update_where (orphan_adhoc ?ids) (fail_adhoc finished) (db_adhoc d),
      db_tool_runs := update_where (orphan_tool ?ids) (fail_tool now finished) (db_tool_runs d)\<rparr>"
    using reap_eq [of start finished stop now d] assms by (simp add: Let_def)
  have none: "\<forall>s \<in> set (db_scans d'). sn_Status s \<noteq> ScanStatusRunning"
    using o by (auto simp: d' update_where_def fail_scan_def)
  have "rp_ScansReaped rep = length (filter (orphan_scan ?ids) (db_scans d))"
  proof (cases "?ids = []")
    case True
    then show ?thesis using assms by (auto simp: ReapOrphanedScans_def Let_def orphan_scan_def)
  next
    case False
    then show ?thesis using assms by (auto simp: ReapOrphanedScans_def Let_def marks_eq)
  qed
  also have "filter (orphan_scan ?ids) (db_scans d) = filter (\<lambda>s. sn_Status s = ScanStatusRunning) (db_scans d)"
    using o by (rule filter_cong [OF refl])
  finally have count: "rp_ScansReaped rep = length (filter (\<lambda>s. sn_Status s = ScanStatusRunning) (db_scans d))" .
  have again: "fst (ReapOrphanedScans start2 finished2 stop2 now2 d') = d'"
    using none by (simp add: ReapOrphanedScans_def listOrphanedScanIDs_def)
  have scans: "fail_scan now orphanedScanError finished s \<in> set (db_scans d')" if "s \<in> set (db_scans d)" "orphan_scan ?ids s" for s
    using that by (auto simp: d' update_where_def)
  have keep: "s \<in> set (db_scans d')" if "s \<in> set (db_scans d)" "\<not> orphan_scan ?ids s" for s
    using that by (force simp: d' update_where_def)
  have tools: "\<forall>r \<in> set (db_tool_runs d'). \<not> orphan_tool ?ids r"
    by (auto simp: d' update_where_def orphan_tool_def fail_tool_def)
  have adhoc: "\<forall>r \<in> set (db_adhoc d'). \<not> orphan_adhoc ?ids r"
    by (auto simp: d' update_where_def orphan_adhoc_def fail_adhoc_def)
  show ?thesis using none count scans keep tools adhoc again o by blast
qed

definition ex_scan :: Scan where
  "ex_scan = \<lparr>sn_ID = ''s1'', sn_TargetID = ''t1'', sn_Type = ScanTypeFull, sn_Status = ScanStatusRunning,
     sn_Phase = ''discovery'', sn_Progress = (0, 1),
     sn_TargetState = \<lparr>ts_AssetsByType = [], ts_AssetsTotal = 0, ts_PortsByStatus = [], ts_FindingsOpen = [],
       ts_FindingsOpenTotal = 0, ts_FindingsByStatus = [], ts_Remediations = []\<rparr>,
     sn_Delta = \<lparr>de_NewAssets = [], de_DisappearedAssets = [], de_ModifiedAssets = [], de_NewFindings = [],
       de_ResolvedFindings = [], de_ReturnedFindings = [], de_IsBaseline = False\<rparr>,
     sn_Work = \<lparr>wk_DurationMs = 0, wk_ToolsRun = 0, wk_ToolsFailed = 0, wk_ToolsSkipped = 0, wk_PhasesRun = [],
       wk_RawEmissions = 0\<rparr>,
     sn_StartedAt = Some 0, sn_FinishedAt = None, sn_Error = [], sn_CreatedAt = 0, sn_UpdatedAt = 0\<rparr>"

lemma reap_repairs_witness:
  "rp_ScansReaped (snd (ReapOrphanedScans 0 5 6 5 (ex_db\<lparr>db_scans := [ex_scan]\<rparr>))) = 1"
  using reap_repairs [OF surjective_pairing, of 0 5 6 5 "ex_db\<lparr>db_scans := [ex_scan]\<rparr>"]
  by (simp add: ex_scan_def)

text \<open>A crashed ad-hoc run stays running. An ad-hoc run is linked to its scan only after the scan
  returns, and the reap finds ad-hoc runs by that link: the row that dispatch marked running when
  the process dies during the scan is still running after the reap.\<close>

theorem crashed_adhoc_run_stays_running:
  assumes "ah_ID run \<noteq> []" "DispatchAdHoc en fresh run s = (Inr (), s1)"
    and "ah_Get (sc_db s) (ah_ID run) = Some r" "ah_ScanID r = None"
  shows "\<exists>r'. ah_Get (fst (ReapOrphanedScans start finished stop now (sc_db s1))) (ah_ID run) = Some r' \<and>
    ah_Status r' = AdHocRunning \<and> ah_ScanID r' = None"
proof -
  have dbs: "sc_db (snd (sc_active en t u s)) = sc_db s" for t u and s :: "'a Scheduler"
    by (simp add: sc_active_def split: prod.splits)
  have "ah_Get (sc_db s1) (ah_ID run) = Some (ah_stamp AdHocRunning (en_now en) r)"
  proof -
    have "sc_db s1 = sc_db (bg_exec (ah_UpdateStatus (ah_ID run) AdHocRunning (en_now en)) s)"
      using assms(1,2) dbs
      by (auto simp: DispatchAdHoc_def Let_def bg_exec_def sc_active_def split: prod.splits if_splits sum.splits)
    then show ?thesis using assms(3)
      by (simp add: bg_exec_def ah_UpdateStatus_def ah_Get_def row_update ah_stamp_def)
  qed
  moreover have "\<not> orphan_adhoc ids (ah_stamp AdHocRunning (en_now en) r)" for ids
    using assms(4) by (simp add: orphan_adhoc_def ah_stamp_def)
  moreover have "ah_Get (fst (ReapOrphanedScans start finished stop now e)) i = Some x"
    if "ah_Get e i = Some x" "\<And>ids. \<not> orphan_adhoc ids x" for e i x
  proof -
    have "row ah_ID (update_where P (fail_adhoc finished) rs) i = Some x"
      if "row ah_ID rs i = Some x" "\<not> P x" for P rs
      using that by (induction rs) (auto simp: row_def update_where_def fail_adhoc_def split: if_splits)
    then show ?thesis using that by (simp add: reap_eq Let_def ah_Get_def)
  qed
  ultimately show ?thesis using assms(4) by (simp add: ah_stamp_def)
qed

definition ex_adhoc :: AdHocScanRun where
  "ex_adhoc = \<lparr>ah_ID = ''r1'', ah_TargetID = ''t2'', ah_TemplateID = None, ah_ToolConfig = [], ah_InitiatedBy = ''api'',
     ah_Reason = [], ah_ScanID = None, ah_Status = AdHocPending, ah_RequestedAt = 0, ah_StartedAt = None,
     ah_CompletedAt = None\<rparr>"

definition ex_adhoc_state :: "(time \<times> duration) Scheduler" where
  "ex_adhoc_state = ex_sched_state\<lparr>sc_db := ex_db\<lparr>db_adhoc := [ex_adhoc]\<rparr>\<rparr>"

lemma ex_adhoc_dispatched: "fst (DispatchAdHoc ex_env ''u'' ex_adhoc ex_adhoc_state) = Inr ()"
  by code_simp

lemma crashed_adhoc_run_stays_running_witness:
  "\<exists>s1 r'. DispatchAdHoc ex_env ''u'' ex_adhoc ex_adhoc_state = (Inr (), s1) \<and>
     ah_Get (fst (ReapOrphanedScans 9 9 9 9 (sc_db s1))) ''r1'' = Some r' \<and> ah_Status r' = AdHocRunning"
proof -
  obtain s1 where s1: "DispatchAdHoc ex_env ''u'' ex_adhoc ex_adhoc_state = (Inr (), s1)"
    using ex_adhoc_dispatched by (metis prod.collapse)
  have "ah_Get (sc_db ex_adhoc_state) (ah_ID ex_adhoc) = Some ex_adhoc"
    by (simp add: ex_adhoc_state_def ah_Get_def row_def)
  with crashed_adhoc_run_stays_running [OF _ s1, of ex_adhoc 9 9 9 9] s1 show ?thesis
    by (auto simp: ex_adhoc_def)
qed

end
