(* ===== verification/PipelineInv.thy ===== *)
theory PipelineInv
  imports Pipeline Startup
begin

text \<open>
  What a run of the pipeline leaves behind: the row of the scan on every way out, and the assets
  of the target.
\<close>

section \<open>The row of the scan\<close>

named_theorems keeps_scans

lemma scans_ignore_err: "(\<And>d'. r = Inr d' \<Longrightarrow> db_scans d' = db_scans d) \<Longrightarrow> db_scans (ignore_err r d) = db_scans d"
  by (auto simp: ignore_err_def split: sum.splits)

lemma scans_CreateToolRun [keeps_scans]: "db_scans (ignore_err (CreateToolRun now u r d) d) = db_scans d"
  by (rule scans_ignore_err) (auto simp: CreateToolRun_def Let_def split: if_splits)

lemma scans_UpsertAsset [keeps_scans]: "db_scans (ignore_err (UpsertAsset now u a d) d) = db_scans d"
  by (rule scans_ignore_err) (auto simp: UpsertAsset_def Let_def split: if_splits)

lemma scans_UpsertFinding [keeps_scans]: "db_scans (ignore_err (UpsertFinding now u f d) d) = db_scans d"
  by (rule scans_ignore_err) (auto simp: UpsertFinding_def Let_def split: if_splits option.splits)

lemma scans_CreateAssetChange [keeps_scans]: "db_scans (ignore_err (CreateAssetChange now u c d) d) = db_scans d"
  by (rule scans_ignore_err) (auto simp: CreateAssetChange_def Let_def split: if_splits)

lemma scans_UpdateAssetStatus [keeps_scans]: "db_scans (ignore_err (UpdateAssetStatus now i s d) d) = db_scans d"
  by (rule scans_ignore_err) (auto simp: UpdateAssetStatus_def split: if_splits)

lemma scans_Normalize [keeps_scans]: "db_scans (NormalizeAssetStatuses now t d) = db_scans d"
  by (simp add: NormalizeAssetStatuses_def)

lemma scans_UpdateTargetLastScan [keeps_scans]: "db_scans (ignore_err (UpdateTargetLastScan now t i f d) d) = db_scans d"
  by (rule scans_ignore_err) (auto simp: UpdateTargetLastScan_def split: if_splits)

lemma fold_keeps: "(\<And>x d. g (f x d) = g d) \<Longrightarrow> g (fold f xs d) = g d"
  by (induction xs arbitrary: d) simp_all

lemma scans_ApplyStatus [keeps_scans]: "db_scans (ApplyStatusChanges now cs d) = db_scans d"
  unfolding ApplyStatusChanges_def
  by (rule fold_keeps) (simp add: apply_status_change_def scans_UpdateAssetStatus split: ChangeType.splits)

lemma scans_AutoResolve [keeps_scans]: "db_scans (AutoResolveFindings now fs d) = db_scans d"
  unfolding AutoResolveFindings_def
proof (rule fold_keeps)
  have "db_scans (ignore_err (UpdateFindingStatus now i s d) d) = db_scans d"
    "db_scans (ignore_err (UpdateFindingResolvedAt now i r d) d) = db_scans d" for i s r d
    by (auto intro!: scans_ignore_err simp: UpdateFindingStatus_def UpdateFindingResolvedAt_def split: if_splits)
  then show "db_scans (auto_resolve now f d) = db_scans d" for f d by (simp add: auto_resolve_def Let_def)
qed

text \<open>Other processes leave the row of the scan alone.\<close>

definition quiet :: "run_world \<Rightarrow> string \<Rightarrow> bool" where
  "quiet w i \<longleftrightarrow> (\<forall>n d. GetScan (w_other w n d) i = GetScan d i)"

definition running :: "string \<Rightarrow> run_state \<Rightarrow> bool" where
  "running i st \<longleftrightarrow> sn_ID (rs_scan st) = i \<and> sn_Status (rs_scan st) = ScanStatusRunning \<and> sn_FinishedAt (rs_scan st) = None \<and>
     (\<exists>r. GetScan (rs_db st) i = Some r \<and> sn_Status r = ScanStatusRunning \<and> sn_FinishedAt r = None)"

definition row_status :: "string \<Rightarrow> run_state \<Rightarrow> ScanStatus option" where
  "row_status i st = map_option sn_Status (GetScan (rs_db st) i)"

lemma running_upd [simp]:
  "running i (st\<lparr>rs_n := n\<rparr>) = running i st" "running i (st\<lparr>rs_inputs := xs\<rparr>) = running i st"
  "running i (st\<lparr>rs_hostnames := xs\<rparr>) = running i st" "running i (st\<lparr>rs_ips := ps\<rparr>) = running i st"
  "running i (st\<lparr>rs_dropped := k\<rparr>) = running i st" "running i (st\<lparr>rs_phases := qs\<rparr>) = running i st"
  "running i (st\<lparr>rs_log := ls\<rparr>) = running i st" "running i (log_lines ls st) = running i st"
  "running i (count_call st) = running i st"
  "running i (st\<lparr>rs_scan := (rs_scan st)\<lparr>sn_Phase := p\<rparr>\<rparr>) = running i st"
  "running i (st\<lparr>rs_scan := (rs_scan st)\<lparr>sn_Phase := p, sn_Progress := pr\<rparr>\<rparr>) = running i st"
  by (simp_all add: running_def log_lines_def count_call_def)

lemma GetScan_UpdateScan: "GetScan (UpdateScan now s d) i =
    (if sn_ID s = i then map_option (\<lambda>x. (scan_row (s\<lparr>sn_UpdatedAt := now\<rparr>))\<lparr>sn_ID := sn_ID x, sn_TargetID := sn_TargetID x,
        sn_Type := sn_Type x, sn_CreatedAt := sn_CreatedAt x\<rparr>) (GetScan d i) else GetScan d i)"
  by (simp add: GetScan_def UpdateScan_def Let_def row_update)

lemma GetScan_scans: "db_scans d = db_scans d' \<Longrightarrow> GetScan d i = GetScan d' i"
  by (simp add: GetScan_def)

lemma write_bg_simps [simp]:
  "rs_scan (write_bg w f st) = rs_scan st" "rs_inputs (write_bg w f st) = rs_inputs st"
  "rs_hostnames (write_bg w f st) = rs_hostnames st" "rs_ips (write_bg w f st) = rs_ips st"
  "rs_n (write_bg w f st) = rs_n st + 1"
  "rs_db (write_bg w f st) = f (w_clock w (rs_n st)) (w_uuid w (rs_n st)) (w_other w (rs_n st) (rs_db st))"
  by (simp_all add: write_bg_def Let_def)

lemma write_ctx_simps [simp]:
  "rs_scan (write_ctx w f st) = rs_scan st" "rs_inputs (write_ctx w f st) = rs_inputs st"
  "rs_hostnames (write_ctx w f st) = rs_hostnames st" "rs_ips (write_ctx w f st) = rs_ips st"
  "rs_n (write_ctx w f st) = rs_n st + 1"
  by (simp_all add: write_ctx_def)

lemma rs_db_write_ctx: "rs_db (write_ctx w f st) = (if w_done w (rs_n st) then w_other w (rs_n st) (rs_db st)
    else f (w_clock w (rs_n st)) (w_uuid w (rs_n st)) (w_other w (rs_n st) (rs_db st)))"
  by (simp add: write_ctx_def)

lemma log_lines_simps [simp]: "rs_scan (log_lines ls st) = rs_scan st" "rs_n (log_lines ls st) = rs_n st"
  "rs_db (log_lines ls st) = rs_db st" "rs_inputs (log_lines ls st) = rs_inputs st"
  by (simp_all add: log_lines_def)

lemma count_call_simps [simp]: "rs_scan (count_call st) = rs_scan st" "rs_n (count_call st) = rs_n st + 1" "rs_db (count_call st) = rs_db st"
  by (simp_all add: count_call_def)

lemma running_write_bg:
  assumes "running i st" "quiet w i" "\<And>now u d. GetScan (f now u d) i = GetScan d i"
  shows "running i (write_bg w f st)"
  using assms by (simp add: running_def quiet_def)

lemma running_write:
  assumes "running i st" "quiet w i" "\<And>now u d. db_scans (f now u d) = db_scans d"
  shows "running i (write_ctx w f st)"
  using assms GetScan_scans [OF assms(3)] by (simp add: running_def quiet_def rs_db_write_ctx)

lemma running_save:
  assumes "running i st" "quiet w i"
  shows "running i (save_scan w st)"
  using assms by (auto simp: running_def quiet_def rs_db_write_ctx GetScan_UpdateScan scan_row_def)

lemma read_bg_eq: "read_bg w q st = (q (w_other w (rs_n st) (rs_db st)), write_bg w (\<lambda>_ _ d. d) st)"
  by (simp add: read_bg_def Let_def)

lemma read_ctx_eq: "read_ctx w q st =
    (if w_done w (rs_n st) then None else Some (q (w_other w (rs_n st) (rs_db st))), write_bg w (\<lambda>_ _ d. d) st)"
  by (simp add: read_ctx_def read_bg_eq)

lemma running_read: "running i st \<Longrightarrow> quiet w i \<Longrightarrow> running i (write_bg w (\<lambda>_ _ d. d) st)"
  by (rule running_write_bg) simp_all

lemma running_record: "running i st \<Longrightarrow> quiet w i \<Longrightarrow> running i (recordToolRunWithID w j tool s dur a b x m e st)"
  unfolding recordToolRunWithID_def Let_def by (intro running_write) (simp_all add: keeps_scans)

lemma running_skip: "running i st \<Longrightarrow> quiet w i \<Longrightarrow> running i (skip_tool w tool a m r st)"
  by (simp add: skip_tool_def Let_def recordToolRun_def running_record)

lemma running_fold: "running i st \<Longrightarrow> (\<And>x st. running i st \<Longrightarrow> running i (f x st)) \<Longrightarrow> running i (fold f xs st)"
  by (induction xs arbitrary: st) simp_all

lemma running_persist_asset: "running i st \<Longrightarrow> quiet w i \<Longrightarrow> running i (persist_asset w t e st)"
  unfolding persist_asset_def Let_def by (intro running_write) (simp_all add: keeps_scans)

lemma running_persist_finding: "running i st \<Longrightarrow> quiet w i \<Longrightarrow> running i (persist_finding w s l b f st)"
  by (simp add: persist_finding_def Let_def running_write keeps_scans)

lemma running_persist_findings: "running i st \<Longrightarrow> quiet w i \<Longrightarrow> running i (persist_findings w t fs st)"
  by (simp add: persist_findings_def Let_def read_ctx_eq running_fold running_persist_finding running_read)

lemma running_thread: "running i st \<Longrightarrow> running i (thread_outputs p v xs st)"
  by (simp add: thread_outputs_def Let_def split: prod.splits option.splits)

text \<open>Leaving through a cancelled context, and what a phase leaves on each way out.\<close>

lemma leave_cancelled_row:
  assumes "running i st" "quiet w i"
  shows "row_status i (leave_cancelled w st) = Some ScanStatusCancelled"
  using assms
  by (auto simp: leave_cancelled_def Let_def row_status_def GetScan_UpdateScan running_def quiet_def scan_row_def)

definition phase_left :: "run_world \<Rightarrow> string \<Rightarrow> phase_end \<Rightarrow> bool" where
  "phase_left w i e = (case e of
     PhaseNext st \<Rightarrow> running i st
   | PhaseStop st \<Rightarrow> running i st
   | PhaseErr ErrContext st \<Rightarrow> row_status i st = Some ScanStatusCancelled
   | PhaseErr (ErrToolFailed name msg) st \<Rightarrow> row_status i st =
       Some (if w_done w (rs_n st - 1) then ScanStatusRunning else ScanStatusFailed)
   | PhaseErr _ st \<Rightarrow> False)"

lemma not_cancelled: "running i st \<Longrightarrow> quiet w i \<Longrightarrow> \<not> is_cancelled i (w_other w n (rs_db st))"
  by (auto simp: is_cancelled_def running_def quiet_def)

lemma save_failed:
  assumes "running i st" "quiet w i"
  shows "row_status i (save_scan w (st\<lparr>rs_scan := (rs_scan st)\<lparr>sn_Status := ScanStatusFailed, sn_Error := e, sn_FinishedAt := t\<rparr>\<rparr>)) =
    Some (if w_done w (rs_n st) then ScanStatusRunning else ScanStatusFailed)"
  using assms by (auto simp: row_status_def rs_db_write_ctx GetScan_UpdateScan running_def quiet_def scan_row_def)

lemma row_status_log [simp]: "row_status i (log_lines ls st) = row_status i st"
  by (simp add: row_status_def)

lemma phase_failed_left:
  assumes "running i st" "quiet w i"
  shows "phase_left w i (phase_failed w tool runID s dur msg res st)"
proof -
  let ?st = "write_bg w (\<lambda>_ _ d. d) st"
  have i: "sn_ID (rs_scan st) = i" and r: "running i ?st" using assms running_read by (auto simp: running_def)
  let ?rec = "recordToolRunWithID w runID tool s dur (int (length (rs_inputs st))) 0 ToolRunFailed msg None
    (?st\<lparr>rs_phases := rs_phases ?st @ [phase_result tool dur (int (length (rs_inputs st))) ''failed'' 0 msg]\<rparr>)"
  have "running i ?rec" using r assms(2) by (simp add: running_record)
  then have f: "running i (log_lines ls (log_lines ks ?rec))" for ls ks by simp
  show ?thesis
    using f save_failed [OF f assms(2)] not_cancelled [OF assms]
    by (simp add: phase_failed_def Let_def i read_bg_eq phase_left_def)
qed

lemma phase_completed_left:
  assumes "running i st" "quiet w i"
  shows "phase_left w i (phase_completed w t v ty rest tool runID s dur res st)"
proof -
  let ?st = "persist_findings w t (rr_Findings res) (fold (persist_asset w t) (rr_Assets res) st)"
  have "running i ?st"
    using assms by (intro running_persist_findings running_fold running_persist_asset)
  then have "running i (recordToolRunWithID w runID tool s dur a b ToolRunCompleted [] e (?st\<lparr>rs_phases := x\<rparr>))" for a b e x
    using assms(2) by (simp add: running_record)
  then show ?thesis
    using assms(2) by (simp add: phase_completed_def skip_rest_def Let_def phase_left_def running_thread running_fold running_skip)
qed

lemma begin_tool_left:
  assumes "running i st" "quiet w i"
  shows "running i (snd (begin_tool w k n tool st))" "rs_n (snd (begin_tool w k n tool st)) = rs_n st + 2"
proof -
  have "running i (save_scan w (st\<lparr>rs_scan := (rs_scan st)\<lparr>sn_Phase := dt_Phase tool, sn_Progress := (100 * int k, int n)\<rparr>\<rparr>))"
    using assms by (intro running_save) (auto simp: running_def)
  then show "running i (snd (begin_tool w k n tool st))" by (simp add: begin_tool_def Let_def)
  show "rs_n (snd (begin_tool w k n tool st)) = rs_n st + 2" by (simp add: begin_tool_def Let_def)
qed

lemma run_phase_left:
  assumes "running i st" "quiet w i"
  shows "phase_left w i (run_phase w t v opts ty k n rest tool st)"
proof (cases "w_done w (rs_n st)")
  case True
  then show ?thesis using assms leave_cancelled_row [of i "count_call st" w] by (simp add: run_phase_def Let_def phase_left_def)
next
  case False
  have i: "sn_ID (rs_scan st) = i" using assms by (simp add: running_def)
  let ?st = "write_bg w (\<lambda>_ _ d. d) (count_call st)"
  have r: "running i ?st" using assms by (simp add: running_read)
  let ?b = "begin_tool w k n tool ?st"
  have "running i (count_call (snd ?b))" using begin_tool_left(1) [OF r assms(2)] by simp
  then show ?thesis
    using False assms not_cancelled [of i "count_call st" w "rs_n (count_call st)"] r
    by (simp add: run_phase_def Let_def read_ctx_eq i phase_left_def [of _ _ "PhaseNext _"] running_skip phase_failed_left
        phase_completed_left case_prod_beta split: tool_outcome.splits)
qed

lemma run_loop_left:
  assumes "running i st" "quiet w i"
  shows "case run_loop w t v opts ty k n tools st of
      Inr st' \<Rightarrow> running i st'
    | Inl (e, st') \<Rightarrow> phase_left w i (PhaseErr e st')"
  using assms(1)
proof (induction tools arbitrary: k st)
  case (Cons tool rest)
  have "phase_left w i (run_phase w t v opts ty k n rest tool st)" using Cons.prems assms(2) by (rule run_phase_left)
  then show ?case
    using Cons.IH by (auto simp: phase_left_def [of _ _ "PhaseNext _"] phase_left_def [of _ _ "PhaseStop _"]
        split: phase_end.splits)
qed simp

lemma running_diff: "running i st \<Longrightarrow> quiet w i \<Longrightarrow> running i (snd (diff_phase w t pre b st))"
proof -
  assume r: "running i st" and q: "quiet w i"
  have 1: "running i (save_scan w (st\<lparr>rs_scan := (rs_scan st)\<lparr>sn_Phase := ''diffing''\<rparr>\<rparr>))" (is "running i ?s1")
    using r q by (intro running_save) simp_all
  have 2: "running i (fold (\<lambda>c. write_ctx w (\<lambda>now fresh d. ignore_err (CreateAssetChange now fresh c d) d)) cs s2)"
    if "running i s2" for cs s2
    using that by (rule running_fold) (simp add: q running_write keeps_scans)
  have 3: "running i (write_ctx w (\<lambda>now _ d. ApplyStatusChanges now cs d) s2)"
    "running i (write_ctx w (\<lambda>now _ d. AutoResolveFindings now fs d) s2)" if "running i s2" for cs fs s2
    using that q by (simp_all add: running_write keeps_scans)
  show ?thesis
    using 1 2 3 q by (simp add: diff_phase_def Let_def read_ctx_eq running_read case_prod_beta)
qed

lemma finish_row:
  assumes "running i st" "quiet w i" "finish_run w t v ty pre b st = (res, st')"
  shows "row_status i st' = Some (if w_done w (rs_n st' - 2) then ScanStatusRunning else ScanStatusCompleted)"
proof -
  obtain fs s1 where d: "diff_phase w t pre b st = (fs, s1)" by fastforce
  have r: "running i s1" using running_diff [OF assms(1,2)] d by (metis snd_conv)
  have i: "sn_ID (rs_scan s1) = i" using r by (simp add: running_def)
  have "running i (write_bg w (\<lambda>_ _ d. d) (write_bg w (\<lambda>_ _ d. d) (write_bg w (\<lambda>_ _ d. d) (count_call s1))))" (is "running i ?s2")
    using r assms(2) by (simp add: running_read)
  then show ?thesis
    using assms(2,3) d GetScan_scans [OF scans_UpdateTargetLastScan]
    by (auto simp: finish_run_def Let_def read_ctx_eq row_status_def rs_db_write_ctx GetScan_UpdateScan running_def quiet_def
        scan_row_def)
qed

lemma CreateScan_row:
  assumes "CreateScan now u s d = Inr d'" "sn_ID s = i" "i \<noteq> []"
  shows "\<exists>r. GetScan d' i = Some r \<and> sn_Status r = sn_Status s \<and> sn_FinishedAt r = timePtrUTC (sn_FinishedAt s)"
  using assms by (auto simp: CreateScan_def Let_def scan_row_def scan_prepared_def GetScan_def row_append split: if_splits)

definition run_left :: "run_world \<Rightarrow> string \<Rightarrow> (pipeline_error, PipelineResult) result \<Rightarrow> run_state \<Rightarrow> bool" where
  "run_left w i res st \<longleftrightarrow>
     (\<forall>r. res = Inr r \<longrightarrow> row_status i st = Some (if w_done w (rs_n st - 2) then ScanStatusRunning else ScanStatusCompleted)) \<and>
     (\<forall>e. res = Inl e \<longrightarrow> (case e of
        ErrCreatingScan _ \<Rightarrow> True
      | ErrGettingTarget \<Rightarrow> row_status i st = Some ScanStatusRunning
      | _ \<Rightarrow> phase_left w i (PhaseErr e st)))"

lemma run_target_left:
  assumes "running i st" "quiet w i" "run_target w allTools t opts v st = (res, st')"
  shows "run_left w i res st'"
proof -
  let ?r = "\<lambda>s. write_bg w (\<lambda>_ _ d. d) s"
  let ?s1 = "write_ctx w (\<lambda>now _ d. NormalizeAssetStatuses now t d) (?r (?r st))"
  let ?s2 = "log_lines (sink_ScanStarted (sn_ID (rs_scan st)) v (scan_type opts)) (?s1\<lparr>rs_inputs := [v], rs_hostnames := [v]\<rparr>)"
  have "running i ?s1" using assms(1,2) by (intro running_write running_read) (simp_all add: keeps_scans)
  then have r: "running i ?s2" by simp
  obtain pre b where run: "(case run_loop w t v opts (scan_type opts) 0 (length (selectTools allTools opts)) (selectTools allTools opts) ?s2 of
        Inl (e, st) \<Rightarrow> (Inl e, st)
      | Inr st \<Rightarrow> (case finish_run w t v (scan_type opts) pre b st of (r, st) \<Rightarrow> (Inr r, st))) = (res, st')"
    using assms(3) unfolding run_target_def Let_def read_ctx_eq by simp
  note left = run_loop_left [OF r assms(2), of t v opts "scan_type opts" 0 "length (selectTools allTools opts)" "selectTools allTools opts"]
  show ?thesis
  proof (cases "run_loop w t v opts (scan_type opts) 0 (length (selectTools allTools opts)) (selectTools allTools opts) ?s2")
    case (Inl p)
    then show ?thesis using left run by (auto simp: run_left_def phase_left_def split: prod.splits pipeline_error.splits)
  next
    case (Inr s3)
    then show ?thesis using left run finish_row [OF _ assms(2)]
      by (auto simp: run_left_def split: prod.splits)
  qed
qed

lemma Run_left:
  assumes "Run w allTools t opts d = (res, st)" "quiet w i" "i = w_uuid w 0" "i \<noteq> []"
  shows "run_left w i res st"
proof -
  let ?s0 = "first_state w t opts d" and ?d = "w_other w 1 d"
  have s0: "rs_n ?s0 = 1" "rs_db ?s0 = d" "sn_ID (rs_scan ?s0) = i" "sn_Status (rs_scan ?s0) = ScanStatusRunning"
    "sn_FinishedAt (rs_scan ?s0) = None"
    by (simp_all add: first_state_def new_scan_def assms(3))
  show ?thesis
  proof (cases "w_done w 1 \<or> \<not> is_ok (CreateScan (w_clock w 1) (w_uuid w 1) (rs_scan ?s0) ?d)")
    case True
    then show ?thesis using assms(1) by (auto simp: Run_def Let_def s0 run_left_def split: sum.splits if_splits)
  next
    case False
    then obtain d1 where c: "CreateScan (w_clock w 1) (w_uuid w 1) (rs_scan ?s0) ?d = Inr d1" and nd: "\<not> w_done w 1"
      by (auto simp: is_ok_def split: sum.splits)
    let ?s1 = "?s0\<lparr>rs_n := 2, rs_db := d1\<rparr>"
    have r1: "running i ?s1"
      using CreateScan_row [OF c s0(3) assms(4)] s0 by (auto simp: running_def)
    have run: "(case read_ctx w (\<lambda>d. GetTarget d t) ?s1 of
           (Some (Some target), st) \<Rightarrow> run_target w allTools t opts (tg_Value target) st
         | (_, st) \<Rightarrow> (Inl ErrGettingTarget, st)) = (res, st)"
      using assms(1) nd c by (simp add: Run_def Let_def s0 ignore_err_def numeral_2_eq_2)
    have r2: "running i (write_bg w (\<lambda>_ _ d. d) ?s1)" using r1 assms(2) by (rule running_read)
    then have "row_status i (write_bg w (\<lambda>_ _ d. d) ?s1) = Some ScanStatusRunning" by (auto simp: running_def row_status_def)
    then show ?thesis
      using run run_target_left [OF r2 assms(2)]
      by (auto simp: read_ctx_eq run_left_def split: if_splits option.splits)
  qed
qed

lemma rs_n_fold_write: "rs_n (fold (\<lambda>c. write_ctx w (f c)) cs st) = rs_n st + length cs"
  by (induction cs arbitrary: st) simp_all

lemma diff_n: "rs_n st \<le> rs_n (snd (diff_phase w t pre b st))"
  by (simp add: diff_phase_def Let_def read_ctx_eq rs_n_fold_write)

lemma finish_n: "finish_run w t v ty pre b st = (res, st') \<Longrightarrow> rs_n st + 2 \<le> rs_n st'"
proof -
  assume f: "finish_run w t v ty pre b st = (res, st')"
  obtain fs s1 where d: "diff_phase w t pre b st = (fs, s1)" by fastforce
  have "rs_n st' = rs_n s1 + 6" using f by (auto simp: finish_run_def d Let_def read_ctx_eq)
  then show ?thesis using diff_n [of st w t pre b] d by simp
qed

lemma running_target:
  assumes "running i st" "quiet w i"
  shows "running i (log_lines ls ((write_ctx w (\<lambda>now _ d. NormalizeAssetStatuses now t d)
    (write_bg w (\<lambda>_ _ d. d) (write_bg w (\<lambda>_ _ d. d) st)))\<lparr>rs_inputs := xs, rs_hostnames := ys\<rparr>))"
  using running_write [OF running_read [OF running_read [OF assms] assms(2)] assms(2), of "\<lambda>now _ d. NormalizeAssetStatuses now t d"]
  by (simp add: keeps_scans)

lemma phase_failed_soft:
  assumes "running i st" "quiet w i" "\<not> isHardFailure tool"
  shows "\<exists>st'. phase_failed w tool runID s dur msg res st = PhaseNext st' \<and> rs_n st' = rs_n st + 2"
proof -
  have i: "sn_ID (rs_scan st) = i" using assms(1) by (simp add: running_def)
  show ?thesis
    using assms not_cancelled [OF assms(1,2)]
    by (simp add: phase_failed_def Let_def i read_bg_eq recordToolRunWithID_def)
qed

lemma run_phase_soft:
  assumes "running i st" "quiet w i" "\<not> isHardFailure tool" "\<not> shouldSkip tool ty" "\<not> w_done w (rs_n st)"
    and "\<And>nm to ins ro. w_tool w (rs_n st + 4) nm to ins ro = ToolErr msg res"
  shows "\<exists>st'. run_phase w t v opts ty k n rest tool st = PhaseNext st' \<and> rs_n st + 5 \<le> rs_n st'"
proof -
  have i: "sn_ID (rs_scan st) = i" using assms(1) by (simp add: running_def)
  let ?st = "write_bg w (\<lambda>_ _ d. d) (count_call st)"
  have r: "running i ?st" using assms by (simp add: running_read)
  let ?b = "begin_tool w k n tool ?st"
  have b: "running i (count_call (snd ?b))" "rs_n (snd ?b) = rs_n st + 4"
    using begin_tool_left [OF r assms(2), of k n tool] by simp_all
  have c: "fst (read_ctx w (is_cancelled i) (count_call st)) \<noteq> Some True"
    using not_cancelled [of i "count_call st" w "rs_n (count_call st)"] assms(1,2) by (simp add: read_ctx_eq)
  have "\<exists>c s dur. run_phase w t v opts ty k n rest tool st = phase_failed w tool c s dur msg res (count_call (snd ?b))"
    using assms(3-6) c b by (auto simp: run_phase_def Let_def read_ctx_eq i case_prod_beta)
  then obtain c s dur where p: "run_phase w t v opts ty k n rest tool st = phase_failed w tool c s dur msg res (count_call (snd ?b))" by blast
  show ?thesis using phase_failed_soft [OF b(1) assms(2,3), of c s dur msg res] b(2) unfolding p by auto
qed

text \<open>A run on an existing target, with a fresh identifier and a context that lives, reaches its tools.\<close>

lemma Run_starts:
  assumes "\<not> w_done w 1" "\<not> w_done w 2" "\<And>n d. w_other w n d = d" "w_uuid w 0 \<noteq> []"
    and "GetTarget d t = Some target" "GetScan d (w_uuid w 0) = None"
  shows "\<exists>s. Run w allTools t opts d = run_target w allTools t opts (tg_Value target) s \<and> running (w_uuid w 0) s \<and> rs_n s = 3"
proof -
  have q: "quiet w (w_uuid w 0)" using assms(3) by (simp add: quiet_def)
  have "has_target d t" using assms(5) by (simp add: has_target_def GetTarget_def)
  then have c: "CreateScan (w_clock w 1) (w_uuid w 1) (rs_scan (first_state w t opts d)) d \<noteq> Inl e" for e
    using assms(4,6) by (simp add: CreateScan_def Let_def scan_row_def scan_prepared_def first_state_def new_scan_def)
  then obtain d1 where d1: "CreateScan (w_clock w 1) (w_uuid w 1) (rs_scan (first_state w t opts d)) d = Inr d1"
    by (cases "CreateScan (w_clock w 1) (w_uuid w 1) (rs_scan (first_state w t opts d)) d") auto
  let ?s1 = "(first_state w t opts d)\<lparr>rs_n := 2, rs_db := d1\<rparr>"
  have g: "GetTarget d1 t = Some target"
    using d1 assms(5) by (auto simp: CreateScan_def Let_def GetTarget_def split: if_splits)
  have i: "rs_n (first_state w t opts d) = 1" "rs_db (first_state w t opts d) = d" by (simp_all add: first_state_def)
  have "running (w_uuid w 0) ?s1"
    using CreateScan_row [OF d1 _ assms(4)] by (auto simp: running_def first_state_def new_scan_def)
  then have "running (w_uuid w 0) (write_bg w (\<lambda>_ _ d. d) ?s1)" using q by (rule running_read)
  moreover have "Run w allTools t opts d = run_target w allTools t opts (tg_Value target) (write_bg w (\<lambda>_ _ d. d) ?s1)"
    using d1 g assms(1-3) by (simp add: Run_def Let_def i ignore_err_def read_ctx_eq numeral_2_eq_2)
  moreover have "rs_n (write_bg w (\<lambda>_ _ d. d) ?s1) = 3" by simp
  ultimately show ?thesis by blast
qed

section \<open>The assets\<close>

text \<open>An asset that is not observed keeps its row, apart from its status.\<close>

definition auniq :: "db \<Rightarrow> bool" where
  "auniq d \<longleftrightarrow> distinct (map as_ID (db_assets d)) \<and> distinct (map (\<lambda>a. (as_TargetID a, as_Value a)) (db_assets d))"

definition same_row :: "Asset \<Rightarrow> Asset \<Rightarrow> bool" where
  "same_row p x \<longleftrightarrow> as_ID x = as_ID p \<and> as_TargetID x = as_TargetID p \<and> as_Type x = as_Type p \<and> as_Value x = as_Value p \<and>
     as_LastSeen x = as_LastSeen p"

definition untouched :: "Asset \<Rightarrow> db \<Rightarrow> bool" where
  "untouched p d \<longleftrightarrow> auniq d \<and> (\<exists>x \<in> set (db_assets d). same_row p x)"

lemma untouched_cong: "db_assets d = db_assets d' \<Longrightarrow> untouched p d = untouched p d'"
  by (simp add: untouched_def auniq_def)

lemma untouched_map:
  assumes "untouched p d" "db_assets d' = map f (db_assets d)"
    "\<And>a. as_ID (f a) = as_ID a" "\<And>a. as_TargetID (f a) = as_TargetID a" "\<And>a. as_Value (f a) = as_Value a"
    "\<And>a. as_Type (f a) = as_Type a" "\<And>x. x \<in> set (db_assets d) \<Longrightarrow> same_row p x \<Longrightarrow> as_LastSeen (f x) = as_LastSeen x"
  shows "untouched p d'"
  using assms by (auto simp: untouched_def auniq_def same_row_def o_def)

lemma untouched_Normalize: "untouched p d \<Longrightarrow> untouched p (NormalizeAssetStatuses now t d)"
  by (erule untouched_map [where f = "\<lambda>r. if as_TargetID r = t \<and> as_Status r = AssetStatusNew
      then r\<lparr>as_Status := AssetStatusActive, as_UpdatedAt := trunc_sec now\<rparr> else r"])
    (auto simp: NormalizeAssetStatuses_def update_where_def)

lemma untouched_UpsertAsset:
  assumes "untouched p d" "as_Value a \<noteq> as_Value p"
  shows "untouched p (ignore_err (UpsertAsset now u a d) d)"
proof -
  let ?r = "asset_row (asset_prepared now u a)"
  have v: "as_Value ?r = as_Value a" "as_TargetID ?r = as_TargetID a" by (simp_all add: asset_row_def asset_prepared_def)
  show ?thesis
  proof (cases "list_ex (same_asset ?r) (db_assets d)")
    case True
    then have "db_assets (ignore_err (UpsertAsset now u a d) d) = map (\<lambda>x. if same_asset ?r x then asset_merge ?r x else x) (db_assets d)"
      by (simp add: UpsertAsset_def Let_def ignore_err_def update_where_def)
    then show ?thesis
      by (rule untouched_map [OF assms(1)]) (use assms(2) v in \<open>auto simp: asset_merge_def same_asset_def same_row_def\<close>)
  next
    case new: False
    show ?thesis
    proof (cases "UpsertAsset now u a d")
      case (Inr d')
      then have d': "db_assets d' = db_assets d @ [?r]" and i: "GetAsset d (as_ID ?r) = None"
        using new by (auto simp: UpsertAsset_def Let_def split: if_splits)
      have "as_ID ?r \<notin> as_ID ` set (db_assets d)" using i by (simp add: GetAsset_def row_None_image)
      moreover have "(as_TargetID ?r, as_Value ?r) \<notin> (\<lambda>a. (as_TargetID a, as_Value a)) ` set (db_assets d)"
        using new by (auto simp: list_ex_iff same_asset_def)
      ultimately show ?thesis using assms(1) Inr d' by (auto simp: untouched_def auniq_def ignore_err_def)
    qed (simp add: ignore_err_def assms(1))
  qed
qed

definition quiet_world :: "run_world \<Rightarrow> bool" where
  "quiet_world w \<longleftrightarrow> (\<forall>n d. w_other w n d = d) \<and> (\<forall>n. \<not> w_done w n)"

lemma quiet_write: "quiet_world w \<Longrightarrow> rs_db (write_ctx w f st) = f (w_clock w (rs_n st)) (w_uuid w (rs_n st)) (rs_db st)"
  by (simp add: quiet_world_def rs_db_write_ctx)

named_theorems keeps_assets

lemma assets_ignore_err: "(\<And>d'. r = Inr d' \<Longrightarrow> db_assets d' = db_assets d) \<Longrightarrow> db_assets (ignore_err r d) = db_assets d"
  by (auto simp: ignore_err_def split: sum.splits)

lemma assets_CreateToolRun [keeps_assets]: "db_assets (ignore_err (CreateToolRun now u r d) d) = db_assets d"
  by (rule assets_ignore_err) (auto simp: CreateToolRun_def Let_def split: if_splits)

lemma assets_UpsertFinding [keeps_assets]: "db_assets (ignore_err (UpsertFinding now u f d) d) = db_assets d"
  by (rule assets_ignore_err) (auto simp: UpsertFinding_def Let_def split: if_splits option.splits)

lemma assets_CreateAssetChange [keeps_assets]: "db_assets (ignore_err (CreateAssetChange now u c d) d) = db_assets d"
  by (rule assets_ignore_err) (auto simp: CreateAssetChange_def Let_def split: if_splits)

lemma assets_UpdateTargetLastScan [keeps_assets]: "db_assets (ignore_err (UpdateTargetLastScan now t i f d) d) = db_assets d"
  by (rule assets_ignore_err) (auto simp: UpdateTargetLastScan_def split: if_splits)

lemma assets_UpdateScan [keeps_assets]: "db_assets (UpdateScan now s d) = db_assets d"
  by (simp add: UpdateScan_def Let_def)

lemma assets_AutoResolve [keeps_assets]: "db_assets (AutoResolveFindings now fs d) = db_assets d"
  unfolding AutoResolveFindings_def
proof (rule fold_keeps)
  have "db_assets (ignore_err (UpdateFindingStatus now i s d) d) = db_assets d"
    "db_assets (ignore_err (UpdateFindingResolvedAt now i r d) d) = db_assets d" for i s r d
    by (auto intro!: assets_ignore_err simp: UpdateFindingStatus_def UpdateFindingResolvedAt_def split: if_splits)
  then show "db_assets (auto_resolve now f d) = db_assets d" for f d by (simp add: auto_resolve_def Let_def)
qed

definition unt :: "Asset \<Rightarrow> run_state \<Rightarrow> bool" where "unt p st \<longleftrightarrow> untouched p (rs_db st)"

lemma unt_upd [simp]:
  "unt p (st\<lparr>rs_n := n\<rparr>) = unt p st" "unt p (st\<lparr>rs_inputs := xs\<rparr>) = unt p st" "unt p (st\<lparr>rs_scan := sc\<rparr>) = unt p st"
  "unt p (st\<lparr>rs_hostnames := xs\<rparr>) = unt p st" "unt p (st\<lparr>rs_ips := ps\<rparr>) = unt p st"
  "unt p (st\<lparr>rs_dropped := k\<rparr>) = unt p st" "unt p (st\<lparr>rs_phases := qs\<rparr>) = unt p st"
  "unt p (log_lines ls st) = unt p st" "unt p (count_call st) = unt p st"
  by (simp_all add: unt_def)

lemma unt_write: "quiet_world w \<Longrightarrow> (\<And>now u d. db_assets (f now u d) = db_assets d) \<Longrightarrow> unt p st \<Longrightarrow> unt p (write_ctx w f st)"
  unfolding unt_def by (subst quiet_write, assumption) (metis untouched_cong)

lemma unt_read [simp]: "quiet_world w \<Longrightarrow> unt p (write_bg w (\<lambda>_ _ d. d) st) = unt p st"
  by (simp add: unt_def quiet_world_def)

lemma unt_fold: "unt p st \<Longrightarrow> (\<And>x st. x \<in> set xs \<Longrightarrow> unt p st \<Longrightarrow> unt p (f x st)) \<Longrightarrow> unt p (fold f xs st)"
  by (induction xs arbitrary: st) simp_all

lemma unt_record: "quiet_world w \<Longrightarrow> unt p st \<Longrightarrow> unt p (recordToolRunWithID w j tool s dur a b x m e st)"
  unfolding recordToolRunWithID_def Let_def by (intro unt_write) (simp_all add: keeps_assets)

lemma unt_skip: "quiet_world w \<Longrightarrow> unt p st \<Longrightarrow> unt p (skip_tool w tool a m r st)"
  by (simp add: skip_tool_def Let_def recordToolRun_def unt_record)

lemma unt_persist_asset: "quiet_world w \<Longrightarrow> as_Value (snd e) \<noteq> as_Value p \<Longrightarrow> unt p st \<Longrightarrow> unt p (persist_asset w t e st)"
  by (simp add: persist_asset_def Let_def unt_def quiet_write untouched_UpsertAsset)

lemma unt_persist_findings: "quiet_world w \<Longrightarrow> unt p st \<Longrightarrow> unt p (persist_findings w t fs st)"
  by (simp add: persist_findings_def Let_def read_ctx_eq persist_finding_def unt_fold unt_write keeps_assets)

lemma unt_thread: "unt p st \<Longrightarrow> unt p (thread_outputs ph v xs st)"
  by (simp add: thread_outputs_def Let_def split: prod.splits option.splits)

text \<open>No tool of the run that is not skipped emits an asset with the value \<open>v\<close>.\<close>

definition never_emits :: "run_world \<Rightarrow> ScanType \<Rightarrow> string \<Rightarrow> DetectionTool list \<Rightarrow> bool" where
  "never_emits w ty v tools \<longleftrightarrow> (\<forall>tool \<in> set tools. \<not> shouldSkip tool ty \<longrightarrow>
     (\<forall>n to ins ro res. w_tool w n (dt_Name tool) to ins ro = ToolOk res \<longrightarrow> (\<forall>e \<in> set (rr_Assets res). as_Value (snd e) \<noteq> v)))"

definition phase_unt :: "Asset \<Rightarrow> phase_end \<Rightarrow> bool" where
  "phase_unt p e = (case e of PhaseNext st \<Rightarrow> unt p st | PhaseStop st \<Rightarrow> unt p st | PhaseErr _ _ \<Rightarrow> True)"

lemma phase_failed_unt: "quiet_world w \<Longrightarrow> unt p st \<Longrightarrow> phase_unt p (phase_failed w tool runID s dur msg res st)"
  by (simp add: phase_failed_def Let_def read_bg_eq phase_unt_def unt_record)

lemma phase_completed_unt:
  assumes "quiet_world w" "unt p st" "\<forall>e \<in> set (rr_Assets res). as_Value (snd e) \<noteq> as_Value p"
  shows "phase_unt p (phase_completed w t v ty rest tool runID s dur res st)"
proof -
  have "unt p (fold (persist_asset w t) (rr_Assets res) st)"
    using assms by (intro unt_fold) (simp_all add: unt_persist_asset)
  then have "unt p (recordToolRunWithID w runID tool s dur a b ToolRunCompleted [] e
      ((persist_findings w t (rr_Findings res) (fold (persist_asset w t) (rr_Assets res) st))\<lparr>rs_phases := x\<rparr>))" for a b e x
    using assms(1) by (simp add: unt_record unt_persist_findings)
  then show ?thesis
    using assms(1) by (simp add: phase_completed_def skip_rest_def Let_def phase_unt_def unt_thread unt_fold unt_skip)
qed

lemma begin_tool_unt: "quiet_world w \<Longrightarrow> unt p st \<Longrightarrow> unt p (snd (begin_tool w k n tool st))"
  by (simp add: begin_tool_def Let_def unt_write keeps_assets)

lemma run_phase_unt:
  assumes "quiet_world w" "unt p st" "never_emits w ty (as_Value p) [tool]"
  shows "phase_unt p (run_phase w t v opts ty k n rest tool st)"
proof -
  have nd: "\<not> w_done w m" for m using assms(1) by (simp add: quiet_world_def)
  have b: "unt p (snd (begin_tool w k n tool (write_bg w (\<lambda>_ _ d. d) (count_call st))))"
    using assms by (intro begin_tool_unt) simp_all
  show ?thesis
    using assms(1,2) assms(3) b
    by (simp add: run_phase_def Let_def read_ctx_eq nd case_prod_beta phase_unt_def [of _ "PhaseNext _"] phase_unt_def [of _ "PhaseErr _ _"]
        unt_skip phase_failed_unt phase_completed_unt never_emits_def split: tool_outcome.splits)
qed

lemma run_loop_unt:
  assumes "quiet_world w" "never_emits w ty (as_Value p) tools"
  shows "unt p st \<Longrightarrow> run_loop w t v opts ty k n tools st = Inr st' \<Longrightarrow> unt p st'"
  using assms(2)
proof (induction tools arbitrary: k st)
  case (Cons tool rest)
  have "never_emits w ty (as_Value p) [tool]" "never_emits w ty (as_Value p) rest"
    using Cons.prems(3) by (simp_all add: never_emits_def)
  then show ?case
    using run_phase_unt [OF assms(1) Cons.prems(1), of ty tool t v opts k n rest] Cons.IH Cons.prems(2)
    by (auto simp: phase_unt_def split: phase_end.splits)
qed simp

text \<open>The statuses that the changes of a scan set.\<close>

definition stat :: "string \<Rightarrow> AssetStatus \<Rightarrow> db \<Rightarrow> bool" where
  "stat j s d \<longleftrightarrow> (\<forall>a \<in> set (db_assets d). as_ID a = j \<longrightarrow> as_Status a = s)"

lemma stat_apply:
  "ac_AssetID c = j \<Longrightarrow> ac_ChangeType c = ChangeTypeDisappeared \<Longrightarrow> j \<noteq> [] \<Longrightarrow> stat j AssetStatusDisappeared (apply_status_change now c d)"
  "ac_AssetID c \<noteq> j \<or> ac_ChangeType c = ChangeTypeModified \<Longrightarrow> stat j s d \<Longrightarrow> stat j s (apply_status_change now c d)"
  by (auto simp: stat_def apply_status_change_def ignore_err_def UpdateAssetStatus_def update_where_def GetAsset_def row_None
      split: ChangeType.splits)

lemma stat_fold:
  assumes "j \<noteq> []" "\<forall>c \<in> set cs. ac_AssetID c = j \<longrightarrow> ac_ChangeType c \<noteq> ChangeTypeAppeared"
    and "stat j AssetStatusDisappeared d \<or> (\<exists>c \<in> set cs. ac_AssetID c = j \<and> ac_ChangeType c = ChangeTypeDisappeared)"
  shows "stat j AssetStatusDisappeared (fold (apply_status_change now) cs d)"
  using assms(2,3)
proof (induction cs arbitrary: d)
  case (Cons c cs)
  have "stat j AssetStatusDisappeared (apply_status_change now c d) \<or>
      (\<exists>c \<in> set cs. ac_AssetID c = j \<and> ac_ChangeType c = ChangeTypeDisappeared)"
  proof (cases "ac_AssetID c = j \<and> ac_ChangeType c = ChangeTypeDisappeared")
    case True
    then show ?thesis using stat_apply(1) assms(1) by blast
  next
    case False
    then have "ac_AssetID c \<noteq> j \<or> ac_ChangeType c = ChangeTypeModified"
      using Cons.prems(1) by (cases "ac_ChangeType c") auto
    then show ?thesis using False Cons.prems(2) stat_apply(2) by auto
  qed
  then show ?case using Cons by simp
qed simp

lemma changes_ids: "map (\<lambda>c. (ac_AssetID c, ac_ChangeType c)) (label_changes t s fr cs) = map (\<lambda>c. (ac_AssetID c, ac_ChangeType c)) cs"
  by (rule nth_equalityI) (simp_all add: label_changes_def nth_enumerate_eq case_prod_beta)

lemma set_changes_ids:
  assumes "distinct (map asset_key pre)" "distinct (map asset_key post)"
  shows "(\<lambda>c. (ac_AssetID c, ac_ChangeType c)) ` set (ComputeChanges t s fr pre post False) =
    (\<lambda>c. (ac_AssetID c, ac_ChangeType c)) ` set (map appeared_change (new_assets pre post) @
    map disappeared_change (gone pre post) @ List.map_filter (modified_change pre) post)"
proof -
  have "set (map (\<lambda>c. (ac_AssetID c, ac_ChangeType c)) (ComputeChanges t s fr pre post False)) =
      set (map (\<lambda>c. (ac_AssetID c, ac_ChangeType c)) (raw_changes pre post))"
    by (simp add: ComputeChanges_def changes_ids del: set_map)
  then show ?thesis unfolding raw_changes_eq [OF assms] set_map .
qed

lemma modified_type: "c \<in> set (List.map_filter (modified_change pre) post) \<Longrightarrow> ac_ChangeType c = ChangeTypeModified"
  by (induction post) (auto simp: List.map_filter_simps modified_change_def dest: classify_key split: option.splits if_splits)

lemma change_asset_ids [simp]: "ac_AssetID (appeared_change a) = as_ID a" "ac_AssetID (disappeared_change a) = as_ID a"
  by (simp_all add: appeared_change_def disappeared_change_def change_of_def)

lemma snapshot_distinct': "auniq d \<Longrightarrow> t \<noteq> [] \<Longrightarrow> distinct (map asset_key (SnapshotAssets d t))"
  using snapshot_distinct [of "empty_db\<lparr>db_assets := db_assets d\<rparr>" t]
  by (simp add: auniq_def uniq_ok_def empty_db_def SnapshotAssets_def ListAssets_def)

lemma set_snapshot: "q \<in> set (SnapshotAssets d t) \<Longrightarrow> t \<noteq> [] \<Longrightarrow> q \<in> set (db_assets d) \<and> as_TargetID q = t"
  using set_page by (fastforce simp: SnapshotAssets_def ListAssets_def asset_where_def)

text \<open>The changes computed against a database in which \<open>p\<close> is untouched mark it as disappeared.\<close>

lemma untouched_marked:
  assumes "untouched p d" "p \<in> set pre" "t \<noteq> []" "as_TargetID p = t" "distinct (map asset_key pre)" "as_ID p \<noteq> []"
    and "\<And>q. q \<in> set pre \<Longrightarrow> as_TargetID q = t"
    and cs_def: "cs = ComputeChanges t s fr pre (SnapshotAssets d t) False"
  shows "\<forall>c \<in> set cs. ac_AssetID c = as_ID p \<longrightarrow> ac_ChangeType c \<noteq> ChangeTypeAppeared"
    and "\<exists>c \<in> set cs. ac_AssetID c = as_ID p \<and> ac_ChangeType c = ChangeTypeDisappeared"
proof -
  let ?post = "SnapshotAssets d t" and ?f = "\<lambda>c. (ac_AssetID c, ac_ChangeType c)"
  have u: "auniq d" using assms(1) by (simp add: untouched_def)
  obtain x where x: "x \<in> set (db_assets d)" "same_row p x" using assms(1) by (auto simp: untouched_def)
  have post: "q = x" if "q \<in> set ?post" "asset_key q = asset_key p \<or> as_ID q = as_ID p" for q
  proof -
    have q: "q \<in> set (db_assets d)" "as_TargetID q = t" using set_snapshot [OF that(1) assms(3)] by simp_all
    have "as_ID q = as_ID x \<or> (as_TargetID q, as_Value q) = (as_TargetID x, as_Value x)"
      using that(2) x(2) q(2) assms(4) by (auto simp: same_row_def asset_key_def)
    then show ?thesis using u q(1) x(1) unfolding auniq_def distinct_map by (auto dest: inj_onD)
  qed
  have set_cs: "?f ` set cs = ?f ` set (map appeared_change (new_assets pre ?post) @
    map disappeared_change (gone pre ?post) @ List.map_filter (modified_change pre) ?post)"
    unfolding cs_def by (rule set_changes_ids [OF assms(5) snapshot_distinct' [OF u assms(3)]])
  have "p \<in> set (gone pre ?post)"
    using assms(2) post x(2) by (auto simp: gone_def same_row_def)
  then have "?f (disappeared_change p) \<in> ?f ` set cs" unfolding set_cs by (intro imageI) simp
  then show "\<exists>c \<in> set cs. ac_AssetID c = as_ID p \<and> ac_ChangeType c = ChangeTypeDisappeared" by auto
  show "\<forall>c \<in> set cs. ac_AssetID c = as_ID p \<longrightarrow> ac_ChangeType c \<noteq> ChangeTypeAppeared"
  proof (intro ballI impI notI)
    fix c assume c: "c \<in> set cs" "ac_AssetID c = as_ID p" "ac_ChangeType c = ChangeTypeAppeared"
    then have "(as_ID p, ChangeTypeAppeared) \<in> ?f ` set cs" by force
    then obtain q where q: "q \<in> set (new_assets pre ?post)" "as_ID q = as_ID p"
      unfolding set_cs by (auto dest: modified_type)
    then have "q = x" using post by (auto simp: new_assets_def)
    with q x(2) assms(2) show False by (auto simp: new_assets_def same_row_def asset_key_def)
  qed
qed

lemma ids_ApplyStatus: "map as_ID (db_assets (ApplyStatusChanges now cs d)) = map as_ID (db_assets d)"
  unfolding ApplyStatusChanges_def
  by (rule fold_keeps) (auto simp: apply_status_change_def ignore_err_def UpdateAssetStatus_def update_where_def split: ChangeType.splits)

definition gone_now :: "string \<Rightarrow> db \<Rightarrow> bool" where
  "gone_now j d \<longleftrightarrow> stat j AssetStatusDisappeared d \<and> j \<in> as_ID ` set (db_assets d)"

lemma gone_now_cong: "db_assets d = db_assets d' \<Longrightarrow> gone_now j d = gone_now j d'"
  by (simp add: gone_now_def stat_def)

lemma diff_phase_marks:
  assumes q: "quiet_world w" and "unt p st" "p \<in> set pre" "t \<noteq> []" "as_TargetID p = t" "distinct (map asset_key pre)" "as_ID p \<noteq> []"
    and "\<And>q. q \<in> set pre \<Longrightarrow> as_TargetID q = t"
  shows "gone_now (as_ID p) (rs_db (snd (diff_phase w t pre False st)))"
proof -
  have nd: "\<not> w_done w m" "w_other w m d = d" for m d using q by (simp_all add: quiet_world_def)
  let ?s1 = "save_scan w (st\<lparr>rs_scan := (rs_scan st)\<lparr>sn_Phase := ''diffing''\<rparr>\<rparr>)"
  have a1: "db_assets (rs_db ?s1) = db_assets (rs_db st)" by (simp add: quiet_write [OF q] keeps_assets)
  then have u: "untouched p (rs_db ?s1)" using assms(2) untouched_cong unfolding unt_def by blast
  have g: "gone_now (as_ID p) (ApplyStatusChanges now (ComputeChanges t i fr pre (SnapshotAssets (rs_db ?s1) t) False) d)"
    if "db_assets d = db_assets (rs_db st)" for now d i fr
  proof -
    let ?cs = "ComputeChanges t i fr pre (SnapshotAssets (rs_db ?s1) t) False"
    note mark = untouched_marked [OF u assms(3-8) refl, of i fr]
    have "as_ID p \<in> as_ID ` set (db_assets d)"
      using assms(2) that by (auto simp: unt_def untouched_def same_row_def intro: rev_image_eqI)
    then have "as_ID p \<in> as_ID ` set (db_assets (ApplyStatusChanges now ?cs d))" by (metis ids_ApplyStatus list.set_map)
    then show ?thesis
      using stat_fold [OF assms(7) mark(1)] mark(2) by (simp add: gone_now_def ApplyStatusChanges_def)
  qed
  have f: "db_assets (rs_db (fold (\<lambda>c. write_ctx w (\<lambda>now fresh d. ignore_err (CreateAssetChange now fresh c d) d)) xs s)) = db_assets (rs_db s)"
    for xs s by (rule fold_keeps [of "\<lambda>s. db_assets (rs_db s)"]) (simp add: quiet_write [OF q] keeps_assets)
  have r: "db_assets (rs_db (write_ctx w (\<lambda>now _ d. AutoResolveFindings now fs d) s)) = db_assets (rs_db s)" for fs s
    by (simp add: quiet_write [OF q] keeps_assets)
  show ?thesis
    unfolding diff_phase_def Let_def read_ctx_eq prod.case
    by (simp add: nd or_else_def gone_now_cong [OF r] quiet_write [OF q, of "\<lambda>now _ d. ApplyStatusChanges now _ d"])
      (rule g [simplified], simp add: f nd a1 [simplified])
qed

lemma finish_marks:
  assumes q: "quiet_world w" and "unt p st" "p \<in> set pre" "t \<noteq> []" "as_TargetID p = t" "distinct (map asset_key pre)" "as_ID p \<noteq> []"
    and "\<And>q. q \<in> set pre \<Longrightarrow> as_TargetID q = t" and f: "finish_run w t v ty pre False st = (res, st')"
  shows "gone_now (as_ID p) (rs_db st')"
proof -
  obtain fs s1 where d: "diff_phase w t pre False st = (fs, s1)" by fastforce
  have nd: "\<not> w_done w m" "w_other w m d = d" for m d using q by (simp_all add: quiet_world_def)
  have g: "gone_now (as_ID p) (rs_db s1)" using diff_phase_marks [OF assms(1-8)] d by simp
  have "db_assets (rs_db st') = db_assets (rs_db s1)"
    using f by (auto simp: finish_run_def d Let_def read_ctx_eq nd quiet_write [OF q] keeps_assets)
  then show ?thesis using g gone_now_cong by blast
qed

lemma run_target_marks:
  assumes q: "quiet_world w" and run: "run_target w allTools t opts v st = (Inr r, st')"
    and "uniq_ok (rs_db st)" "p \<in> set (db_assets (rs_db st))" "as_TargetID p = t" "t \<noteq> []" "as_ID p \<noteq> []"
    and n: "length (filter (\<lambda>a. as_TargetID a = t) (db_assets (rs_db st))) \<le> 10000"
    and two: "length (ListScans (rs_db st) t 2) = 2"
    and "never_emits w (scan_type opts) (as_Value p) (selectTools allTools opts)"
  shows "gone_now (as_ID p) (rs_db st')"
proof -
  have nd: "\<not> w_done w m" "w_other w m d = d" for m d using q by (simp_all add: quiet_world_def)
  let ?pre = "SnapshotAssets (rs_db st) t"
  have u: "auniq (rs_db st)" using assms(3) by (simp add: uniq_ok_def auniq_def)
  have unt: "unt p st" using u assms(4) by (auto simp: unt_def untouched_def same_row_def)
  have "set ?pre = {a \<in> set (db_assets (rs_db st)). as_TargetID a = t}"
    using n assms(6) by (simp add: SnapshotAssets_def ListAssets_def asset_where_def page_all cong: filter_cong)
  then have pre: "p \<in> set ?pre" "\<And>a. a \<in> set ?pre \<Longrightarrow> as_TargetID a = t" using assms(4,5) by simp_all
  let ?s1 = "write_ctx w (\<lambda>now _ d. NormalizeAssetStatuses now t d) (write_bg w (\<lambda>_ _ d. d) (write_bg w (\<lambda>_ _ d. d) st))"
  let ?s2 = "log_lines (sink_ScanStarted (sn_ID (rs_scan st)) v (scan_type opts)) (?s1\<lparr>rs_inputs := [v], rs_hostnames := [v]\<rparr>)"
  have "unt p ?s1" using unt by (simp add: unt_def quiet_write [OF q] nd untouched_Normalize)
  then have u2: "unt p ?s2" by simp
  obtain s3 where s3: "run_loop w t v opts (scan_type opts) 0 (length (selectTools allTools opts)) (selectTools allTools opts) ?s2 = Inr s3"
    "finish_run w t v (scan_type opts) ?pre False s3 = (r, st')"
    using run two by (auto simp: run_target_def Let_def read_ctx_eq nd or_else_def split: sum.splits prod.splits)
  have "unt p s3" by (rule run_loop_unt [OF q assms(10) u2 s3(1)])
  then show ?thesis
    by (rule finish_marks [OF q _ pre(1) assms(6,5) snapshot_distinct' [OF u assms(6)] assms(7) pre(2) s3(2)])
qed

section \<open>Properties\<close>


definition ex_run_world :: "(nat \<Rightarrow> bool) \<Rightarrow> run_world" where
  "ex_run_world ended = \<lparr>w_uuid = (\<lambda>n. ''u'' @ show_nat n), w_clock = (\<lambda>n. int n * second), w_done = ended, w_other = (\<lambda>_ d. d),
     w_tool = (\<lambda>_ _ _ _ _. ToolErr ''killed'' None), w_order = (\<lambda>_ _ m. m)\<rparr>"

definition ex_tool :: DetectionTool where
  "ex_tool = \<lparr>dt_Name = ''naabu'', dt_Phase = ''port_scan''\<rparr>"

definition ex_options :: PipelineOptions where
  "ex_options = \<lparr>po_ScanType = None, po_Tools = [], po_RateLimit = 0, po_Timeout = 0, po_ToolConfig = []\<rparr>"

lemma ex_run_world_simps [simp]: "w_uuid (ex_run_world f) n = ''u'' @ show_nat n" "w_done (ex_run_world f) = f" "w_other (ex_run_world f) n d = d"
  "w_tool (ex_run_world f) n nm to ins ro = ToolErr ''killed'' None" "quiet (ex_run_world f) i"
  by (simp_all add: ex_run_world_def quiet_def)


text \<open>A scan cancelled during its last phase reports success. When the context ends while the only tool
  of a scan, not the discovery tool, is running and kills it, the run returns a result without
  error, while the row of the scan stays running.\<close>

theorem cancelled_last_phase_succeeds:
  assumes "\<And>n. w_done w n \<longleftrightarrow> 11 \<le> n" "\<And>n d. w_other w n d = d" "w_uuid w 0 \<noteq> []"
    and "GetTarget d t = Some target" "GetScan d (w_uuid w 0) = None" "selectTools allTools opts = [tool]"
    and "\<not> isHardFailure tool" "\<not> shouldSkip tool (scan_type opts)"
    and "\<And>nm to ins ro. w_tool w 10 nm to ins ro = ToolErr msg None"
  shows "\<exists>r st. Run w allTools t opts d = (Inr r, st) \<and> row_status (w_uuid w 0) st = Some ScanStatusRunning"
proof -
  have q: "quiet w (w_uuid w 0)" using assms(2) by (simp add: quiet_def)
  obtain res st where r: "Run w allTools t opts d = (res, st)" by fastforce
  obtain s2 where s2: "Run w allTools t opts d = run_target w allTools t opts (tg_Value target) s2" "running (w_uuid w 0) s2" "rs_n s2 = 3"
    using Run_starts [OF _ _ assms(2-5), of allTools opts] assms(1) by auto
  let ?s3 = "log_lines (sink_ScanStarted (sn_ID (rs_scan s2)) (tg_Value target) (scan_type opts))
    ((write_ctx w (\<lambda>now _ d. NormalizeAssetStatuses now t d) (write_bg w (\<lambda>_ _ d. d) (write_bg w (\<lambda>_ _ d. d) s2)))
      \<lparr>rs_inputs := [tg_Value target], rs_hostnames := [tg_Value target]\<rparr>)"
  have r3: "running (w_uuid w 0) ?s3" using s2(2) q by (rule running_target)
  have n3: "rs_n ?s3 = 6" by (simp add: s2(3))
  obtain s4 where s4: "run_phase w t (tg_Value target) opts (scan_type opts) 0 1 [] tool ?s3 = PhaseNext s4" "11 \<le> rs_n s4"
    using run_phase_soft [OF r3 q assms(7,8), of msg None t "tg_Value target" opts 0 1 "[]"] assms(1,9) n3 by auto
  have "\<exists>b pre. (case finish_run w t (tg_Value target) (scan_type opts) pre b s4 of (x, st) \<Rightarrow> (Inr x, st)) = (res, st)"
    using r [unfolded s2(1) run_target_def Let_def read_ctx_eq] s4(1) by (simp add: assms(6)) blast
  then obtain b pre where c: "(case finish_run w t (tg_Value target) (scan_type opts) pre b s4 of (x, st) \<Rightarrow> (Inr x, st)) = (res, st)"
    by blast
  obtain x where f: "finish_run w t (tg_Value target) (scan_type opts) pre b s4 = (x, st)" "res = Inr x"
    using c by (cases "finish_run w t (tg_Value target) (scan_type opts) pre b s4") auto
  have "row_status (w_uuid w 0) st = Some (if w_done w (rs_n st - 2) then ScanStatusRunning else ScanStatusCompleted)"
    using Run_left [OF r q refl assms(3)] f(2) by (simp add: run_left_def)
  moreover have "w_done w (rs_n st - 2)" using finish_n [OF f(1)] s4(2) by (simp add: assms(1))
  ultimately show ?thesis using r f(2) by auto
qed

lemma cancelled_last_phase_succeeds_witness:
  "\<exists>r st. Run (ex_run_world (\<lambda>n. 11 \<le> n)) [ex_tool] ''t1'' ex_options ex_db = (Inr r, st) \<and>
     row_status ''u0'' st = Some ScanStatusRunning"
proof -
  have u: "w_uuid (ex_run_world (\<lambda>n. 11 \<le> n)) 0 = ''u0''" by code_simp
  have "GetTarget ex_db ''t1'' = Some ex_target" "GetScan ex_db ''u0'' = None" by code_simp+
  then show ?thesis
    using cancelled_last_phase_succeeds [of "ex_run_world (\<lambda>n. 11 \<le> n)" ex_db "''t1''" ex_target "[ex_tool]" ex_options ex_tool "''killed''"]
    unfolding u by (simp add: selectTools_def ex_options_def ex_tool_def isHardFailure_def shouldSkip_def scan_type_def or_else_def)
qed

text \<open>Assets of skipped phases disappear. When a scan that is not the first of its target completes and no
  tool that it runs reports an asset, then the asset is marked as disappeared, also when the
  tool that could have found it was skipped: a quick or discovery scan reports the ports that
  the last full scan found as gone.\<close>

theorem skipped_assets_disappear:
  assumes "Run w allTools t opts d = (Inr r, st)" "quiet_world w" "uniq_ok d"
    and "p \<in> set (db_assets d)" "as_TargetID p = t" "t \<noteq> []" "as_ID p \<noteq> []"
    and "length (filter (\<lambda>a. as_TargetID a = t) (db_assets d)) \<le> 10000" "\<exists>s \<in> set (db_scans d). sn_TargetID s = t"
    and "never_emits w (scan_type opts) (as_Value p) (selectTools allTools opts)"
  shows "as_ID p \<in> as_ID ` set (db_assets (rs_db st)) \<and>
    (\<forall>a \<in> set (db_assets (rs_db st)). as_ID a = as_ID p \<longrightarrow> as_Status a = AssetStatusDisappeared)"
proof -
  have nd: "\<not> w_done w m" "w_other w m d = d" for m d using assms(2) by (simp_all add: quiet_world_def)
  have i: "rs_n (first_state w t opts d) = 1" "rs_db (first_state w t opts d) = d" by (simp_all add: first_state_def)
  obtain d1 where c: "CreateScan (w_clock w 1) (w_uuid w 1) (rs_scan (first_state w t opts d)) d = Inr d1"
    using assms(1) i by (cases "CreateScan (w_clock w 1) (w_uuid w 1) (rs_scan (first_state w t opts d)) d")
      (auto simp: Run_def Let_def nd)
  have "\<exists>target :: Target. run_target w allTools t opts (tg_Value target) (write_bg w (\<lambda>_ _ d. d) ((first_state w t opts d)\<lparr>rs_n := 2, rs_db := d1\<rparr>)) = (Inr r, st)"
    using assms(1) i c by (auto simp: Run_def Let_def nd ignore_err_def read_ctx_eq numeral_2_eq_2 split: option.splits)
  then obtain target :: Target where run: "run_target w allTools t opts (tg_Value target)
      (write_bg w (\<lambda>_ _ d. d) ((first_state w t opts d)\<lparr>rs_n := 2, rs_db := d1\<rparr>)) = (Inr r, st)" by blast
  let ?s = "write_bg w (\<lambda>_ _ d. d) ((first_state w t opts d)\<lparr>rs_n := 2, rs_db := d1\<rparr>)"
  have s: "rs_db ?s = d1" by (simp add: nd)
  have d1: "db_assets d1 = db_assets d" "uniq_ok d1" using c uniq_CreateScan [OF assms(3)]
    by (auto simp: CreateScan_def Let_def split: if_splits)
  have "\<exists>x. db_scans d1 = db_scans d @ [x] \<and> sn_TargetID x = t"
    using c by (auto simp: CreateScan_def Let_def scan_row_def scan_prepared_def first_state_def new_scan_def split: if_splits)
  then obtain x where x: "db_scans d1 = db_scans d @ [x]" "sn_TargetID x = t" by blast
  obtain s0 where "s0 \<in> set (filter (\<lambda>s. t = [] \<or> sn_TargetID s = t) (db_scans d))" using assms(9) by auto
  then have "0 < length (filter (\<lambda>s. t = [] \<or> sn_TargetID s = t) (db_scans d))" by (rule length_pos_if_in_set)
  then have "2 \<le> length (filter (\<lambda>s. t = [] \<or> sn_TargetID s = t) (db_scans d1))" using x by (simp add: Suc_le_eq)
  then have "length (ListScans (rs_db ?s) t 2) = 2" unfolding s by (simp add: ListScans_def)
  then have "gone_now (as_ID p) (rs_db st)"
    using run_target_marks [OF assms(2) run, of p] assms(4-8,10) d1 unfolding s by simp
  then show ?thesis by (simp add: gone_now_def stat_def)
qed

definition ex_scanned_db :: db where
  "ex_scanned_db = ex_scan_db\<lparr>db_assets := [ex_asset\<lparr>as_Type := AssetTypePort, as_Value := ''192.0.2.1:443/tcp''\<rparr>], db_scans := [ex_scan]\<rparr>"

definition ex_quick :: PipelineOptions where
  "ex_quick = ex_options\<lparr>po_ScanType := Some ScanTypeQuick\<rparr>"

lemma run_loop_skip:
  assumes "running i st" "quiet w i" "\<And>n. \<not> w_done w n" "\<forall>tool \<in> set tools. shouldSkip tool ty"
  shows "\<exists>st'. run_loop w t v opts ty k n tools st = Inr st'"
  using assms(1,4)
proof (induction tools arbitrary: k st)
  case (Cons tool rest)
  let ?st = "write_bg w (\<lambda>_ _ d. d) (count_call st)"
  have i: "sn_ID (rs_scan st) = i" using Cons.prems(1) by (simp add: running_def)
  have r: "running i ?st" using Cons.prems(1) assms(2) by (intro running_read) simp_all
  have "run_phase w t v opts ty k n rest tool st =
      PhaseNext (skip_tool w tool (int (length (rs_inputs ?st))) [] ''filtered by scan options'' ?st)"
    using assms(3) Cons.prems not_cancelled [of i "count_call st" w "rs_n (count_call st)"] assms(2)
    by (simp add: run_phase_def Let_def read_ctx_eq i)
  then show ?case using Cons.IH [OF running_skip [OF r assms(2)]] Cons.prems(2) by simp
qed simp

lemma run_target_skip:
  assumes "running i st" "quiet w i" "\<And>n. \<not> w_done w n" "\<forall>tool \<in> set (selectTools allTools opts). shouldSkip tool (scan_type opts)"
  shows "\<exists>r st'. run_target w allTools t opts v st = (Inr r, st')"
proof -
  let ?s2 = "log_lines (sink_ScanStarted (sn_ID (rs_scan st)) v (scan_type opts)) ((write_ctx w (\<lambda>now _ d. NormalizeAssetStatuses now t d)
    (write_bg w (\<lambda>_ _ d. d) (write_bg w (\<lambda>_ _ d. d) st)))\<lparr>rs_inputs := [v], rs_hostnames := [v]\<rparr>)"
  obtain s3 where "run_loop w t v opts (scan_type opts) 0 (length (selectTools allTools opts)) (selectTools allTools opts) ?s2 = Inr s3"
    using run_loop_skip [OF running_target [OF assms(1,2)] assms(2-4)] by blast
  then show ?thesis by (simp add: run_target_def Let_def read_ctx_eq case_prod_beta)
qed

lemma ex_quick_run: "\<exists>r st. Run (ex_run_world (\<lambda>_. False)) [ex_tool] ''t1'' ex_quick ex_scanned_db = (Inr r, st)"
proof -
  let ?w = "ex_run_world (\<lambda>_. False)"
  have g: "GetTarget ex_scanned_db ''t1'' = Some ex_target" "GetScan ex_scanned_db (w_uuid ?w 0) = None" by code_simp+
  obtain s where s: "Run ?w [ex_tool] ''t1'' ex_quick ex_scanned_db = run_target ?w [ex_tool] ''t1'' ex_quick (tg_Value ex_target) s"
    "running (w_uuid ?w 0) s"
    using Run_starts [where w = ?w and allTools = "[ex_tool]" and opts = ex_quick, OF _ _ _ _ g] by auto
  have "\<forall>tool \<in> set (selectTools [ex_tool] ex_quick). shouldSkip tool (scan_type ex_quick)"
    by (simp add: selectTools_def ex_options_def ex_tool_def shouldSkip_def scan_type_def ex_quick_def or_else_def)
  then show ?thesis using run_target_skip [OF s(2)] unfolding s(1) by simp
qed

lemma skipped_assets_disappear_witness:
  "\<exists>r st. Run (ex_run_world (\<lambda>_. False)) [ex_tool] ''t1'' ex_quick ex_scanned_db = (Inr r, st) \<and> ''a1'' \<in> as_ID ` set (db_assets (rs_db st)) \<and>
     (\<forall>a \<in> set (db_assets (rs_db st)). as_ID a = ''a1'' \<longrightarrow> as_Status a = AssetStatusDisappeared)"
proof -
  obtain r st where r: "Run (ex_run_world (\<lambda>_. False)) [ex_tool] ''t1'' ex_quick ex_scanned_db = (Inr r, st)"
    using ex_quick_run by blast
  have q: "quiet_world (ex_run_world (\<lambda>_. False))" by (simp add: quiet_world_def)
  have d: "uniq_ok ex_scanned_db" by code_simp
  have a: "db_assets ex_scanned_db = [ex_asset\<lparr>as_Type := AssetTypePort, as_Value := ''192.0.2.1:443/tcp''\<rparr>]"
    "db_scans ex_scanned_db = [ex_scan]" "sn_TargetID ex_scan = ''t1''" "as_TargetID ex_asset = ''t1''" "as_ID ex_asset = ''a1''"
    by (simp_all add: ex_scanned_db_def ex_scan_def ex_asset_def)
  have e: "never_emits (ex_run_world (\<lambda>_. False)) (scan_type ex_quick) v [ex_tool]" for v by (simp add: never_emits_def)
  have s: "selectTools [ex_tool] ex_quick = [ex_tool]" by (simp add: selectTools_def ex_quick_def ex_options_def)
  show ?thesis
    using skipped_assets_disappear [OF r q d, of "ex_asset\<lparr>as_Type := AssetTypePort, as_Value := ''192.0.2.1:443/tcp''\<rparr>"] r
    by (auto simp: a e s)
qed

text \<open>Inputs handed from one phase to the next.\<close>

lemma set_dedup_from: "set (dedup_from seen ss) = set ss - set seen"
  by (induction seen ss rule: dedup_from.induct) auto

lemma distinct_dedup_from: "distinct (dedup_from seen ss)"
  by (induction seen ss rule: dedup_from.induct) (auto simp: set_dedup_from)

lemma set_mergeHostnames: "set (mergeHostnames xs ys) = set xs \<union> set ys"
  by (auto simp: mergeHostnames_def set_dedup_from)

lemma distinct_mergeHostnames: "distinct xs \<Longrightarrow> distinct (mergeHostnames xs ys)"
  by (auto simp: mergeHostnames_def set_dedup_from distinct_dedup_from)

lemma or_else_nil [simp]: "or_else (nil_if_empty xs) [] = xs"
  by (simp add: nil_if_empty_def or_else_def)

lemma resolution_outputs:
  "set (rs_inputs (thread_outputs ''resolution'' v assets st)) =
     as_Value ` set (filter is_ip_asset assets) \<union> set (rs_hostnames (thread_outputs ''resolution'' v assets st))"
  "set (rs_hostnames (thread_outputs ''resolution'' v assets st)) =
     (if resolved_names assets = [] then set (rs_hostnames st) else set (rs_hostnames st) \<inter> set (resolved_names assets))"
  "distinct (rs_inputs (thread_outputs ''resolution'' v assets st))"
  "rs_dropped (thread_outputs ''resolution'' v assets st) =
     int (length (rs_hostnames st)) - int (length (rs_hostnames (thread_outputs ''resolution'' v assets st)))"
proof -
  have l: "length (filter P hs) + length (filter (\<lambda>h. \<not> P h) hs) = length hs" for P and hs :: "string list"
    by (induction hs) auto
  show "set (rs_inputs (thread_outputs ''resolution'' v assets st)) =
     as_Value ` set (filter is_ip_asset assets) \<union> set (rs_hostnames (thread_outputs ''resolution'' v assets st))"
    by (simp add: thread_outputs_def Let_def extractInputsForNextPhase_def case_prod_beta set_mergeHostnames dedup_def set_dedup_from)
  show "set (rs_hostnames (thread_outputs ''resolution'' v assets st)) =
     (if resolved_names assets = [] then set (rs_hostnames st) else set (rs_hostnames st) \<inter> set (resolved_names assets))"
    by (auto simp: thread_outputs_def Let_def extractInputsForNextPhase_def case_prod_beta narrowHostnamesByResolution_def or_else_def)
  show "distinct (rs_inputs (thread_outputs ''resolution'' v assets st))"
    by (simp add: thread_outputs_def Let_def extractInputsForNextPhase_def case_prod_beta distinct_mergeHostnames dedup_def
        distinct_dedup_from)
  show "rs_dropped (thread_outputs ''resolution'' v assets st) =
     int (length (rs_hostnames st)) - int (length (rs_hostnames (thread_outputs ''resolution'' v assets st)))"
    using l [of "\<lambda>h. h \<in> set (resolved_names assets)" "rs_hostnames st"]
    by (simp add: thread_outputs_def Let_def extractInputsForNextPhase_def case_prod_beta narrowHostnamesByResolution_def or_else_def)
qed

text \<open>What the port scan gets after the resolution phase. The inputs are, without duplicates, the
  resolved addresses and the kept hostnames; kept are the hostnames that resolved, or all of
  them when none did, and the reported number of dropped hostnames is the difference.\<close>

theorem resolution_handoff:
  "set (rs_inputs (thread_outputs ''resolution'' v assets st)) =
     as_Value ` set (filter is_ip_asset assets) \<union> set (rs_hostnames (thread_outputs ''resolution'' v assets st)) \<and>
   set (rs_hostnames (thread_outputs ''resolution'' v assets st)) =
     (if resolved_names assets = [] then set (rs_hostnames st) else set (rs_hostnames st) \<inter> set (resolved_names assets)) \<and>
   distinct (rs_inputs (thread_outputs ''resolution'' v assets st)) \<and>
   rs_dropped (thread_outputs ''resolution'' v assets st) =
     int (length (rs_hostnames st)) - int (length (rs_hostnames (thread_outputs ''resolution'' v assets st)))"
  by (intro conjI resolution_outputs)

lemma reported_again:
  assumes "quiet_world w" "uniq_ok (rs_db st)" "x \<in> set (SnapshotAssets (rs_db st) t)" "t \<noteq> []"
    and "as_Value a = as_Value x" "status = None \<or> status = Some AssetStatusNew"
  defines "st' \<equiv> persist_asset w t (status, a) st"
  shows "\<exists>y \<in> set (db_assets (rs_db st')). as_ID y = as_ID x \<and> as_Status y = AssetStatusNew"
    and "asset_key x \<notin> set (keys_of ChangeTypeAppeared
           (ComputeChanges t s fr (SnapshotAssets (rs_db st) t) (SnapshotAssets (rs_db st') t) False))"
proof -
  have x: "x \<in> set (db_assets (rs_db st))" "as_TargetID x = t" using set_snapshot [OF assms(3,4)] by simp_all
  let ?r = "asset_row (asset_prepared (w_clock w (rs_n st)) (w_uuid w (rs_n st))
    (a\<lparr>as_TargetID := t, as_Status := AssetStatusNew\<rparr>))"
  have r: "same_asset ?r x" "as_Status ?r = AssetStatusNew" "as_TargetID ?r = t" "as_Value ?r = as_Value x"
    using x(2) assms(5) by (simp_all add: same_asset_def asset_row_def asset_prepared_def)
  have "list_ex (same_asset ?r) (db_assets (rs_db st))" using x(1) r(1) by (auto simp: list_ex_iff)
  moreover have "or_else status AssetStatusNew = AssetStatusNew" using assms(6) by (auto simp: or_else_def)
  ultimately have st': "db_assets (rs_db st') = update_where (same_asset ?r) (asset_merge ?r) (db_assets (rs_db st))"
    by (simp add: st'_def persist_asset_def Let_def quiet_write [OF assms(1)] ignore_err_def UpsertAsset_def)
  show "\<exists>y \<in> set (db_assets (rs_db st')). as_ID y = as_ID x \<and> as_Status y = AssetStatusNew"
    unfolding st' using x(1) r(1,2) by (intro bexI [of _ "asset_merge ?r x"]) (auto simp: asset_merge_def update_where_def)
  have u: "auniq (rs_db st)" using assms(2) by (simp add: uniq_ok_def auniq_def)
  then have "auniq (rs_db st')" by (simp add: auniq_def st' map_update_where)
  then show "asset_key x \<notin> set (keys_of ChangeTypeAppeared
           (ComputeChanges t s fr (SnapshotAssets (rs_db st) t) (SnapshotAssets (rs_db st') t) False))"
    using assms(3) by (simp add: changes_of_scan [OF snapshot_distinct' [OF u assms(4)] snapshot_distinct' [OF _ assms(4)]] new_assets_def image_minus)
qed

text \<open>A returning asset is not reported. When a tool reports an asset that the target already has, the
  upsert makes its status new, whatever it was: disappeared, inactive or ignored; and the diff
  against the snapshot before the scan reports no appearance. The status returned is never set.\<close>

theorem returned_assets_unreported:
  assumes "quiet_world w" "uniq_ok (rs_db st)" "x \<in> set (SnapshotAssets (rs_db st) t)" "t \<noteq> []"
    and "as_Value a = as_Value x" "status = None \<or> status = Some AssetStatusNew"
    and "persist_asset w t (status, a) st = st'"
  shows "(\<exists>y \<in> set (db_assets (rs_db st')). as_ID y = as_ID x \<and> as_Status y = AssetStatusNew) \<and>
    asset_key x \<notin> set (keys_of ChangeTypeAppeared
      (ComputeChanges t s fr (SnapshotAssets (rs_db st) t) (SnapshotAssets (rs_db st') t) False))"
  using reported_again [OF assms(1-6)] unfolding assms(7) by blast

lemma returned_assets_unreported_witness:
  "\<exists>y \<in> set (db_assets (rs_db (persist_asset (ex_run_world (\<lambda>_. False)) ''t1'' (None, ex_asset)
     (first_state (ex_run_world (\<lambda>_. False)) ''t1'' ex_options (ex_scan_db\<lparr>db_assets := [ex_asset\<lparr>as_Status := AssetStatusIgnored\<rparr>]\<rparr>))))).
     as_ID y = ''a1'' \<and> as_Status y = AssetStatusNew"
proof -
  let ?w = "ex_run_world (\<lambda>_. False)" and ?x = "ex_asset\<lparr>as_Status := AssetStatusIgnored\<rparr>"
  let ?st = "first_state ?w ''t1'' ex_options (ex_scan_db\<lparr>db_assets := [?x]\<rparr>)"
  have "quiet_world ?w" by (simp add: quiet_world_def)
  moreover have "uniq_ok (ex_scan_db\<lparr>db_assets := [?x]\<rparr>)" by code_simp
  moreover have "SnapshotAssets (ex_scan_db\<lparr>db_assets := [?x]\<rparr>) ''t1'' = [?x]" by code_simp
  moreover have "rs_db ?st = ex_scan_db\<lparr>db_assets := [?x]\<rparr>" by (simp add: first_state_def)
  moreover have "as_ID ex_asset = ''a1''" by (simp add: ex_asset_def)
  ultimately show ?thesis
    using returned_assets_unreported [of ?w ?st ?x "''t1''" ex_asset None, OF _ _ _ _ _ _ refl] by simp
qed

end
