(* ===== verification/PipelineStore.thy ===== *)
theory PipelineStore
  imports PipelineInv
begin

text \<open>
  The pipeline as a client of the store: the locale \<open>store_invariant\<close> states what an invariant of
  the store promises, and every invariant is kept by a whole run. It is interpreted with the
  integrity of the tables and with reachability by store operations.
\<close>

locale store_invariant =
  fixes I :: "db \<Rightarrow> bool"
  assumes step: "scan_store_step d d' \<Longrightarrow> I d \<Longrightarrow> I d'"
begin

definition holds :: "run_state \<Rightarrow> bool" where "holds st = I (rs_db st)"

lemma holds_upd [simp]:
  "holds (st\<lparr>rs_n := n\<rparr>) = holds st" "holds (st\<lparr>rs_inputs := xs\<rparr>) = holds st" "holds (st\<lparr>rs_scan := sc\<rparr>) = holds st"
  "holds (st\<lparr>rs_hostnames := xs\<rparr>) = holds st" "holds (st\<lparr>rs_ips := ps\<rparr>) = holds st"
  "holds (st\<lparr>rs_dropped := k\<rparr>) = holds st" "holds (st\<lparr>rs_phases := qs\<rparr>) = holds st"
  "holds (log_lines ls st) = holds st" "holds (count_call st) = holds st"
  by (simp_all add: holds_def)

lemma keep: "I d \<Longrightarrow> (\<And>d'. r = Inr d' \<Longrightarrow> scan_store_step d d') \<Longrightarrow> I (ignore_err r d)"
  by (auto simp: ignore_err_def intro: step split: sum.splits)

lemma keep_fold: "(\<And>x d. I d \<Longrightarrow> I (f x d)) \<Longrightarrow> I d \<Longrightarrow> I (fold f xs d)"
  by (induction xs arbitrary: d) simp_all

lemma keep_ApplyStatus: "I d \<Longrightarrow> I (ApplyStatusChanges now cs d)"
  unfolding ApplyStatusChanges_def
  by (erule keep_fold [rotated]) (auto simp: apply_status_change_def intro!: keep intro: as_status split: ChangeType.splits)

lemma keep_AutoResolve: "I d \<Longrightarrow> I (AutoResolveFindings now fs d)"
  unfolding AutoResolveFindings_def
  by (erule keep_fold [rotated]) (auto simp: auto_resolve_def Let_def intro!: keep intro: fi_status fi_resolved)

text \<open>Other processes keep the invariant as well.\<close>

definition ok_world :: "run_world \<Rightarrow> bool" where "ok_world w \<longleftrightarrow> (\<forall>n d. I d \<longrightarrow> I (w_other w n d))"

lemma holds_write_bg: "ok_world w \<Longrightarrow> (\<And>now u d. I d \<Longrightarrow> I (f now u d)) \<Longrightarrow> holds st \<Longrightarrow> holds (write_bg w f st)"
  by (simp add: holds_def ok_world_def)

lemma holds_write: "ok_world w \<Longrightarrow> (\<And>now u d. I d \<Longrightarrow> I (f now u d)) \<Longrightarrow> holds st \<Longrightarrow> holds (write_ctx w f st)"
  by (simp add: holds_def ok_world_def rs_db_write_ctx)

lemma holds_read: "ok_world w \<Longrightarrow> holds st \<Longrightarrow> holds (write_bg w (\<lambda>_ _ d. d) st)"
  by (rule holds_write_bg)

lemma holds_save: "ok_world w \<Longrightarrow> holds st \<Longrightarrow> holds (write_ctx w (\<lambda>now u. UpdateScan now sc) st)"
  by (erule holds_write) (rule step [OF sn_update])

lemma holds_fold: "holds st \<Longrightarrow> (\<And>x st. holds st \<Longrightarrow> holds (f x st)) \<Longrightarrow> holds (fold f xs st)"
  by (induction xs arbitrary: st) simp_all

lemma holds_leave: "ok_world w \<Longrightarrow> holds st \<Longrightarrow> holds (leave_cancelled w st)"
  unfolding leave_cancelled_def Let_def by (rule holds_write_bg) (simp_all add: step [OF sn_update])

lemma holds_record: "ok_world w \<Longrightarrow> holds st \<Longrightarrow> holds (recordToolRunWithID w j tool s dur a b x m e st)"
  unfolding recordToolRunWithID_def Let_def by (erule holds_write) (auto intro: keep tr_create)

lemma holds_skip: "ok_world w \<Longrightarrow> holds st \<Longrightarrow> holds (skip_tool w tool a m r st)"
  by (simp add: skip_tool_def Let_def recordToolRun_def holds_record)

lemma holds_persist_asset: "ok_world w \<Longrightarrow> holds st \<Longrightarrow> holds (persist_asset w t e st)"
  unfolding persist_asset_def Let_def by (erule holds_write) (auto intro: keep as_upsert)

lemma holds_persist_finding: "ok_world w \<Longrightarrow> holds st \<Longrightarrow> holds (persist_finding w s l b f st)"
  by (simp add: persist_finding_def Let_def) (auto intro!: holds_write keep intro: fi_upsert)

lemma holds_persist_findings: "ok_world w \<Longrightarrow> holds st \<Longrightarrow> holds (persist_findings w t fs st)"
  by (simp add: persist_findings_def Let_def read_ctx_eq holds_fold holds_persist_finding holds_read)

lemma holds_thread: "holds st \<Longrightarrow> holds (thread_outputs p v xs st)"
  by (simp add: thread_outputs_def Let_def split: prod.splits option.splits)

definition phase_holds :: "phase_end \<Rightarrow> bool" where
  "phase_holds e = (case e of PhaseNext st \<Rightarrow> holds st | PhaseStop st \<Rightarrow> holds st | PhaseErr _ st \<Rightarrow> holds st)"

lemma holds_failed: "ok_world w \<Longrightarrow> holds st \<Longrightarrow> phase_holds (phase_failed w tool runID s dur msg res st)"
  by (simp add: phase_failed_def Let_def read_bg_eq phase_holds_def holds_record holds_leave holds_read holds_save)

lemma holds_completed: "ok_world w \<Longrightarrow> holds st \<Longrightarrow> phase_holds (phase_completed w t v ty rest tool runID s dur res st)"
  by (simp add: phase_completed_def skip_rest_def Let_def phase_holds_def holds_thread holds_fold holds_skip holds_record
      holds_persist_findings holds_persist_asset)

lemma holds_begin: "ok_world w \<Longrightarrow> holds st \<Longrightarrow> holds (snd (begin_tool w k n tool st))"
  using holds_save [of w "st\<lparr>rs_scan := (rs_scan st)\<lparr>sn_Phase := dt_Phase tool, sn_Progress := (100 * int k, int n)\<rparr>\<rparr>"]
  by (simp add: begin_tool_def Let_def)

lemma holds_phase: "ok_world w \<Longrightarrow> holds st \<Longrightarrow> phase_holds (run_phase w t v opts ty k n rest tool st)"
  by (simp add: run_phase_def Let_def read_ctx_eq case_prod_beta holds_failed holds_completed holds_begin holds_read
      phase_holds_def [of "PhaseNext _"] phase_holds_def [of "PhaseErr _ _"] holds_leave holds_skip split: tool_outcome.splits)

lemma holds_loop: "ok_world w \<Longrightarrow> holds st \<Longrightarrow>
    (case run_loop w t v opts ty k n tools st of Inr st' \<Rightarrow> holds st' | Inl (e, st') \<Rightarrow> holds st')"
proof (induction tools arbitrary: k st)
  case (Cons tool rest)
  then show ?case using holds_phase [of w st t v opts ty k n rest tool] by (auto simp: phase_holds_def split: phase_end.splits)
qed simp

lemma holds_diff: "ok_world w \<Longrightarrow> holds st \<Longrightarrow> holds (snd (diff_phase w t pre b st))"
proof -
  assume w: "ok_world w" and h: "holds st"
  have "holds (save_scan w (st\<lparr>rs_scan := (rs_scan st)\<lparr>sn_Phase := ''diffing''\<rparr>\<rparr>))" using w h by (intro holds_save) simp_all
  moreover have "holds (fold (\<lambda>c. write_ctx w (\<lambda>now fresh d. ignore_err (CreateAssetChange now fresh c d) d)) cs s)" if "holds s" for cs s
    using that by (rule holds_fold) (auto intro!: holds_write w keep intro: ac_create)
  moreover have "holds s \<Longrightarrow> holds (write_ctx w (\<lambda>now _ d. ApplyStatusChanges now cs d) s)"
    "holds s \<Longrightarrow> holds (write_ctx w (\<lambda>now _ d. AutoResolveFindings now fs d) s)" for cs fs s
    by (rule holds_write; use w keep_ApplyStatus keep_AutoResolve in blast)+
  ultimately show ?thesis using w by (simp add: diff_phase_def Let_def read_ctx_eq holds_read case_prod_beta)
qed

lemma holds_finish: "ok_world w \<Longrightarrow> holds st \<Longrightarrow> holds (snd (finish_run w t v ty pre b st))"
proof -
  assume w: "ok_world w" and h: "holds st"
  have "holds s \<Longrightarrow> holds (write_ctx w (\<lambda>now _ d. ignore_err (UpdateTargetLastScan now t i f d) d) s)" for i f s
    by (auto intro!: holds_write w keep intro: tg_last)
  then show ?thesis
    using holds_diff [OF w h, of t pre b] w by (simp add: finish_run_def Let_def read_ctx_eq case_prod_beta holds_save holds_read)
qed

lemma holds_target: "ok_world w \<Longrightarrow> holds st \<Longrightarrow> holds (snd (run_target w ts t opts v st))"
proof -
  assume w: "ok_world w" and h: "holds st"
  let ?s2 = "log_lines (sink_ScanStarted (sn_ID (rs_scan st)) v (scan_type opts)) ((write_ctx w (\<lambda>now _ d. NormalizeAssetStatuses now t d)
    (write_bg w (\<lambda>_ _ d. d) (write_bg w (\<lambda>_ _ d. d) st)))\<lparr>rs_inputs := [v], rs_hostnames := [v]\<rparr>)"
  have "holds (write_ctx w (\<lambda>now _ d. NormalizeAssetStatuses now t d) (write_bg w (\<lambda>_ _ d. d) (write_bg w (\<lambda>_ _ d. d) st)))"
    using w h by (intro holds_write holds_read) (simp_all add: step [OF as_normalize])
  then have "holds ?s2" by simp
  from holds_loop [OF w this, of t v opts "scan_type opts" 0 "length (selectTools ts opts)" "selectTools ts opts"] show ?thesis
    using holds_finish [OF w] by (auto simp: run_target_def Let_def read_ctx_eq case_prod_beta split: sum.splits)
qed

text \<open>Every invariant of the store is kept by a run, however it ends.\<close>

lemma run_keeps: "ok_world w \<Longrightarrow> I d \<Longrightarrow> I (rs_db (snd (Run w ts t opts d)))"
proof -
  assume w: "ok_world w" and i: "I d"
  let ?s = "first_state w t opts d"
  have s: "rs_n ?s = 1" "rs_db ?s = d" by (simp_all add: first_state_def)
  let ?d = "w_other w 1 d"
  have o1: "I ?d" using w i by (simp add: ok_world_def)
  have c: "I (ignore_err (CreateScan (w_clock w 1) (w_uuid w 1) (rs_scan ?s) ?d) ?d)"
    using o1 by (auto intro!: keep intro: sn_create)
  then have h: "holds (write_bg w (\<lambda>_ _ d. d) (?s\<lparr>rs_n := 2, rs_db := ignore_err (CreateScan (w_clock w 1) (w_uuid w 1) (rs_scan ?s) ?d) ?d\<rparr>))"
    using w by (intro holds_read) (simp_all add: holds_def)
  then have "I (rs_db (write_bg w (\<lambda>_ _ d. d) (?s\<lparr>rs_n := 2, rs_db := ignore_err (CreateScan (w_clock w 1) (w_uuid w 1) (rs_scan ?s) ?d) ?d\<rparr>)))"
    unfolding holds_def .
  with h holds_target [OF w, unfolded holds_def] o1 c show ?thesis
    by (auto simp: Run_def Let_def s read_ctx_eq numeral_2_eq_2 holds_def split: sum.splits option.splits)
qed

end

text \<open>The integrity of the tables, and reachability by operations of the store.\<close>

interpretation integrity: store_invariant "\<lambda>d. uniq_ok d \<and> refs_ok d"
  by unfold_locales (rule scan_step_inv)

interpretation reachable: store_invariant "(\<lambda>d d'. scan_store_step d d' \<or> store_step lib d d')\<^sup>*\<^sup>* d0"
  by unfold_locales (auto intro: rtranclp.rtrancl_into_rtrancl)



end
