(* ===== verification/Api.thy ===== *)
theory Api
  imports Startup
begin

text \<open>
  The REST API, first part: the shared shapes of \<open>internal/api/v1/types.go\<close> and the schedule
  handlers of \<open>schedules.go\<close> and \<open>bulk.go\<close>. A handler is a function from the request and the
  server's state to the response and the new state; \<open>en\<close> holds the recurrence library, the
  random generator and the clock reading of the request, \<open>fresh k\<close> is the \<open>k\<close>-th new UUID.
  A request body is the result of \<open>decodeJSON\<close>, \<open>None\<close> for a body that does not decode; the
  query is the map of its first values, the empty text where a key is absent. The free text of
  a problem's detail is left out. Failures of the database itself are not modelled, so the
  branches that report them are absent, except where an error of the program itself reaches
  them. Maps are listed in the order of first insertion.
\<close>

section \<open>Shared shapes\<close>

datatype message = Text string | RuleText rrule_error | ToolText string | ZoneText string | Overlaps string time time

record FieldError =
  fe_Field :: string
  fe_Message :: message

record ProblemResponse =
  pr_Type :: string
  pr_Title :: string
  pr_Status :: int
  pr_FieldErrors :: "FieldError list"

text \<open>What the client sees. \<open>Aborted\<close> is a handler that panics: the server closes the connection.\<close>

datatype 'b response = Problem ProblemResponse | Reply int 'b | NoContent | Aborted

definition writeProblem :: "int \<Rightarrow> string \<Rightarrow> string \<Rightarrow> FieldError list \<Rightarrow> 'b response" where
  "writeProblem status problemType title fieldErrors =
     Problem \<lparr>pr_Type = problemType, pr_Title = title, pr_Status = status, pr_FieldErrors = fieldErrors\<rparr>"

definition methodNotAllowed :: "'b response" where
  "methodNotAllowed = writeProblem 405 ''/problems/method-not-allowed'' ''Method Not Allowed'' []"

definition invalid_json :: "'b response" where
  "invalid_json = writeProblem 400 ''/problems/invalid-json'' ''Invalid JSON body'' []"

definition field_error :: "string \<Rightarrow> string \<Rightarrow> FieldError" where
  "field_error f m = \<lparr>fe_Field = f, fe_Message = Text m\<rparr>"

definition invalid_rrule :: "string \<Rightarrow> rrule_error \<Rightarrow> 'b response" where
  "invalid_rrule f e = writeProblem 422 ''/problems/validation'' ''Invalid RRULE'' [\<lparr>fe_Field = f, fe_Message = RuleText e\<rparr>]"

type_synonym query = "string \<Rightarrow> string"

record Pagination =
  pg_Limit :: int
  pg_Offset :: int

definition DefaultLimit :: int where "DefaultLimit = 50"

definition MaxLimit :: int where "MaxLimit = 500"

definition ParsePagination :: "query \<Rightarrow> int \<Rightarrow> Pagination" where
  "ParsePagination q maxLimit0 =
     (let maxLimit = (if maxLimit0 \<le> 0 then MaxLimit else maxLimit0);
          lim = (case Atoi (q ''limit'') of
                   Some n \<Rightarrow> if q ''limit'' \<noteq> [] \<and> n > 0 then (if n > maxLimit then maxLimit else n) else DefaultLimit
                 | None \<Rightarrow> DefaultLimit);
          off = (case Atoi (q ''offset'') of
                   Some n \<Rightarrow> if q ''offset'' \<noteq> [] \<and> n \<ge> 0 then n else 0
                 | None \<Rightarrow> 0)
      in \<lparr>pg_Limit = lim, pg_Offset = off\<rparr>)"

record 'i PaginatedResponse =
  pp_Items :: "'i list"
  pp_Total :: int
  pp_Limit :: int
  pp_Offset :: int

text \<open>The window \<open>items[lo:hi]\<close> of the list handlers, in the arithmetic of the machine; \<open>None\<close> is
  the panic of a slice expression out of range.\<close>

definition slice :: "'i list \<Rightarrow> int \<Rightarrow> int \<Rightarrow> 'i list option" where
  "slice items lo hi =
     (if 0 \<le> lo \<and> lo \<le> hi \<and> hi \<le> int (length items)
      then Some (take (nat (hi - lo)) (drop (nat lo) items)) else None)"

definition page_window :: "Pagination \<Rightarrow> 'i list \<Rightarrow> 'i list option" where
  "page_window p items =
     (let len = int (length items);
          lo = pg_Offset p; hi = wrap64 (pg_Offset p + pg_Limit p);
          lo = (if lo > len then len else lo);
          hi = (if hi > len then len else hi)
      in slice items lo hi)"

definition paginated :: "query \<Rightarrow> ('i \<Rightarrow> 'b) \<Rightarrow> 'i list \<Rightarrow> 'b PaginatedResponse response" where
  "paginated q f items =
     (let p = ParsePagination q MaxLimit in
      case page_window p items of
        None \<Rightarrow> Aborted
      | Some xs \<Rightarrow> Reply 200 \<lparr>pp_Items = map f xs, pp_Total = int (length items), pp_Limit = pg_Limit p, pp_Offset = pg_Offset p\<rparr>)"

section \<open>The server\<close>

text \<open>The dependencies of the handlers: the database, the expander when it could be built, and the
  scheduler when it runs in the same process. The scheduler works on the same database.\<close>

record 'r server =
  sv_db :: db
  sv_expander :: "'r RRuleExpander option"
  sv_dispatcher :: "'r Scheduler option"

definition sv_world :: "'r env \<Rightarrow> db \<Rightarrow> 'r world" where
  "sv_world en d = \<lparr>wd_lib = en_lib en, wd_blackout_rows = Some (bo_List d), wd_now = en_now en, wd_rng = en_rng en\<rparr>"

text \<open>\<open>Transact\<close>: the changes of the function are committed when it succeeds and rolled back
  when it fails.\<close>

definition Transact :: "(db \<Rightarrow> ('e, 'a \<times> db) result) \<Rightarrow> db \<Rightarrow> ('e, 'a) result \<times> db" where
  "Transact f d = (case f d of Inl e \<Rightarrow> (Inl e, d) | Inr (a, d') \<Rightarrow> (Inr a, d'))"

section \<open>Schedules\<close>

record ScheduleResponse =
  sr_ID :: string
  sr_TargetID :: string
  sr_Name :: string
  sr_RRule :: string
  sr_DTStart :: time
  sr_Timezone :: string
  sr_TemplateID :: "string option"
  sr_ToolConfig :: ToolConfig
  sr_Overrides :: "string list"
  sr_MaintenanceWindow :: "MaintenanceWindow option"
  sr_Status :: string
  sr_NextRunAt :: "time option"
  sr_LastRunAt :: "time option"
  sr_LastRunStatus :: "ScheduleRunStatus option"
  sr_LastScanID :: "string option"
  sr_CreatedAt :: time
  sr_UpdatedAt :: time

definition toScheduleResponse :: "Schedule \<Rightarrow> ScheduleResponse" where
  "toScheduleResponse s =
     \<lparr>sr_ID = sch_ID s, sr_TargetID = sch_TargetID s, sr_Name = sch_Name s, sr_RRule = sch_RRule s,
      sr_DTStart = sch_DTStart s, sr_Timezone = sch_Timezone s, sr_TemplateID = sch_TemplateID s,
      sr_ToolConfig = sch_ToolConfig s, sr_Overrides = sch_Overrides s,
      sr_MaintenanceWindow = sch_MaintenanceWindow s,
      sr_Status = (if \<not> sch_Enabled s then ''paused'' else ''active''),
      sr_NextRunAt = sch_NextRunAt s, sr_LastRunAt = sch_LastRunAt s, sr_LastRunStatus = sch_LastRunStatus s,
      sr_LastScanID = sch_LastScanID s, sr_CreatedAt = sch_CreatedAt s, sr_UpdatedAt = sch_UpdatedAt s\<rparr>"

record CreateScheduleRequest =
  cs_TargetID :: string
  cs_Name :: string
  cs_RRule :: string
  cs_DTStart :: time
  cs_Timezone :: string
  cs_TemplateID :: "string option"
  cs_ToolConfig :: ToolConfig
  cs_Overrides :: "string list"
  cs_MaintenanceWindow :: "MaintenanceWindow option"
  cs_Enabled :: "bool option"
  cs_EstimatedDurationSeconds :: int

record UpdateScheduleRequest =
  us_Name :: "string option"
  us_RRule :: "string option"
  us_DTStart :: "time option"
  us_Timezone :: "string option"
  us_TemplateID :: "string option"
  us_ClearTemplate :: bool
  us_ToolConfig :: "ToolConfig option"
  us_Overrides :: "string list option"
  us_MaintenanceWindow :: "MaintenanceWindow option"
  us_ClearMaintenanceWindow :: bool
  us_Enabled :: "bool option"
  us_EstimatedDurationSeconds :: int

definition DefaultEstimatedDurationSeconds :: int where "DefaultEstimatedDurationSeconds = 3600"

definition overlapHorizon :: duration where "overlapHorizon = 7 * 24 * hour"

definition validateCreateScheduleRequest :: "CreateScheduleRequest \<Rightarrow> FieldError list" where
  "validateCreateScheduleRequest req =
     (if TrimSpace (cs_TargetID req) = [] then [field_error ''target_id'' ''required''] else [])
     @ (if TrimSpace (cs_RRule req) = [] then [field_error ''rrule'' ''required''] else [])
     @ (if TrimSpace (cs_Timezone req) = [] then [field_error ''timezone'' ''required''] else [])
     @ (if TrimSpace (cs_Name req) = [] then [field_error ''name'' ''required''] else [])"

definition add_key :: "'a \<Rightarrow> 'a list \<Rightarrow> 'a list" where
  "add_key x xs = (if x \<in> set xs then xs else xs @ [x])"

definition mergeOverrides :: "string list \<Rightarrow> bool \<Rightarrow> bool \<Rightarrow> bool \<Rightarrow> string list" where
  "mergeOverrides explicit rrule timezone maintenance =
     (let out = fold add_key explicit [];
          out = (if rrule then add_key ''rrule'' out else out);
          out = (if timezone then add_key ''timezone'' out else out)
      in if maintenance then add_key ''maintenance_window'' out else out)"

section \<open>Listing and reading\<close>

definition listSchedules :: "query \<Rightarrow> db \<Rightarrow> ScheduleResponse PaginatedResponse response" where
  "listSchedules q d =
     (let schedules = (if q ''template_id'' \<noteq> [] then sched_ListByTemplate d (q ''template_id'')
                       else if q ''target_id'' \<noteq> [] then sched_ListByTarget d (q ''target_id'')
                       else sched_ListAll d);
          s = q ''status''
      in if s \<noteq> [] \<and> s \<noteq> ''active'' \<and> s \<noteq> ''paused''
         then writeProblem 400 ''/problems/invalid-query'' ''Invalid status filter'' []
         else let want = (s = ''active'');
                  schedules = (if s \<noteq> [] then filter (\<lambda>x. sch_Enabled x = want) schedules else schedules)
              in paginated q toScheduleResponse schedules)"

definition schedule_not_found :: "'b response" where
  "schedule_not_found = writeProblem 404 ''/problems/not-found'' ''Schedule not found'' []"

definition getSchedule :: "string \<Rightarrow> db \<Rightarrow> ScheduleResponse response" where
  "getSchedule i d =
     (case sched_Get d i of None \<Rightarrow> schedule_not_found | Some s \<Rightarrow> Reply 200 (toScheduleResponse s))"

section \<open>Next runs and overlaps\<close>

definition refreshNextRun ::
  "'r env \<Rightarrow> Schedule \<Rightarrow> Template option \<Rightarrow> 'r server \<Rightarrow> Schedule \<times> 'r server" where
  "refreshNextRun en s tmpl sv =
     (case sv_expander sv of
        None \<Rightarrow> (s, sv)
      | Some e \<Rightarrow>
          if \<not> sch_Enabled s then (s, sv)
          else (case ComputeNextRunAt (sv_world en (sv_db sv)) e s tmpl of
            (Inl _, e) \<Rightarrow> (s, sv\<lparr>sv_expander := Some e\<rparr>)
          | (Inr next, e) \<Rightarrow>
              (s\<lparr>sch_NextRunAt := next\<rparr>,
               sv\<lparr>sv_expander := Some e,
                  sv_db := ignore_err (sched_SetNextRunAt (en_now en) (sch_ID s) next (sv_db sv)) (sv_db sv)\<rparr>)))"

definition recompute_template :: "'r env \<Rightarrow> string \<Rightarrow> 'r server \<Rightarrow> 'r server" where
  "recompute_template en templateID sv =
     (case sv_expander sv of
        None \<Rightarrow> sv
      | Some e \<Rightarrow>
          (case RecomputeNextRunForTemplate (sv_world en (sv_db sv)) templateID (e, sv_db sv) of
             (_, e, d) \<Rightarrow> sv\<lparr>sv_expander := Some e, sv_db := d\<rparr>))"

definition cascadeForTemplate :: "'r env \<Rightarrow> string option \<Rightarrow> 'r server \<Rightarrow> 'r server" where
  "cascadeForTemplate en templateID sv =
     (case nullableString templateID of None \<Rightarrow> sv | Some t \<Rightarrow> recompute_template en t sv)"

text \<open>The zero value of the defaults, for a database without the row.\<close>

definition zero_defaults :: ScheduleDefaults where
  "zero_defaults = \<lparr>sd_DefaultTemplateID = None, sd_DefaultRRule = [], sd_DefaultTimezone = [],
     sd_DefaultToolConfig = [], sd_DefaultMaintenanceWindow = None, sd_MaxConcurrentScans = 0,
     sd_RunOnStart = False, sd_JitterSeconds = 0, sd_UpdatedAt = zero_time\<rparr>"

definition defaults_or_zero :: "db \<Rightarrow> ScheduleDefaults" where
  "defaults_or_zero d = (case def_Get d of Inl _ \<Rightarrow> zero_defaults | Inr x \<Rightarrow> x)"

definition add_template_of :: "db \<Rightarrow> Schedule \<Rightarrow> (string \<times> Template) list \<Rightarrow> (string \<times> Template) list" where
  "add_template_of d s tmpls =
     (case nullableString (sch_TemplateID s) of
        None \<Rightarrow> tmpls
      | Some t \<Rightarrow>
          if map_of tmpls t \<noteq> None then tmpls
          else (case tmpl_Get d t of None \<Rightarrow> tmpls | Some x \<Rightarrow> AList.update t x tmpls))"

definition overlapCheck ::
  "'r env \<Rightarrow> Schedule \<Rightarrow> Template option \<Rightarrow> int \<Rightarrow> db \<Rightarrow> (expand_error, FieldError list) result" where
  "overlapCheck en cand candTmpl estDuration d =
     (let existing = sched_ListByTarget d (sch_TargetID cand);
          tmpls = fold (add_template_of d) existing [];
          dur = (if estDuration \<le> 0 then seconds DefaultEstimatedDurationSeconds else seconds estDuration)
      in case validateNoOverlapAt (en_lib en) cand candTmpl existing tmpls (defaults_or_zero d) (en_now en) overlapHorizon dur of
           Inl e \<Rightarrow> Inl e
         | Inr conflicts \<Rightarrow>
             Inr (map (\<lambda>c. \<lparr>fe_Field = ''rrule'',
               fe_Message = Overlaps (oc_ScheduleID c) (oc_OccurrenceA c) (oc_OccurrenceB c)\<rparr>) conflicts))"

text \<open>The template a request names: absent, found, or missing.\<close>

definition named_template :: "db \<Rightarrow> string option \<Rightarrow> (unit, Template option) result" where
  "named_template d i =
     (case nullableString i of
        None \<Rightarrow> Inr None
      | Some t \<Rightarrow> (case tmpl_Get d t of None \<Rightarrow> Inl () | Some x \<Rightarrow> Inr (Some x)))"

definition template_missing :: "'b response" where
  "template_missing = writeProblem 422 ''/problems/validation'' ''Template not found''
     [field_error ''template_id'' ''no template with that id'']"

definition target_missing :: "'b response" where
  "target_missing = writeProblem 422 ''/problems/validation'' ''Target not found''
     [field_error ''target_id'' ''no target with that id'']"

section \<open>Creating\<close>

definition schedule_of_request :: "CreateScheduleRequest \<Rightarrow> Schedule" where
  "schedule_of_request req =
     \<lparr>sch_ID = [], sch_TargetID = cs_TargetID req, sch_Name = cs_Name req, sch_RRule = cs_RRule req,
      sch_DTStart = cs_DTStart req, sch_Timezone = cs_Timezone req, sch_TemplateID = cs_TemplateID req,
      sch_ToolConfig = cs_ToolConfig req,
      sch_Overrides = mergeOverrides (cs_Overrides req) (cs_RRule req \<noteq> []) (cs_Timezone req \<noteq> [])
        (cs_MaintenanceWindow req \<noteq> None),
      sch_MaintenanceWindow = cs_MaintenanceWindow req,
      sch_Enabled = (case cs_Enabled req of None \<Rightarrow> True | Some b \<Rightarrow> b),
      sch_NextRunAt = None, sch_LastRunAt = None, sch_LastRunStatus = None, sch_LastScanID = None,
      sch_CreatedAt = zero_time, sch_UpdatedAt = zero_time\<rparr>"

definition createSchedule ::
  "'r env \<Rightarrow> (nat \<Rightarrow> string) \<Rightarrow> CreateScheduleRequest option \<Rightarrow> 'r server \<Rightarrow> ScheduleResponse response \<times> 'r server" where
  "createSchedule en fresh body sv =
     (case body of
        None \<Rightarrow> (invalid_json, sv)
      | Some req \<Rightarrow>
          let d = sv_db sv; fe = validateCreateScheduleRequest req in
          if fe \<noteq> [] then (writeProblem 400 ''/problems/validation'' ''Required fields missing'' fe, sv)
          else case ValidateRRule (en_lib en) (en_now en) (cs_RRule req) of
            Inl e \<Rightarrow> (invalid_rrule ''rrule'' e, sv)
          | Inr _ \<Rightarrow>
              let sched = schedule_of_request req in
              if GetTarget d (cs_TargetID req) = None then (target_missing, sv)
              else case named_template d (cs_TemplateID req) of
                Inl _ \<Rightarrow> (template_missing, sv)
              | Inr tmpl \<Rightarrow>
                  (case overlapCheck en sched tmpl (cs_EstimatedDurationSeconds req) d of
                     Inl _ \<Rightarrow> (writeProblem 500 ''/problems/store'' ''Overlap check failed'' [], sv)
                   | Inr fe \<Rightarrow>
                       if fe \<noteq> [] then
                         (writeProblem 422 ''/problems/overlap'' ''Schedule overlaps with existing schedules'' fe, sv)
                       else case sched_Create (en_lib en) (en_now en) (fresh 0) sched d of
                         Inl e \<Rightarrow>
                           (if e = ErrAlreadyExists
                            then writeProblem 409 ''/problems/already-exists''
                              ''Schedule with that name already exists for the target'' []
                            else writeProblem 422 ''/problems/validation'' ''Create failed'' [], sv)
                       | Inr d' \<Rightarrow>
                           (case refreshNextRun en (sched_prepared (en_now en) (fresh 0) sched) tmpl (sv\<lparr>sv_db := d'\<rparr>) of
                              (sched, sv) \<Rightarrow>
                                (Reply 201 (toScheduleResponse sched), cascadeForTemplate en (sch_TemplateID sched) sv))))"

section \<open>Updating\<close>

definition upd :: "'a option \<Rightarrow> 'a \<Rightarrow> 'a" where
  "upd v old = (case v of None \<Rightarrow> old | Some x \<Rightarrow> x)"

definition apply_schedule_update :: "UpdateScheduleRequest \<Rightarrow> Schedule \<Rightarrow> Schedule" where
  "apply_schedule_update req cur =
     cur\<lparr>sch_Name := upd (us_Name req) (sch_Name cur),
         sch_RRule := upd (us_RRule req) (sch_RRule cur),
         sch_DTStart := upd (us_DTStart req) (sch_DTStart cur),
         sch_Timezone := upd (us_Timezone req) (sch_Timezone cur),
         sch_TemplateID := (if us_ClearTemplate req then None
           else case us_TemplateID req of None \<Rightarrow> sch_TemplateID cur | Some t \<Rightarrow> Some t),
         sch_ToolConfig := upd (us_ToolConfig req) (sch_ToolConfig cur),
         sch_Overrides := upd (us_Overrides req) (sch_Overrides cur),
         sch_MaintenanceWindow := (if us_ClearMaintenanceWindow req then None
           else case us_MaintenanceWindow req of None \<Rightarrow> sch_MaintenanceWindow cur | Some w \<Rightarrow> Some w),
         sch_Enabled := upd (us_Enabled req) (sch_Enabled cur)\<rparr>"

definition updateSchedule ::
  "'r env \<Rightarrow> string \<Rightarrow> UpdateScheduleRequest option \<Rightarrow> 'r server \<Rightarrow> ScheduleResponse response \<times> 'r server" where
  "updateSchedule en i body sv =
     (case body of
        None \<Rightarrow> (invalid_json, sv)
      | Some req \<Rightarrow>
          let d = sv_db sv in
          case sched_Get d i of
            None \<Rightarrow> (schedule_not_found, sv)
          | Some old \<Rightarrow>
              let cur = apply_schedule_update req old in
              (case ValidateRRule (en_lib en) (en_now en) (sch_RRule cur) of
                 Inl e \<Rightarrow> (invalid_rrule ''rrule'' e, sv)
               | Inr _ \<Rightarrow>
                   (case named_template d (sch_TemplateID cur) of
                      Inl _ \<Rightarrow> (template_missing, sv)
                    | Inr tmpl \<Rightarrow>
                        (case overlapCheck en cur tmpl (us_EstimatedDurationSeconds req) d of
                           Inl _ \<Rightarrow> (writeProblem 500 ''/problems/store'' ''Overlap check failed'' [], sv)
                         | Inr fe \<Rightarrow>
                             if fe \<noteq> [] then
                               (writeProblem 422 ''/problems/overlap'' ''Schedule overlaps with existing schedules'' fe, sv)
                             else case sched_Update (en_lib en) (en_now en) cur d of
                               Inl _ \<Rightarrow> (writeProblem 422 ''/problems/validation'' ''Update failed'' [], sv)
                             | Inr d' \<Rightarrow>
                                 (case refreshNextRun en (cur\<lparr>sch_UpdatedAt := en_now en\<rparr>) tmpl (sv\<lparr>sv_db := d'\<rparr>) of
                                    (cur, sv) \<Rightarrow>
                                      (Reply 200 (toScheduleResponse cur),
                                       cascadeForTemplate en (sch_TemplateID cur) sv))))))"

definition deleteSchedule :: "'r env \<Rightarrow> string \<Rightarrow> 'r server \<Rightarrow> ScheduleResponse response \<times> 'r server" where
  "deleteSchedule en i sv =
     (case sched_Get (sv_db sv) i of
        None \<Rightarrow> (schedule_not_found, sv)
      | Some cur \<Rightarrow>
          (case sched_Delete i (sv_db sv) of
             Inl _ \<Rightarrow> (writeProblem 500 ''/problems/store'' ''Delete failed'' [], sv)
           | Inr d \<Rightarrow> (NoContent, cascadeForTemplate en (sch_TemplateID cur) (sv\<lparr>sv_db := d\<rparr>))))"

text \<open>Pause and resume.\<close>

definition setScheduleEnabled ::
  "'r env \<Rightarrow> string \<Rightarrow> bool \<Rightarrow> 'r server \<Rightarrow> ScheduleResponse response \<times> 'r server" where
  "setScheduleEnabled en i enabled sv =
     (case sched_Get (sv_db sv) i of
        None \<Rightarrow> (schedule_not_found, sv)
      | Some cur \<Rightarrow>
          if sch_Enabled cur \<noteq> enabled then
            (let cur = cur\<lparr>sch_Enabled := enabled\<rparr> in
             case sched_Update (en_lib en) (en_now en) cur (sv_db sv) of
               Inl _ \<Rightarrow> (writeProblem 500 ''/problems/store'' ''Pause/resume failed'' [], sv)
             | Inr d \<Rightarrow> (Reply 200 (toScheduleResponse (cur\<lparr>sch_UpdatedAt := en_now en\<rparr>)), sv\<lparr>sv_db := d\<rparr>))
          else (Reply 200 (toScheduleResponse cur), sv))"

section \<open>Bulk operations\<close>

datatype BulkOperation = BulkPause | BulkResume | BulkDelete | BulkClone | BulkUnknown string

record BulkScheduleRequest =
  bk_Operation :: BulkOperation
  bk_ScheduleIDs :: "string list"
  bk_CreateTemplate :: "CreateScheduleRequest option"

record BulkScheduleResponse =
  br_Operation :: BulkOperation
  br_Succeeded :: "string list"
  br_Failed :: "string list"

text \<open>The rows and the set of affected templates, which an item of the transaction updates.\<close>

type_synonym bulk_state = "string list \<times> db"

definition mark_template :: "string option \<Rightarrow> string list \<Rightarrow> string list" where
  "mark_template t templates = (case nullableString t of None \<Rightarrow> templates | Some i \<Rightarrow> add_key i templates)"

definition bulkToggle :: "'r env \<Rightarrow> string \<Rightarrow> bool \<Rightarrow> bulk_state \<Rightarrow> (store_error, bulk_state) result" where
  "bulkToggle en i enabled st =
     (case st of (templates, d) \<Rightarrow>
        (case sched_Get d i of
           None \<Rightarrow> Inl ErrNotFound
         | Some s \<Rightarrow>
             let templates = mark_template (sch_TemplateID s) templates in
             if sch_Enabled s = enabled then Inr (templates, d)
             else (case sched_Update (en_lib en) (en_now en) (s\<lparr>sch_Enabled := enabled\<rparr>) d of
                     Inl e \<Rightarrow> Inl e
                   | Inr d \<Rightarrow> Inr (templates, d))))"

definition bulkDelete :: "string \<Rightarrow> bulk_state \<Rightarrow> (store_error, bulk_state) result" where
  "bulkDelete i st =
     (case st of (templates, d) \<Rightarrow>
        (case sched_Get d i of
           None \<Rightarrow> Inl ErrNotFound
         | Some s \<Rightarrow>
             (case sched_Delete i d of
                Inl e \<Rightarrow> Inl e
              | Inr d \<Rightarrow> Inr (mark_template (sch_TemplateID s) templates, d))))"

definition clone_of :: "CreateScheduleRequest \<Rightarrow> Schedule \<Rightarrow> Schedule" where
  "clone_of tpl src =
     \<lparr>sch_ID = [], sch_TargetID = sch_TargetID src,
      sch_Name = (if cs_Name tpl = [] then sch_Name src @ ''-clone'' else cs_Name tpl),
      sch_RRule = (if cs_RRule tpl = [] then sch_RRule src else cs_RRule tpl),
      sch_DTStart = cs_DTStart tpl,
      sch_Timezone = (if cs_Timezone tpl = [] then sch_Timezone src else cs_Timezone tpl),
      sch_TemplateID = sch_TemplateID src, sch_ToolConfig = sch_ToolConfig src,
      sch_Overrides = mergeOverrides (sch_Overrides src) (cs_RRule tpl \<noteq> []) (cs_Timezone tpl \<noteq> [])
        (sch_MaintenanceWindow src \<noteq> None),
      sch_MaintenanceWindow = sch_MaintenanceWindow src, sch_Enabled = True,
      sch_NextRunAt = None, sch_LastRunAt = None, sch_LastRunStatus = None, sch_LastScanID = None,
      sch_CreatedAt = zero_time, sch_UpdatedAt = zero_time\<rparr>"

definition bulkClone ::
  "'r env \<Rightarrow> string \<Rightarrow> string \<Rightarrow> CreateScheduleRequest \<Rightarrow> bulk_state \<Rightarrow> (store_error, bulk_state) result" where
  "bulkClone en fresh srcID tpl st =
     (case st of (templates, d) \<Rightarrow>
        (case sched_Get d srcID of
           None \<Rightarrow> Inl ErrNotFound
         | Some src \<Rightarrow>
             (case sched_Create (en_lib en) (en_now en) fresh (clone_of tpl src) d of
                Inl e \<Rightarrow> Inl e
              | Inr d \<Rightarrow> Inr (mark_template (sch_TemplateID src) templates, d))))"

definition bulk_item ::
  "'r env \<Rightarrow> string \<Rightarrow> BulkScheduleRequest \<Rightarrow> string \<Rightarrow> bulk_state \<Rightarrow> (store_error, bulk_state) result" where
  "bulk_item en fresh req i st =
     (case bk_Operation req of
        BulkPause \<Rightarrow> bulkToggle en i False st
      | BulkResume \<Rightarrow> bulkToggle en i True st
      | BulkDelete \<Rightarrow> bulkDelete i st
      | BulkClone \<Rightarrow> (case bk_CreateTemplate req of None \<Rightarrow> Inr st | Some tpl \<Rightarrow> bulkClone en fresh i tpl st)
      | BulkUnknown _ \<Rightarrow> Inr st)"

text \<open>The loop of the transaction: a missing row is reported, any other error ends it.\<close>

fun bulk_loop ::
  "'r env \<Rightarrow> (nat \<Rightarrow> string) \<Rightarrow> nat \<Rightarrow> BulkScheduleRequest \<Rightarrow> string list \<Rightarrow> string list \<Rightarrow> string list \<Rightarrow> bulk_state
   \<Rightarrow> (store_error, (string list \<times> string list \<times> string list) \<times> db) result" where
  "bulk_loop en fresh k req [] succeeded failed (templates, d) = Inr ((succeeded, failed, templates), d)"
| "bulk_loop en fresh k req (i # is) succeeded failed (templates, d) =
     (case bulk_item en (fresh k) req i (templates, d) of
        Inr st \<Rightarrow> bulk_loop en fresh (Suc k) req is (succeeded @ [i]) failed st
      | Inl e \<Rightarrow>
          if e = ErrNotFound then bulk_loop en fresh (Suc k) req is succeeded (failed @ [i]) (templates, d)
          else Inl e)"

definition routeBulkSchedules ::
  "'r env \<Rightarrow> (nat \<Rightarrow> string) \<Rightarrow> BulkScheduleRequest option \<Rightarrow> 'r server \<Rightarrow> BulkScheduleResponse response \<times> 'r server" where
  "routeBulkSchedules en fresh body sv =
     (case body of
        None \<Rightarrow> (invalid_json, sv)
      | Some req \<Rightarrow>
          if bk_ScheduleIDs req = [] then (writeProblem 400 ''/problems/validation'' ''Empty schedule_ids'' [], sv)
          else if (case bk_Operation req of BulkUnknown _ \<Rightarrow> True | _ \<Rightarrow> False)
          then (writeProblem 400 ''/problems/validation'' ''Unknown operation'' [], sv)
          else if bk_Operation req = BulkClone \<and> bk_CreateTemplate req = None
          then (writeProblem 400 ''/problems/validation'' ''create_template required for clone'' [], sv)
          else case (if bk_Operation req = BulkClone
                     then (case bk_CreateTemplate req of None \<Rightarrow> Inr None
                           | Some tpl \<Rightarrow> ValidateRRule (en_lib en) (en_now en) (cs_RRule tpl))
                     else Inr None) of
            Inl e \<Rightarrow> (invalid_rrule ''create_template.rrule'' e, sv)
          | Inr _ \<Rightarrow>
              (case Transact (\<lambda>d. bulk_loop en fresh 0 req (bk_ScheduleIDs req) [] [] ([], d)) (sv_db sv) of
                 (Inl _, d) \<Rightarrow>
                   (writeProblem 500 ''/problems/bulk-failed'' ''Bulk operation failed, all changes rolled back'' [],
                    sv\<lparr>sv_db := d\<rparr>)
               | (Inr (succeeded, failed, templates), d) \<Rightarrow>
                   (Reply 200 \<lparr>br_Operation = bk_Operation req, br_Succeeded = succeeded, br_Failed = failed\<rparr>,
                    fold (recompute_template en) templates (sv\<lparr>sv_db := d\<rparr>))))"

end
