(* ===== verification/ApiConfig.thy ===== *)
theory ApiConfig
  imports Api
begin

text \<open>
  The REST API, second part: templates, blackouts, schedule defaults, ad-hoc runs, the calendar
  of upcoming runs and the tool schemas (\<open>internal/api/v1/templates.go\<close>, \<open>blackouts.go\<close>,
  \<open>defaults.go\<close>, \<open>adhoc.go\<close>, \<open>upcoming.go\<close>, \<open>schemas.go\<close>). The conventions are those of \<open>Api\<close>.
  The instant and the duration of a query arrive parsed.
\<close>

section \<open>Templates\<close>

definition maxDependentIDsInFieldError :: nat where "maxDependentIDsInFieldError = 10"

record TemplateResponse =
  te_ID :: string
  te_Name :: string
  te_Description :: string
  te_RRule :: string
  te_Timezone :: string
  te_ToolConfig :: ToolConfig
  te_MaintenanceWindow :: "MaintenanceWindow option"
  te_IsSystem :: bool
  te_CreatedAt :: time
  te_UpdatedAt :: time

definition toTemplateResponse :: "Template \<Rightarrow> TemplateResponse" where
  "toTemplateResponse t =
     \<lparr>te_ID = tm_ID t, te_Name = tm_Name t, te_Description = tm_Description t, te_RRule = tm_RRule t,
      te_Timezone = tm_Timezone t, te_ToolConfig = tm_ToolConfig t, te_MaintenanceWindow = tm_MaintenanceWindow t,
      te_IsSystem = tm_IsSystem t, te_CreatedAt = tm_CreatedAt t, te_UpdatedAt = tm_UpdatedAt t\<rparr>"

record CreateTemplateRequest =
  ct_Name :: string
  ct_Description :: string
  ct_RRule :: string
  ct_Timezone :: string
  ct_ToolConfig :: ToolConfig
  ct_MaintenanceWindow :: "MaintenanceWindow option"

record UpdateTemplateRequest =
  ut_Name :: "string option"
  ut_Description :: "string option"
  ut_RRule :: "string option"
  ut_Timezone :: "string option"
  ut_ToolConfig :: "ToolConfig option"
  ut_MaintenanceWindow :: "MaintenanceWindow option"
  ut_ClearMaintenanceWindow :: bool

definition tool_field_error :: "string \<Rightarrow> string \<times> json \<Rightarrow> FieldError list" where
  "tool_field_error prefix e =
     (case map_of RegisteredToolParams (fst e) of
        None \<Rightarrow> [field_error (prefix @ ''.'' @ fst e) ''unknown tool'']
      | Some decodes \<Rightarrow>
          if decodes (snd e) then []
          else [\<lparr>fe_Field = prefix @ ''.'' @ fst e, fe_Message = ToolText (fst e)\<rparr>])"

definition validateToolConfigFields :: "ToolConfig \<Rightarrow> string \<Rightarrow> FieldError list" where
  "validateToolConfigFields tc prefix = concat (map (tool_field_error prefix) tc)"

definition template_not_found :: "'b response" where
  "template_not_found = writeProblem 404 ''/problems/not-found'' ''Template not found'' []"

definition template_immutable :: "'b response" where
  "template_immutable =
     writeProblem 409 ''/problems/system-template-immutable'' ''Built-in template cannot be deleted'' []"

definition listTemplates :: "query \<Rightarrow> db \<Rightarrow> TemplateResponse PaginatedResponse response" where
  "listTemplates q d = paginated q toTemplateResponse (tmpl_List d)"

definition getTemplate :: "string \<Rightarrow> db \<Rightarrow> TemplateResponse response" where
  "getTemplate i d =
     (case tmpl_Get d i of None \<Rightarrow> template_not_found | Some t \<Rightarrow> Reply 200 (toTemplateResponse t))"

definition template_of_request :: "CreateTemplateRequest \<Rightarrow> Template" where
  "template_of_request req =
     \<lparr>tm_ID = [], tm_Name = ct_Name req, tm_Description = ct_Description req, tm_RRule = ct_RRule req,
      tm_Timezone = (if ct_Timezone req = [] then ''UTC'' else ct_Timezone req), tm_ToolConfig = ct_ToolConfig req,
      tm_MaintenanceWindow = ct_MaintenanceWindow req, tm_IsSystem = False,
      tm_CreatedAt = zero_time, tm_UpdatedAt = zero_time\<rparr>"

definition createTemplate ::
  "'r env \<Rightarrow> (nat \<Rightarrow> string) \<Rightarrow> CreateTemplateRequest option \<Rightarrow> 'r server \<Rightarrow> TemplateResponse response \<times> 'r server" where
  "createTemplate en fresh body sv =
     (case body of
        None \<Rightarrow> (invalid_json, sv)
      | Some req \<Rightarrow>
          if TrimSpace (ct_Name req) = []
          then (writeProblem 400 ''/problems/validation'' ''Required fields missing'' [field_error ''name'' ''required''], sv)
          else if TrimSpace (ct_RRule req) = []
          then (writeProblem 400 ''/problems/validation'' ''Required fields missing'' [field_error ''rrule'' ''required''], sv)
          else case ValidateRRule (en_lib en) (en_now en) (ct_RRule req) of
            Inl e \<Rightarrow> (invalid_rrule ''rrule'' e, sv)
          | Inr _ \<Rightarrow>
              let fe = validateToolConfigFields (ct_ToolConfig req) ''tool_config'' in
              if fe \<noteq> [] then (writeProblem 422 ''/problems/validation'' ''Invalid tool_config'' fe, sv)
              else
                let tmpl = template_of_request req in
                case tmpl_Create (en_lib en) (en_now en) (fresh 0) tmpl (sv_db sv) of
                  Inl e \<Rightarrow>
                    (if e = ErrAlreadyExists
                     then writeProblem 409 ''/problems/already-exists'' ''Template name taken'' []
                     else writeProblem 422 ''/problems/validation'' ''Create failed'' [], sv)
                | Inr d \<Rightarrow>
                    (Reply 201 (toTemplateResponse (tmpl_prepared (en_now en) (fresh 0) tmpl)), sv\<lparr>sv_db := d\<rparr>))"

definition apply_template_update :: "UpdateTemplateRequest \<Rightarrow> Template \<Rightarrow> Template" where
  "apply_template_update req cur =
     cur\<lparr>tm_Name := upd (ut_Name req) (tm_Name cur),
         tm_Description := upd (ut_Description req) (tm_Description cur),
         tm_RRule := upd (ut_RRule req) (tm_RRule cur),
         tm_Timezone := upd (ut_Timezone req) (tm_Timezone cur),
         tm_ToolConfig := upd (ut_ToolConfig req) (tm_ToolConfig cur),
         tm_MaintenanceWindow := (if ut_ClearMaintenanceWindow req then None
           else case ut_MaintenanceWindow req of None \<Rightarrow> tm_MaintenanceWindow cur | Some w \<Rightarrow> Some w)\<rparr>"

definition updateTemplate ::
  "'r env \<Rightarrow> string \<Rightarrow> UpdateTemplateRequest option \<Rightarrow> 'r server \<Rightarrow> TemplateResponse response \<times> 'r server" where
  "updateTemplate en i body sv =
     (case body of
        None \<Rightarrow> (invalid_json, sv)
      | Some req \<Rightarrow>
          (case tmpl_Get (sv_db sv) i of
             None \<Rightarrow> (template_not_found, sv)
           | Some old \<Rightarrow>
               let cur = apply_template_update req old in
               (case ValidateRRule (en_lib en) (en_now en) (tm_RRule cur) of
                  Inl e \<Rightarrow> (invalid_rrule ''rrule'' e, sv)
                | Inr _ \<Rightarrow>
                    let fe = validateToolConfigFields (tm_ToolConfig cur) ''tool_config'' in
                    if fe \<noteq> [] then (writeProblem 422 ''/problems/validation'' ''Invalid tool_config'' fe, sv)
                    else case tmpl_Update (en_lib en) (en_now en) cur (sv_db sv) of
                      Inl _ \<Rightarrow> (writeProblem 422 ''/problems/validation'' ''Update failed'' [], sv)
                    | Inr d \<Rightarrow>
                        (Reply 200 (toTemplateResponse (cur\<lparr>tm_UpdatedAt := en_now en\<rparr>)),
                         recompute_template en (tm_ID cur) (sv\<lparr>sv_db := d\<rparr>)))))"

text \<open>The identifiers echoed in a refusal: at most ten, then a count of the rest.\<close>

definition dependents_errors :: "Schedule list \<Rightarrow> FieldError list" where
  "dependents_errors dependents =
     map (\<lambda>s. field_error ''dependents'' (sch_ID s)) (take maxDependentIDsInFieldError dependents)
     @ (if length dependents > maxDependentIDsInFieldError
        then [field_error ''dependents''
          (''... and '' @ Itoa (int (length dependents - maxDependentIDsInFieldError)) @ '' more'')]
        else [])"

definition delete_failed :: "store_error \<Rightarrow> 'b response" where
  "delete_failed e =
     (if e = ErrNotFound then template_not_found
      else if e = ErrSystemTemplateImmutable then template_immutable
      else writeProblem 500 ''/problems/store'' ''Delete failed'' [])"

definition deleteTemplate :: "string \<Rightarrow> bool \<Rightarrow> 'r server \<Rightarrow> TemplateResponse response \<times> 'r server" where
  "deleteTemplate i force sv =
     (let d = sv_db sv in
      if (case tmpl_Get d i of None \<Rightarrow> False | Some t \<Rightarrow> tm_IsSystem t) then (template_immutable, sv)
      else
        let dependents = sched_ListByTemplate d i in
        if dependents \<noteq> [] \<and> \<not> force
        then (writeProblem 409 ''/problems/template-in-use''
          ''Template is still referenced by schedules; pass ?force=true to cascade delete''
          (dependents_errors dependents), sv)
        else if force \<and> dependents \<noteq> [] then
          (case Transact (\<lambda>d. case foldR sched_Delete (map sch_ID dependents) d of
                   Inl e \<Rightarrow> Inl e
                 | Inr d \<Rightarrow> (case tmpl_Delete i d of Inl e \<Rightarrow> Inl e | Inr d \<Rightarrow> Inr ((), d))) d of
             (Inl e, d) \<Rightarrow> (delete_failed e, sv\<lparr>sv_db := d\<rparr>)
           | (Inr _, d) \<Rightarrow> (NoContent, sv\<lparr>sv_db := d\<rparr>))
        else
          (case tmpl_Delete i d of
             Inl e \<Rightarrow> (delete_failed e, sv)
           | Inr d \<Rightarrow> (NoContent, sv\<lparr>sv_db := d\<rparr>)))"

section \<open>Blackouts\<close>

definition maxBlackoutDurationSeconds :: int where "maxBlackoutDurationSeconds = 7 * 24 * 60 * 60"

record BlackoutResponse =
  bp_ID :: string
  bp_Scope :: BlackoutScope
  bp_TargetID :: "string option"
  bp_Name :: string
  bp_RRule :: string
  bp_DurationSeconds :: int
  bp_Timezone :: string
  bp_Enabled :: bool
  bp_CreatedAt :: time
  bp_UpdatedAt :: time

definition toBlackoutResponse :: "BlackoutWindow \<Rightarrow> BlackoutResponse" where
  "toBlackoutResponse b =
     \<lparr>bp_ID = bo_ID b, bp_Scope = bo_Scope b, bp_TargetID = bo_TargetID b, bp_Name = bo_Name b,
      bp_RRule = bo_RRule b, bp_DurationSeconds = bo_DurationSec b, bp_Timezone = bo_Timezone b,
      bp_Enabled = bo_Enabled b, bp_CreatedAt = bo_CreatedAt b, bp_UpdatedAt = bo_UpdatedAt b\<rparr>"

text \<open>A request may carry any text as the scope.\<close>

definition scope_of :: "string \<Rightarrow> BlackoutScope option" where
  "scope_of s = (if s = ''global'' then Some BlackoutScopeGlobal
     else if s = ''target'' then Some BlackoutScopeTarget else None)"

record CreateBlackoutRequest =
  cb_Scope :: string
  cb_TargetID :: "string option"
  cb_Name :: string
  cb_RRule :: string
  cb_DurationSeconds :: int
  cb_Timezone :: string
  cb_Enabled :: "bool option"

record UpdateBlackoutRequest =
  ub_Scope :: "string option"
  ub_TargetID :: "string option"
  ub_ClearTarget :: bool
  ub_Name :: "string option"
  ub_RRule :: "string option"
  ub_DurationSeconds :: "int option"
  ub_Timezone :: "string option"
  ub_Enabled :: "bool option"

definition scope_errors :: "string \<Rightarrow> string option \<Rightarrow> FieldError list" where
  "scope_errors s targetID =
     (case scope_of s of
        Some BlackoutScopeGlobal \<Rightarrow>
          (if nullableString targetID \<noteq> None then [field_error ''target_id'' ''must be unset for global scope''] else [])
      | Some BlackoutScopeTarget \<Rightarrow>
          (if nullableString targetID = None then [field_error ''target_id'' ''required for target scope''] else [])
      | None \<Rightarrow> [field_error ''scope'' (''must be '' @ [CHR 0x27] @ ''global'' @ [CHR 0x27] @ '' or '' @ [CHR 0x27] @ ''target'' @ [CHR 0x27])])"

definition validateBlackoutCreate :: "CreateBlackoutRequest \<Rightarrow> FieldError list" where
  "validateBlackoutCreate req =
     (if TrimSpace (cb_Name req) = [] then [field_error ''name'' ''required''] else [])
     @ (if TrimSpace (cb_RRule req) = [] then [field_error ''rrule'' ''required''] else [])
     @ (if cb_DurationSeconds req \<le> 0 \<or> cb_DurationSeconds req > maxBlackoutDurationSeconds
        then [field_error ''duration_seconds'' ''must be > 0 and <= 7 days''] else [])
     @ scope_errors (cb_Scope req) (cb_TargetID req)"

text \<open>The filter \<open>active_at\<close>, written a second time in the API; \<open>None\<close> is its error.\<close>

definition window_rule :: "'r rrule_lib \<Rightarrow> BlackoutWindow \<Rightarrow> 'r option" where
  "window_rule lib b =
     (case LoadLocation lib (bo_Timezone b) of
        None \<Rightarrow> None
      | Some loc \<Rightarrow>
          (case StrToROption lib (bo_RRule b) of
             None \<Rightarrow> None
           | Some opt \<Rightarrow>
               NewRRule lib
                 (case ro_Dtstart opt of
                    None \<Rightarrow> opt\<lparr>ro_Dtstart := Some (bo_CreatedAt b, loc)\<rparr>
                  | Some dt \<Rightarrow> opt\<lparr>ro_Dtstart := Some (fst dt, loc)\<rparr>)))"

definition blackoutActiveAt :: "'r rrule_lib \<Rightarrow> BlackoutWindow \<Rightarrow> time \<Rightarrow> bool option" where
  "blackoutActiveAt lib b t =
     (case window_rule lib b of
        None \<Rightarrow> None
      | Some rule \<Rightarrow>
          let dur = seconds (bo_DurationSec b); lower = t - 7 * 24 * hour; upper = t + 1 in
          Some (list_ex (\<lambda>occ. (t = occ \<or> occ < t) \<and> t < occ + dur) (Between lib rule lower upper)))"

text \<open>\<open>active_at\<close> is \<open>None\<close> when the query has none, \<open>Some None\<close> when it does not parse.\<close>

definition listBlackouts ::
  "'r rrule_lib \<Rightarrow> query \<Rightarrow> time option option \<Rightarrow> db \<Rightarrow> BlackoutResponse PaginatedResponse response" where
  "listBlackouts lib q active_at d =
     (case active_at of
        None \<Rightarrow> paginated q toBlackoutResponse (bo_List d)
      | Some None \<Rightarrow> writeProblem 400 ''/problems/invalid-query'' ''Invalid active_at'' []
      | Some (Some instant) \<Rightarrow>
          paginated q toBlackoutResponse
            (filter (\<lambda>b. bo_Enabled b \<and> blackoutActiveAt lib b instant = Some True) (bo_List d)))"

definition blackout_not_found :: "'b response" where
  "blackout_not_found = writeProblem 404 ''/problems/not-found'' ''Blackout not found'' []"

definition getBlackout :: "string \<Rightarrow> db \<Rightarrow> BlackoutResponse response" where
  "getBlackout i d =
     (case bo_Get d i of None \<Rightarrow> blackout_not_found | Some b \<Rightarrow> Reply 200 (toBlackoutResponse b))"

definition blackout_of_request :: "CreateBlackoutRequest \<Rightarrow> BlackoutScope \<Rightarrow> BlackoutWindow" where
  "blackout_of_request req sc =
     \<lparr>bo_ID = [], bo_Scope = sc, bo_TargetID = cb_TargetID req, bo_Name = cb_Name req, bo_RRule = cb_RRule req,
      bo_DurationSec = cb_DurationSeconds req,
      bo_Timezone = (if cb_Timezone req = [] then ''UTC'' else cb_Timezone req),
      bo_Enabled = (case cb_Enabled req of None \<Rightarrow> True | Some b \<Rightarrow> b),
      bo_CreatedAt = zero_time, bo_UpdatedAt = zero_time\<rparr>"

definition createBlackout ::
  "'r env \<Rightarrow> (nat \<Rightarrow> string) \<Rightarrow> CreateBlackoutRequest option \<Rightarrow> 'r server \<Rightarrow> BlackoutResponse response \<times> 'r server" where
  "createBlackout en fresh body sv =
     (case body of
        None \<Rightarrow> (invalid_json, sv)
      | Some req \<Rightarrow>
          let req = (if cb_Scope req = [] then req\<lparr>cb_Scope := ''global''\<rparr> else req);
              fe = validateBlackoutCreate req in
          if fe \<noteq> [] then (writeProblem 400 ''/problems/validation'' ''Required fields missing'' fe, sv)
          else case ValidateRRule (en_lib en) (en_now en) (cb_RRule req) of
            Inl e \<Rightarrow> (invalid_rrule ''rrule'' e, sv)
          | Inr _ \<Rightarrow>
              (case scope_of (cb_Scope req) of
                 None \<Rightarrow> (writeProblem 422 ''/problems/validation'' ''Create failed'' [], sv)
               | Some sc \<Rightarrow>
                   let b = blackout_of_request req sc in
                   (case bo_Create (en_lib en) (en_now en) (fresh 0) b (sv_db sv) of
                      Inl _ \<Rightarrow> (writeProblem 422 ''/problems/validation'' ''Create failed'' [], sv)
                    | Inr d \<Rightarrow>
                        (Reply 201 (toBlackoutResponse (bo_prepared (en_now en) (fresh 0) b)), sv\<lparr>sv_db := d\<rparr>))))"

definition apply_blackout_update :: "UpdateBlackoutRequest \<Rightarrow> BlackoutWindow \<Rightarrow> BlackoutWindow" where
  "apply_blackout_update req cur =
     cur\<lparr>bo_TargetID := (if ub_ClearTarget req then None
           else case ub_TargetID req of None \<Rightarrow> bo_TargetID cur | Some t \<Rightarrow> Some t),
         bo_Name := upd (ub_Name req) (bo_Name cur),
         bo_RRule := upd (ub_RRule req) (bo_RRule cur),
         bo_DurationSec := upd (ub_DurationSeconds req) (bo_DurationSec cur),
         bo_Timezone := upd (ub_Timezone req) (bo_Timezone cur),
         bo_Enabled := upd (ub_Enabled req) (bo_Enabled cur)\<rparr>"

text \<open>The scope of the request is checked by the store only.\<close>

definition updateBlackout ::
  "'r env \<Rightarrow> string \<Rightarrow> UpdateBlackoutRequest option \<Rightarrow> 'r server \<Rightarrow> BlackoutResponse response \<times> 'r server" where
  "updateBlackout en i body sv =
     (case body of
        None \<Rightarrow> (invalid_json, sv)
      | Some req \<Rightarrow>
          (case bo_Get (sv_db sv) i of
             None \<Rightarrow> (blackout_not_found, sv)
           | Some old \<Rightarrow>
               let cur = apply_blackout_update req old in
               if bo_DurationSec cur \<le> 0 \<or> bo_DurationSec cur > maxBlackoutDurationSeconds
               then (writeProblem 422 ''/problems/validation'' ''Invalid duration''
                       [field_error ''duration_seconds'' ''must be > 0 and <= 7 days''], sv)
               else case ValidateRRule (en_lib en) (en_now en) (bo_RRule cur) of
                 Inl e \<Rightarrow> (invalid_rrule ''rrule'' e, sv)
               | Inr _ \<Rightarrow>
                   (case (case ub_Scope req of None \<Rightarrow> Some (bo_Scope old) | Some s \<Rightarrow> scope_of s) of
                      None \<Rightarrow> (writeProblem 422 ''/problems/validation'' ''Update failed'' [], sv)
                    | Some sc \<Rightarrow>
                        let cur = cur\<lparr>bo_Scope := sc\<rparr> in
                        (case bo_Update (en_lib en) (en_now en) cur (sv_db sv) of
                           Inl _ \<Rightarrow> (writeProblem 422 ''/problems/validation'' ''Update failed'' [], sv)
                         | Inr d \<Rightarrow>
                             (Reply 200 (toBlackoutResponse (cur\<lparr>bo_UpdatedAt := en_now en\<rparr>)), sv\<lparr>sv_db := d\<rparr>)))))"

definition deleteBlackout :: "string \<Rightarrow> 'r server \<Rightarrow> BlackoutResponse response \<times> 'r server" where
  "deleteBlackout i sv =
     (case bo_Delete i (sv_db sv) of
        Inl e \<Rightarrow> (if e = ErrNotFound then blackout_not_found
                  else writeProblem 500 ''/problems/store'' ''Delete failed'' [], sv)
      | Inr d \<Rightarrow> (NoContent, sv\<lparr>sv_db := d\<rparr>))"

section \<open>Schedule defaults\<close>

record ScheduleDefaultsResponse =
  dr_DefaultTemplateID :: "string option"
  dr_DefaultRRule :: string
  dr_DefaultTimezone :: string
  dr_DefaultToolConfig :: ToolConfig
  dr_DefaultMaintenanceWindow :: "MaintenanceWindow option"
  dr_MaxConcurrentScans :: int
  dr_RunOnStart :: bool
  dr_JitterSeconds :: int
  dr_UpdatedAt :: time

definition DefaultDefaults :: ScheduleDefaultsResponse where
  "DefaultDefaults = \<lparr>dr_DefaultTemplateID = None, dr_DefaultRRule = ''FREQ=DAILY;BYHOUR=2'',
     dr_DefaultTimezone = ''UTC'', dr_DefaultToolConfig = [], dr_DefaultMaintenanceWindow = None,
     dr_MaxConcurrentScans = 4, dr_RunOnStart = False, dr_JitterSeconds = 60, dr_UpdatedAt = zero_time\<rparr>"

definition toDefaultsResponse :: "ScheduleDefaults \<Rightarrow> ScheduleDefaultsResponse" where
  "toDefaultsResponse x =
     \<lparr>dr_DefaultTemplateID = sd_DefaultTemplateID x, dr_DefaultRRule = sd_DefaultRRule x,
      dr_DefaultTimezone = sd_DefaultTimezone x, dr_DefaultToolConfig = sd_DefaultToolConfig x,
      dr_DefaultMaintenanceWindow = sd_DefaultMaintenanceWindow x,
      dr_MaxConcurrentScans = sd_MaxConcurrentScans x, dr_RunOnStart = sd_RunOnStart x,
      dr_JitterSeconds = sd_JitterSeconds x, dr_UpdatedAt = sd_UpdatedAt x\<rparr>"

definition getScheduleDefaults :: "db \<Rightarrow> ScheduleDefaultsResponse response" where
  "getScheduleDefaults d =
     (case def_Get d of
        Inl e \<Rightarrow> (if e = ErrNotFound then Reply 200 DefaultDefaults
                  else writeProblem 500 ''/problems/store'' ''Loading defaults failed'' [])
      | Inr x \<Rightarrow> Reply 200 (toDefaultsResponse x))"

text \<open>The body of the replacement has the fields of the row except its stamp.\<close>

definition validateDefaultsRequest :: "'r rrule_lib \<Rightarrow> ScheduleDefaults \<Rightarrow> FieldError list" where
  "validateDefaultsRequest lib req =
     (if sd_MaxConcurrentScans req < 1 then [field_error ''max_concurrent_scans'' ''must be >= 1''] else [])
     @ (if sd_JitterSeconds req < 0 then [field_error ''jitter_seconds'' ''must be >= 0''] else [])
     @ (if sd_DefaultTimezone req \<noteq> [] \<and> LoadLocation lib (sd_DefaultTimezone req) = None
        then [\<lparr>fe_Field = ''default_timezone'', fe_Message = ZoneText (sd_DefaultTimezone req)\<rparr>] else [])"

definition putScheduleDefaults ::
  "'r env \<Rightarrow> ScheduleDefaults option \<Rightarrow> 'r server \<Rightarrow> ScheduleDefaultsResponse response \<times> 'r server" where
  "putScheduleDefaults en body sv =
     (case body of
        None \<Rightarrow> (invalid_json, sv)
      | Some req \<Rightarrow>
          let fe = validateDefaultsRequest (en_lib en) req in
          if fe \<noteq> [] then (writeProblem 422 ''/problems/validation'' ''Invalid defaults'' fe, sv)
          else
            let fe = validateToolConfigFields (sd_DefaultToolConfig req) ''default_tool_config'' in
            if fe \<noteq> [] then (writeProblem 422 ''/problems/validation'' ''Invalid default_tool_config'' fe, sv)
            else case def_Update (en_now en) req (sv_db sv) of
              Inl _ \<Rightarrow> (writeProblem 500 ''/problems/store'' ''Update failed'' [], sv)
            | Inr d \<Rightarrow>
                (Reply 200 (toDefaultsResponse (req\<lparr>sd_UpdatedAt := en_now en\<rparr>)),
                 fold (\<lambda>t. recompute_template en (tm_ID t)) (tmpl_List d) (sv\<lparr>sv_db := d\<rparr>)))"

section \<open>Ad-hoc runs\<close>

record CreateAdHocRequest =
  ca_TargetID :: string
  ca_TemplateID :: "string option"
  ca_ToolConfigOverride :: ToolConfig
  ca_RequestedBy :: string
  ca_Reason :: string
  ca_Name :: string

record CreateAdHocResponse =
  cr_AdHocRunID :: string
  cr_ScanID :: string

definition adhoc_of_request :: "time \<Rightarrow> CreateAdHocRequest \<Rightarrow> AdHocScanRun" where
  "adhoc_of_request now req =
     \<lparr>ah_ID = [], ah_TargetID = ca_TargetID req, ah_TemplateID = ca_TemplateID req,
      ah_ToolConfig = ca_ToolConfigOverride req,
      ah_InitiatedBy = (if ca_RequestedBy req = [] then ''api:ad-hoc'' else ca_RequestedBy req),
      ah_Reason = ca_Reason req, ah_ScanID = None, ah_Status = AdHocPending, ah_RequestedAt = now,
      ah_StartedAt = None, ah_CompletedAt = None\<rparr>"

text \<open>The call of the dispatcher returns when the scan has ended: \<open>waited\<close> is what it then
  returns, the scan's identifier or an error. The state is the one after the hand-over to the
  pool; what happens until the reply are steps of the scheduler.\<close>

definition dispatchAdHoc ::
  "'r env \<Rightarrow> string \<Rightarrow> (unit, string) result \<Rightarrow> AdHocScanRun \<Rightarrow> 'r server
   \<Rightarrow> CreateAdHocResponse response \<times> 'r server" where
  "dispatchAdHoc en fresh waited run sv =
     (case sv_dispatcher sv of
        None \<Rightarrow>
          (writeProblem 503 ''/problems/dispatcher-unreachable'' ''Scan dispatcher not reachable from this process'' [],
           sv\<lparr>sv_db := ignore_err (ah_UpdateStatus (ah_ID run) AdHocFailed (en_now en) (sv_db sv)) (sv_db sv)\<rparr>)
      | Some s \<Rightarrow>
          (case DispatchAdHoc en fresh run (s\<lparr>sc_db := sv_db sv\<rparr>) of
             (r, s) \<Rightarrow>
               let sv = sv\<lparr>sv_db := sc_db s, sv_dispatcher := Some s\<rparr> in
               (case r of
                  Inl ErrTargetBusy \<Rightarrow>
                    (writeProblem 409 ''/problems/target-busy'' ''Target is currently running another scan'' [], sv)
                | Inl ErrInBlackout \<Rightarrow>
                    (writeProblem 409 ''/problems/in-blackout'' ''Target is inside an active blackout window'' [], sv)
                | Inl _ \<Rightarrow> (writeProblem 500 ''/problems/dispatch-failed'' ''Ad-hoc dispatch failed'' [], sv)
                | Inr _ \<Rightarrow>
                    (case waited of
                       Inl _ \<Rightarrow> (writeProblem 500 ''/problems/dispatch-failed'' ''Ad-hoc dispatch failed'' [], sv)
                     | Inr scanID \<Rightarrow> (Reply 202 \<lparr>cr_AdHocRunID = ah_ID run, cr_ScanID = scanID\<rparr>, sv)))))"

definition routeAdHoc ::
  "'r env \<Rightarrow> (nat \<Rightarrow> string) \<Rightarrow> (unit, string) result \<Rightarrow> CreateAdHocRequest option \<Rightarrow> 'r server
   \<Rightarrow> CreateAdHocResponse response \<times> 'r server" where
  "routeAdHoc en fresh waited body sv =
     (case body of
        None \<Rightarrow> (invalid_json, sv)
      | Some req \<Rightarrow>
          if TrimSpace (ca_TargetID req) = []
          then (writeProblem 400 ''/problems/validation'' ''Required fields missing'' [field_error ''target_id'' ''required''], sv)
          else if GetTarget (sv_db sv) (ca_TargetID req) = None then (target_missing, sv)
          else
            let fe = (if ca_ToolConfigOverride req \<noteq> []
                      then validateToolConfigFields (ca_ToolConfigOverride req) ''tool_config_override'' else []) in
            if fe \<noteq> [] then (writeProblem 422 ''/problems/validation'' ''Invalid tool_config_override'' fe, sv)
            else
              let run = adhoc_of_request (en_now en) req in
              case ah_Create (en_now en) (fresh 0) run (sv_db sv) of
                Inl _ \<Rightarrow> (writeProblem 500 ''/problems/store'' ''Persisting ad-hoc run failed'' [], sv)
              | Inr d \<Rightarrow>
                  dispatchAdHoc en (fresh 1) waited (ah_prepared (en_now en) (fresh 0) run) (sv\<lparr>sv_db := d\<rparr>))"

section \<open>Upcoming runs\<close>

definition defaultUpcomingHorizon :: duration where "defaultUpcomingHorizon = 24 * hour"

definition maxUpcomingHorizon :: duration where "maxUpcomingHorizon = 30 * 24 * hour"

definition maxUpcomingLimit :: int where "maxUpcomingLimit = 1000"

record UpcomingFiring =
  uf_ScheduleID :: string
  uf_TargetID :: string
  uf_TemplateID :: "string option"
  uf_FiresAt :: time

record UpcomingBlackout =
  ub_BlackoutID :: string
  ub_StartsAt :: time
  ub_EndsAt :: time

record UpcomingResponse =
  up_Items :: "UpcomingFiring list"
  up_HorizonEnd :: time
  up_BlackoutsInHorizon :: "UpcomingBlackout list"

definition loadUpcomingTemplate :: "db \<Rightarrow> string option \<Rightarrow> Template option" where
  "loadUpcomingTemplate d i = (case nullableString i of None \<Rightarrow> None | Some t \<Rightarrow> tmpl_Get d t)"

text \<open>Written a second time in the API, like the filter of blackouts; \<open>None\<close> is an error.\<close>

definition expandScheduleBetween ::
  "'r rrule_lib \<Rightarrow> Schedule \<Rightarrow> Template option \<Rightarrow> ScheduleDefaults \<Rightarrow> time \<Rightarrow> time \<Rightarrow> time list option" where
  "expandScheduleBetween lib s tmpl defaults from to' =
     (case ResolveEffectiveConfig s tmpl defaults of
        Inl _ \<Rightarrow> None
      | Inr eff \<Rightarrow>
          (case LoadLocation lib (ec_Timezone eff) of
             None \<Rightarrow> None
           | Some loc \<Rightarrow>
               (case StrToROption lib (ec_RRule eff) of
                  None \<Rightarrow> None
                | Some opt \<Rightarrow>
                    let opt = (if sch_DTStart s \<noteq> zero_time then opt\<lparr>ro_Dtstart := Some (sch_DTStart s, loc)\<rparr>
                               else case ro_Dtstart opt of
                                 Some dt \<Rightarrow> opt\<lparr>ro_Dtstart := Some (fst dt, loc)\<rparr>
                               | None \<Rightarrow> opt\<lparr>ro_Dtstart := Some (from, loc)\<rparr>)
                    in map_option (\<lambda>rule. Between lib rule from to') (NewRRule lib opt))))"

text \<open>The loop stops at the first occurrence after the horizon and drops the windows that ended
  before it.\<close>

definition blackoutOccurrencesIn ::
  "'r rrule_lib \<Rightarrow> BlackoutWindow \<Rightarrow> time \<Rightarrow> time \<Rightarrow> UpcomingBlackout list option" where
  "blackoutOccurrencesIn lib b from to' =
     (case window_rule lib b of
        None \<Rightarrow> None
      | Some rule \<Rightarrow>
          let dur = seconds (bo_DurationSec b); lower = from - 7 * 24 * hour in
          Some (concat (map (\<lambda>occ.
                  let endAt = occ + dur in
                  if endAt < from then []
                  else [\<lparr>ub_BlackoutID = bo_ID b, ub_StartsAt = occ, ub_EndsAt = endAt\<rparr>])
            (takeWhile (\<lambda>occ. occ + dur < from \<or> \<not> to' < occ) (Between lib rule lower to')))))"

definition schedule_firings ::
  "'r rrule_lib \<Rightarrow> db \<Rightarrow> time \<Rightarrow> time \<Rightarrow> Schedule \<Rightarrow> UpcomingFiring list" where
  "schedule_firings lib d now end s =
     (if \<not> sch_Enabled s then []
      else case expandScheduleBetween lib s (loadUpcomingTemplate d (sch_TemplateID s)) (defaults_or_zero d) now end of
        None \<Rightarrow> []
      | Some occs \<Rightarrow> map (\<lambda>occ. \<lparr>uf_ScheduleID = sch_ID s, uf_TargetID = sch_TargetID s,
          uf_TemplateID = sch_TemplateID s, uf_FiresAt = occ\<rparr>) occs)"

definition window_occurrences ::
  "'r rrule_lib \<Rightarrow> time \<Rightarrow> time \<Rightarrow> BlackoutWindow \<Rightarrow> UpcomingBlackout list" where
  "window_occurrences lib now end b =
     (if \<not> bo_Enabled b then []
      else case blackoutOccurrencesIn lib b now end of None \<Rightarrow> [] | Some occs \<Rightarrow> occs)"

text \<open>\<open>horizon\<close> is \<open>None\<close> when the query has none, \<open>Some None\<close> when it does not parse.\<close>

definition routeUpcoming ::
  "'r env \<Rightarrow> query \<Rightarrow> duration option option \<Rightarrow> db \<Rightarrow> UpcomingResponse response" where
  "routeUpcoming en q horizon d =
     (case (case horizon of
              None \<Rightarrow> Some defaultUpcomingHorizon
            | Some None \<Rightarrow> None
            | Some (Some h) \<Rightarrow> if h \<le> 0 then None else if h > maxUpcomingHorizon then Some maxUpcomingHorizon else Some h) of
        None \<Rightarrow> writeProblem 400 ''/problems/invalid-query'' ''Invalid horizon'' []
      | Some h \<Rightarrow>
          let lim = pg_Limit (ParsePagination q maxUpcomingLimit);
              now = en_now en; end = now + h;
              schedules = (if q ''target_id'' \<noteq> [] then sched_ListByTarget d (q ''target_id'') else sched_ListAll d);
              firings = sort_key uf_FiresAt (concat (map (schedule_firings (en_lib en) d now end) schedules));
              firings = (if int (length firings) > lim then take (nat lim) firings else firings);
              blackouts = sort_key ub_StartsAt (concat (map (window_occurrences (en_lib en) now end) (bo_List d)))
          in Reply 200 \<lparr>up_Items = firings, up_HorizonEnd = end, up_BlackoutsInHorizon = blackouts\<rparr>)"

section \<open>Tool schemas\<close>

text \<open>The embedded directory is the parameter \<open>files\<close>, from a file name to its content.\<close>

definition schemaToolNames :: "(string \<times> string) list \<Rightarrow> string list" where
  "schemaToolNames files =
     sort (map (\<lambda>n. take (length n - 5) n) (filter (\<lambda>n. HasSuffix n ''.json'') (map fst files)))"

definition routeSchemaByName :: "(string \<times> string) list \<Rightarrow> string \<Rightarrow> string response" where
  "routeSchemaByName files name =
     (if name = [] \<or> CHR ''/'' \<in> set name
      then writeProblem 404 ''/problems/not-found'' ''Unknown schema subresource'' []
      else case map_of files (name @ ''.json'') of
        None \<Rightarrow> writeProblem 404 ''/problems/not-found'' ''Schema not found'' []
      | Some body \<Rightarrow> Reply 200 body)"

end
