(* ===== verification/ApiServe.thy ===== *)
theory ApiServe
  imports ApiConfig
begin

text \<open>
  The REST API, third part: the registration of the routes (\<open>internal/api/v1/router.go\<close>), the
  routing functions of each resource, and one function \<open>serve\<close> from an HTTP request to the
  response and the new state. The locale \<open>api_invariant\<close> carries an invariant of the store's
  operations through every request.
\<close>

section \<open>Routing\<close>

datatype route =
    R_ListSchedules | R_CreateSchedule | R_GetSchedule string | R_UpdateSchedule string | R_DeleteSchedule string
  | R_SetEnabled string bool | R_Upcoming | R_Bulk
  | R_ListTemplates | R_CreateTemplate | R_GetTemplate string | R_UpdateTemplate string | R_DeleteTemplate string
  | R_ListBlackouts | R_CreateBlackout | R_GetBlackout string | R_UpdateBlackout string | R_DeleteBlackout string
  | R_GetDefaults | R_PutDefaults | R_AdHoc | R_Schemas | R_Schema string
  | R_Refuse "unit response"

definition only :: "string \<Rightarrow> string \<Rightarrow> route \<Rightarrow> route" where
  "only method m r = (if m = method then r else R_Refuse methodNotAllowed)"

definition routeSchedules :: "string \<Rightarrow> route" where
  "routeSchedules m =
     (if m = ''GET'' then R_ListSchedules else if m = ''POST'' then R_CreateSchedule else R_Refuse methodNotAllowed)"

text \<open>\<open>strings.Cut\<close>: the text before and after the first slash.\<close>

definition cut_slash :: "string \<Rightarrow> string \<times> string" where
  "cut_slash s = (takeWhile (\<lambda>c. c \<noteq> CHR ''/'') s, drop 1 (dropWhile (\<lambda>c. c \<noteq> CHR ''/'') s))"

definition routeSchedulesSubtree :: "string \<Rightarrow> string \<Rightarrow> route" where
  "routeSchedulesSubtree m path =
     (let rest = TrimPrefix path ''/api/v1/schedules/'' in
      if rest = [] then R_Refuse (writeProblem 400 ''/problems/missing-id'' ''Missing schedule id'' [])
      else case cut_slash rest of (i, action) \<Rightarrow>
        if action = [] then
          (if m = ''GET'' then R_GetSchedule i else if m = ''PUT'' then R_UpdateSchedule i
           else if m = ''DELETE'' then R_DeleteSchedule i else R_Refuse methodNotAllowed)
        else if action = ''pause'' then
          (if m \<noteq> ''POST'' then R_Refuse methodNotAllowed else R_SetEnabled i False)
        else if action = ''resume'' then
          (if m \<noteq> ''POST'' then R_Refuse methodNotAllowed else R_SetEnabled i True)
        else R_Refuse (writeProblem 404 ''/problems/not-found'' ''Unknown subresource'' []))"

definition routeTemplates :: "string \<Rightarrow> route" where
  "routeTemplates m =
     (if m = ''GET'' then R_ListTemplates else if m = ''POST'' then R_CreateTemplate else R_Refuse methodNotAllowed)"

definition routeTemplateByID :: "string \<Rightarrow> string \<Rightarrow> route" where
  "routeTemplateByID m path =
     (let i = TrimPrefix path ''/api/v1/templates/'' in
      if i = [] \<or> CHR ''/'' \<in> set i
      then R_Refuse (writeProblem 404 ''/problems/not-found'' ''Unknown template subresource'' [])
      else if m = ''GET'' then R_GetTemplate i else if m = ''PUT'' then R_UpdateTemplate i
      else if m = ''DELETE'' then R_DeleteTemplate i else R_Refuse methodNotAllowed)"

definition routeBlackouts :: "string \<Rightarrow> route" where
  "routeBlackouts m =
     (if m = ''GET'' then R_ListBlackouts else if m = ''POST'' then R_CreateBlackout else R_Refuse methodNotAllowed)"

definition routeBlackoutByID :: "string \<Rightarrow> string \<Rightarrow> route" where
  "routeBlackoutByID m path =
     (let i = TrimPrefix path ''/api/v1/blackouts/'' in
      if i = [] \<or> CHR ''/'' \<in> set i
      then R_Refuse (writeProblem 404 ''/problems/not-found'' ''Unknown blackout subresource'' [])
      else if m = ''GET'' then R_GetBlackout i else if m = ''PUT'' then R_UpdateBlackout i
      else if m = ''DELETE'' then R_DeleteBlackout i else R_Refuse methodNotAllowed)"

definition routeScheduleDefaults :: "string \<Rightarrow> route" where
  "routeScheduleDefaults m =
     (if m = ''GET'' then R_GetDefaults else if m = ''PUT'' then R_PutDefaults else R_Refuse methodNotAllowed)"

text \<open>The multiplexer takes an exact pattern first, then the longest registered prefix.\<close>

definition RegisterRoutes :: "string \<Rightarrow> string \<Rightarrow> route" where
  "RegisterRoutes m path =
     (if path = ''/api/v1/schedules'' then routeSchedules m
      else if path = ''/api/v1/schedules/upcoming'' then only ''GET'' m R_Upcoming
      else if path = ''/api/v1/schedules/bulk'' then only ''POST'' m R_Bulk
      else if HasPrefix path ''/api/v1/schedules/'' then routeSchedulesSubtree m path
      else if path = ''/api/v1/templates'' then routeTemplates m
      else if HasPrefix path ''/api/v1/templates/'' then routeTemplateByID m path
      else if path = ''/api/v1/blackouts'' then routeBlackouts m
      else if HasPrefix path ''/api/v1/blackouts/'' then routeBlackoutByID m path
      else if path = ''/api/v1/schedule-defaults'' then routeScheduleDefaults m
      else if path = ''/api/v1/scans/ad-hoc'' then only ''POST'' m R_AdHoc
      else if path = ''/api/v1/schemas/tools'' then only ''GET'' m R_Schemas
      else if HasPrefix path ''/api/v1/schemas/tools/'' then
        only ''GET'' m (R_Schema (TrimPrefix path ''/api/v1/schemas/tools/''))
      else R_Refuse (writeProblem 404 [] ''404 page not found'' []))"

section \<open>Requests and replies\<close>

text \<open>A request with what its body decodes to as each of the request types.\<close>

record http_request =
  hq_Method :: string
  hq_Path :: string
  hq_Query :: query
  hq_ActiveAt :: "time option option"
  hq_Horizon :: "duration option option"
  hq_CreateSchedule :: "CreateScheduleRequest option"
  hq_UpdateSchedule :: "UpdateScheduleRequest option"
  hq_Bulk :: "BulkScheduleRequest option"
  hq_CreateTemplate :: "CreateTemplateRequest option"
  hq_UpdateTemplate :: "UpdateTemplateRequest option"
  hq_CreateBlackout :: "CreateBlackoutRequest option"
  hq_UpdateBlackout :: "UpdateBlackoutRequest option"
  hq_Defaults :: "ScheduleDefaults option"
  hq_AdHoc :: "CreateAdHocRequest option"

datatype body =
    B_Schedule ScheduleResponse | B_Schedules "ScheduleResponse PaginatedResponse" | B_Bulk BulkScheduleResponse
  | B_Upcoming UpcomingResponse
  | B_Template TemplateResponse | B_Templates "TemplateResponse PaginatedResponse"
  | B_Blackout BlackoutResponse | B_Blackouts "BlackoutResponse PaginatedResponse"
  | B_Defaults ScheduleDefaultsResponse | B_AdHoc CreateAdHocResponse | B_Schema string | B_Schemas "string list"
  | B_Unit unit

text \<open>What lies outside of a request: the environment, the new identifiers, the result of waiting
  for an ad-hoc scan and the embedded schema files.\<close>

record 'r outside =
  od_env :: "'r env"
  od_fresh :: "nat \<Rightarrow> string"
  od_waited :: "(unit, string) result"
  od_files :: "(string \<times> string) list"

definition wrap :: "('b \<Rightarrow> body) \<Rightarrow> 'b response \<times> 'r server \<Rightarrow> body response \<times> 'r server" where
  "wrap f r = (case r of (x, sv) \<Rightarrow> (map_response f x, sv))"

definition reads :: "('b \<Rightarrow> body) \<Rightarrow> 'b response \<Rightarrow> 'r server \<Rightarrow> body response \<times> 'r server" where
  "reads f x sv = (map_response f x, sv)"

definition handle :: "'r outside \<Rightarrow> http_request \<Rightarrow> route \<Rightarrow> 'r server \<Rightarrow> body response \<times> 'r server" where
  "handle od rq r sv =
     (let en = od_env od; fresh = od_fresh od; q = hq_Query rq; d = sv_db sv in
      case r of
        R_ListSchedules \<Rightarrow> reads B_Schedules (listSchedules q d) sv
      | R_CreateSchedule \<Rightarrow> wrap B_Schedule (createSchedule en fresh (hq_CreateSchedule rq) sv)
      | R_GetSchedule i \<Rightarrow> reads B_Schedule (getSchedule i d) sv
      | R_UpdateSchedule i \<Rightarrow> wrap B_Schedule (updateSchedule en i (hq_UpdateSchedule rq) sv)
      | R_DeleteSchedule i \<Rightarrow> wrap B_Schedule (deleteSchedule en i sv)
      | R_SetEnabled i b \<Rightarrow> wrap B_Schedule (setScheduleEnabled en i b sv)
      | R_Upcoming \<Rightarrow> reads B_Upcoming (routeUpcoming en q (hq_Horizon rq) d) sv
      | R_Bulk \<Rightarrow> wrap B_Bulk (routeBulkSchedules en fresh (hq_Bulk rq) sv)
      | R_ListTemplates \<Rightarrow> reads B_Templates (listTemplates q d) sv
      | R_CreateTemplate \<Rightarrow> wrap B_Template (createTemplate en fresh (hq_CreateTemplate rq) sv)
      | R_GetTemplate i \<Rightarrow> reads B_Template (getTemplate i d) sv
      | R_UpdateTemplate i \<Rightarrow> wrap B_Template (updateTemplate en i (hq_UpdateTemplate rq) sv)
      | R_DeleteTemplate i \<Rightarrow> wrap B_Template (deleteTemplate i (q ''force'' = ''true'') sv)
      | R_ListBlackouts \<Rightarrow> reads B_Blackouts (listBlackouts (en_lib en) q (hq_ActiveAt rq) d) sv
      | R_CreateBlackout \<Rightarrow> wrap B_Blackout (createBlackout en fresh (hq_CreateBlackout rq) sv)
      | R_GetBlackout i \<Rightarrow> reads B_Blackout (getBlackout i d) sv
      | R_UpdateBlackout i \<Rightarrow> wrap B_Blackout (updateBlackout en i (hq_UpdateBlackout rq) sv)
      | R_DeleteBlackout i \<Rightarrow> wrap B_Blackout (deleteBlackout i sv)
      | R_GetDefaults \<Rightarrow> reads B_Defaults (getScheduleDefaults d) sv
      | R_PutDefaults \<Rightarrow> wrap B_Defaults (putScheduleDefaults en (hq_Defaults rq) sv)
      | R_AdHoc \<Rightarrow> wrap B_AdHoc (routeAdHoc en fresh (od_waited od) (hq_AdHoc rq) sv)
      | R_Schemas \<Rightarrow> reads B_Schemas (Reply 200 (schemaToolNames (od_files od))) sv
      | R_Schema name \<Rightarrow> reads B_Schema (routeSchemaByName (od_files od) name) sv
      | R_Refuse p \<Rightarrow> reads B_Unit p sv)"

definition serve :: "'r outside \<Rightarrow> http_request \<Rightarrow> 'r server \<Rightarrow> body response \<times> 'r server" where
  "serve od rq sv = handle od rq (RegisterRoutes (hq_Method rq) (hq_Path rq)) sv"

section \<open>The operations behind a request\<close>

inductive config_step :: "'r rrule_lib \<Rightarrow> db \<Rightarrow> db \<Rightarrow> bool" for lib where
  cf_store: "store_step lib d d' \<Longrightarrow> config_step lib d d'"
| cf_bo_create: "bo_Create lib now fresh b d = Inr d' \<Longrightarrow> config_step lib d d'"
| cf_bo_update: "bo_Update lib now b d = Inr d' \<Longrightarrow> config_step lib d d'"
| cf_bo_delete: "bo_Delete i d = Inr d' \<Longrightarrow> config_step lib d d'"
| cf_defaults: "def_Update now x d = Inr d' \<Longrightarrow> config_step lib d d'"
| cf_ah_create: "ah_Create now fresh r d = Inr d' \<Longrightarrow> config_step lib d d'"
| cf_ah_status: "ah_UpdateStatus i st t d = Inr d' \<Longrightarrow> config_step lib d d'"

locale api_invariant =
  fixes lib :: "'r rrule_lib" and I :: "db \<Rightarrow> bool"
  assumes step: "config_step lib d d' \<Longrightarrow> I d \<Longrightarrow> I d'"
begin

lemmas store = step [OF cf_store]

lemma keep_ignore: "I d \<Longrightarrow> (\<And>d'. r = Inr d' \<Longrightarrow> config_step lib d d') \<Longrightarrow> I (ignore_err r d)"
  by (auto simp: ignore_err_def intro: step split: sum.splits)

lemma keep_refresh:
  "I (sv_db sv) \<Longrightarrow> I (sv_db (snd (refreshNextRun en s tmpl sv)))"
  by (auto simp: refreshNextRun_def intro!: keep_ignore intro: cf_store sc_next split: option.splits prod.splits sum.splits)

lemma keep_recompute_loop:
  "I d \<Longrightarrow> recompute_loop wd tmpl ss (e, d, n) = (e', d', n') \<Longrightarrow> I d'"
proof (induction wd tmpl ss "(e, d, n)" arbitrary: e d n rule: recompute_loop.induct)
  case (2 wd tmpl s ss e d n)
  show ?case
    using "2.prems" by (auto split: if_splits prod.splits sum.splits intro: "2.hyps" store [OF sc_next])
qed simp

lemma keep_recompute: "I (sv_db sv) \<Longrightarrow> I (sv_db (recompute_template en t sv))"
  by (auto simp: recompute_template_def RecomputeNextRunForTemplate_def intro: keep_recompute_loop
      split: option.splits prod.splits)

lemma keep_cascade: "I (sv_db sv) \<Longrightarrow> I (sv_db (cascadeForTemplate en t sv))"
  by (auto simp: cascadeForTemplate_def intro: keep_recompute split: option.splits)

lemma keep_recomputes: "I (sv_db sv) \<Longrightarrow> I (sv_db (fold (\<lambda>t. recompute_template en (g t)) ts sv))"
  by (induction ts arbitrary: sv) (auto intro: keep_recompute)

lemma keep_refresh': "refreshNextRun en s tmpl (sv\<lparr>sv_db := d\<rparr>) = (x, sv') \<Longrightarrow> I d \<Longrightarrow> I (sv_db sv')"
  using keep_refresh [of "sv\<lparr>sv_db := d\<rparr>" en s tmpl] by simp

lemma keep_create_refresh:
  assumes "lib = en_lib en" "I (sv_db sv)" "sched_Create (en_lib en) now fr s (sv_db sv) = Inr d"
    and "refreshNextRun en s' tmpl (sv\<lparr>sv_db := d\<rparr>) = (x, sv')"
  shows "I (sv_db sv')"
  using keep_refresh' [OF assms(4)] store [OF sc_create] assms(1-3) by blast

lemma keep_update_refresh:
  assumes "lib = en_lib en" "I (sv_db sv)" "sched_Update (en_lib en) now s (sv_db sv) = Inr d"
    and "refreshNextRun en s' tmpl (sv\<lparr>sv_db := d\<rparr>) = (x, sv')"
  shows "I (sv_db sv')"
  using keep_refresh' [OF assms(4)] store [OF sc_update] assms(1-3) by blast

lemma keep_createSchedule:
  "en_lib en = lib \<Longrightarrow> I (sv_db sv) \<Longrightarrow> I (sv_db (snd (createSchedule en fresh body sv)))"
  by (auto simp: createSchedule_def Let_def intro!: keep_cascade split: option.splits sum.splits prod.splits)
    (erule (3) keep_create_refresh)

lemma keep_updateSchedule:
  "en_lib en = lib \<Longrightarrow> I (sv_db sv) \<Longrightarrow> I (sv_db (snd (updateSchedule en i body sv)))"
  by (auto simp: updateSchedule_def Let_def intro!: keep_cascade split: option.splits sum.splits prod.splits)
    (erule (3) keep_update_refresh)

lemma keep_deleteSchedule: "I (sv_db sv) \<Longrightarrow> I (sv_db (snd (deleteSchedule en i sv)))"
  by (auto simp: deleteSchedule_def intro!: keep_cascade intro: store [OF sc_delete] split: option.splits sum.splits)

lemma keep_setEnabled:
  "en_lib en = lib \<Longrightarrow> I (sv_db sv) \<Longrightarrow> I (sv_db (snd (setScheduleEnabled en i b sv)))"
  by (auto simp: setScheduleEnabled_def Let_def intro: store [OF sc_update] split: option.splits sum.splits)

lemma keep_bulk_item:
  "en_lib en = lib \<Longrightarrow> I d \<Longrightarrow> bulk_item en fresh req i (ts, d) = Inr (ts', d') \<Longrightarrow> I d'"
  by (auto simp: bulk_item_def bulkToggle_def bulkDelete_def bulkClone_def Let_def
      intro: store [OF sc_update] store [OF sc_delete] store [OF sc_create]
      split: BulkOperation.splits option.splits sum.splits if_splits)

lemma keep_bulk_loop:
  "en_lib en = lib \<Longrightarrow> I d \<Longrightarrow> bulk_loop en fresh k req is ok bad (ts, d) = Inr (x, d') \<Longrightarrow> I d'"
proof (induction "is" arbitrary: k ok bad ts d)
  case (Cons i "is")
  show ?case
  proof (cases "bulk_item en (fresh k) req i (ts, d)")
    case (Inl e)
    then show ?thesis using Cons by (auto split: if_splits)
  next
    case (Inr st)
    obtain ts' d1 where st: "st = (ts', d1)" by fastforce
    then have "I d1" using Cons.prems(1,2) Inr keep_bulk_item by blast
    then show ?thesis using Cons Inr st by auto
  qed
qed simp

lemma keep_bulk_reply:
  "lib = en_lib en \<Longrightarrow> I (sv_db sv) \<Longrightarrow> bulk_loop en fresh k req is ok bad (ts, sv_db sv) = Inr (x, d) \<Longrightarrow>
   I (sv_db (fold (recompute_template en) ts' (sv\<lparr>sv_db := d\<rparr>)))"
  using keep_recomputes [of "sv\<lparr>sv_db := d\<rparr>" en "\<lambda>x. x" ts'] keep_bulk_loop [of en "sv_db sv"] by simp

lemma keep_bulk: "en_lib en = lib \<Longrightarrow> I (sv_db sv) \<Longrightarrow> I (sv_db (snd (routeBulkSchedules en fresh body sv)))"
  by (auto simp: routeBulkSchedules_def Let_def Transact_def simp del: bulk_loop.simps split: option.splits sum.splits prod.splits)
    (erule (2) keep_bulk_reply)+

lemma keep_createTemplate:
  "en_lib en = lib \<Longrightarrow> I (sv_db sv) \<Longrightarrow> I (sv_db (snd (createTemplate en fresh body sv)))"
  by (auto simp: createTemplate_def Let_def intro: store [OF tm_create] split: option.splits sum.splits)

lemma keep_updateTemplate:
  "en_lib en = lib \<Longrightarrow> I (sv_db sv) \<Longrightarrow> I (sv_db (snd (updateTemplate en i body sv)))"
  by (auto simp: updateTemplate_def Let_def intro!: keep_recompute intro: store [OF tm_update] split: option.splits sum.splits)

lemma keep_deletes: "I d \<Longrightarrow> foldR sched_Delete is d = Inr d' \<Longrightarrow> I d'"
  using foldR_invariant [of "is" I sched_Delete d d'] store [OF sc_delete] by blast

lemma keep_deleteTemplate: "I (sv_db sv) \<Longrightarrow> I (sv_db (snd (deleteTemplate i force sv)))"
  by (auto simp: deleteTemplate_def Let_def Transact_def intro: store [OF tm_delete] keep_deletes
      split: option.splits sum.splits)

lemma keep_blackouts:
  "en_lib en = lib \<Longrightarrow> I (sv_db sv) \<Longrightarrow> I (sv_db (snd (createBlackout en fresh body sv)))"
  "en_lib en = lib \<Longrightarrow> I (sv_db sv) \<Longrightarrow> I (sv_db (snd (updateBlackout en i ubody sv)))"
  "I (sv_db sv) \<Longrightarrow> I (sv_db (snd (deleteBlackout i sv)))"
  by (auto simp: createBlackout_def updateBlackout_def deleteBlackout_def Let_def
      intro: step [OF cf_bo_create] step [OF cf_bo_update] step [OF cf_bo_delete] split: option.splits sum.splits)

lemma keep_defaults: "I (sv_db sv) \<Longrightarrow> I (sv_db (snd (putScheduleDefaults en body sv)))"
  by (auto simp: putScheduleDefaults_def Let_def intro!: keep_recomputes intro: step [OF cf_defaults]
      split: option.splits sum.splits)

lemma keep_dispatch: "I (sc_db s) \<Longrightarrow> DispatchAdHoc en fresh run s = (r, s') \<Longrightarrow> I (sc_db s')"
  by (auto simp: DispatchAdHoc_def Let_def sc_active_def bg_exec_def intro: step [OF cf_ah_status]
      split: prod.splits if_splits sum.splits)

lemma keep_adhoc: "I (sv_db sv) \<Longrightarrow> I (sv_db (snd (routeAdHoc en fresh waited body sv)))"
  by (auto simp: routeAdHoc_def dispatchAdHoc_def Let_def intro!: keep_ignore intro: step [OF cf_ah_create] cf_ah_status
      split: option.splits sum.splits prod.splits dispatch_error.splits dest!: keep_dispatch [rotated])

lemma keep_handle:
  assumes "en_lib (od_env od) = lib" "I (sv_db sv)"
  shows "I (sv_db (snd (handle od rq r sv)))"
  using assms
  by (cases r) (simp_all add: handle_def reads_def wrap_def Let_def case_prod_beta keep_createSchedule keep_updateSchedule
      keep_deleteSchedule keep_setEnabled keep_bulk keep_createTemplate keep_updateTemplate keep_deleteTemplate
      keep_blackouts keep_defaults keep_adhoc)

lemma keep_serve: "en_lib (od_env od) = lib \<Longrightarrow> I (sv_db sv) \<Longrightarrow> I (sv_db (snd (serve od rq sv)))"
  by (simp add: serve_def keep_handle)

end

end
