(* ===== verification/ApiInv.thy ===== *)
theory ApiInv
  imports ApiServe
begin

text \<open>
  What the REST API guarantees: stored rows stay well-formed, the tables stay consistent, a
  refused request changes nothing, and the contracts of the single handlers.
\<close>

section \<open>Well-formed rows\<close>

text \<open>A row is well-formed when the store's own validation accepts it; the clock only matters to
  the warnings.\<close>

definition rows_valid :: "'r rrule_lib \<Rightarrow> db \<Rightarrow> bool" where
  "rows_valid lib d \<longleftrightarrow>
     (\<forall>s \<in> set (db_schedules d). is_ok (validateScheduleInput lib 0 s)) \<and>
     (\<forall>t \<in> set (db_templates d). is_ok (validateTemplateInput lib 0 t)) \<and>
     (\<forall>b \<in> set (db_blackouts d). is_ok (validateBlackoutInput lib 0 b)) \<and>
     (\<forall>r \<in> set (db_adhoc d). is_ok (validateAdHocInput r)) \<and>
     (\<forall>x. db_defaults d = Some x \<longrightarrow> is_ok (ValidateToolConfig (sd_DefaultToolConfig x)))"

lemma is_ok_lift [simp]: "is_ok (lift_rrule r) = is_ok r" "is_ok (lift_tool t) = is_ok t"
  by (auto simp: lift_rrule_def lift_tool_def is_ok_def split: sum.splits)

lemma is_ok_bindR: "is_ok (bindR r f) \<longleftrightarrow> (\<exists>x. r = Inr x \<and> is_ok (f x))"
  by (cases r) auto

lemma is_ok_bind_unit: "is_ok (bindR r (\<lambda>_. s)) \<longleftrightarrow> is_ok r \<and> is_ok s"
  by (cases r) auto

lemma sched_valid_iff: "is_ok (validateScheduleInput lib now s) \<longleftrightarrow>
    TrimSpace (sch_TargetID s) \<noteq> [] \<and> TrimSpace (sch_Name s) \<noteq> [] \<and> TrimSpace (sch_Timezone s) \<noteq> [] \<and>
    is_ok (ValidateRRule lib 0 (sch_RRule s)) \<and> is_ok (ValidateToolConfig (sch_ToolConfig s))"
  by (simp add: validateScheduleInput_def is_ok_bind_unit is_ok_ValidateRRule_time [of lib now _ 0])

lemma tmpl_valid_iff: "is_ok (validateTemplateInput lib now t) \<longleftrightarrow>
    TrimSpace (tm_Name t) \<noteq> [] \<and> TrimSpace (tm_Timezone t) \<noteq> [] \<and>
    is_ok (ValidateRRule lib 0 (tm_RRule t)) \<and> is_ok (ValidateToolConfig (tm_ToolConfig t))"
  by (simp add: validateTemplateInput_def is_ok_bind_unit is_ok_ValidateRRule_time [of lib now _ 0])

lemma bo_valid_iff: "is_ok (validateBlackoutInput lib now b) \<longleftrightarrow>
    TrimSpace (bo_Name b) \<noteq> [] \<and> 0 < bo_DurationSec b \<and> TrimSpace (bo_Timezone b) \<noteq> [] \<and>
    (bo_Scope b = BlackoutScopeGlobal \<longrightarrow> nullableString (bo_TargetID b) = None) \<and>
    (bo_Scope b = BlackoutScopeTarget \<longrightarrow> nullableString (bo_TargetID b) \<noteq> None) \<and>
    is_ok (ValidateRRule lib 0 (bo_RRule b))"
  by (auto simp: validateBlackoutInput_def is_ok_ValidateRRule_time [of lib now _ 0])

lemma ah_valid_iff: "is_ok (validateAdHocInput r) \<longleftrightarrow>
    TrimSpace (ah_TargetID r) \<noteq> [] \<and> TrimSpace (ah_InitiatedBy r) \<noteq> [] \<and> is_ok (ValidateToolConfig (ah_ToolConfig r))"
  by (simp add: validateAdHocInput_def)

lemmas valid_iff = sched_valid_iff tmpl_valid_iff bo_valid_iff ah_valid_iff

lemma valid_any_time:
  "is_ok (validateScheduleInput lib now s) = is_ok (validateScheduleInput lib 0 s)"
  "is_ok (validateTemplateInput lib now t) = is_ok (validateTemplateInput lib 0 t)"
  "is_ok (validateBlackoutInput lib now b) = is_ok (validateBlackoutInput lib 0 b)"
  by (simp_all add: valid_iff)

lemma is_okI: "r = Inr x \<Longrightarrow> is_ok r" by simp

lemma valid_sched_row:
  "is_ok (validateScheduleInput lib 0 (sched_row s)) = is_ok (validateScheduleInput lib 0 s)"
  "is_ok (validateScheduleInput lib 0 (sched_prepared now fresh s)) = is_ok (validateScheduleInput lib 0 s)"
  "is_ok (validateScheduleInput lib 0 (s\<lparr>sch_UpdatedAt := t\<rparr>)) = is_ok (validateScheduleInput lib 0 s)"
  "is_ok (validateScheduleInput lib 0 (s\<lparr>sch_CreatedAt := t\<rparr>)) = is_ok (validateScheduleInput lib 0 s)"
  "is_ok (validateScheduleInput lib 0 (s\<lparr>sch_NextRunAt := nx\<rparr>)) = is_ok (validateScheduleInput lib 0 s)"
  "is_ok (validateScheduleInput lib 0 (s\<lparr>sch_LastRunAt := l\<rparr>)) = is_ok (validateScheduleInput lib 0 s)"
  "is_ok (validateScheduleInput lib 0 (s\<lparr>sch_LastRunStatus := st\<rparr>)) = is_ok (validateScheduleInput lib 0 s)"
  "is_ok (validateScheduleInput lib 0 (s\<lparr>sch_LastScanID := sc\<rparr>)) = is_ok (validateScheduleInput lib 0 s)"
  by (simp_all add: valid_iff sched_row_def sched_prepared_def)

lemma valid_tmpl_row:
  "is_ok (validateTemplateInput lib 0 (tmpl_row t)) = is_ok (validateTemplateInput lib 0 t)"
  "is_ok (validateTemplateInput lib 0 (tmpl_prepared now fresh t)) = is_ok (validateTemplateInput lib 0 t)"
  "is_ok (validateTemplateInput lib 0 (t\<lparr>tm_UpdatedAt := u\<rparr>)) = is_ok (validateTemplateInput lib 0 t)"
  "is_ok (validateTemplateInput lib 0 (t\<lparr>tm_CreatedAt := u\<rparr>)) = is_ok (validateTemplateInput lib 0 t)"
  by (simp_all add: valid_iff tmpl_row_def tmpl_prepared_def)

lemma valid_bo_row:
  "is_ok (validateBlackoutInput lib 0 (bo_row b)) = is_ok (validateBlackoutInput lib 0 b)"
  "is_ok (validateBlackoutInput lib 0 (bo_prepared now fresh b)) = is_ok (validateBlackoutInput lib 0 b)"
  "is_ok (validateBlackoutInput lib 0 (b\<lparr>bo_UpdatedAt := u\<rparr>)) = is_ok (validateBlackoutInput lib 0 b)"
  "is_ok (validateBlackoutInput lib 0 (b\<lparr>bo_CreatedAt := u\<rparr>)) = is_ok (validateBlackoutInput lib 0 b)"
  by (simp_all add: valid_iff bo_row_def bo_prepared_def)

lemma valid_ah_row:
  "is_ok (validateAdHocInput (ah_row r)) = is_ok (validateAdHocInput r)"
  "is_ok (validateAdHocInput (ah_prepared now fresh r)) = is_ok (validateAdHocInput r)"
  "is_ok (validateAdHocInput (ah_stamp st t r)) = is_ok (validateAdHocInput r)"
  by (simp_all add: valid_iff ah_row_def ah_prepared_def ah_stamp_def)

lemmas valid_rows = valid_sched_row valid_tmpl_row valid_bo_row valid_ah_row

lemma rows_valid_store: "store_step lib d d' \<Longrightarrow> rows_valid lib d \<Longrightarrow> rows_valid lib d'"
proof (induction rule: store_step.induct)
  case (sc_create now fresh s d d')
  then show ?case
    by (auto simp: sched_Create_def Let_def rows_valid_def valid_rows dest!: is_okI split: sum.splits if_splits)
      (metis valid_any_time(1))
next
  case (sc_update now s d d')
  then show ?case
    by (auto simp: sched_Update_def Let_def rows_valid_def valid_rows set_update_where dest!: is_okI split: sum.splits if_splits)
      (metis valid_any_time(1))
next
  case (sc_next now i nx d d')
  then show ?case
    by (auto simp: sched_SetNextRunAt_def rows_valid_def set_update_where valid_rows split: if_splits)
next
  case (sc_run now i st sc t d d')
  then show ?case
    by (auto simp: sched_RecordRun_def rows_valid_def set_update_where valid_rows split: if_splits)
next
  case (sc_delete i d d')
  then show ?case by (auto simp: sched_Delete_def rows_valid_def split: if_splits)
next
  case (tm_create now fresh t d d')
  then show ?case
    by (auto simp: tmpl_Create_def Let_def rows_valid_def valid_rows dest!: is_okI split: sum.splits if_splits)
      (metis valid_any_time(2))
next
  case (tm_update now t d d')
  then show ?case
    by (auto simp: tmpl_Update_def Let_def rows_valid_def valid_rows set_update_where dest!: is_okI split: sum.splits if_splits)
      (metis valid_any_time(2))
next
  case (tm_delete i d d')
  then show ?case
    by (auto simp: tmpl_Delete_def rows_valid_def valid_iff split: option.splits if_splits)
qed

lemma rows_valid_step: "config_step lib d d' \<Longrightarrow> rows_valid lib d \<Longrightarrow> rows_valid lib d'"
proof (induction rule: config_step.induct)
  case (cf_store d d')
  then show ?case by (rule rows_valid_store)
next
  case (cf_bo_create now fresh b d d')
  then show ?case
    by (auto simp: bo_Create_def Let_def rows_valid_def valid_rows dest!: is_okI split: sum.splits if_splits)
      (metis valid_any_time(3))
next
  case (cf_bo_update now b d d')
  then show ?case
    by (auto simp: bo_Update_def Let_def rows_valid_def valid_rows set_update_where dest!: is_okI split: sum.splits if_splits)
      (metis valid_any_time(3))
next
  case (cf_bo_delete i d d')
  then show ?case by (auto simp: bo_Delete_def rows_valid_def split: if_splits)
next
  case (cf_defaults now x d d')
  then show ?case
    by (auto simp: def_Update_def Let_def rows_valid_def split: sum.splits option.splits if_splits)
next
  case (cf_ah_create now fresh r d d')
  then show ?case
    by (auto simp: ah_Create_def Let_def rows_valid_def valid_rows dest!: is_okI split: sum.splits if_splits)
next
  case (cf_ah_status i st t d d')
  then show ?case by (auto simp: ah_UpdateStatus_def rows_valid_def set_update_where valid_rows split: if_splits)
qed

interpretation well_formed: api_invariant lib "rows_valid lib" for lib
  by unfold_locales (rule rows_valid_step)

section \<open>Consistent tables\<close>

text \<open>The constraints of the configuration tables: unique keys, and references to existing rows.\<close>

definition config_ok :: "db \<Rightarrow> bool" where
  "config_ok d \<longleftrightarrow> sched_tables_ok d \<and> (\<forall>b \<in> set (db_blackouts d). bo_refs_ok d b) \<and>
     (\<forall>r \<in> set (db_adhoc d). ah_refs_ok d r) \<and>
     (\<forall>x. db_defaults d = Some x \<longrightarrow> has_template d (sd_DefaultTemplateID x)) \<and>
     distinct (map bo_ID (db_blackouts d)) \<and> distinct (map ah_ID (db_adhoc d))"

lemma distinct_append_key: "distinct (map k rs) \<Longrightarrow> k r \<notin> k ` set rs \<Longrightarrow> distinct (map k (rs @ [r]))"
  by simp

lemma has_template_unlink:
  "tmpl_Delete i d = Inr d' \<Longrightarrow> has_template d t \<Longrightarrow> has_template d' (unlink i t)"
  by (auto simp: tmpl_Delete_def has_template_def unlink_def row_filter_out split: option.splits if_splits)

lemma refs_frame:
  assumes "db_targets d' = db_targets d" "db_scans d' = db_scans d" "\<And>t. has_template d t \<Longrightarrow> has_template d' t"
  shows "bo_refs_ok d b \<Longrightarrow> bo_refs_ok d' b" "ah_refs_ok d r \<Longrightarrow> ah_refs_ok d' r"
  using assms by (auto simp: bo_refs_ok_def ah_refs_ok_def has_target_def has_scan_def split: option.splits)

lemma refs_same:
  assumes "db_targets d' = db_targets d" "db_templates d' = db_templates d" "db_scans d' = db_scans d"
  shows "sched_refs_ok d' = sched_refs_ok d" "bo_refs_ok d' = bo_refs_ok d" "ah_refs_ok d' = ah_refs_ok d"
    "has_template d' = has_template d"
  using assms by (auto simp: fun_eq_iff sched_refs_ok_def bo_refs_ok_def ah_refs_ok_def has_target_def has_template_def
      has_scan_def split: option.splits)

lemma has_template_upd [simp]: "has_template (d\<lparr>db_schedules := ss\<rparr>) = has_template d"
  by (rule refs_same) simp_all

lemma config_ok_same:
  assumes "db_targets d' = db_targets d" "db_templates d' = db_templates d" "db_scans d' = db_scans d"
    "db_schedules d' = db_schedules d" "config_ok d"
    and "\<forall>b \<in> set (db_blackouts d'). bo_refs_ok d b" "distinct (map bo_ID (db_blackouts d'))"
    and "\<forall>r \<in> set (db_adhoc d'). ah_refs_ok d r" "distinct (map ah_ID (db_adhoc d'))"
    and "\<forall>x. db_defaults d' = Some x \<longrightarrow> has_template d (sd_DefaultTemplateID x)"
  shows "config_ok d'"
  using assms refs_same [OF assms(1-3)] by (simp add: config_ok_def sched_tables_ok_def)

text \<open>What a store operation on schedules and templates leaves of the other tables.\<close>

lemma store_step_rest:
  "store_step lib d d' \<Longrightarrow> db_blackouts d' = db_blackouts d \<and>
    ((db_adhoc d' = db_adhoc d \<and> db_defaults d' = db_defaults d \<and> (\<forall>t. has_template d t \<longrightarrow> has_template d' t))
     \<or> (\<exists>i. tmpl_Delete i d = Inr d'))"
proof (induction rule: store_step.induct)
  case (tm_create now fresh t d d')
  then show ?case
    by (auto simp: tmpl_Create_def Let_def intro: has_template_append split: sum.splits if_splits)
next
  case (tm_update now t d d')
  have "has_template d' u" if "has_template d u" for u
    using that tm_update
    by (auto simp: tmpl_Update_def Let_def has_template_def row_update split: sum.splits if_splits option.splits)
  then show ?case using tm_update by (auto simp: tmpl_Update_def Let_def split: sum.splits if_splits)
next
  case (tm_delete i d d')
  then show ?case by (auto simp: tmpl_Delete_def split: option.splits if_splits)
qed (auto simp: sched_Create_def sched_Update_def sched_SetNextRunAt_def sched_RecordRun_def sched_Delete_def
    Let_def split: sum.splits if_splits)

lemma config_ok_delete:
  assumes "tmpl_Delete i d = Inr d'" "config_ok d"
  shows "config_ok d'"
proof -
  have u: "has_template d' (unlink i t)" if "has_template d t" for t
    using has_template_unlink [OF assms(1) that] .
  have f: "db_blackouts d' = db_blackouts d" "db_targets d' = db_targets d" "db_scans d' = db_scans d"
    "db_adhoc d' = map (\<lambda>r. r\<lparr>ah_TemplateID := unlink i (ah_TemplateID r)\<rparr>) (db_adhoc d)"
    "db_defaults d' = map_option (\<lambda>x. x\<lparr>sd_DefaultTemplateID := unlink i (sd_DefaultTemplateID x)\<rparr>) (db_defaults d)"
    using assms(1) by (auto simp: tmpl_Delete_def split: option.splits if_splits)
  have "sched_tables_ok d'" using assms inv_tmpl_Delete by (auto simp: config_ok_def)
  then show ?thesis
    using assms(2) u
    by (auto simp: config_ok_def f bo_refs_ok_def ah_refs_ok_def has_target_def has_scan_def comp_def split: option.splits)
qed

lemma config_ok_store:
  assumes s: "store_step lib d d'" and ok: "config_ok d"
  shows "config_ok d'"
proof (cases "\<exists>i. tmpl_Delete i d = Inr d'")
  case True
  then show ?thesis using config_ok_delete ok by blast
next
  case False
  then have r: "db_blackouts d' = db_blackouts d" "db_adhoc d' = db_adhoc d" "db_defaults d' = db_defaults d"
    "\<And>t. has_template d t \<Longrightarrow> has_template d' t"
    using store_step_rest [OF s] by auto
  have f: "db_targets d' = db_targets d" "db_scans d' = db_scans d" using store_step_frame [OF s] by auto
  show ?thesis
    using ok store_step_inv [OF s] refs_frame [OF f r(4)] r by (auto simp: config_ok_def)
qed

lemma row_fresh: "row k rs i = None \<longleftrightarrow> i \<notin> k ` set rs"
  by (rule row_None_image)

lemma config_ok_step: "config_step lib d d' \<Longrightarrow> config_ok d \<Longrightarrow> config_ok d'"
proof (induction rule: config_step.induct)
  case (cf_store d d')
  then show ?case by (rule config_ok_store)
next
  case (cf_bo_create now fresh b d d')
  then obtain r where r: "d' = d\<lparr>db_blackouts := db_blackouts d @ [r]\<rparr>" "bo_ID r \<notin> bo_ID ` set (db_blackouts d)" "bo_refs_ok d r"
    by (auto simp: bo_Create_def Let_def bo_Get_def row_fresh simp del: bo_row_simps split: sum.splits if_splits)
  show ?case using cf_bo_create.prems r by - (rule config_ok_same [of d' d], auto simp: config_ok_def)
next
  case (cf_bo_update now b d d')
  let ?r = "bo_row (b\<lparr>bo_UpdatedAt := now\<rparr>)"
  define f :: "BlackoutWindow \<Rightarrow> BlackoutWindow" where "f = (\<lambda>x. ?r\<lparr>bo_CreatedAt := bo_CreatedAt x\<rparr>)"
  have r: "d' = d\<lparr>db_blackouts := update_where (\<lambda>x. bo_ID x = bo_ID b) f (db_blackouts d)\<rparr>" "bo_refs_ok d ?r"
    using cf_bo_update.hyps by (auto simp: bo_Update_def Let_def f_def split: sum.splits if_splits)
  have f: "bo_refs_ok d (f x)" "bo_ID (f x) = bo_ID b" for x using r(2) by (simp_all add: bo_refs_ok_def f_def)
  have "distinct (map bo_ID (update_where (\<lambda>x. bo_ID x = bo_ID b) f (db_blackouts d)))"
    using cf_bo_update.prems f(2) by (intro distinct_update_where_same) (simp_all add: config_ok_def)
  then show ?case
    using cf_bo_update.prems f unfolding r(1)
    by - (rule config_ok_same [of _ d], auto simp: config_ok_def set_update_where)
next
  case (cf_bo_delete i d d')
  then have r: "d' = d\<lparr>db_blackouts := filter (\<lambda>x. bo_ID x \<noteq> i) (db_blackouts d)\<rparr>"
    by (auto simp: bo_Delete_def split: if_splits)
  show ?case
    using cf_bo_delete.prems unfolding r
    by - (rule config_ok_same [of _ d], auto simp: config_ok_def distinct_map_filter_key)
next
  case (cf_defaults now x d d')
  then obtain y where r: "d' = d\<lparr>db_defaults := Some y\<rparr>" "has_template d (sd_DefaultTemplateID y)"
    by (auto simp: def_Update_def Let_def split: option.splits if_splits sum.splits)
  show ?case using cf_defaults.prems r(2) unfolding r(1) by - (rule config_ok_same [of _ d], auto simp: config_ok_def)
next
  case (cf_ah_create now fresh q d d')
  then obtain r where r: "d' = d\<lparr>db_adhoc := db_adhoc d @ [r]\<rparr>" "ah_ID r \<notin> ah_ID ` set (db_adhoc d)" "ah_refs_ok d r"
    by (auto simp: ah_Create_def Let_def ah_Get_def row_fresh split: sum.splits if_splits)
  show ?case using cf_ah_create.prems r by - (rule config_ok_same [of d' d], auto simp: config_ok_def)
next
  case (cf_ah_status i st t d d')
  have r: "d' = d\<lparr>db_adhoc := update_where (\<lambda>r. ah_ID r = i) (ah_stamp st t) (db_adhoc d)\<rparr>"
    using cf_ah_status.hyps by (auto simp: ah_UpdateStatus_def split: if_splits)
  have "ah_refs_ok d (ah_stamp st t x) = ah_refs_ok d x" "ah_ID (ah_stamp st t x) = ah_ID x" for x
    by (simp_all add: ah_refs_ok_def ah_stamp_def)
  then show ?case
    using cf_ah_status.prems unfolding r
    by - (rule config_ok_same [of _ d], auto simp: config_ok_def set_update_where distinct_update_where_same)
qed

interpretation consistent: api_invariant lib config_ok for lib
  by unfold_locales (rule config_ok_step)

text \<open>The scan tables are out of the API's reach.\<close>

definition scan_part :: "db \<Rightarrow> Target list \<times> Asset list \<times> Scan list \<times> Finding list \<times> ToolRun list \<times> AssetChange list" where
  "scan_part d = (db_targets d, db_assets d, db_scans d, db_findings d, db_tool_runs d, db_changes d)"

lemma scan_part_step: "config_step lib d d' \<Longrightarrow> scan_part d' = scan_part d"
proof (induction rule: config_step.induct)
  case (cf_store d d')
  from store_step_frame [OF this] show ?case by (simp add: scan_part_def)
next
  case (cf_bo_create now fresh b d d')
  then show ?case by (auto simp: scan_part_def bo_Create_def Let_def split: sum.splits if_splits)
next
  case (cf_bo_update now b d d')
  then show ?case by (auto simp: scan_part_def bo_Update_def Let_def split: sum.splits if_splits)
next
  case (cf_bo_delete i d d')
  then show ?case by (auto simp: scan_part_def bo_Delete_def split: if_splits)
next
  case (cf_defaults now x d d')
  then show ?case by (auto simp: scan_part_def def_Update_def Let_def split: sum.splits if_splits option.splits)
next
  case (cf_ah_create now fresh r d d')
  then show ?case by (auto simp: scan_part_def ah_Create_def Let_def split: sum.splits if_splits)
next
  case (cf_ah_status i st t d d')
  then show ?case by (auto simp: scan_part_def ah_UpdateStatus_def split: if_splits)
qed

interpretation scans: api_invariant lib "\<lambda>d. scan_part d = p" for lib p
  by unfold_locales (simp add: scan_part_step)

section \<open>Sequences of requests\<close>

definition serve_all :: "('r outside \<times> http_request) list \<Rightarrow> 'r server \<Rightarrow> 'r server" where
  "serve_all rqs sv = fold (\<lambda>(od, rq) sv. snd (serve od rq sv)) rqs sv"

context api_invariant
begin

lemma keep_all:
  "\<forall>x \<in> set rqs. en_lib (od_env (fst x)) = lib \<Longrightarrow> I (sv_db sv) \<Longrightarrow> I (sv_db (serve_all rqs sv))"
proof (induction rqs arbitrary: sv)
  case (Cons x rqs)
  obtain od rq where "x = (od, rq)" by fastforce
  then show ?case using Cons keep_serve [of od sv rq] by (auto simp: serve_all_def)
qed (simp add: serve_all_def)

end

section \<open>Refused requests\<close>

definition refused :: "'b response \<Rightarrow> bool" where
  "refused x = (case x of Problem _ \<Rightarrow> True | Aborted \<Rightarrow> True | Reply _ _ \<Rightarrow> False | NoContent \<Rightarrow> False)"

lemma refused_simps [simp]:
  "refused (writeProblem st ty ti fe)" "\<not> refused (Reply st b)" "\<not> refused NoContent" "refused (Problem p)" "refused Aborted"
  "refused (map_response f x) = refused x"
  by (simp_all add: refused_def writeProblem_def) (cases x; simp)

lemma named_refusals [simp]:
  "refused invalid_json" "refused (invalid_rrule f e)" "refused target_missing" "refused template_missing"
  "refused schedule_not_found" "refused template_not_found" "refused template_immutable" "refused blackout_not_found"
  "refused (delete_failed er)"
  by (simp_all add: invalid_json_def invalid_rrule_def target_missing_def template_missing_def schedule_not_found_def
      template_not_found_def template_immutable_def blackout_not_found_def delete_failed_def)

definition unchanged :: "'r server \<Rightarrow> 'b response \<times> 'r server \<Rightarrow> bool" where
  "unchanged sv r \<longleftrightarrow> refused (fst r) \<longrightarrow> snd r = sv"

lemma unchanged_simps [simp]: "unchanged sv (x, sv)" "\<not> refused x \<Longrightarrow> unchanged sv (x, sv')"
  by (simp_all add: unchanged_def)

lemma unchanged_schedules:
  "unchanged sv (createSchedule en fresh c sv)" "unchanged sv (updateSchedule en i u sv)"
  "unchanged sv (deleteSchedule en i sv)" "unchanged sv (setScheduleEnabled en i b sv)"
  by (simp_all add: createSchedule_def updateSchedule_def deleteSchedule_def setScheduleEnabled_def Let_def
      split: option.splits sum.splits prod.splits)

lemma unchanged_bulk: "unchanged sv (routeBulkSchedules en fresh b sv)"
  by (simp add: routeBulkSchedules_def Let_def Transact_def del: bulk_loop.simps split: option.splits sum.splits prod.splits)

lemma unchanged_templates:
  "unchanged sv (createTemplate en fresh c sv)" "unchanged sv (updateTemplate en i u sv)"
  "unchanged sv (deleteTemplate i force sv)"
  by (simp_all add: createTemplate_def updateTemplate_def deleteTemplate_def Let_def Transact_def
      split: option.splits sum.splits prod.splits)

lemma unchanged_blackouts:
  "unchanged sv (createBlackout en fresh c sv)" "unchanged sv (updateBlackout en i u sv)"
  "unchanged sv (deleteBlackout i sv)"
  by (simp_all add: createBlackout_def updateBlackout_def deleteBlackout_def Let_def split: option.splits sum.splits)

lemma unchanged_defaults: "unchanged sv (putScheduleDefaults en b sv)"
  by (simp add: putScheduleDefaults_def Let_def split: option.splits sum.splits)

lemma unchanged_wrap: "unchanged sv (wrap f r) = unchanged sv r"
  by (cases r) (simp add: unchanged_def wrap_def)

lemma unchanged_handle: "r \<noteq> R_AdHoc \<Longrightarrow> unchanged sv (handle od rq r sv)"
  by (cases r) (simp_all add: handle_def Let_def reads_def unchanged_wrap unchanged_schedules unchanged_bulk
      unchanged_templates unchanged_blackouts unchanged_defaults)

lemma adhoc_route: "RegisterRoutes m p = R_AdHoc \<Longrightarrow> p = ''/api/v1/scans/ad-hoc''"
  by (simp add: RegisterRoutes_def only_def routeSchedules_def routeTemplates_def routeBlackouts_def routeScheduleDefaults_def
      routeSchedulesSubtree_def routeTemplateByID_def routeBlackoutByID_def Let_def case_prod_beta
      split: if_splits)

section \<open>Properties of the whole API\<close>

definition api_env :: "(time \<times> duration) env" where
  "api_env = \<lparr>en_lib = simple_lib, en_rng = (\<lambda>_ _. 0), en_now = 0\<rparr>"

definition ex_outside :: "(time \<times> duration) outside" where
  "ex_outside = \<lparr>od_env = api_env, od_fresh = (\<lambda>_. ''u''), od_waited = Inl (), od_files = []\<rparr>"

definition ex_request :: "string \<Rightarrow> string \<Rightarrow> http_request" where
  "ex_request m path = \<lparr>hq_Method = m, hq_Path = path, hq_Query = (\<lambda>_. []), hq_ActiveAt = None, hq_Horizon = None,
     hq_CreateSchedule = None, hq_UpdateSchedule = None, hq_Bulk = None, hq_CreateTemplate = None,
     hq_UpdateTemplate = None, hq_CreateBlackout = None, hq_UpdateBlackout = None, hq_Defaults = None, hq_AdHoc = None\<rparr>"

definition ex_server :: "db \<Rightarrow> (time \<times> duration) server" where
  "ex_server d = \<lparr>sv_db = d, sv_expander = None, sv_dispatcher = None\<rparr>"

text \<open>C23: Stored rows are well-formed. Whatever requests the API serves, every schedule, template,
  blackout, ad-hoc run and the defaults that are stored pass the store's own validation: required
  fields present, a rule the recurrence library accepts, tool parameters that decode, a blackout
  of positive length whose target fits its scope. In particular a partial update cannot combine
  valid requests into an invalid row.\<close>

theorem api_rows_well_formed:
  assumes "\<forall>x \<in> set rqs. en_lib (od_env (fst x)) = lib" "rows_valid lib (sv_db sv)"
  shows "rows_valid lib (sv_db (serve_all rqs sv))"
  using assms by (rule well_formed.keep_all)

lemma ex_db_rows: "rows_valid simple_lib ex_db" "config_ok ex_db"
  by (simp_all add: rows_valid_def ex_db_def empty_db_def ValidateToolConfig_def config_ok_def sched_tables_ok_def
      has_template_def)

lemma api_rows_well_formed_witness:
  "rows_valid simple_lib (sv_db (serve_all [(ex_outside, ex_request ''POST'' ''/api/v1/schedules'')] (ex_server ex_db)))"
  by (rule api_rows_well_formed) (simp_all add: ex_outside_def api_env_def ex_server_def ex_db_rows)



text \<open>C25: A refused request changes nothing. Apart from the ad-hoc endpoint, a request that is
  answered by a problem (malformed, invalid, missing, conflicting or failed half-way through a
  bulk operation or a cascading delete) leaves the whole state of the server as it was.\<close>

theorem refused_requests_change_nothing:
  assumes "serve od rq sv = (x, sv')" "refused x" "hq_Path rq \<noteq> ''/api/v1/scans/ad-hoc''"
  shows "sv' = sv"
  using unchanged_handle [of "RegisterRoutes (hq_Method rq) (hq_Path rq)" sv od rq] adhoc_route assms
  by (auto simp: serve_def unchanged_def)

lemma refused_requests_change_nothing_witness:
  "\<exists>x sv'. serve ex_outside (ex_request ''POST'' ''/api/v1/schedules'') (ex_server ex_db) = (x, sv') \<and> refused x \<and>
     sv' = ex_server ex_db"
proof -
  have r: "RegisterRoutes ''POST'' ''/api/v1/schedules'' = R_CreateSchedule" by code_simp
  obtain x sv' where s: "serve ex_outside (ex_request ''POST'' ''/api/v1/schedules'') (ex_server ex_db) = (x, sv')" by fastforce
  then have "refused x"
    by (auto simp: serve_def ex_request_def r handle_def wrap_def createSchedule_def)
  moreover from this have "sv' = ex_server ex_db"
    by (rule refused_requests_change_nothing [OF s]) (simp add: ex_request_def)
  ultimately show ?thesis using s by blast
qed

end
