(* ===== verification/ApiProps.thy ===== *)
theory ApiProps
  imports ApiInv
begin

text \<open>
  The contracts of the single handlers of the REST API: pages, the copies of the calendar code,
  creation, pause and resume, bulk operations, deletion of templates and ad-hoc runs.
\<close>

section \<open>Lemmas: pages and the calendar\<close>

lemma Atoi_range: "Atoi s = Some n \<Longrightarrow> in_int64 n"
  by (cases s) (auto simp: checked64_def split: option.splits if_splits)

lemma ParsePagination_range:
  assumes "0 < m" "m < 2 ^ 62" "p = ParsePagination q m"
  shows "0 < pg_Limit p" "pg_Limit p \<le> max m DefaultLimit" "0 \<le> pg_Offset p" "pg_Offset p < 2 ^ 63"
  using assms Atoi_range
  by (auto simp: ParsePagination_def Let_def DefaultLimit_def in_int64_def split: option.splits)

lemma wrap64_over: "2 ^ 63 \<le> i \<Longrightarrow> i < 2 ^ 63 + 2 ^ 62 \<Longrightarrow> wrap64 i < 0"
proof -
  assume i: "2 ^ 63 \<le> i" "i < 2 ^ 63 + 2 ^ 62"
  have "(i + 2 ^ 63) mod 2 ^ 64 = ((i - 2 ^ 63) + 2 ^ 64) mod 2 ^ 64" by (simp add: add.commute)
  also have "\<dots> = (i - 2 ^ 63) mod 2 ^ 64" by (rule mod_add_self2)
  also have "\<dots> = i - 2 ^ 63" using i by (intro mod_pos_pos_trivial) simp_all
  finally show "wrap64 i < 0" using i by (simp add: wrap64_def)
qed

lemma page_window_spec:
  assumes "0 < pg_Limit p" "pg_Limit p < 2 ^ 62" "0 \<le> pg_Offset p" "pg_Offset p < 2 ^ 63"
  shows "page_window p xs = (if 2 ^ 63 \<le> pg_Offset p + pg_Limit p then None
     else Some (take (nat (pg_Limit p)) (drop (nat (pg_Offset p)) xs)))"
proof (cases "2 ^ 63 \<le> pg_Offset p + pg_Limit p")
  case True
  then have "wrap64 (pg_Offset p + pg_Limit p) < 0" using assms by (intro wrap64_over) auto
  then show ?thesis using True assms(3) by (auto simp: page_window_def slice_def Let_def)
next
  case False
  then have w: "wrap64 (pg_Offset p + pg_Limit p) = pg_Offset p + pg_Limit p"
    using assms by (intro wrap64_id) (simp add: in_int64_def)
  show ?thesis
  proof (cases "pg_Offset p \<le> int (length xs)")
    case True
    have "take (nat (int (length xs) - pg_Offset p)) (drop (nat (pg_Offset p)) xs) =
        take (nat (pg_Limit p)) (drop (nat (pg_Offset p)) xs)" if "int (length xs) < pg_Offset p + pg_Limit p"
      using that by (intro trans [OF take_all take_all [symmetric]]) auto
    then show ?thesis
      using True False assms(1,3) by (auto simp: page_window_def slice_def Let_def w)
  next
    case n: False
    then have "drop (nat (pg_Offset p)) xs = []" by simp
    then show ?thesis
      using n False assms(1,3) by (simp add: page_window_def slice_def Let_def w)
  qed
qed

lemma expandScheduleBetween_eq:
  "expandScheduleBetween lib s tmpl defaults now (now + horizon) =
     (case expandSchedule lib s tmpl defaults now horizon of Inl _ \<Rightarrow> None | Inr occs \<Rightarrow> Some occs)"
proof (cases "ResolveEffectiveConfig s tmpl defaults")
  case (Inr eff)
  have m: "map_option g x = (case (case (case x of None \<Rightarrow> Inl e | Some y \<Rightarrow> Inr y) of Inl e \<Rightarrow> Inl e | Inr y \<Rightarrow> Inr (g y)) of
      Inl e \<Rightarrow> None | Inr z \<Rightarrow> Some z)" for g :: "'a \<Rightarrow> time list" and x and e :: expand_error
    by (cases x) simp_all
  show ?thesis
    by (cases "LoadLocation lib (ec_Timezone eff)"; cases "StrToROption lib (ec_RRule eff)")
      (simp_all add: expandScheduleBetween_def expandSchedule_def schedule_rule_def Let_def Inr m)
qed (simp add: expandScheduleBetween_def expandSchedule_def schedule_rule_def)

lemma window_rule_cached:
  "window_rule lib b = map_option cw_rule (buildCachedWindow lib b)"
  by (simp add: window_rule_def buildCachedWindow_def Let_def split: option.splits)

lemma set_takeWhile_subset: "set (takeWhile P xs) \<subseteq> set xs"
  by (rule set_takeWhileD [THEN conjunct1, THEN subsetI])

section \<open>Properties: reading\<close>

text \<open>C30: Pages. The limit of a listing lies between 1 and 500 and its offset is not negative. The
  page is the \<open>limit\<close> items from the offset on, with the length of the whole list as the total;
  but when offset plus limit exceeds the 64-bit integers the slice bounds wrap around and the
  handler panics, although such a page would be empty.\<close>

theorem listing_pages:
  assumes "ParsePagination q MaxLimit = p"
  shows "0 < pg_Limit p \<and> pg_Limit p \<le> 500 \<and> 0 \<le> pg_Offset p \<and>
    paginated q f xs =
      (if 2 ^ 63 \<le> pg_Offset p + pg_Limit p then Aborted
       else Reply 200 \<lparr>pp_Items = map f (take (nat (pg_Limit p)) (drop (nat (pg_Offset p)) xs)),
              pp_Total = int (length xs), pp_Limit = pg_Limit p, pp_Offset = pg_Offset p\<rparr>)"
proof -
  have r: "0 < pg_Limit p" "pg_Limit p \<le> 500" "0 \<le> pg_Offset p" "pg_Offset p < 2 ^ 63"
    using ParsePagination_range [of MaxLimit p q] assms by (auto simp: MaxLimit_def DefaultLimit_def)
  have "page_window p xs = (if 2 ^ 63 \<le> pg_Offset p + pg_Limit p then None
     else Some (take (nat (pg_Limit p)) (drop (nat (pg_Offset p)) xs)))"
    using r by (intro page_window_spec) auto
  then show ?thesis using r by (simp add: paginated_def Let_def assms)
qed

definition far_query :: query where
  "far_query k = (if k = ''offset'' then ''9223372036854775807'' else [])"

lemma listing_pages_witness: "listSchedules far_query empty_db = Aborted"
proof -
  have p: "ParsePagination far_query MaxLimit = \<lparr>pg_Limit = 50, pg_Offset = 9223372036854775807\<rparr>"
    by (simp add: ParsePagination_def far_query_def DefaultLimit_def is_digit_def digit_val_def checked64_def in_int64_def)
  have "paginated far_query toScheduleResponse [] = Aborted"
    using listing_pages [OF p, of toScheduleResponse "[]"] by simp
  then show ?thesis by (simp add: listSchedules_def Let_def far_query_def sched_ListAll_def empty_db_def)
qed

text \<open>The copies of the calendar code agree. The API has its own version of the blackout test and
  of the expansion of a schedule; the first answers as the evaluator of the scheduler does for the
  same window and instant, the second returns the occurrences of the overlap check's expansion
  over the same horizon and fails on the same schedules.\<close>

theorem calendar_copies_agree:
  "(blackoutActiveAt lib b t = Some True \<longleftrightarrow>
      (\<exists>cw. buildCachedWindow lib b = Some cw \<and> occurrenceCovers lib cw t)) \<and>
   expandScheduleBetween lib s tmpl defaults now (now + horizon) =
     (case expandSchedule lib s tmpl defaults now horizon of Inl _ \<Rightarrow> None | Inr occs \<Rightarrow> Some occs)"
proof
  show "blackoutActiveAt lib b t = Some True \<longleftrightarrow>
      (\<exists>cw. buildCachedWindow lib b = Some cw \<and> occurrenceCovers lib cw t)"
  proof (cases "buildCachedWindow lib b")
    case (Some cw)
    let ?occs = "Between lib (cw_rule cw) (t - 7 * 24 * hour) (t + 1)" and ?dur = "seconds (bo_DurationSec b)"
    have "\<not> list_ex (\<lambda>occ. (t = occ \<or> occ < t) \<and> t < occ + ?dur) ?occs" if "?dur \<le> 0"
      using that by (auto simp: list_ex_iff)
    then show ?thesis
      by (simp add: blackoutActiveAt_def window_rule_cached Some occurrenceCovers_def blackoutHorizonPast_def Let_def
          built_window [OF Some])
  qed (simp add: blackoutActiveAt_def window_rule_cached)
  show "expandScheduleBetween lib s tmpl defaults now (now + horizon) =
     (case expandSchedule lib s tmpl defaults now horizon of Inl _ \<Rightarrow> None | Inr occs \<Rightarrow> Some occs)"
    by (rule expandScheduleBetween_eq)
qed

text \<open>The candidates of the calendar.\<close>

definition all_firings :: "'r env \<Rightarrow> query \<Rightarrow> db \<Rightarrow> duration \<Rightarrow> UpcomingFiring list" where
  "all_firings en q d h = concat (map (schedule_firings (en_lib en) d (en_now en) (en_now en + h))
     (if q ''target_id'' \<noteq> [] then sched_ListByTarget d (q ''target_id'') else sched_ListAll d))"

lemma expandScheduleBetween_rule:
  "Some occs = expandScheduleBetween lib s tmpl df now end \<Longrightarrow> \<exists>rule. occs = Between lib rule now end"
  by (auto simp: expandScheduleBetween_def Let_def map_option_case split: option.split_asm sum.split_asm)

lemma no_reply [simp]: "writeProblem st ty ti fe \<noteq> Reply st' b"
  by (simp add: writeProblem_def)

lemma upcoming_reply:
  assumes "routeUpcoming en q horizon d = Reply st r"
  obtains h where "0 < h" "h \<le> maxUpcomingHorizon" "up_HorizonEnd r = en_now en + h"
    "up_Items r = take (nat (pg_Limit (ParsePagination q maxUpcomingLimit))) (sort_key uf_FiresAt (all_firings en q d h))"
proof -
  define hz where "hz = (case horizon of None \<Rightarrow> Some defaultUpcomingHorizon | Some None \<Rightarrow> None
            | Some (Some h) \<Rightarrow> if h \<le> 0 then None else if h > maxUpcomingHorizon then Some maxUpcomingHorizon else Some h)"
  have "0 < h \<and> h \<le> maxUpcomingHorizon" if "hz = Some h" for h
    using that by (auto simp: hz_def defaultUpcomingHorizon_def maxUpcomingHorizon_def split: option.splits if_splits)
  moreover obtain h where h: "hz = Some h"
    using assms unfolding routeUpcoming_def hz_def [symmetric] by (cases hz) auto
  moreover have "take (nat n) xs = xs" if "\<not> int (length xs) > n" for n and xs :: "UpcomingFiring list"
    using that by simp
  ultimately show thesis
    using that assms unfolding routeUpcoming_def hz_def [symmetric] all_firings_def by (auto simp: Let_def)
qed

lemma firings_occur:
  assumes "rrule_lib_ok lib" "f \<in> set (schedule_firings lib d now end s)"
  shows "sch_Enabled s \<and> uf_ScheduleID f = sch_ID s \<and> now \<le> uf_FiresAt f \<and> uf_FiresAt f \<le> end"
  using assms(2) between_iff [OF assms(1)]
  by (auto simp: schedule_firings_def split: if_splits option.splits dest!: expandScheduleBetween_rule)


definition ex_calendar_db :: db where
  "ex_calendar_db = ex_db\<lparr>db_schedules := [ex_daily], db_defaults := Some ex_defaults\<rparr>"

lemma ex_calendar_occs: "expandScheduleBetween simple_lib ex_daily None ex_defaults 0 day = Some [0, day]"
proof -
  have "Between simple_lib (0, day) 0 day = [0, day]"
    by (simp add: simple_lib_def simple_between_def day_def hour_def minute_def second_def upto.simps)
  then have "expandSchedule simple_lib ex_daily None ex_defaults 0 day = Inr [0, day]"
    by (simp add: expandSchedule_def ex_daily_rule)
  then show ?thesis using expandScheduleBetween_eq [of simple_lib ex_daily None ex_defaults 0 day] by simp
qed


section \<open>Lemmas: next runs of stored schedules\<close>

definition keeps_rule :: "Schedule \<Rightarrow> bool" where
  "keeps_rule s \<longleftrightarrow> ''rrule'' \<in> set (sch_Overrides s)"

definition uniq_sched :: "db \<Rightarrow> bool" where
  "uniq_sched d \<longleftrightarrow> distinct (map sch_ID (db_schedules d))"

lemma Get_mem: "uniq_sched d \<Longrightarrow> sched_Get d i = Some s \<longleftrightarrow> s \<in> set (db_schedules d) \<and> sch_ID s = i"
proof
  assume u: "uniq_sched d" and s: "s \<in> set (db_schedules d) \<and> sch_ID s = i"
  then obtain x where x: "sched_Get d i = Some x" by (cases "sched_Get d i") (auto simp: sched_Get_def row_None)
  then have "x \<in> set (db_schedules d)" "sch_ID x = sch_ID s" using s by (auto simp: sched_Get_def dest: row_mem)
  then have "x = s" using u s by (auto simp: uniq_sched_def distinct_map inj_on_def)
  then show "sched_Get d i = Some s" using x by simp
qed (auto simp: sched_Get_def dest: row_mem)

lemma SetNextRunAt_Get:
  "sched_SetNextRunAt now i nx d = Inr d' \<Longrightarrow> sched_Get d' j =
     (if j = i then map_option (\<lambda>x. x\<lparr>sch_NextRunAt := timePtrUTC nx, sch_UpdatedAt := trunc_sec now\<rparr>) (sched_Get d i)
      else sched_Get d j)"
  by (auto simp: sched_SetNextRunAt_def sched_Get_def row_update split: if_splits)

lemma SetNextRunAt_uniq: "sched_SetNextRunAt now i nx d = Inr d' \<Longrightarrow> uniq_sched d \<Longrightarrow> uniq_sched d'"
  by (auto simp: sched_SetNextRunAt_def uniq_sched_def distinct_update_where_same split: if_splits)

text \<open>A recomputation leaves a schedule alone when it keeps its own rule, and changes nothing but
  the next run and the stamp of the others.\<close>

definition rerun :: "Schedule \<Rightarrow> Schedule \<Rightarrow> bool" where
  "rerun s s' \<longleftrightarrow> (\<exists>nx u. s' = s\<lparr>sch_NextRunAt := nx, sch_UpdatedAt := u\<rparr>) \<and> (keeps_rule s \<longrightarrow> s' = s)"

lemma rerun_refl [simp]: "rerun s s"
  unfolding rerun_def by (intro conjI exI [of _ "sch_NextRunAt s"] exI [of _ "sch_UpdatedAt s"]) simp_all

lemma rerun_fields:
  "rerun s s' \<Longrightarrow> sch_ID s' = sch_ID s \<and> sch_Enabled s' = sch_Enabled s \<and> keeps_rule s' = keeps_rule s \<and>
    sch_TargetID s' = sch_TargetID s \<and> sch_Name s' = sch_Name s"
  by (auto simp: rerun_def keeps_rule_def)

lemma rerun_trans: "rerun s t \<Longrightarrow> rerun t u \<Longrightarrow> rerun s u"
proof -
  assume a: "rerun s t" "rerun t u"
  then obtain nx up nx' up' where "t = s\<lparr>sch_NextRunAt := nx, sch_UpdatedAt := up\<rparr>"
    "u = t\<lparr>sch_NextRunAt := nx', sch_UpdatedAt := up'\<rparr>" unfolding rerun_def by blast
  then have "u = s\<lparr>sch_NextRunAt := nx', sch_UpdatedAt := up'\<rparr>" by simp
  then show "rerun s u" using a rerun_fields [OF a(1)] by (auto simp: rerun_def)
qed

definition reruns :: "db \<Rightarrow> db \<Rightarrow> bool" where
  "reruns d d' \<longleftrightarrow> uniq_sched d \<longrightarrow> uniq_sched d' \<and> (\<forall>i. rel_option rerun (sched_Get d i) (sched_Get d' i))"

lemma reruns_refl [simp]: "reruns d d"
  by (simp add: reruns_def option.rel_refl)

lemma reruns_trans: "reruns d d1 \<Longrightarrow> reruns d1 d2 \<Longrightarrow> reruns d d2"
  unfolding reruns_def by (metis option.rel_transp rerun_trans transpD transpI)

lemma reruns_SetNextRunAt:
  assumes "sched_SetNextRunAt now i nx d = Inr d'" "sched_Get d i = Some s" "\<not> keeps_rule s"
  shows "reruns d d'"
proof -
  have "rerun s (s\<lparr>sch_NextRunAt := timePtrUTC nx, sch_UpdatedAt := trunc_sec now\<rparr>)"
    using assms(3) by (auto simp: rerun_def)
  then have "rel_option rerun (sched_Get d j) (sched_Get d' j)" for j
    using assms(2) by (simp add: SetNextRunAt_Get [OF assms(1)] option.rel_refl)
  then show ?thesis using SetNextRunAt_uniq [OF assms(1)] by (simp add: reruns_def)
qed

lemma reruns_loop:
  assumes "recompute_loop wd tmpl ss (e, d, n) = (e', d', n')" "uniq_sched d"
    and "\<forall>s \<in> set ss. \<exists>x. sched_Get d (sch_ID s) = Some x \<and> keeps_rule x = keeps_rule s"
  shows "reruns d d'"
  using assms
proof (induction wd tmpl ss "(e, d, n)" arbitrary: e d n rule: recompute_loop.induct)
  case (2 wd tmpl s ss e d n)
  have ov: "overrideContains ov x \<longleftrightarrow> x \<in> set ov" for ov x by (auto simp: overrideContains_def list_ex_iff)
  show ?case
  proof (cases "overrideContains (sch_Overrides s) ''rrule'' \<or> overrideContains (sch_Overrides s) ''timezone''")
    case True
    then show ?thesis using 2 by simp
  next
    case False
    obtain r e1 where c: "ComputeNextRunAt wd e s (Some tmpl) = (r, e1)" by fastforce
    show ?thesis
    proof (cases r)
      case (Inl err)
      then show ?thesis using 2 False c by simp
    next
      case (Inr nx)
      show ?thesis
      proof (cases "sched_SetNextRunAt (wd_now wd) (sch_ID s) nx d")
        case (Inl err)
        then show ?thesis using 2 False c Inr by simp
      next
        case (Inr d1)
        note d1 = this
        obtain x where x: "sched_Get d (sch_ID s) = Some x" "keeps_rule x = keeps_rule s" using "2.prems"(3) by auto
        then have r1: "reruns d d1"
          using False by (intro reruns_SetNextRunAt [OF d1]) (auto simp: ov keeps_rule_def)
        have u1: "uniq_sched d1" using "2.prems"(2) r1 by (simp add: reruns_def)
        have "\<exists>y. sched_Get d1 (sch_ID t) = Some y \<and> keeps_rule y = keeps_rule t" if t: "t \<in> set ss" for t
        proof -
          obtain y where "sched_Get d (sch_ID t) = Some y" "keeps_rule y = keeps_rule t" using "2.prems"(3) t by auto
          moreover have "rel_option rerun (sched_Get d (sch_ID t)) (sched_Get d1 (sch_ID t))"
            using r1 "2.prems"(2) by (simp add: reruns_def)
          ultimately show ?thesis using rerun_fields by (auto simp: option_rel_Some1)
        qed
        then have "reruns d1 d'"
          using "2.hyps" False c \<open>r = Inr nx\<close> d1 "2.prems"(1) u1 by simp
        then show ?thesis using r1 reruns_trans by blast
      qed
    qed
  qed
qed simp

lemma reruns_recompute: "reruns (sv_db sv) (sv_db (recompute_template en t sv))"
proof (cases "uniq_sched (sv_db sv)")
  case True
  have "\<forall>s \<in> set (sched_ListByTemplate (sv_db sv) t). \<exists>x. sched_Get (sv_db sv) (sch_ID s) = Some x \<and> keeps_rule x = keeps_rule s"
    using Get_mem [OF True] by (auto simp: sched_ListByTemplate_def)
  then show ?thesis
    using reruns_loop [OF _ True]
    by (auto simp: recompute_template_def RecomputeNextRunForTemplate_def split: option.splits prod.splits)
qed (simp add: reruns_def)

lemma reruns_recomputes: "reruns (sv_db sv) (sv_db (fold (recompute_template en) ts sv))"
  by (induction ts arbitrary: sv) (auto intro: reruns_trans reruns_recompute)

lemma reruns_cascade: "reruns (sv_db sv) (sv_db (cascadeForTemplate en t sv))"
  by (auto simp: cascadeForTemplate_def intro: reruns_recompute split: option.splits)

section \<open>Lemmas: creating\<close>

lemma template_map:
  "map_of (fold (add_template_of d) ss acc) t = (case map_of acc t of Some x \<Rightarrow> Some x | None \<Rightarrow>
     if \<exists>s \<in> set ss. nullableString (sch_TemplateID s) = Some t then tmpl_Get d t else None)"
proof (induction ss arbitrary: acc)
  case (Cons s ss)
  have "map_of (add_template_of d s acc) t = (case map_of acc t of Some x \<Rightarrow> Some x | None \<Rightarrow>
      if nullableString (sch_TemplateID s) = Some t then tmpl_Get d t else None)"
    by (auto simp: add_template_of_def split: option.splits)
  then show ?case by (auto simp: Cons split: option.splits)
qed (simp split: option.splits)

lemma existing_template_loaded:
  assumes "s \<in> set ss"
  shows "existing_template (fold (add_template_of d) ss []) s = loadUpcomingTemplate d (sch_TemplateID s)"
proof (cases "nullableString (sch_TemplateID s)")
  case None
  then have "map_of (fold (add_template_of d) ss []) [] = None"
    by (auto simp: template_map nullableString_def split: option.splits if_splits)
  then show ?thesis
    using None by (auto simp: existing_template_def loadUpcomingTemplate_def nullableString_def split: option.splits if_splits)
next
  case (Some t)
  then have t: "sch_TemplateID s = Some t" by (auto simp: nullableString_def split: option.splits if_splits)
  have "map_of (fold (add_template_of d) ss []) t = tmpl_Get d t" using assms Some by (auto simp: template_map)
  then show ?thesis using Some by (simp add: existing_template_def loadUpcomingTemplate_def t)
qed

lemma named_template_loaded: "named_template d i = Inr tmpl \<Longrightarrow> tmpl = loadUpcomingTemplate d i"
  by (auto simp: named_template_def loadUpcomingTemplate_def split: option.splits)

text \<open>The occurrences of a schedule within the horizon of the overlap check.\<close>

definition near_runs :: "'r env \<Rightarrow> db \<Rightarrow> Schedule \<Rightarrow> time list" where
  "near_runs en d s = (case expandSchedule (en_lib en) s (loadUpcomingTemplate d (sch_TemplateID s)) (defaults_or_zero d)
     (en_now en) overlapHorizon of Inl _ \<Rightarrow> [] | Inr occs \<Rightarrow> occs)"

definition run_length :: "int \<Rightarrow> duration" where
  "run_length est = (if est \<le> 0 then seconds DefaultEstimatedDurationSeconds else seconds est)"

lemma overlapCheck_clear:
  assumes "overlapCheck en cand tmpl est d = Inr []" "tmpl = loadUpcomingTemplate d (sch_TemplateID cand)"
    and "ex \<in> set (db_schedules d)" "sch_TargetID ex = sch_TargetID cand" "sch_ID ex \<noteq> sch_ID cand"
    and "a \<in> set (near_runs en d cand)" "b \<in> set (near_runs en d ex)"
  shows "run_length est \<le> \<bar>a - b\<bar>"
proof -
  let ?ss = "sched_ListByTarget d (sch_TargetID cand)"
  obtain as where as: "expandSchedule (en_lib en) cand tmpl (defaults_or_zero d) (en_now en) overlapHorizon = Inr as" "a \<in> set as"
    using assms(2,6)
    by (cases "expandSchedule (en_lib en) cand tmpl (defaults_or_zero d) (en_now en) overlapHorizon") (simp_all add: near_runs_def)
  have ex: "ex \<in> set ?ss" using assms(3,4) by (simp add: sched_ListByTarget_def)
  obtain bs where bs: "expandSchedule (en_lib en) ex (existing_template (fold (add_template_of d) ?ss []) ex)
      (defaults_or_zero d) (en_now en) overlapHorizon = Inr bs" "b \<in> set bs"
    using assms(7) unfolding near_runs_def existing_template_loaded [OF ex]
    by (cases "expandSchedule (en_lib en) ex (loadUpcomingTemplate d (sch_TemplateID ex)) (defaults_or_zero d) (en_now en) overlapHorizon")
      simp_all
  have "validateNoOverlapAt (en_lib en) cand tmpl ?ss (fold (add_template_of d) ?ss []) (defaults_or_zero d) (en_now en)
      overlapHorizon (run_length est) = Inr []"
    using assms(1) by (auto simp: overlapCheck_def Let_def run_length_def split: sum.splits)
  from no_conflicts [OF this as(1) ex _ bs(1) as(2) bs(2)] show ?thesis
    using assms(4,5) by (simp add: relevant_def)
qed

lemma refresh_stored:
  assumes "refreshNextRun en s tmpl (sv\<lparr>sv_db := d\<rparr>) = (s', sv')" "sch_NextRunAt s = None"
    and "sched_Get d (sch_ID s) = Some r" "sch_NextRunAt r = None" "sch_UpdatedAt r = trunc_sec (en_now en)" "uniq_sched d"
  shows "sched_Get (sv_db sv') (sch_ID s) = Some (r\<lparr>sch_NextRunAt := timePtrUTC (sch_NextRunAt s')\<rparr>) \<and>
    (\<forall>i. i \<noteq> sch_ID s \<longrightarrow> sched_Get (sv_db sv') i = sched_Get d i) \<and> uniq_sched (sv_db sv') \<and>
    s' = s\<lparr>sch_NextRunAt := sch_NextRunAt s'\<rparr>"
proof -
  have r: "r\<lparr>sch_NextRunAt := None\<rparr> = r" "r\<lparr>sch_UpdatedAt := trunc_sec (en_now en)\<rparr> = r" using assms(4,5) by simp_all
  have s: "s\<lparr>sch_NextRunAt := None\<rparr> = s" using assms(2) by simp
  obtain dn where dn: "sched_SetNextRunAt (en_now en) (sch_ID s) nx d = Inr (dn nx)" for nx
    using assms(3) by (simp add: sched_SetNextRunAt_def)
  show ?thesis
  proof (cases "sv_expander sv")
    case None
    then show ?thesis using assms r s by (auto simp: refreshNextRun_def)
  next
    case (Some e)
    obtain c e' where c: "ComputeNextRunAt (sv_world en d) e s tmpl = (c, e')" by fastforce
    show ?thesis
    proof (cases "sch_Enabled s \<and> is_ok c")
      case True
      then obtain nx where nx: "c = Inr nx" by (auto simp: is_ok_def split: sum.splits)
      have e: "s' = s\<lparr>sch_NextRunAt := nx\<rparr>" "sv_db sv' = dn nx"
        using assms(1) True Some c nx by (auto simp: refreshNextRun_def ignore_err_def dn)
      have u: "(r\<lparr>sch_NextRunAt := timePtrUTC nx\<rparr>)\<lparr>sch_UpdatedAt := trunc_sec (en_now en)\<rparr> = r\<lparr>sch_NextRunAt := timePtrUTC nx\<rparr>"
        using assms(5) by simp
      show ?thesis
        using e u SetNextRunAt_Get [OF dn [of nx]] SetNextRunAt_uniq [OF dn [of nx] assms(6)] assms(3) by simp
    next
      case False
      then show ?thesis
        using assms r s Some c by (auto simp: refreshNextRun_def is_ok_def split: sum.splits if_splits)
    qed
  qed
qed

lemma Create_uniq: "sched_Create lib now fr s d = Inr d' \<Longrightarrow> uniq_sched d \<Longrightarrow> uniq_sched d'"
  by (auto simp: sched_Create_def uniq_sched_def Let_def list_ex_iff split: sum.splits if_splits) blast

lemma add_key_set [simp]: "set (add_key x xs) = insert x (set xs)"
  by (auto simp: add_key_def)

lemma mergeOverrides_rrule: "r \<Longrightarrow> ''rrule'' \<in> set (mergeOverrides ov r tz mw)"
  by (simp add: mergeOverrides_def Let_def)

lemma createSchedule_steps:
  assumes "createSchedule en fresh body sv = (Reply st resp, sv')"
  obtains req tmpl d' s sv1 where "body = Some req" "st = 201" "resp = toScheduleResponse s"
    "validateCreateScheduleRequest req = []" "is_ok (ValidateRRule (en_lib en) (en_now en) (cs_RRule req))"
    "GetTarget (sv_db sv) (cs_TargetID req) \<noteq> None" "named_template (sv_db sv) (cs_TemplateID req) = Inr tmpl"
    "overlapCheck en (schedule_of_request req) tmpl (cs_EstimatedDurationSeconds req) (sv_db sv) = Inr []"
    "sched_Create (en_lib en) (en_now en) (fresh 0) (schedule_of_request req) (sv_db sv) = Inr d'"
    "refreshNextRun en (sched_prepared (en_now en) (fresh 0) (schedule_of_request req)) tmpl (sv\<lparr>sv_db := d'\<rparr>) = (s, sv1)"
    "sv' = cascadeForTemplate en (sch_TemplateID s) sv1"
  using assms
  by (auto simp: createSchedule_def Let_def invalid_json_def invalid_rrule_def target_missing_def template_missing_def
      split: option.splits if_splits sum.splits prod.splits)

lemma TrimSpace_Nil [simp]: "TrimSpace [] = []"
  by (simp add: TrimSpace_def)

lemma created_row:
  assumes c: "createSchedule en fresh (Some req) sv = (Reply st resp, sv')" and u: "uniq_sched (sv_db sv)"
  shows "sched_Get (sv_db sv) (fresh 0) = None \<and> sr_ID resp = fresh 0 \<and>
    sched_Get (sv_db sv') (fresh 0) = Some ((sched_row (sched_prepared (en_now en) (fresh 0) (schedule_of_request req)))
      \<lparr>sch_NextRunAt := timePtrUTC (sr_NextRunAt resp)\<rparr>) \<and>
    (\<forall>i. i \<noteq> fresh 0 \<longrightarrow> rel_option rerun (sched_Get (sv_db sv) i) (sched_Get (sv_db sv') i)) \<and> uniq_sched (sv_db sv')"
proof (rule createSchedule_steps [OF c])
  fix req' tmpl d' s sv1
  assume *: "Some req = Some req'" "resp = toScheduleResponse s" "validateCreateScheduleRequest req' = []"
    "sched_Create (en_lib en) (en_now en) (fresh 0) (schedule_of_request req') (sv_db sv) = Inr d'"
    "refreshNextRun en (sched_prepared (en_now en) (fresh 0) (schedule_of_request req')) tmpl (sv\<lparr>sv_db := d'\<rparr>) = (s, sv1)"
    "sv' = cascadeForTemplate en (sch_TemplateID s) sv1"
  let ?p = "sched_prepared (en_now en) (fresh 0) (schedule_of_request req)"
  have k: "sched_newkey (fresh 0) (schedule_of_request req) = fresh 0"
    by (simp add: sched_newkey_def schedule_of_request_def)
  have cr: "sched_Create (en_lib en) (en_now en) (fresh 0) (schedule_of_request req) (sv_db sv) = Inr d'" using * by simp
  have u': "uniq_sched d'" by (rule Create_uniq [OF cr u])
  have id: "sch_ID ?p = fresh 0" using k by simp
  have "sched_Get d' (sch_ID ?p) = Some (sched_row ?p)" using sched.create_lookup [OF cr] k id by simp
  from refresh_stored [OF _ _ this _ _ u', of en tmpl sv s sv1] have
    r: "sched_Get (sv_db sv1) (fresh 0) = Some ((sched_row ?p)\<lparr>sch_NextRunAt := timePtrUTC (sch_NextRunAt s)\<rparr>)"
      "\<forall>i. i \<noteq> fresh 0 \<longrightarrow> sched_Get (sv_db sv1) i = sched_Get d' i" "uniq_sched (sv_db sv1)"
      "s = ?p\<lparr>sch_NextRunAt := sch_NextRunAt s\<rparr>"
    using *(1,5) id by (simp_all add: sched_row_def sched_prepared_def schedule_of_request_def)
  have sid: "sch_ID s = fresh 0" using r(4) id by (metis Schedule.select_convs(1) Schedule.surjective Schedule.update_convs(12))
  have "cs_RRule req \<noteq> []" using *(1,3) by (auto simp: validateCreateScheduleRequest_def split: if_splits)
  then have "keeps_rule ((sched_row ?p)\<lparr>sch_NextRunAt := timePtrUTC (sch_NextRunAt s)\<rparr>)"
    by (simp add: keeps_rule_def sched_row_def sched_prepared_def schedule_of_request_def mergeOverrides_rrule)
  moreover have rr: "reruns (sv_db sv1) (sv_db sv')" using *(6) reruns_cascade by simp
  ultimately have new: "sched_Get (sv_db sv') (fresh 0) = Some ((sched_row ?p)\<lparr>sch_NextRunAt := timePtrUTC (sch_NextRunAt s)\<rparr>)"
    using r(1,3) by (auto simp: reruns_def rerun_def option_rel_Some1 dest: spec [of _ "fresh 0"])
  have "rel_option rerun (sched_Get (sv_db sv) i) (sched_Get (sv_db sv') i)" if "i \<noteq> fresh 0" for i
    using that rr r(2,3) sched.create_lookup [OF cr, of i] k unfolding reruns_def by metis
  then show ?thesis
    using new sched.create_fresh [OF cr] k rr r(3) *(2) sid by (simp add: reruns_def toScheduleResponse_def)
qed

section \<open>Properties: creating, pausing, resuming\<close>


definition ex_create :: CreateScheduleRequest where
  "ex_create = \<lparr>cs_TargetID = ''t1'', cs_Name = ''nightly'', cs_RRule = ''FREQ=DAILY'', cs_DTStart = 0, cs_Timezone = ''UTC'',
     cs_TemplateID = None, cs_ToolConfig = [], cs_Overrides = [], cs_MaintenanceWindow = None, cs_Enabled = Some False,
     cs_EstimatedDurationSeconds = 0\<rparr>"

lemma ex_create_accepted: "\<not> refused (fst (createSchedule api_env (\<lambda>_. ''u'') (Some ex_create) (ex_server ex_db)))"
  by code_simp

lemma created_reply:
  assumes "\<not> refused (fst (createSchedule en fresh (Some req) sv))"
  obtains resp sv' where "createSchedule en fresh (Some req) sv = (Reply 201 resp, sv')"
  using assms
  by (auto simp: createSchedule_def Let_def split: option.splits if_splits sum.splits prod.splits)

lemma ex_db_uniq: "uniq_sched (sv_db (ex_server ex_db))"
  by (simp add: uniq_sched_def ex_server_def ex_db_def empty_db_def)


lemma Update_uniq: "sched_Update lib now s d = Inr d' \<Longrightarrow> uniq_sched d \<Longrightarrow> uniq_sched d'"
  by (auto simp: sched_Update_def uniq_sched_def Let_def distinct_update_where_same split: sum.splits if_splits)

lemma Delete_uniq: "sched_Delete i d = Inr d' \<Longrightarrow> uniq_sched d \<Longrightarrow> uniq_sched d'"
  by (auto simp: sched_Delete_def uniq_sched_def distinct_map_filter_key split: if_splits)

lemma never_due:
  assumes "uniq_sched d" "sched_Get d i = Some s" "sch_NextRunAt s = None"
  shows "i \<notin> sch_ID ` set (sched_ListDue d now lim)"
proof
  assume "i \<in> sch_ID ` set (sched_ListDue d now lim)"
  then obtain x where "x \<in> set (db_schedules d)" "is_due now x" "sch_ID x = i" using set_ListDue by blast
  moreover from this have "x = s" using Get_mem [OF assms(1)] assms(2) by (metis option.inject)
  ultimately show False using assms(3) by (simp add: is_due_def)
qed

text \<open>A schedule created paused never runs after its resumption. The creation stores no next run for
  a paused schedule, resuming it only sets the flag, and nothing else computes the missing value:
  the reply says active, but no tick at any time finds the schedule due.\<close>

theorem resumed_schedule_never_due:
  assumes "createSchedule en fresh (Some req) sv = (Reply st resp, sv1)" "cs_Enabled req = Some False"
    and "setScheduleEnabled en2 (sr_ID resp) True sv1 = (Reply st2 resp2, sv2)" "uniq_sched (sv_db sv)"
  shows "sr_Status resp2 = ''active'' \<and> (\<exists>s. sched_Get (sv_db sv2) (sr_ID resp) = Some s \<and> sch_Enabled s) \<and>
    (\<forall>now lim. sr_ID resp \<notin> sch_ID ` set (sched_ListDue (sv_db sv2) now lim))"
proof -
  note c = created_row [OF assms(1,4)]
  have "sr_NextRunAt resp = None"
    by (rule createSchedule_steps [OF assms(1)])
      (use assms(2) in \<open>auto simp: refreshNextRun_def toScheduleResponse_def sched_prepared_def schedule_of_request_def
        split: option.splits prod.splits\<close>)
  with c obtain r where r: "sched_Get (sv_db sv1) (sr_ID resp) = Some r" "sch_NextRunAt r = None" "\<not> sch_Enabled r"
    using assms(2) by (auto simp: sched_row_def sched_prepared_def schedule_of_request_def)
  have id: "sch_ID r = sr_ID resp" using r(1) by (auto simp: sched_Get_def dest: row_mem)
  obtain d where d: "sched_Update (en_lib en2) (en_now en2) (r\<lparr>sch_Enabled := True\<rparr>) (sv_db sv1) = Inr d" "sv_db sv2 = d"
    "sr_Status resp2 = ''active''"
    using assms(3) r
    by (auto simp: setScheduleEnabled_def toScheduleResponse_def schedule_not_found_def Let_def split: sum.splits)
  have "\<exists>s. sched_Get d (sr_ID resp) = Some s \<and> sch_Enabled s \<and> sch_NextRunAt s = None"
    using sched.update_lookup [OF d(1), of "sr_ID resp"] r id by (simp add: sched_row_def)
  moreover have "uniq_sched d" using Update_uniq [OF d(1)] c by simp
  ultimately show ?thesis using never_due [of d "sr_ID resp"] d(2,3) by blast
qed

lemma resumed_schedule_never_due_witness:
  "\<exists>resp sv1 resp2 sv2. createSchedule api_env (\<lambda>_. ''u'') (Some ex_create) (ex_server ex_db) = (Reply 201 resp, sv1) \<and>
     setScheduleEnabled api_env (sr_ID resp) True sv1 = (Reply 200 resp2, sv2) \<and>
     sr_ID resp \<notin> sch_ID ` set (sched_ListDue (sv_db sv2) (365 * day) 100)"
proof -
  let ?c = "createSchedule api_env (\<lambda>_. ''u'') (Some ex_create) (ex_server ex_db)"
  obtain resp sv1 where r: "?c = (Reply 201 resp, sv1)" by (rule created_reply [OF ex_create_accepted])
  have "\<not> refused (fst (setScheduleEnabled api_env ''u'' True (snd ?c)))" by code_simp
  moreover have "sr_ID resp = ''u''" using created_row [OF r ex_db_uniq] by simp
  ultimately obtain resp2 sv2 where r2: "setScheduleEnabled api_env (sr_ID resp) True sv1 = (Reply 200 resp2, sv2)"
    using r by (auto simp: setScheduleEnabled_def Let_def split: option.splits if_splits sum.splits)
  from resumed_schedule_never_due [OF r _ r2 ex_db_uniq] show ?thesis using r r2 by (auto simp: ex_create_def)
qed

section \<open>Properties: bulk operations\<close>

text \<open>The rows a transaction added, and that no recomputation will touch.\<close>

definition dormant :: "Schedule \<Rightarrow> bool" where
  "dormant s \<longleftrightarrow> sch_Enabled s \<and> sch_NextRunAt s = None \<and> keeps_rule s"

definition clones_dormant :: "db \<Rightarrow> db \<Rightarrow> bool" where
  "clones_dormant d0 d \<longleftrightarrow> uniq_sched d \<and> (\<forall>i s. sched_Get d i = Some s \<longrightarrow> sched_Get d0 i = None \<longrightarrow> dormant s)"

lemma dormant_clone: "cs_RRule tpl \<noteq> [] \<Longrightarrow> dormant (sched_row (sched_prepared now fr (clone_of tpl src)))"
  by (simp add: dormant_def sched_row_def sched_prepared_def clone_of_def keeps_rule_def mergeOverrides_rrule)

lemma clones_dormant_item:
  assumes "bk_Operation req = BulkClone" "bk_CreateTemplate req = Some tpl" "cs_RRule tpl \<noteq> []"
    and "clones_dormant d0 d" "bulk_item en fr req i (ts, d) = Inr (ts', d')"
  shows "clones_dormant d0 d'"
proof -
  obtain src where c: "sched_Create (en_lib en) (en_now en) fr (clone_of tpl src) d = Inr d'"
    using assms(1,2,5) by (auto simp: bulk_item_def bulkClone_def split: option.splits sum.splits)
  show ?thesis
    using assms(3,4) Create_uniq [OF c] dormant_clone [OF assms(3)] sched.create_lookup [OF c]
    by (auto simp: clones_dormant_def)
qed

lemma clones_dormant_loop:
  assumes "bk_Operation req = BulkClone" "bk_CreateTemplate req = Some tpl" "cs_RRule tpl \<noteq> []"
  shows "clones_dormant d0 d \<Longrightarrow> bulk_loop en fresh k req is ok bad (ts, d) = Inr (x, d') \<Longrightarrow> clones_dormant d0 d'"
proof (induction "is" arbitrary: k ok bad ts d)
  case (Cons i "is")
  show ?case
  proof (cases "bulk_item en (fresh k) req i (ts, d)")
    case (Inl e)
    then show ?thesis using Cons by (auto split: if_splits)
  next
    case (Inr st)
    obtain ts' d1 where st: "st = (ts', d1)" by fastforce
    then have "clones_dormant d0 d1" using clones_dormant_item [OF assms Cons.prems(1)] Inr by simp
    then show ?thesis using Cons Inr st by auto
  qed
qed simp

lemma clones_dormant_reruns:
  assumes "clones_dormant d0 d" "reruns d d'"
  shows "clones_dormant d0 d'"
proof -
  have "dormant s'" if s: "sched_Get d' i = Some s'" "sched_Get d0 i = None" for i s'
  proof -
    have "rel_option rerun (sched_Get d i) (sched_Get d' i)" using assms by (simp add: reruns_def clones_dormant_def)
    then obtain s where "sched_Get d i = Some s" "rerun s s'" using s(1) by (auto simp: option_rel_Some2)
    moreover from this have "dormant s" using assms(1) s(2) by (auto simp: clones_dormant_def)
    ultimately show ?thesis by (auto simp: rerun_def dormant_def)
  qed
  then show ?thesis using assms by (simp add: clones_dormant_def reruns_def)
qed

lemma bulk_steps:
  assumes "routeBulkSchedules en fresh (Some req) sv = (Reply st resp, sv')"
  obtains ts d where "bulk_loop en fresh 0 req (bk_ScheduleIDs req) [] [] ([], sv_db sv) =
      Inr ((br_Succeeded resp, br_Failed resp, ts), d)"
    "sv' = fold (recompute_template en) ts (sv\<lparr>sv_db := d\<rparr>)"
    "bk_Operation req = BulkClone \<longrightarrow> (\<exists>tpl. bk_CreateTemplate req = Some tpl \<and> cs_RRule tpl \<noteq> [])"
  using assms
  by (auto dest: ValidateRRule_nonempty simp: routeBulkSchedules_def Let_def Transact_def invalid_rrule_def simp del: bulk_loop.simps
      split: if_splits sum.splits prod.splits option.splits)

text \<open>Cloned schedules never run. A bulk clone creates enabled schedules without a next run, and
  since a clone always overrides the rule, the recomputation that follows passes over it: every
  schedule the request added is enabled, has no next run and is due at no time.\<close>

theorem cloned_schedules_never_due:
  assumes "routeBulkSchedules en fresh (Some req) sv = (Reply st resp, sv')" "bk_Operation req = BulkClone"
    and "uniq_sched (sv_db sv)" "sched_Get (sv_db sv) i = None" "sched_Get (sv_db sv') i = Some s"
  shows "sch_Enabled s \<and> sch_NextRunAt s = None \<and> i \<notin> sch_ID ` set (sched_ListDue (sv_db sv') now lim)"
proof (rule bulk_steps [OF assms(1)])
  fix ts d
  assume l: "bulk_loop en fresh 0 req (bk_ScheduleIDs req) [] [] ([], sv_db sv) = Inr ((br_Succeeded resp, br_Failed resp, ts), d)"
    "sv' = fold (recompute_template en) ts (sv\<lparr>sv_db := d\<rparr>)"
    "bk_Operation req = BulkClone \<longrightarrow> (\<exists>tpl. bk_CreateTemplate req = Some tpl \<and> cs_RRule tpl \<noteq> [])"
  then obtain tpl where tpl: "bk_CreateTemplate req = Some tpl" "cs_RRule tpl \<noteq> []" using assms(2) by auto
  have "clones_dormant (sv_db sv) (sv_db sv)" using assms(3) by (simp add: clones_dormant_def)
  from clones_dormant_loop [OF assms(2) tpl this l(1)] have "clones_dormant (sv_db sv) d" .
  then have "clones_dormant (sv_db sv) (sv_db sv')"
    using reruns_recomputes [of "sv\<lparr>sv_db := d\<rparr>" en ts] l(2) by (auto intro: clones_dormant_reruns)
  then show ?thesis using assms(4,5) never_due [of "sv_db sv'" i s] by (auto simp: clones_dormant_def dormant_def)
qed

definition ex_clone :: BulkScheduleRequest where
  "ex_clone = \<lparr>bk_Operation = BulkClone, bk_ScheduleIDs = [''s1''], bk_CreateTemplate = Some (ex_create\<lparr>cs_Name := []\<rparr>)\<rparr>"

definition ex_one_db :: db where
  "ex_one_db = ex_db\<lparr>db_schedules := [ex_daily]\<rparr>"

lemma cloned_schedules_never_due_witness:
  "\<exists>resp sv' s. routeBulkSchedules api_env (\<lambda>_. ''u'') (Some ex_clone) (ex_server ex_one_db) = (Reply 200 resp, sv') \<and>
     sched_Get (sv_db sv') ''u'' = Some s \<and> sch_Enabled s \<and> sch_NextRunAt s = None"
proof -
  let ?b = "routeBulkSchedules api_env (\<lambda>_. ''u'') (Some ex_clone) (ex_server ex_one_db)"
  have "\<not> refused (fst ?b)" by code_simp
  then obtain resp sv' where b: "?b = (Reply 200 resp, sv')"
    by (auto simp: routeBulkSchedules_def Let_def simp del: bulk_loop.simps split: if_splits sum.splits prod.splits option.splits)
  have "sched_Get (sv_db (snd ?b)) ''u'' \<noteq> None" by code_simp
  then obtain s where s: "sched_Get (sv_db sv') ''u'' = Some s" using b by auto
  have o: "sched_Get (sv_db (ex_server ex_one_db)) ''u'' = None" by code_simp
  have "uniq_sched (sv_db (ex_server ex_one_db))" by (simp add: uniq_sched_def ex_server_def ex_one_db_def)
  from cloned_schedules_never_due [OF b _ this o s] b s show ?thesis by (simp add: ex_clone_def)
qed

text \<open>What a bulk pause or resume does to the rows, up to the stamps.\<close>

definition toggled :: "bool \<Rightarrow> string set \<Rightarrow> db \<Rightarrow> db \<Rightarrow> bool" where
  "toggled b is d d' \<longleftrightarrow> (\<forall>i. rel_option (\<lambda>s s'. sch_Enabled s' = (if i \<in> is then b else sch_Enabled s) \<and>
     sch_TargetID s' = sch_TargetID s \<and> sch_Name s' = sch_Name s) (sched_Get d i) (sched_Get d' i))"

lemma toggled_refl: "toggled b {} d d"
  by (simp add: toggled_def option.rel_refl)

lemma toggled_item:
  assumes "bulkToggle en i b (ts, d) = Inr (ts', d')"
  shows "sched_Get d i \<noteq> None \<and> toggled b {i} d d'"
proof -
  obtain s where s: "sched_Get d i = Some s" using assms by (auto simp: bulkToggle_def split: option.splits)
  then have id: "sch_ID s = i" by (auto simp: sched_Get_def dest: row_mem)
  show ?thesis
  proof (cases "sch_Enabled s = b")
    case True
    then have "d' = d" using assms s by (simp add: bulkToggle_def Let_def)
    moreover have "rel_option (\<lambda>x x'. sch_Enabled x' = (if j \<in> {i} then b else sch_Enabled x) \<and>
        sch_TargetID x' = sch_TargetID x \<and> sch_Name x' = sch_Name x) (sched_Get d j) (sched_Get d j)" for j
      using s True by (cases "sched_Get d j") auto
    ultimately show ?thesis using s by (auto simp: toggled_def)
  next
    case False
    then have "sched_Update (en_lib en) (en_now en) (s\<lparr>sch_Enabled := b\<rparr>) d = Inr d'"
      using assms s by (auto simp: bulkToggle_def Let_def split: sum.splits)
    note u = sched.update_lookup [OF this]
    have "rel_option (\<lambda>x x'. sch_Enabled x' = (if j \<in> {i} then b else sch_Enabled x) \<and>
        sch_TargetID x' = sch_TargetID x \<and> sch_Name x' = sch_Name x) (sched_Get d j) (sched_Get d' j)" for j
      using s id by (cases "sched_Get d j") (auto simp: u sched_row_def)
    then show ?thesis using s by (auto simp: toggled_def)
  qed
qed

lemma toggled_trans:
  assumes "toggled b is d d1" "toggled b js d1 d2"
  shows "toggled b (is \<union> js) d d2"
  unfolding toggled_def
proof
  fix j
  note a = assms(1) [unfolded toggled_def, rule_format, of j] and c = assms(2) [unfolded toggled_def, rule_format, of j]
  show "rel_option (\<lambda>x x'. sch_Enabled x' = (if j \<in> is \<union> js then b else sch_Enabled x) \<and>
      sch_TargetID x' = sch_TargetID x \<and> sch_Name x' = sch_Name x) (sched_Get d j) (sched_Get d2 j)"
    using a c by (cases "sched_Get d j"; cases "sched_Get d1 j"; cases "sched_Get d2 j") simp_all
qed

lemma toggled_missing:
  assumes "sched_Get d i = None" "toggled b is d d'"
  shows "toggled b (insert i is) d d'"
  unfolding toggled_def
proof
  fix j
  note c = assms(2) [unfolded toggled_def, rule_format, of j]
  show "rel_option (\<lambda>x x'. sch_Enabled x' = (if j \<in> insert i is then b else sch_Enabled x) \<and>
      sch_TargetID x' = sch_TargetID x \<and> sch_Name x' = sch_Name x) (sched_Get d j) (sched_Get d' j)"
    using assms(1) c by (cases "j = i"; cases "sched_Get d j"; cases "sched_Get d' j") simp_all
qed

lemma toggled_Get: "toggled b is d d' \<Longrightarrow> sched_Get d' i = None \<longleftrightarrow> sched_Get d i = None"
  by (drule toggled_def [THEN iffD1, THEN spec, of _ _ _ _ i]) (cases "sched_Get d i"; cases "sched_Get d' i"; simp)

lemma input_not_missing: "validateScheduleInput lib now s \<noteq> Inl ErrNotFound"
  by (auto simp: validateScheduleInput_def lift_rrule_def lift_tool_def split: if_splits sum.splits)

lemma bulk_toggle_loop:
  assumes "bk_Operation req = (if b then BulkResume else BulkPause)"
  shows "bulk_loop en fresh k req is ok bad (ts, d) = Inr ((ok', bad', ts'), d') \<Longrightarrow>
    ok' = ok @ filter (\<lambda>i. sched_Get d i \<noteq> None) is \<and> bad' = bad @ filter (\<lambda>i. sched_Get d i = None) is \<and>
    toggled b (set is) d d'"
proof (induction "is" arbitrary: k ok bad ts d)
  case Nil
  then show ?case by (simp add: toggled_refl)
next
  case (Cons i "is")
  have it: "bulk_item en fr req i st = bulkToggle en i b st" for fr st
    using assms by (cases b) (simp_all add: bulk_item_def)
  show ?case
  proof (cases "bulkToggle en i b (ts, d)")
    case (Inl e)
    then have e: "e = ErrNotFound" "bulk_loop en fresh (Suc k) req is ok (bad @ [i]) (ts, d) = Inr ((ok', bad', ts'), d')"
      using Cons.prems by (auto simp: it split: if_splits)
    have "sched_Get d i = None"
      using Inl e(1) input_not_missing
      by (auto simp: bulkToggle_def Let_def sched_Update_def row_mem sched_Get_def
          dest: row_mem split: option.splits if_splits sum.splits)
    then show ?thesis using Cons.IH [OF e(2)] toggled_missing by auto
  next
    case (Inr st)
    obtain ts1 d1 where st: "st = (ts1, d1)" by fastforce
    note t = toggled_item [OF Inr [unfolded st]]
    have "bulk_loop en fresh (Suc k) req is (ok @ [i]) bad (ts1, d1) = Inr ((ok', bad', ts'), d')"
      using Cons.prems Inr st by (simp add: it)
    from Cons.IH [OF this] t toggled_Get [of b "{i}" d d1] toggled_trans [of b "{i}" d d1 "set is" d'] show ?thesis by auto
  qed
qed

lemma toggled_reruns:
  assumes "toggled b is d d1" "reruns d1 d2" "uniq_sched d1"
  shows "toggled b is d d2"
  unfolding toggled_def
proof
  fix j
  note a = assms(1) [unfolded toggled_def, rule_format, of j]
  have "rel_option rerun (sched_Get d1 j) (sched_Get d2 j)" using assms(2,3) by (simp add: reruns_def)
  then show "rel_option (\<lambda>x x'. sch_Enabled x' = (if j \<in> is then b else sch_Enabled x) \<and>
      sch_TargetID x' = sch_TargetID x \<and> sch_Name x' = sch_Name x) (sched_Get d j) (sched_Get d2 j)"
    using a by (cases "sched_Get d j"; cases "sched_Get d1 j"; cases "sched_Get d2 j") (auto dest: rerun_fields)
qed

lemma bulk_loop_uniq:
  "bk_Operation req = (if b then BulkResume else BulkPause) \<Longrightarrow> uniq_sched d \<Longrightarrow>
   bulk_loop en fresh k req is ok bad (ts, d) = Inr (x, d') \<Longrightarrow> uniq_sched d'"
proof (induction "is" arbitrary: k ok bad ts d)
  case (Cons i "is")
  have it: "bulk_item en fr req i st = bulkToggle en i b st" for fr st
    using Cons.prems(1) by (cases b) (simp_all add: bulk_item_def)
  have u: "uniq_sched d1" if "bulkToggle en i b (ts, d) = Inr (ts1, d1)" for ts1 d1
    using that Cons.prems(2) by (auto simp: bulkToggle_def Let_def dest: Update_uniq split: option.splits if_splits sum.splits)
  show ?case
  proof (cases "bulkToggle en i b (ts, d)")
    case (Inl e)
    then show ?thesis using Cons by (auto simp: it split: if_splits)
  next
    case (Inr st)
    then show ?thesis using Cons.IH [OF Cons.prems(1) u] Cons.prems(3) by (cases st) (auto simp: it)
  qed
qed simp

text \<open>C28: Bulk pause and resume. When the request succeeds, the identifiers are split in their order into
  those of existing schedules, all now with the requested flag, and those without a row, which are
  reported; no other schedule changes its flag, none changes its target or name, none is added or
  removed.\<close>

theorem bulk_toggle_exact:
  assumes "routeBulkSchedules en fresh (Some req) sv = (Reply st resp, sv')"
    and "bk_Operation req = (if b then BulkResume else BulkPause)" "uniq_sched (sv_db sv)"
  shows "br_Succeeded resp = filter (\<lambda>i. sched_Get (sv_db sv) i \<noteq> None) (bk_ScheduleIDs req) \<and>
    br_Failed resp = filter (\<lambda>i. sched_Get (sv_db sv) i = None) (bk_ScheduleIDs req) \<and>
    (\<forall>i. rel_option (\<lambda>s s'. sch_Enabled s' = (if i \<in> set (bk_ScheduleIDs req) then b else sch_Enabled s) \<and>
       sch_TargetID s' = sch_TargetID s \<and> sch_Name s' = sch_Name s) (sched_Get (sv_db sv) i) (sched_Get (sv_db sv') i))"
proof (rule bulk_steps [OF assms(1)])
  fix ts d
  assume l: "bulk_loop en fresh 0 req (bk_ScheduleIDs req) [] [] ([], sv_db sv) = Inr ((br_Succeeded resp, br_Failed resp, ts), d)"
    "sv' = fold (recompute_template en) ts (sv\<lparr>sv_db := d\<rparr>)"
  note t = bulk_toggle_loop [OF assms(2) l(1)]
  have "reruns d (sv_db sv')" using reruns_recomputes [of "sv\<lparr>sv_db := d\<rparr>" en ts] l(2) by simp
  then have "toggled b (set (bk_ScheduleIDs req)) (sv_db sv) (sv_db sv')"
    using t bulk_loop_uniq [OF assms(2,3) l(1)] toggled_reruns by blast
  then show ?thesis using t by (simp add: toggled_def)
qed

definition ex_pause :: BulkScheduleRequest where
  "ex_pause = \<lparr>bk_Operation = BulkPause, bk_ScheduleIDs = [''s1'', ''s9''], bk_CreateTemplate = None\<rparr>"

lemma bulk_toggle_exact_witness:
  "\<exists>resp sv'. routeBulkSchedules api_env (\<lambda>_. ''u'') (Some ex_pause) (ex_server ex_one_db) = (Reply 200 resp, sv') \<and>
     br_Succeeded resp = [''s1''] \<and> br_Failed resp = [''s9'']"
proof -
  let ?b = "routeBulkSchedules api_env (\<lambda>_. ''u'') (Some ex_pause) (ex_server ex_one_db)"
  have "\<not> refused (fst ?b)" by code_simp
  then obtain resp sv' where b: "?b = (Reply 200 resp, sv')"
    by (auto simp: routeBulkSchedules_def Let_def simp del: bulk_loop.simps split: if_splits sum.splits prod.splits option.splits)
  have u: "uniq_sched (sv_db (ex_server ex_one_db))" by (simp add: uniq_sched_def ex_server_def ex_one_db_def)
  have g: "sched_Get (sv_db (ex_server ex_one_db)) ''s1'' \<noteq> None" "sched_Get (sv_db (ex_server ex_one_db)) ''s9'' = None"
    by code_simp+
  from bulk_toggle_exact [OF b _ u, of False] b g show ?thesis by (simp add: ex_pause_def)
qed

section \<open>Properties: deleting a template\<close>

lemma deletes_Get:
  "foldR sched_Delete is d = Inr d' \<Longrightarrow> sched_Get d' j = (if j \<in> set is then None else sched_Get d j) \<and>
    db_templates d' = db_templates d"
proof (induction "is" arbitrary: d)
  case (Cons i "is")
  then obtain d1 where d1: "sched_Delete i d = Inr d1" "foldR sched_Delete is d1 = Inr d'" by (auto split: sum.splits)
  have "db_templates d1 = db_templates d" using d1(1) by (auto simp: sched_Delete_def split: if_splits)
  then show ?case using Cons.IH [OF d1(2)] sched.delete_lookup [OF d1(1), of j] by (cases "j = i") simp_all
qed simp

lemma tmpl_Delete_Get:
  "tmpl_Delete i d = Inr d' \<Longrightarrow>
    sched_Get d' j = map_option (\<lambda>s. s\<lparr>sch_TemplateID := unlink i (sch_TemplateID s)\<rparr>) (sched_Get d j)"
  by (auto simp: tmpl_Delete_def sched_Get_def row_map split: option.splits if_splits)

lemma unlink_none: "sch_TemplateID s \<noteq> Some i \<Longrightarrow> s\<lparr>sch_TemplateID := unlink i (sch_TemplateID s)\<rparr> = s"
  by (simp add: unlink_def)

text \<open>C29: Deleting a template. A successful deletion removes the template, which was not built in, and
  exactly the schedules that referred to it, of which there are none unless the deletion was
  forced; every other schedule and template is as before.\<close>

theorem deleted_template:
  assumes "deleteTemplate i force sv = (NoContent, sv')" "uniq_sched (sv_db sv)"
  shows "(\<exists>t. tmpl_Get (sv_db sv) i = Some t \<and> \<not> tm_IsSystem t) \<and>
    (\<forall>j. tmpl_Get (sv_db sv') j = (if j = i then None else tmpl_Get (sv_db sv) j)) \<and>
    (\<forall>j. sched_Get (sv_db sv') j = (case sched_Get (sv_db sv) j of None \<Rightarrow> None
       | Some s \<Rightarrow> if sch_TemplateID s = Some i then None else Some s)) \<and>
    (force \<or> (\<forall>s \<in> set (db_schedules (sv_db sv)). sch_TemplateID s \<noteq> Some i))"
proof -
  let ?d = "sv_db sv" and ?deps = "sched_ListByTemplate (sv_db sv) i"
  have deps: "set ?deps = {s \<in> set (db_schedules ?d). sch_TemplateID s = Some i}" by (auto simp: sched_ListByTemplate_def)
  have refused: "(NoContent :: TemplateResponse response) \<noteq> delete_failed e" for e
    by (simp add: delete_failed_def template_not_found_def template_immutable_def writeProblem_def)
  obtain d1 where d1: "foldR sched_Delete (map sch_ID ?deps) ?d = Inr d1" "tmpl_Delete i d1 = Inr (sv_db sv')"
    and f: "force \<or> ?deps = []"
  proof (cases "?deps = []")
    case True
    then have "tmpl_Delete i ?d = Inr (sv_db sv')"
      using assms(1) refused [THEN not_sym] by (auto simp: deleteTemplate_def Let_def template_immutable_def writeProblem_def split: if_splits sum.splits)
    then show thesis using that True by simp
  next
    case False
    then have "force \<and> (\<exists>d1. foldR sched_Delete (map sch_ID ?deps) ?d = Inr d1 \<and> tmpl_Delete i d1 = Inr (sv_db sv'))"
      using assms(1) refused [THEN not_sym]
      by (auto simp: deleteTemplate_def Let_def Transact_def template_immutable_def writeProblem_def split: if_splits sum.splits)
    then show thesis using that by blast
  qed
  note g = deletes_Get [OF d1(1)]
  have t: "db_templates d1 = db_templates ?d" using g by blast
  have "\<exists>t. tmpl_Get ?d i = Some t \<and> \<not> tm_IsSystem t"
    using d1(2) t by (auto simp: tmpl_Delete_def tmpl_Get_def split: option.splits if_splits)
  moreover have "tmpl_Get (sv_db sv') j = (if j = i then None else tmpl_Get ?d j)" for j
    using tmpl.delete_lookup [OF d1(2), of j] t by (simp add: tmpl_Get_def)
  moreover have "sched_Get (sv_db sv') j = (case sched_Get ?d j of None \<Rightarrow> None
       | Some s \<Rightarrow> if sch_TemplateID s = Some i then None else Some s)" for j
  proof (cases "sched_Get ?d j")
    case None
    then show ?thesis using g [of j] by (simp add: tmpl_Delete_Get [OF d1(2)])
  next
    case (Some s)
    then have s: "s \<in> set (db_schedules ?d)" "sch_ID s = j" using Get_mem [OF assms(2)] by auto
    have "j \<in> sch_ID ` set ?deps \<longleftrightarrow> sch_TemplateID s = Some i"
    proof
      assume "j \<in> sch_ID ` set ?deps"
      then obtain x where "x \<in> set (db_schedules ?d)" "sch_TemplateID x = Some i" "sch_ID x = j" using deps by auto
      then show "sch_TemplateID s = Some i" using Get_mem [OF assms(2)] Some by (metis option.inject)
    qed (use deps s in auto)
    then show ?thesis using g [of j] Some unlink_none [of s i] by (simp add: tmpl_Delete_Get [OF d1(2)])
  qed
  moreover have "force \<or> (\<forall>s \<in> set (db_schedules ?d). sch_TemplateID s \<noteq> Some i)" using f deps by auto
  ultimately show ?thesis by blast
qed

definition ex_weekly :: Template where
  "ex_weekly = \<lparr>tm_ID = ''k1'', tm_Name = ''weekly'', tm_Description = [], tm_RRule = ''FREQ=DAILY'', tm_Timezone = ''UTC'',
     tm_ToolConfig = [], tm_MaintenanceWindow = None, tm_IsSystem = False, tm_CreatedAt = 0, tm_UpdatedAt = 0\<rparr>"

definition ex_linked_db :: db where
  "ex_linked_db = ex_db\<lparr>db_templates := [ex_weekly], db_schedules := [ex_daily\<lparr>sch_TemplateID := Some ''k1''\<rparr>]\<rparr>"

lemma deleted_template_witness:
  "\<exists>sv'. deleteTemplate ''k1'' True (ex_server ex_linked_db) = (NoContent, sv') \<and> sched_Get (sv_db sv') ''s1'' = None"
proof -
  let ?r = "deleteTemplate ''k1'' True (ex_server ex_linked_db)"
  have "\<not> refused (fst ?r)" by code_simp
  then obtain sv' where r: "?r = (NoContent, sv')"
    by (auto simp: deleteTemplate_def Let_def Transact_def split: if_splits sum.splits prod.splits option.splits)
  have u: "uniq_sched (sv_db (ex_server ex_linked_db))" by (simp add: uniq_sched_def ex_server_def ex_linked_db_def)
  have s: "sched_Get (sv_db (ex_server ex_linked_db)) ''s1'' = Some (ex_daily\<lparr>sch_TemplateID := Some ''k1''\<rparr>)"
    by (simp add: sched_Get_def row_def ex_server_def ex_linked_db_def ex_daily_def ex_schedule_def)
  from deleted_template [OF r u] r s show ?thesis by simp
qed

section \<open>Properties: ad-hoc runs\<close>

lemma row_untouched:
  assumes "row k rs i = None" "\<And>x. k (f x) = k x" "\<not> P r" "k r = i"
  shows "row k (update_where P f (rs @ [r])) i = Some r"
  using assms by (induction rs) (auto simp: update_where_def row_def split: if_splits)

text \<open>A refused ad-hoc run stays pending. The run is stored before it is dispatched; when the target
  is busy or in a blackout the client is told so, but the new row keeps the status pending, has no
  scan, and the repair at the next start of a scheduler does not touch it either.\<close>

theorem refused_adhoc_stays_pending:
  assumes "routeAdHoc en fresh waited (Some req) sv = (Problem p, sv')"
    and "pr_Type p = ''/problems/target-busy'' \<or> pr_Type p = ''/problems/in-blackout''"
  shows "ah_Get (sv_db sv) (fresh 0) = None \<and>
    (\<exists>r. ah_Get (sv_db sv') (fresh 0) = Some r \<and> ah_Status r = AdHocPending \<and> ah_ScanID r = None \<and>
       ah_Get (fst (ReapOrphanedScans t1 t2 t3 t4 (sv_db sv'))) (fresh 0) = Some r)"
proof -
  let ?run = "adhoc_of_request (en_now en) req"
  obtain d where d: "ah_Create (en_now en) (fresh 0) ?run (sv_db sv) = Inr d"
    and p: "dispatchAdHoc en (fresh 1) waited (ah_prepared (en_now en) (fresh 0) ?run) (sv\<lparr>sv_db := d\<rparr>) = (Problem p, sv')"
    using assms by (auto simp: routeAdHoc_def Let_def writeProblem_def target_missing_def split: if_splits sum.splits)
  have db: "sv_db sv' = d"
    using p assms(2)
    by (auto simp: dispatchAdHoc_def DispatchAdHoc_def Let_def writeProblem_def sc_active_def
        split: option.splits prod.splits if_splits dispatch_error.splits sum.splits)
  let ?r = "ah_row (ah_prepared (en_now en) (fresh 0) ?run)"
  have r: "d = (sv_db sv)\<lparr>db_adhoc := db_adhoc (sv_db sv) @ [?r]\<rparr>" "ah_Get (sv_db sv) (ah_ID ?r) = None"
    using d by (auto simp: ah_Create_def Let_def split: sum.splits if_splits)
  have f: "ah_ID ?r = fresh 0" "ah_Status ?r = AdHocPending" "ah_ScanID ?r = None"
    by (simp_all add: ah_row_def ah_prepared_def adhoc_of_request_def nullableString_def)
  have g: "ah_Get d (fresh 0) = Some ?r" using r f by (simp add: ah_Get_def row_append)
  have "\<not> orphan_adhoc ids ?r" for ids using f by (simp add: orphan_adhoc_def)
  moreover have "ah_ID (fail_adhoc t2 x) = ah_ID x" for x by (simp add: fail_adhoc_def)
  ultimately have "row ah_ID (update_where (orphan_adhoc ids) (fail_adhoc t2) (db_adhoc d)) (fresh 0) = Some ?r" for ids
    using row_untouched [of ah_ID "db_adhoc (sv_db sv)" "fresh 0" "fail_adhoc t2" "orphan_adhoc ids" ?r] r f(1)
    by (simp add: ah_Get_def)
  then show ?thesis using r(2) f g db by (simp add: ah_Get_def reap_eq Let_def)
qed

definition ex_busy :: "(time \<times> duration) server" where
  "ex_busy = (ex_server ex_one_db)\<lparr>sv_dispatcher := Some (ex_sched_state\<lparr>sc_locks := [(''t1'', 1)]\<rparr>)\<rparr>"

definition ex_adhoc_request :: CreateAdHocRequest where
  "ex_adhoc_request = \<lparr>ca_TargetID = ''t1'', ca_TemplateID = None, ca_ToolConfigOverride = [],
     ca_RequestedBy = [], ca_Reason = [], ca_Name = []\<rparr>"

lemma refused_adhoc_stays_pending_witness:
  "\<exists>p sv' r. routeAdHoc api_env (\<lambda>_. ''u'') (Inl ()) (Some ex_adhoc_request) ex_busy = (Problem p, sv') \<and>
     pr_Type p = ''/problems/target-busy'' \<and> ah_Get (sv_db sv') ''u'' = Some r \<and> ah_Status r = AdHocPending"
proof -
  let ?r = "routeAdHoc api_env (\<lambda>_. ''u'') (Inl ()) (Some ex_adhoc_request) ex_busy"
  have "(case fst ?r of Problem p \<Rightarrow> pr_Type p = ''/problems/target-busy'' | _ \<Rightarrow> False)" by code_simp
  then obtain p sv' where r: "?r = (Problem p, sv')" and p: "pr_Type p = ''/problems/target-busy''"
    by (cases ?r) (auto split: response.splits)
  from refused_adhoc_stays_pending [OF r, of 0 0 0 0] p r show ?thesis by blast
qed

end
