(* ===== verification/Web.thy ===== *)
theory Web
  imports ApiServe Pipeline
begin

text \<open>
  The dashboard: the handlers of \<open>internal/webui/handlers.go\<close>, the security score of
  \<open>internal/scoring/score.go\<close>, and the state of the handler (the scan it has started and the
  function that cancels it). A response body is a record with the fields of the JSON object. A
  status, severity or level that is not one of the known texts matches no row. Failures of the
  database and the log output are left out.
\<close>

section \<open>Requests and replies\<close>

datatype 'b web_reply = WebError int string | WebReply int 'b | WebEmpty int

definition not_allowed :: "'b web_reply" where
  "not_allowed = WebError 405 ''method not allowed''"

record createTargetRequest =
  ct_Value :: string
  ct_Type :: string
  ct_Scope :: string

record createScanRequest =
  cn_TargetID :: string
  cn_Type :: string
  cn_Tools :: "string list"
  cn_RateLimit :: int
  cn_Timeout :: int

text \<open>A request with the headers the middleware reads; a body is \<open>None\<close> when it does not decode.\<close>

record web_request = http_request +
  wq_Host :: string
  wq_Origin :: string
  wq_Referer :: string
  wq_Authorization :: string
  wq_CreateTarget :: "createTargetRequest option"
  wq_FindingStatus :: "string option"
  wq_CreateScan :: "createScanRequest option"

definition queryInt :: "query \<Rightarrow> string \<Rightarrow> int \<Rightarrow> int" where
  "queryInt q key def =
     (if q key = [] then def
      else case Atoi (q key) of None \<Rightarrow> def | Some n \<Rightarrow> if n < 1 then def else n)"

definition parse_enum :: "('a \<Rightarrow> string) \<Rightarrow> 'a list \<Rightarrow> string \<Rightarrow> 'a option" where
  "parse_enum txt xs s = find (\<lambda>x. txt x = s) xs"

text \<open>A filter on a column with known values: no filter, one value, or a text that no row has.\<close>

datatype 'a column_filter = AnyValue | OneValue 'a | NoValue

definition column_filter :: "('a \<Rightarrow> string) \<Rightarrow> 'a list \<Rightarrow> string \<Rightarrow> 'a column_filter" where
  "column_filter txt xs s =
     (if s = [] then AnyValue else case parse_enum txt xs s of None \<Rightarrow> NoValue | Some x \<Rightarrow> OneValue x)"

definition filter_value :: "'a column_filter \<Rightarrow> 'a option" where
  "filter_value c = (case c of OneValue x \<Rightarrow> Some x | _ \<Rightarrow> None)"

definition Severities :: "Severity list" where
  "Severities = [SeverityCritical, SeverityHigh, SeverityMedium, SeverityLow, SeverityInfo]"

fun FindingStatus_text :: "FindingStatus \<Rightarrow> string" where
  "FindingStatus_text FindingStatusOpen = ''open''"
| "FindingStatus_text FindingStatusAcknowledged = ''acknowledged''"
| "FindingStatus_text FindingStatusResolved = ''resolved''"
| "FindingStatus_text FindingStatusFalsePositive = ''false_positive''"
| "FindingStatus_text FindingStatusIgnored = ''ignored''"

definition validFindingStatuses :: "FindingStatus list" where
  "validFindingStatuses = [FindingStatusOpen, FindingStatusAcknowledged, FindingStatusResolved,
     FindingStatusFalsePositive, FindingStatusIgnored]"

fun AssetStatus_text :: "AssetStatus \<Rightarrow> string" where
  "AssetStatus_text AssetStatusActive = ''active''"
| "AssetStatus_text AssetStatusNew = ''new''"
| "AssetStatus_text AssetStatusDisappeared = ''disappeared''"
| "AssetStatus_text AssetStatusReturned = ''returned''"
| "AssetStatus_text AssetStatusInactive = ''inactive''"
| "AssetStatus_text AssetStatusIgnored = ''ignored''"

definition AssetStatuses :: "AssetStatus list" where
  "AssetStatuses = [AssetStatusActive, AssetStatusNew, AssetStatusDisappeared, AssetStatusReturned,
     AssetStatusInactive, AssetStatusIgnored]"

text \<open>A type of asset is an open vocabulary, so every text is one.\<close>

definition asset_type_of :: "string \<Rightarrow> AssetType" where
  "asset_type_of s = (case parse_enum AssetType_text KnownAssetTypes s of Some t \<Rightarrow> t | None \<Rightarrow> OtherAssetType s)"

section \<open>The security score\<close>

record Component =
  cp_Severity :: string
  cp_Count :: int
  cp_Weight :: int
  cp_Penalty :: int

definition score_weights :: "(Severity \<times> int) list" where
  "score_weights = [(SeverityCritical, 25), (SeverityHigh, 10), (SeverityMedium, 3), (SeverityLow, 1)]"

definition score_step :: "Severity counts \<Rightarrow> Severity \<times> int \<Rightarrow> int \<times> Component list \<Rightarrow> int \<times> Component list" where
  "score_step sevCounts w acc =
     (let count = count_at sevCounts (fst w); penalty = count * snd w in
      (fst acc - penalty,
       if count > 0
       then snd acc @ [\<lparr>cp_Severity = Severity_text (fst w), cp_Count = count, cp_Weight = snd w, cp_Penalty = penalty\<rparr>]
       else snd acc))"

definition ComputeSecurityScore :: "Severity counts \<Rightarrow> int \<times> Component list" where
  "ComputeSecurityScore sevCounts =
     (let (score, breakdown) = fold (score_step sevCounts) score_weights (100, []);
          score = (if score < 0 then 0 else score);
          score = (if score > 100 then 100 else score)
      in (score, breakdown))"

section \<open>Overview\<close>

record scanSummary =
  ss_ID :: string
  ss_Target :: string
  ss_Status :: ScanStatus
  ss_StartedAt :: "time option"
  ss_FinishedAt :: "time option"
  ss_DurationSeconds :: int
  ss_FindingsCount :: int
  ss_TargetState :: TargetState
  ss_Delta :: ScanDelta
  ss_Work :: ScanWork

record changeSummary =
  cg_NewAssets :: int
  cg_DisappearedAssets :: int
  cg_ModifiedAssets :: int
  cg_NewFindings :: int
  cg_ResolvedFindings :: int
  cg_IsBaseline :: bool

record agentInfo =
  ai_Version :: string
  ai_DBPath :: string
  ai_DBSizeBytes :: int
  ai_TargetsCount :: int

record overviewResponse =
  ov_SecurityScore :: int
  ov_ScoreBreakdown :: "Component list"
  ov_TotalFindings :: int
  ov_UniqueFindings :: int
  ov_FindingsBySeverity :: "Severity counts"
  ov_TotalAssets :: int
  ov_AssetsByType :: "AssetType counts"
  ov_LastScan :: "scanSummary option"
  ov_ChangesSinceLast :: "changeSummary option"
  ov_Agent :: agentInfo

definition changeSummaryFromDelta :: "ScanDelta \<Rightarrow> changeSummary" where
  "changeSummaryFromDelta delta =
     \<lparr>cg_NewAssets = counts_total (de_NewAssets delta), cg_DisappearedAssets = counts_total (de_DisappearedAssets delta),
      cg_ModifiedAssets = counts_total (de_ModifiedAssets delta), cg_NewFindings = counts_total (de_NewFindings delta),
      cg_ResolvedFindings = counts_total (de_ResolvedFindings delta), cg_IsBaseline = de_IsBaseline delta\<rparr>"

text \<open>The name shown for a target: its value, or its identifier when it is gone.\<close>

definition target_name :: "db \<Rightarrow> string \<Rightarrow> string" where
  "target_name d i = (case GetTarget d i of None \<Rightarrow> i | Some t \<Rightarrow> tg_Value t)"

text \<open>Whole seconds of a duration, towards zero.\<close>

definition whole_seconds :: "duration \<Rightarrow> int" where
  "whole_seconds x = (if 0 \<le> x then x div second else - ((- x) div second))"

definition scan_summary :: "db \<Rightarrow> Scan \<Rightarrow> scanSummary" where
  "scan_summary d s =
     \<lparr>ss_ID = sn_ID s, ss_Target = target_name d (sn_TargetID s), ss_Status = sn_Status s,
      ss_StartedAt = sn_StartedAt s, ss_FinishedAt = sn_FinishedAt s,
      ss_DurationSeconds = (case (sn_StartedAt s, sn_FinishedAt s) of
          (Some a, Some b) \<Rightarrow> whole_seconds (b - a) | _ \<Rightarrow> 0),
      ss_FindingsCount = ts_FindingsOpenTotal (sn_TargetState s), ss_TargetState = sn_TargetState s,
      ss_Delta = sn_Delta s, ss_Work = sn_Work s\<rparr>"

text \<open>\<open>agent\<close> carries the version, path and size; the count of targets comes from the store.\<close>

definition handleOverview :: "agentInfo \<Rightarrow> ('z http_request_scheme) \<Rightarrow> db \<Rightarrow> overviewResponse web_reply" where
  "handleOverview agent rq d =
     (if hq_Method rq \<noteq> ''GET'' then not_allowed
      else
        let sevCounts = CountFindingsBySeverity d; (score, breakdown) = ComputeSecurityScore sevCounts in
        WebReply 200
          \<lparr>ov_SecurityScore = score, ov_ScoreBreakdown = breakdown, ov_TotalFindings = int (CountFindings d),
           ov_UniqueFindings = int (CountUniqueFindingsByHost d), ov_FindingsBySeverity = sevCounts,
           ov_TotalAssets = int (CountAssets d), ov_AssetsByType = CountAssetsByType d,
           ov_LastScan = map_option (scan_summary d) (LastScan d),
           ov_ChangesSinceLast = map_option (\<lambda>s. changeSummaryFromDelta (sn_Delta s)) (LastScan d),
           ov_Agent = agent\<lparr>ai_TargetsCount := int (CountTargets d)\<rparr>\<rparr>)"

section \<open>Findings\<close>

record findingEnriched =
  fe_Finding :: Finding
  fe_AssetValue :: string
  fe_AssetType :: string

record findingsResponse =
  fr_Findings :: "findingEnriched list"
  fr_Total :: int
  fr_Page :: int
  fr_Limit :: int

text \<open>The assets are loaded once for every identifier that occurs.\<close>

definition enrichFindings :: "db \<Rightarrow> Finding list \<Rightarrow> findingEnriched list" where
  "enrichFindings d findings =
     (let seen = remdups (filter (\<lambda>i. i \<noteq> []) (map fi_AssetID findings));
          lookup = map_of (concat (map (\<lambda>i. case GetAsset d i of None \<Rightarrow> [] | Some a \<Rightarrow> [(i, a)]) seen))
      in map (\<lambda>f. case lookup (fi_AssetID f) of
             None \<Rightarrow> \<lparr>fe_Finding = f, fe_AssetValue = [], fe_AssetType = []\<rparr>
           | Some a \<Rightarrow> \<lparr>fe_Finding = f, fe_AssetValue = as_Value a, fe_AssetType = AssetType_text (as_Type a)\<rparr>) findings)"

text \<open>The offset of a page in the arithmetic of the machine.\<close>

definition web_offset :: "int \<Rightarrow> int \<Rightarrow> int" where
  "web_offset pg lim = wrap64 (wrap64 (pg - 1) * lim)"

definition finding_opts :: "query \<Rightarrow> int \<Rightarrow> int \<Rightarrow> FindingListOptions" where
  "finding_opts q pg lim =
     \<lparr>fo_AssetID = [], fo_ScanID = q ''scan_id'', fo_ScanScope = q ''scan_scope'', fo_TargetID = q ''target_id'',
      fo_TemplateID = q ''template_id'', fo_Host = q ''host'',
      fo_Severity = filter_value (column_filter Severity_text Severities (q ''severity'')),
      fo_Status = filter_value (column_filter FindingStatus_text validFindingStatuses (q ''status'')),
      fo_SourceTool = q ''tool'', fo_Limit = lim, fo_Offset = web_offset pg lim\<rparr>"

definition no_such_finding :: "query \<Rightarrow> bool" where
  "no_such_finding q = (column_filter Severity_text Severities (q ''severity'') = NoValue \<or>
     column_filter FindingStatus_text validFindingStatuses (q ''status'') = NoValue)"

text \<open>\<open>uuid\<close> is the parser of the identifier library.\<close>

definition handleFindings :: "(string \<Rightarrow> bool) \<Rightarrow> ('z http_request_scheme) \<Rightarrow> db \<Rightarrow> findingsResponse web_reply" where
  "handleFindings uuid rq d =
     (let q = hq_Query rq in
      if hq_Method rq \<noteq> ''GET'' then not_allowed
      else
        let pg = queryInt q ''page'' 1; lim = queryInt q ''limit'' 50; lim = (if lim > 250 then 250 else lim) in
        if q ''scan_id'' \<noteq> [] \<and> \<not> uuid (q ''scan_id'') then WebError 400 ''scan_id must be a valid UUID''
        else if q ''scan_scope'' \<noteq> [] \<and> \<not> uuid (q ''scan_scope'') then WebError 400 ''scan_scope must be a valid UUID''
        else
          let opts = finding_opts q pg lim;
              findings = (if no_such_finding q then [] else ListFindings d opts);
              total = (if no_such_finding q then 0 else int (CountFindingsFiltered d opts))
          in WebReply 200 \<lparr>fr_Findings = enrichFindings d findings, fr_Total = total, fr_Page = pg, fr_Limit = lim\<rparr>)"

definition handleFindingDetail :: "('z http_request_scheme) \<Rightarrow> db \<Rightarrow> (Finding \<times> Asset option) web_reply" where
  "handleFindingDetail rq d =
     (if hq_Method rq \<noteq> ''GET'' then not_allowed
      else
        let i = TrimPrefix (hq_Path rq) ''/api/v1/findings/'' in
        if i = [] then WebError 400 ''missing finding id''
        else case GetFinding d i of
          None \<Rightarrow> WebError 404 ''finding not found''
        | Some f \<Rightarrow> WebReply 200 (f, GetAsset d (fi_AssetID f)))"

record groupedFindingsResponse =
  gr_Groups :: "GroupedFinding list"
  gr_Total :: int
  gr_Page :: int
  gr_Limit :: int

definition grouped_opts :: "query \<Rightarrow> int \<Rightarrow> int \<Rightarrow> GroupedFindingOptions" where
  "grouped_opts q pg lim =
     \<lparr>go_Severity = filter_value (column_filter Severity_text Severities (q ''severity'')), go_SourceTool = q ''tool'',
      go_Host = q ''host'', go_SortBy = q ''sort'', go_Limit = lim, go_Offset = web_offset pg lim\<rparr>"

definition handleFindingsGrouped :: "('z http_request_scheme) \<Rightarrow> db \<Rightarrow> groupedFindingsResponse web_reply" where
  "handleFindingsGrouped rq d =
     (let q = hq_Query rq in
      if hq_Method rq \<noteq> ''GET'' then not_allowed
      else
        let pg = queryInt q ''page'' 1; lim = queryInt q ''limit'' 50; lim = (if lim > 250 then 250 else lim);
            none = (column_filter Severity_text Severities (q ''severity'') = NoValue);
            opts = grouped_opts q pg lim
        in WebReply 200 \<lparr>gr_Groups = (if none then [] else ListGroupedFindings d opts),
             gr_Total = (if none then 0 else int (CountGroupedFindings d opts)), gr_Page = pg, gr_Limit = lim\<rparr>)"

section \<open>Assets\<close>

record assetsResponse =
  ar_Assets :: "Asset list"
  ar_Total :: int
  ar_Page :: int
  ar_Limit :: int

definition asset_opts :: "query \<Rightarrow> int \<Rightarrow> int \<Rightarrow> AssetListOptions" where
  "asset_opts q pg lim =
     \<lparr>ao_TargetID = q ''target_id'', ao_Type = (if q ''type'' = [] then None else Some (asset_type_of (q ''type''))),
      ao_Status = filter_value (column_filter AssetStatus_text AssetStatuses (q ''status'')),
      ao_Limit = lim, ao_Offset = web_offset pg lim, ao_NewOnly = False, ao_Disappeared = False\<rparr>"

definition handleAssets :: "('z http_request_scheme) \<Rightarrow> db \<Rightarrow> assetsResponse web_reply" where
  "handleAssets rq d =
     (let q = hq_Query rq in
      if hq_Method rq \<noteq> ''GET'' then not_allowed
      else
        let pg = queryInt q ''page'' 1; lim = queryInt q ''limit'' 100; lim = (if lim > 250 then 250 else lim);
            none = (column_filter AssetStatus_text AssetStatuses (q ''status'') = NoValue);
            opts = asset_opts q pg lim
        in WebReply 200 \<lparr>ar_Assets = (if none then [] else ListAssets d opts),
             ar_Total = (if none then 0 else int (CountAssetsFiltered d opts)), ar_Page = pg, ar_Limit = lim\<rparr>)"

datatype assetTreeNode = Node (nd_Asset: Asset) (nd_Children: "assetTreeNode list") (nd_FindingCount: int)

definition add_child :: "assetTreeNode \<Rightarrow> assetTreeNode \<Rightarrow> assetTreeNode" where
  "add_child child parent = Node (nd_Asset parent) (nd_Children parent @ [child]) (nd_FindingCount parent)"

text \<open>The second loop, over the assets: the node of the asset, as it is now in the map, is copied
  into the children of its parent's node or into the roots.\<close>

definition place_asset ::
  "Asset \<Rightarrow> (string \<times> assetTreeNode) list \<times> assetTreeNode list
   \<Rightarrow> (string \<times> assetTreeNode) list \<times> assetTreeNode list" where
  "place_asset a st =
     (case st of (nodeMap, roots) \<Rightarrow>
       (case map_of nodeMap (as_ID a) of
          None \<Rightarrow> (nodeMap, roots)
        | Some node \<Rightarrow>
            (case (if as_ParentID a = [] then None else map_of nodeMap (as_ParentID a)) of
               Some parent \<Rightarrow> (AList.update (as_ParentID a) (add_child node parent) nodeMap, roots)
             | None \<Rightarrow> (nodeMap, roots @ [node]))))"

definition build_tree :: "string counts \<Rightarrow> Asset list \<Rightarrow> assetTreeNode list" where
  "build_tree findingCounts assets =
     (let nodeMap = put_all (map (\<lambda>a. (as_ID a, Node a [] (count_at findingCounts (as_ID a)))) assets) []
      in snd (fold place_asset assets (nodeMap, [])))"

definition handleAssetTree :: "('z http_request_scheme) \<Rightarrow> db \<Rightarrow> assetTreeNode list web_reply" where
  "handleAssetTree rq d =
     (if hq_Method rq \<noteq> ''GET'' then not_allowed
      else WebReply 200 (build_tree (CountFindingsByAssetIDs d) (SnapshotAssets d (hq_Query rq ''target_id''))))"

section \<open>Scans, targets and tools\<close>

record scanListEntry =
  sl_Scan :: Scan
  sl_Target :: string

record scansResponse =
  sp_Scans :: "scanListEntry list"
  sp_Total :: int
  sp_Limit :: int

text \<open>The names of the targets are cached during the loop.\<close>

definition list_entry :: "db \<Rightarrow> Scan \<Rightarrow> (string \<times> string) list \<times> scanListEntry list \<Rightarrow> (string \<times> string) list \<times> scanListEntry list" where
  "list_entry d s st =
     (case map_of (fst st) (sn_TargetID s) of
        Some name \<Rightarrow> (fst st, snd st @ [\<lparr>sl_Scan = s, sl_Target = name\<rparr>])
      | None \<Rightarrow> (let name = target_name d (sn_TargetID s) in
          (AList.update (sn_TargetID s) name (fst st), snd st @ [\<lparr>sl_Scan = s, sl_Target = name\<rparr>])))"

definition handleScans :: "('z http_request_scheme) \<Rightarrow> db \<Rightarrow> scansResponse web_reply" where
  "handleScans rq d =
     (if hq_Method rq \<noteq> ''GET'' then not_allowed
      else
        let lim = queryInt (hq_Query rq) ''limit'' 20; scans = ListScans d (hq_Query rq ''target_id'') lim
        in WebReply 200 \<lparr>sp_Scans = snd (fold (list_entry d) scans ([], [])), sp_Total = int (CountScans d), sp_Limit = lim\<rparr>)"

record scanDetail =
  sd_Scan :: Scan
  sd_Target :: string
  sd_ToolRuns :: "ToolRun list"
  sd_Changes :: "AssetChange list"

definition handleScanDetail :: "('z http_request_scheme) \<Rightarrow> db \<Rightarrow> scanDetail web_reply" where
  "handleScanDetail rq d =
     (if hq_Method rq \<noteq> ''GET'' then not_allowed
      else
        let i = TrimPrefix (hq_Path rq) ''/api/v1/scans/'' in
        if i = [] then WebError 400 ''missing scan id''
        else case GetScan d i of
          None \<Rightarrow> WebError 404 ''scan not found''
        | Some s \<Rightarrow> WebReply 200
            \<lparr>sd_Scan = s, sd_Target = target_name d (sn_TargetID s), sd_ToolRuns = ListToolRuns d i,
             sd_Changes = ListAssetChanges d \<lparr>co_TargetID = [], co_ScanID = i, co_ChangeType = [], co_Significance = [],
               co_AssetType = [], co_Limit = 100\<rparr>\<rparr>)"

record targetWithStats =
  tw_Target :: Target
  tw_FindingCount :: int
  tw_AssetCount :: int
  tw_ScanCount :: int

definition target_stats :: "db \<Rightarrow> Target \<Rightarrow> targetWithStats" where
  "target_stats d t = \<lparr>tw_Target = t, tw_FindingCount = int (CountFindingsByTargetID d (tg_ID t)),
     tw_AssetCount = int (CountAssetsByTargetID d (tg_ID t)), tw_ScanCount = int (CountScansByTargetID d (tg_ID t))\<rparr>"

definition handleTargets :: "('z http_request_scheme) \<Rightarrow> db \<Rightarrow> targetWithStats list web_reply" where
  "handleTargets rq d =
     (if hq_Method rq \<noteq> ''GET'' then not_allowed else WebReply 200 (map (target_stats d) (ListTargets d)))"

definition handleTools :: "('z http_request_scheme) \<Rightarrow> db \<Rightarrow> ToolRun list web_reply" where
  "handleTools rq d =
     (if hq_Method rq \<noteq> ''GET'' then not_allowed
      else case LastScan d of None \<Rightarrow> WebReply 200 [] | Some s \<Rightarrow> WebReply 200 (ListToolRuns d (sn_ID s)))"

text \<open>A target is looked up by its identifier, then by its value.\<close>

definition find_target :: "db \<Rightarrow> string \<Rightarrow> Target option" where
  "find_target d i = (case GetTarget d i of Some t \<Rightarrow> Some t | None \<Rightarrow> GetTargetByValue d i)"

record targetDetail =
  td_Stats :: targetWithStats
  td_LatestScan :: "Scan option"
  td_RecentScans :: "Scan list"
  td_RecentFindings :: "findingEnriched list"

definition handleTargetDetail :: "('z http_request_scheme) \<Rightarrow> db \<Rightarrow> targetDetail web_reply" where
  "handleTargetDetail rq d =
     (let i = TrimPrefix (hq_Path rq) ''/api/v1/targets/'' in
      if i = [] then WebError 400 ''missing target id''
      else case find_target d i of
        None \<Rightarrow> WebError 404 ''target not found''
      | Some t \<Rightarrow>
          let scans = ListScans d (tg_ID t) 10;
              latest = (case find (\<lambda>s. sn_Status s = ScanStatusCompleted) scans of
                  Some s \<Rightarrow> Some s | None \<Rightarrow> (case scans of [] \<Rightarrow> None | s # _ \<Rightarrow> Some s));
              findings = ListFindings d (no_filter\<lparr>fo_TargetID := tg_ID t, fo_Limit := 20\<rparr>)
          in WebReply 200 \<lparr>td_Stats = target_stats d t, td_LatestScan = latest, td_RecentScans = scans,
               td_RecentFindings = enrichFindings d findings\<rparr>)"

text \<open>\<open>available\<close> tells of a registered tool whether it can run on this machine.\<close>

record toolInfo =
  ti_Name :: string
  ti_Phase :: string
  ti_Available :: bool

definition handleAvailableTools ::
  "(DetectionTool \<Rightarrow> bool) \<Rightarrow> DetectionTool list option \<Rightarrow> ('z http_request_scheme) \<Rightarrow> (toolInfo list \<times> int \<times> int) web_reply" where
  "handleAvailableTools available registry rq =
     (if hq_Method rq \<noteq> ''GET'' then not_allowed
      else case registry of
        None \<Rightarrow> WebReply 200 ([], 0, 0)
      | Some tools \<Rightarrow> WebReply 200
          (map (\<lambda>t. \<lparr>ti_Name = dt_Name t, ti_Phase = dt_Phase t, ti_Available = available t\<rparr>) tools,
           int (length tools), int (length (filter available tools))))"

section \<open>Scan logs\<close>

definition parseInt64Query :: "query \<Rightarrow> string \<Rightarrow> int \<Rightarrow> int" where
  "parseInt64Query q key fallback =
     (if q key = [] then fallback
      else case Atoi (q key) of None \<Rightarrow> fallback | Some n \<Rightarrow> if n < 0 then fallback else n)"

definition parseIntQuery :: "query \<Rightarrow> string \<Rightarrow> int \<Rightarrow> int" where
  "parseIntQuery q key fallback =
     (if q key = [] then fallback else case Atoi (q key) of None \<Rightarrow> fallback | Some n \<Rightarrow> n)"

fun LogLevel_text :: "LogLevel \<Rightarrow> string" where
  "LogLevel_text LogLevelDebug = ''debug''"
| "LogLevel_text LogLevelInfo = ''info''"
| "LogLevel_text LogLevelWarn = ''warn''"
| "LogLevel_text LogLevelError = ''error''"

definition LogLevels :: "LogLevel list" where
  "LogLevels = [LogLevelDebug, LogLevelInfo, LogLevelWarn, LogLevelError]"

definition parseLogLevels :: "string \<Rightarrow> LogLevel list" where
  "parseLogLevels csv =
     (if csv = [] then []
      else concat (map (\<lambda>p. case parse_enum LogLevel_text LogLevels (TrimSpace p) of None \<Rightarrow> [] | Some l \<Rightarrow> [l])
             (SplitOn (CHR '','') csv)))"

definition parseCSV :: "string \<Rightarrow> string list" where
  "parseCSV csv =
     (if csv = [] then [] else filter (\<lambda>s. s \<noteq> []) (map TrimSpace (SplitOn (CHR '','') csv)))"

record logsResponse =
  lr_Lines :: "ScanLog list"
  lr_Next :: int
  lr_HasMore :: bool

definition log_opts :: "query \<Rightarrow> string \<Rightarrow> int \<Rightarrow> int \<Rightarrow> ScanLogListOptions" where
  "log_opts q i since lim =
     \<lparr>lo_ScanID = i, lo_Since = since, lo_Limit = lim, lo_Level = parseLogLevels (q ''level''),
      lo_Source = parseCSV (q ''source''), lo_ToolRunID = q ''tool_run_id''\<rparr>"

definition logs_page :: "int \<Rightarrow> int \<Rightarrow> ScanLog list \<Rightarrow> logsResponse" where
  "logs_page since lim logs =
     (if logs = [] then \<lparr>lr_Lines = logs, lr_Next = since, lr_HasMore = False\<rparr>
      else \<lparr>lr_Lines = logs, lr_Next = lg_ID (last logs), lr_HasMore = int (length logs) \<ge> lim\<rparr>)"

definition handleScanLogs :: "('z http_request_scheme) \<Rightarrow> db \<Rightarrow> logsResponse web_reply" where
  "handleScanLogs rq d =
     (if hq_Method rq \<noteq> ''GET'' \<and> hq_Method rq \<noteq> ''HEAD'' then not_allowed
      else
        let q = hq_Query rq; i = TrimSuffix (TrimPrefix (hq_Path rq) ''/api/v1/scans/'') ''/logs'' in
        if i = [] then WebError 400 ''missing scan id''
        else if GetScan d i = None then WebError 404 ''scan not found''
        else if hq_Method rq = ''HEAD'' then WebEmpty 200
        else
          let since = parseInt64Query q ''since'' 0; lim = parseIntQuery q ''limit'' 200 in
          if lim \<le> 0 then WebError 400 ''limit must be positive''
          else
            let lim = (if lim > 1000 then 1000 else lim) in
            case ListScanLogs d (log_opts q i since lim) of
              Inl _ \<Rightarrow> WebError 500 ''failed to list logs''
            | Inr logs \<Rightarrow> WebReply 200 (logs_page since lim logs))"

section \<open>Changing targets and findings\<close>

text \<open>An unknown scope passes the handler and fails on the CHECK constraint of the column. The answer
  to a creation is the new row with the stamps before they were rounded to the second.\<close>

definition TargetTypes :: "(string \<times> TargetType) list" where
  "TargetTypes = [(''domain'', TargetTypeDomain), (''cidr'', TargetTypeCIDR), (''ip'', TargetTypeIP)]"

definition TargetScopes :: "(string \<times> TargetScope) list" where
  "TargetScopes = [(''external'', TargetScopeExternal), (''internal'', TargetScopeInternal), (''both'', TargetScopeBoth)]"

definition create_target_typed ::
  "time \<Rightarrow> string \<Rightarrow> string \<Rightarrow> string \<Rightarrow> string \<Rightarrow> db \<Rightarrow> (store_error, db) result" where
  "create_target_typed now fresh value typ scope d =
     (if typ \<noteq> [] \<and> map_of TargetTypes typ = None then Inl ErrInvalidTarget
      else case CreateTarget now fresh [] value (map_of TargetTypes typ)
                  (map_of TargetScopes scope) d of
             Inl e \<Rightarrow> if map_of TargetScopes scope = None \<and> e = ErrAlreadyExists then Inl ErrConstraint else Inl e
           | Inr d' \<Rightarrow> if map_of TargetScopes scope = None then Inl ErrConstraint else Inr d')"

definition handleCreateTarget ::
  "'r env \<Rightarrow> string \<Rightarrow> web_request \<Rightarrow> db \<Rightarrow> Target web_reply \<times> db" where
  "handleCreateTarget en fresh rq d =
     (if hq_Method rq \<noteq> ''POST'' then (not_allowed, d)
      else case wq_CreateTarget rq of
        None \<Rightarrow> (WebError 400 ''invalid JSON body'', d)
      | Some req \<Rightarrow>
          let value = TrimSpace (ct_Value req); scope = (if ct_Scope req = [] then ''external'' else ct_Scope req) in
          if value = [] then (WebError 400 ''target value is required'', d)
          else case create_target_typed (en_now en) fresh value (ct_Type req) scope d of
            Inl e \<Rightarrow>
              (if e = ErrAlreadyExists then WebError 409 ''target already exists''
               else if e = ErrInvalidTarget then WebError 400 ''invalid target value''
               else WebError 500 ''failed to create target'', d)
          | Inr d' \<Rightarrow>
              (WebReply 201 ((last (db_targets d'))\<lparr>tg_CreatedAt := en_now en, tg_UpdatedAt := en_now en\<rparr>), d'))"

definition handleDeleteTarget :: "web_request \<Rightarrow> db \<Rightarrow> string web_reply \<times> db" where
  "handleDeleteTarget rq d =
     (if hq_Method rq \<noteq> ''DELETE'' then (not_allowed, d)
      else
        let i = TrimPrefix (hq_Path rq) ''/api/v1/targets/'' in
        if i = [] then (WebError 400 ''missing target id'', d)
        else case find_target d i of
          None \<Rightarrow> (WebError 404 ''target not found'', d)
        | Some t \<Rightarrow>
            (case DeleteTarget (tg_ID t) d of
               Inl _ \<Rightarrow> (WebError 500 ''failed to delete target'', d)
             | Inr d' \<Rightarrow> (WebReply 200 (tg_ID t), d')))"

text \<open>The answer is the finding as it was loaded, with the new status.\<close>

definition handleUpdateFindingStatus :: "'r env \<Rightarrow> web_request \<Rightarrow> db \<Rightarrow> Finding web_reply \<times> db" where
  "handleUpdateFindingStatus en rq d =
     (if hq_Method rq \<noteq> ''PATCH'' then (not_allowed, d)
      else
        let i = TrimSuffix (TrimPrefix (hq_Path rq) ''/api/v1/findings/'') ''/status''; now = en_now en in
        if i = [] then (WebError 400 ''missing finding id'', d)
        else case wq_FindingStatus rq of
          None \<Rightarrow> (WebError 400 ''invalid JSON body'', d)
        | Some txt \<Rightarrow>
            (case parse_enum FindingStatus_text validFindingStatuses txt of
               None \<Rightarrow> (WebError 400 ''invalid status: must be open, acknowledged, resolved, false_positive, or ignored'', d)
             | Some st \<Rightarrow>
                 (case GetFinding d i of
                    None \<Rightarrow> (WebError 404 ''finding not found'', d)
                  | Some f \<Rightarrow>
                      (case UpdateFindingStatus now (fi_ID f) st d of
                         Inl _ \<Rightarrow> (WebError 500 ''failed to update finding status'', d)
                       | Inr d1 \<Rightarrow>
                           let d2 = (if st = FindingStatusResolved
                                     then ignore_err (UpdateFindingResolvedAt now (fi_ID f) (Some now) d1) d1
                                     else if fi_Status f = FindingStatusResolved
                                     then ignore_err (UpdateFindingResolvedAt now (fi_ID f) None d1) d1
                                     else d1)
                           in (WebReply 200 (f\<lparr>fi_Status := st\<rparr>), d2)))))"

end
