(* ===== verification/DaemonView.thy ===== *)
theory DaemonView
  imports Windows Expander
begin

text \<open>
  The agent card of the dashboard (\<open>internal/webui/daemon_status.go\<close>) over the two state files
  of \<open>internal/daemon/state.go\<close> and \<open>intervalsched/schedule_state.go\<close>: what a reader makes of a
  file, when the daemon counts as running, and the maintenance window it shows. The operating
  system's name, the redaction of error texts and the local time zone are parameters.
\<close>

section \<open>State files\<close>

record State =
  dm_Version :: string
  dm_PID :: int
  dm_StartedAt :: time
  dm_LastScanAt :: time
  dm_LastScanStatus :: string
  dm_LastError :: string
  dm_NextScanAt :: time
  dm_WrittenAt :: time

record ScheduleState =
  ks_LastFullAt :: time
  ks_LastFullStatus :: string
  ks_LastFullError :: string
  ks_LastQuickAt :: time
  ks_LastQuickStatus :: string
  ks_LastQuickError :: string
  ks_NextFullAt :: time
  ks_NextQuickAt :: time

text \<open>A file as the program can find it: absent, with attributes it may not read (the message), with
  content it cannot read or decode, or with a decoded content; the time is that of its last change.\<close>

datatype 's state_file = Absent | NoAccess string | Corrupt time | Holds time 's

definition zero_State :: State where
  "zero_State = \<lparr>dm_Version = [], dm_PID = 0, dm_StartedAt = zero_time, dm_LastScanAt = zero_time,
     dm_LastScanStatus = [], dm_LastError = [], dm_NextScanAt = zero_time, dm_WrittenAt = zero_time\<rparr>"

text \<open>\<open>Load\<close> gives the zero state for an absent file and fails on a corrupt one; \<open>Save\<close> replaces the
  file by a complete one (write to a sibling, then rename), or leaves it as it was when the write or
  the rename fails; \<open>Update\<close> is the composition.\<close>

definition State_Load :: "'s \<Rightarrow> 's state_file \<Rightarrow> 's option" where
  "State_Load zero f = (case f of Absent \<Rightarrow> Some zero | NoAccess _ \<Rightarrow> None | Corrupt _ \<Rightarrow> None | Holds _ s \<Rightarrow> Some s)"

definition State_Save :: "time \<Rightarrow> bool \<Rightarrow> bool \<Rightarrow> 's \<Rightarrow> 's state_file \<Rightarrow> bool \<times> 's state_file" where
  "State_Save now written renamed s f =
     (if \<not> written then (False, f) else if \<not> renamed then (False, f) else (True, Holds now s))"

definition State_Update ::
  "'s \<Rightarrow> time \<Rightarrow> bool \<Rightarrow> bool \<Rightarrow> ('s \<Rightarrow> 's) \<Rightarrow> 's state_file \<Rightarrow> bool \<times> 's state_file" where
  "State_Update zero now written renamed fn f =
     (case State_Load zero f of None \<Rightarrow> (False, f) | Some s \<Rightarrow> State_Save now written renamed (fn s) f)"

section \<open>The view and the response\<close>

record view =
  dv_DaemonState :: "State state_file"
  dv_HasDaemonPath :: bool
  dv_HasSchedulePath :: bool
  dv_ScheduleState :: "ScheduleState state_file"
  dv_Heartbeat :: duration
  dv_SchedulerEnabled :: bool
  dv_Window :: DailyWindow
  dv_WindowStart :: string
  dv_WindowEnd :: string
  dv_WindowTimezone :: string

record scanResultBlock =
  rb_At :: time
  rb_Status :: string
  rb_Error :: string

record windowBlock =
  nb_Enabled :: bool
  nb_Start :: string
  nb_End :: string
  nb_Timezone :: string
  nb_OpenNow :: bool
  nb_NextOpen :: "time option"
  nb_NextClose :: "time option"

record schedulerStatusBlock =
  kb_Enabled :: bool
  kb_LastFull :: "scanResultBlock option"
  kb_LastQuick :: "scanResultBlock option"
  kb_NextFull :: "time option"
  kb_NextQuick :: "time option"
  kb_Window :: windowBlock

record installHint =
  ih_InstallCommand :: string
  ih_StartCommand :: string
  ih_RequiresAdmin :: bool

datatype stop_reason = Unreadable string | CorruptFile | HeartbeatStale duration | MtimeStale duration

record daemonStatusResponse =
  ds_Installed :: bool
  ds_Running :: bool
  ds_Reason :: "stop_reason option"
  ds_PID :: int
  ds_Version :: string
  ds_StartedAt :: "time option"
  ds_UptimeSeconds :: int
  ds_Scheduler :: "schedulerStatusBlock option"
  ds_InstallHint :: "installHint option"

definition no_status :: daemonStatusResponse where
  "no_status = \<lparr>ds_Installed = False, ds_Running = False, ds_Reason = None, ds_PID = 0, ds_Version = [],
     ds_StartedAt = None, ds_UptimeSeconds = 0, ds_Scheduler = None, ds_InstallHint = None\<rparr>"

definition buildInstallHint :: "string \<Rightarrow> bool \<Rightarrow> installHint" where
  "buildInstallHint GOOS installed =
     (let sudo = (if GOOS = ''linux'' then ''sudo '' else []) in
      \<lparr>ih_InstallCommand = (if installed then [] else sudo @ ''surfbot daemon install''),
       ih_StartCommand = sudo @ ''surfbot daemon start'',
       ih_RequiresAdmin = (GOOS = ''linux'' \<or> GOOS = ''windows'')\<rparr>)"

section \<open>The window\<close>

text \<open>The next start of the window: today's, or else tomorrow's; the zero time after the loop.\<close>

definition window_start_on :: "loc \<Rightarrow> DailyWindow \<Rightarrow> time \<Rightarrow> int \<Rightarrow> time" where
  "window_start_on loc w after offset =
     Date_in loc (midnight_in loc after + offset * day
       + tod_Hour (win_Start w) * hour + tod_Minute (win_Start w) * minute)"

definition nextWindowStart :: "loc \<Rightarrow> DailyWindow \<Rightarrow> time \<Rightarrow> time" where
  "nextWindowStart Local w after =
     (if \<not> win_Enabled w then zero_time
      else
        let loc = window_loc Local w in
        case find (\<lambda>c. after < c) (map (window_start_on loc w after) [0, 1]) of
          Some c \<Rightarrow> c
        | None \<Rightarrow> zero_time)"

definition non_zero :: "time \<Rightarrow> time option" where
  "non_zero t = (if t = zero_time then None else Some t)"

definition buildWindowBlock :: "loc \<Rightarrow> view \<Rightarrow> time \<Rightarrow> windowBlock" where
  "buildWindowBlock Local d now =
     (let wb = \<lparr>nb_Enabled = win_Enabled (dv_Window d), nb_Start = dv_WindowStart d, nb_End = dv_WindowEnd d,
                nb_Timezone = dv_WindowTimezone d, nb_OpenNow = False, nb_NextOpen = None, nb_NextClose = None\<rparr> in
      if \<not> win_Enabled (dv_Window d) then wb
      else
        let open_now = Window_Contains Local (dv_Window d) now in
        wb\<lparr>nb_OpenNow := open_now,
           nb_NextClose := (if open_now then non_zero (Window_NextOpen Local (dv_Window d) now) else None),
           nb_NextOpen := non_zero (nextWindowStart Local (dv_Window d) now)\<rparr>)"

section \<open>The scheduler block and the status\<close>

definition nonEmpty :: "string \<Rightarrow> string \<Rightarrow> string" where
  "nonEmpty s def = (if s = [] then def else s)"

definition result_block :: "(string \<Rightarrow> string) \<Rightarrow> time \<Rightarrow> string \<Rightarrow> string \<Rightarrow> scanResultBlock option" where
  "result_block redact at status err =
     (if at = zero_time then None
      else Some \<lparr>rb_At = at, rb_Status = nonEmpty status ''ok'', rb_Error = redact err\<rparr>)"

definition bare_block :: "bool \<Rightarrow> windowBlock \<Rightarrow> schedulerStatusBlock" where
  "bare_block enabled w = \<lparr>kb_Enabled = enabled, kb_LastFull = None, kb_LastQuick = None, kb_NextFull = None,
     kb_NextQuick = None, kb_Window = w\<rparr>"

definition buildSchedulerBlock ::
  "(string \<Rightarrow> string) \<Rightarrow> loc \<Rightarrow> view \<Rightarrow> time \<Rightarrow> schedulerStatusBlock option" where
  "buildSchedulerBlock redact Local d now =
     (if \<not> dv_HasSchedulePath d then None
      else
        let bare = bare_block (dv_SchedulerEnabled d) (buildWindowBlock Local d now) in
        case dv_ScheduleState d of
          Absent \<Rightarrow> Some bare
        | NoAccess _ \<Rightarrow> None
        | Corrupt _ \<Rightarrow> Some bare
        | Holds _ s \<Rightarrow> Some (bare\<lparr>
            kb_LastFull := result_block redact (ks_LastFullAt s) (ks_LastFullStatus s) (ks_LastFullError s),
            kb_LastQuick := result_block redact (ks_LastQuickAt s) (ks_LastQuickStatus s) (ks_LastQuickError s),
            kb_NextFull := non_zero (ks_NextFullAt s), kb_NextQuick := non_zero (ks_NextQuickAt s)\<rparr>))"

definition stale_after :: "view \<Rightarrow> duration" where
  "stale_after d = 3 * (if dv_Heartbeat d \<le> 0 then 30 * second else dv_Heartbeat d)"

definition uptime :: "time \<Rightarrow> time \<Rightarrow> int" where
  "uptime now started = (if now < started then 0 else (now - started) div second)"

definition running_status ::
  "(string \<Rightarrow> string) \<Rightarrow> loc \<Rightarrow> view \<Rightarrow> State \<Rightarrow> time \<Rightarrow> daemonStatusResponse" where
  "running_status redact Local d s now =
     no_status\<lparr>ds_Installed := True, ds_Running := True, ds_PID := dm_PID s, ds_Version := dm_Version s,
       ds_StartedAt := non_zero (dm_StartedAt s),
       ds_UptimeSeconds := (if dm_StartedAt s = zero_time then 0 else uptime now (dm_StartedAt s)),
       ds_Scheduler := buildSchedulerBlock redact Local d now\<rparr>"

definition buildDaemonStatus :: "(string \<Rightarrow> string) \<Rightarrow> loc \<Rightarrow> view \<Rightarrow> time \<Rightarrow> daemonStatusResponse" where
  "buildDaemonStatus redact Local d now =
     (let installed = no_status\<lparr>ds_Installed := True\<rparr>; stale = stale_after d in
      case dv_DaemonState d of
        Absent \<Rightarrow> no_status
      | NoAccess e \<Rightarrow> installed\<lparr>ds_Reason := Some (Unreadable e)\<rparr>
      | Corrupt _ \<Rightarrow> installed\<lparr>ds_Reason := Some CorruptFile\<rparr>
      | Holds mtime s \<Rightarrow>
          if dm_WrittenAt s \<noteq> zero_time \<and> now - dm_WrittenAt s > stale
          then installed\<lparr>ds_Reason := Some (HeartbeatStale stale)\<rparr>
          else if dm_WrittenAt s = zero_time \<and> now - mtime > stale
          then installed\<lparr>ds_Reason := Some (MtimeStale stale)\<rparr>
          else running_status redact Local d s now)"

definition attachInstallHint :: "string \<Rightarrow> daemonStatusResponse \<Rightarrow> daemonStatusResponse" where
  "attachInstallHint GOOS resp =
     (if ds_Running resp then resp
      else resp\<lparr>ds_InstallHint := Some (buildInstallHint GOOS (ds_Installed resp))\<rparr>)"

text \<open>The body of the handler, after the test of the method.\<close>

definition daemon_status ::
  "(string \<Rightarrow> string) \<Rightarrow> loc \<Rightarrow> string \<Rightarrow> view option \<Rightarrow> time \<Rightarrow> daemonStatusResponse" where
  "daemon_status redact Local GOOS d now =
     (case d of
        None \<Rightarrow> no_status\<lparr>ds_InstallHint := Some (buildInstallHint GOOS False)\<rparr>
      | Some d \<Rightarrow>
          if \<not> dv_HasDaemonPath d then no_status\<lparr>ds_InstallHint := Some (buildInstallHint GOOS False)\<rparr>
          else attachInstallHint GOOS (buildDaemonStatus redact Local d now))"

end
