(* ===== verification/WebServe.thy ===== *)
theory WebServe
  imports Web DaemonView
begin

text \<open>
  The dashboard's server: the scan it can start and cancel (\<open>internal/webui/handlers.go\<close>), the
  middleware (\<open>internal/webui/security.go\<close>), the multiplexer and the pages
  (\<open>internal/webui/server.go\<close>), and the steps of the whole server: requests, the work of a
  background scan and its end. A path is written without percent escapes.
\<close>

section \<open>State\<close>

text \<open>A goroutine that runs a scan, with its context: cancelled or not.\<close>

record scan_job =
  sj_Target :: Target
  sj_Options :: PipelineOptions
  sj_Cancelled :: bool

text \<open>The function that cancels a scan is known by the number of its goroutine.\<close>

record 'r web =
  wb_server :: "'r server"
  wb_runningScan :: string
  wb_cancelFunc :: "nat option"
  wb_jobs :: "(nat \<times> scan_job) list"
  wb_next :: nat

record config =
  wc_Port :: int
  wc_AuthToken :: string
  wc_Agent :: agentInfo
  wc_Registry :: "DetectionTool list option"
  wc_Available :: "DetectionTool \<Rightarrow> bool"
  wc_uuid :: "string \<Rightarrow> bool"
  wc_files :: "string list"
  wc_GOOS :: string
  wc_Local :: loc
  wc_redact :: "string \<Rightarrow> string"

section \<open>Starting, watching and cancelling a scan\<close>

record createScanResponse =
  cv_Target :: string
  cv_Type :: ScanType
  cv_Tools :: "string list"
  cv_RateLimit :: int
  cv_Timeout :: int

definition scan_type_of :: "string \<Rightarrow> ScanType" where
  "scan_type_of s = (if s = ''quick'' then ScanTypeQuick else if s = ''discovery'' then ScanTypeDiscovery else ScanTypeFull)"

definition scan_options :: "createScanRequest \<Rightarrow> PipelineOptions" where
  "scan_options req = \<lparr>po_ScanType = Some (scan_type_of (cn_Type req)), po_Tools = cn_Tools req,
     po_RateLimit = cn_RateLimit req, po_Timeout = cn_Timeout req, po_ToolConfig = []\<rparr>"

definition start_scan :: "Target \<Rightarrow> PipelineOptions \<Rightarrow> 'r web \<Rightarrow> 'r web" where
  "start_scan t opts wb =
     wb\<lparr>wb_runningScan := ''starting'', wb_cancelFunc := Some (wb_next wb),
        wb_jobs := wb_jobs wb @ [(wb_next wb, \<lparr>sj_Target = t, sj_Options = opts, sj_Cancelled = False\<rparr>)],
        wb_next := Suc (wb_next wb)\<rparr>"

definition handleCreateScan ::
  "DetectionTool list option \<Rightarrow> web_request \<Rightarrow> 'r web \<Rightarrow> createScanResponse web_reply \<times> 'r web" where
  "handleCreateScan registry rq wb =
     (if hq_Method rq \<noteq> ''POST'' then (not_allowed, wb)
      else case registry of
        None \<Rightarrow> (WebError 503 ''scan engine not available'', wb)
      | Some tools \<Rightarrow>
          (case wq_CreateScan rq of
             None \<Rightarrow> (WebError 400 ''invalid JSON body'', wb)
           | Some req \<Rightarrow>
               if cn_TargetID req = [] then (WebError 400 ''target_id is required'', wb)
               else case GetTarget (sv_db (wb_server wb)) (cn_TargetID req) of
                 None \<Rightarrow> (WebError 404 ''target not found'', wb)
               | Some t \<Rightarrow>
                   (case find (\<lambda>n. n \<notin> dt_Name ` set tools) (cn_Tools req) of
                      Some n \<Rightarrow> (WebError 400 (''unknown tool: '' @ n), wb)
                    | None \<Rightarrow>
                        if cn_RateLimit req < 0 then (WebError 400 ''rate_limit must be >= 0'', wb)
                        else if cn_Timeout req < 0 then (WebError 400 ''timeout must be >= 0'', wb)
                        else if wb_runningScan wb \<noteq> [] then (WebError 409 ''a scan is already running'', wb)
                        else (WebReply 202 \<lparr>cv_Target = tg_Value t, cv_Type = scan_type_of (cn_Type req),
                                cv_Tools = cn_Tools req, cv_RateLimit = cn_RateLimit req, cv_Timeout = cn_Timeout req\<rparr>,
                              start_scan t (scan_options req) wb))))"

text \<open>What the goroutine does when its scan has returned.\<close>

definition scan_returned :: "nat \<Rightarrow> 'r web \<Rightarrow> 'r web" where
  "scan_returned k wb = wb\<lparr>wb_runningScan := [], wb_cancelFunc := None, wb_jobs := filter (\<lambda>j. fst j \<noteq> k) (wb_jobs wb)\<rparr>"

record activeScan =
  av_ID :: string
  av_Target :: string
  av_Phase :: string
  av_Progress :: float64
  av_Type :: ScanType

definition handleScanStatus :: "('z http_request_scheme) \<Rightarrow> 'r web \<Rightarrow> (bool \<times> activeScan option) web_reply" where
  "handleScanStatus rq wb =
     (if hq_Method rq \<noteq> ''GET'' then not_allowed
      else
        let d = sv_db (wb_server wb);
            active = (case LastScan d of None \<Rightarrow> None
                      | Some s \<Rightarrow> if sn_Status s = ScanStatusRunning then Some s else None)
        in WebReply 200 (wb_runningScan wb \<noteq> [] \<or> active \<noteq> None,
             map_option (\<lambda>s. \<lparr>av_ID = sn_ID s, av_Target = target_name d (sn_TargetID s), av_Phase = sn_Phase s,
               av_Progress = sn_Progress s, av_Type = sn_Type s\<rparr>) active))"

definition cancel_job :: "nat \<Rightarrow> 'r web \<Rightarrow> 'r web" where
  "cancel_job k wb = wb\<lparr>wb_jobs := map (\<lambda>j. if fst j = k then (k, snd j\<lparr>sj_Cancelled := True\<rparr>) else j) (wb_jobs wb)\<rparr>"

definition on_db :: "(db \<Rightarrow> 'b \<times> db) \<Rightarrow> 'r web \<Rightarrow> 'b \<times> 'r web" where
  "on_db f wb = (case f (sv_db (wb_server wb)) of (x, d) \<Rightarrow> (x, wb\<lparr>wb_server := (wb_server wb)\<lparr>sv_db := d\<rparr>\<rparr>))"

definition cancelled_scan :: "time \<Rightarrow> Scan \<Rightarrow> Scan" where
  "cancelled_scan now s = s\<lparr>sn_Status := ScanStatusCancelled, sn_Phase := ''cancelled'', sn_FinishedAt := Some now\<rparr>"

definition handleCancelScan :: "'r env \<Rightarrow> ('z http_request_scheme) \<Rightarrow> 'r web \<Rightarrow> unit web_reply \<times> 'r web" where
  "handleCancelScan en rq wb =
     (if hq_Method rq \<noteq> ''DELETE'' then (not_allowed, wb)
      else
        let i = TrimPrefix (hq_Path rq) ''/api/v1/scans/'' in
        if i = [] then (WebError 400 ''missing scan id'', wb)
        else case GetScan (sv_db (wb_server wb)) i of
          None \<Rightarrow> (WebError 404 ''scan not found'', wb)
        | Some s \<Rightarrow>
            if sn_Status s \<noteq> ScanStatusRunning then (WebError 400 ''scan is not running'', wb)
            else case wb_cancelFunc wb of
              Some k \<Rightarrow> (WebReply 200 (), cancel_job k wb)
            | None \<Rightarrow> on_db (\<lambda>d. (WebReply 200 (), UpdateScan (en_now en) (cancelled_scan (en_now en) s) d)) wb)"

section \<open>The middleware\<close>

definition allowedHosts :: "int \<Rightarrow> string list" where
  "allowedHosts port = [''127.0.0.1:'' @ Itoa port, ''localhost:'' @ Itoa port]"

definition allowedOrigins :: "int \<Rightarrow> string list" where
  "allowedOrigins port = [''http://127.0.0.1:'' @ Itoa port, ''http://localhost:'' @ Itoa port]"

definition originAllowed :: "string \<Rightarrow> string list \<Rightarrow> bool" where
  "originAllowed origin allowed = (origin \<in> set allowed)"

definition refererAllowed :: "string \<Rightarrow> string list \<Rightarrow> bool" where
  "refererAllowed referer allowed = list_ex (\<lambda>a. referer = a \<or> HasPrefix referer (a @ ''/'')) allowed"

text \<open>Each stage lets a request pass (\<open>None\<close>) or answers it.\<close>

definition validateHost :: "string list \<Rightarrow> web_request \<Rightarrow> (int \<times> string) option" where
  "validateHost allowed rq = (if wq_Host rq \<in> set allowed then None else Some (421, ''misdirected request''))"

definition validateOrigin :: "string list \<Rightarrow> web_request \<Rightarrow> (int \<times> string) option" where
  "validateOrigin allowed rq =
     (if hq_Method rq \<in> {''GET'', ''HEAD'', ''OPTIONS''} then None
      else if wq_Origin rq \<noteq> [] then
        (if \<not> originAllowed (wq_Origin rq) allowed then Some (403, ''forbidden origin'') else None)
      else if wq_Referer rq \<noteq> [] then
        (if \<not> refererAllowed (wq_Referer rq) allowed then Some (403, ''forbidden referer'') else None)
      else Some (403, ''missing origin''))"

definition requireToken :: "string \<Rightarrow> web_request \<Rightarrow> (int \<times> string) option" where
  "requireToken token rq =
     (if \<not> HasPrefix (hq_Path rq) ''/api/'' then None
      else if wq_Authorization rq = [] \<or> wq_Authorization rq \<noteq> ''Bearer '' @ token then Some (401, ''unauthorized'')
      else None)"

text \<open>The chain as \<open>NewServer\<close> builds it; logging and headers change no answer.\<close>

definition middleware :: "config \<Rightarrow> web_request \<Rightarrow> (int \<times> string) option" where
  "middleware cf rq =
     (case validateHost (allowedHosts (wc_Port cf)) rq of
        Some e \<Rightarrow> Some e
      | None \<Rightarrow>
          (case validateOrigin (allowedOrigins (wc_Port cf)) rq of
             Some e \<Rightarrow> Some e
           | None \<Rightarrow> if wc_AuthToken cf = [] then None else requireToken (wc_AuthToken cf) rq))"

definition securityHeaders :: "web_request \<Rightarrow> (string \<times> string) list" where
  "securityHeaders rq =
     [(''X-Content-Type-Options'', ''nosniff''), (''X-Frame-Options'', ''DENY''), (''Referrer-Policy'', ''no-referrer''),
      (''Content-Security-Policy'',
       ''default-src 'self'; script-src 'self' 'unsafe-inline'; style-src 'self' 'unsafe-inline'; img-src 'self' data:; '' @
       ''connect-src 'self'; frame-ancestors 'none'; base-uri 'none'; form-action '' @ [CHR 0x27] @ ''none'' @ [CHR 0x27])] @
     (if HasPrefix (hq_Path rq) ''/api/'' then [(''Cache-Control'', ''no-store'')] else [])"

section \<open>The multiplexer\<close>

text \<open>\<open>cleanPath\<close> of the standard library: a rooted path without empty, \<open>.\<close> and \<open>..\<close> elements, with the
  trailing slash it had.\<close>

definition clean_segment :: "string \<Rightarrow> string list \<Rightarrow> string list" where
  "clean_segment s acc = (if s = [] \<or> s = ''.'' then acc else if s = ''..'' then butlast acc else acc @ [s])"

definition cleanPath :: "string \<Rightarrow> string" where
  "cleanPath p =
     (let p = (if p = [] then ''/'' else if hd p \<noteq> CHR ''/'' then CHR ''/'' # p else p);
          np = ''/'' @ Join (fold clean_segment (SplitOn (CHR ''/'') p) []) ''/''
      in if last p = CHR ''/'' \<and> np \<noteq> ''/'' then np @ ''/'' else np)"

definition isAssetPath :: "string \<Rightarrow> bool" where
  "isAssetPath p = (HasPrefix p ''/api/'' \<or>
     list_ex (HasPrefix p) [''/static/'', ''/js/'', ''/css/'', ''/img/'', ''/assets/'', ''/fonts/''])"

text \<open>The patterns of \<open>RegisterRoutes\<close>.\<close>

definition api_pattern :: "string \<Rightarrow> bool" where
  "api_pattern p =
     (p \<in> set [''/api/v1/schedules'', ''/api/v1/templates'', ''/api/v1/blackouts'', ''/api/v1/schedule-defaults'',
        ''/api/v1/scans/ad-hoc'', ''/api/v1/schemas/tools''] \<or>
      list_ex (HasPrefix p) [''/api/v1/schedules/'', ''/api/v1/templates/'', ''/api/v1/blackouts/'', ''/api/v1/schemas/tools/''])"

datatype web_route =
    W_DaemonStatus | W_Overview | W_AssetTree | W_Assets | W_Tools | W_AvailableTools | W_ScanStatus
  | W_Grouped | W_Findings | W_Finding | W_Targets | W_Target | W_Schedule | W_Scans | W_Scan | W_Api | W_Page

definition NewServer_mux :: "string \<Rightarrow> web_route" where
  "NewServer_mux p =
     (if p = ''/api/daemon/status'' then W_DaemonStatus
      else if p = ''/api/v1/overview'' then W_Overview
      else if p = ''/api/v1/assets/tree'' then W_AssetTree
      else if p = ''/api/v1/assets'' then W_Assets
      else if p = ''/api/v1/tools'' then W_Tools
      else if p = ''/api/v1/tools/available'' then W_AvailableTools
      else if p = ''/api/v1/scans/status'' then W_ScanStatus
      else if p = ''/api/v1/findings/grouped'' then W_Grouped
      else if p = ''/api/v1/findings'' then W_Findings
      else if HasPrefix p ''/api/v1/findings/'' then W_Finding
      else if p = ''/api/v1/targets'' then W_Targets
      else if HasPrefix p ''/api/v1/targets/'' then W_Target
      else if p = ''/api/v1/schedule'' then W_Schedule
      else if api_pattern p then W_Api
      else if p = ''/api/v1/scans'' then W_Scans
      else if HasPrefix p ''/api/v1/scans/'' then W_Scan
      else W_Page)"

section \<open>Requests and steps of the server\<close>

datatype web_body =
    WB_Status daemonStatusResponse | WB_Overview overviewResponse | WB_Tree "assetTreeNode list" | WB_Assets assetsResponse
  | WB_Tools "ToolRun list" | WB_ToolInfos "toolInfo list \<times> int \<times> int" | WB_ScanStatus "bool \<times> activeScan option"
  | WB_Groups groupedFindingsResponse | WB_Findings findingsResponse | WB_Finding "Finding \<times> Asset option"
  | WB_Updated Finding | WB_Targets "targetWithStats list" | WB_NewTarget Target | WB_TargetDetail targetDetail
  | WB_Deleted string | WB_Scans scansResponse | WB_Scan scanDetail | WB_Logs logsResponse
  | WB_Started createScanResponse | WB_Ok unit | WB_Gone

text \<open>A page is the shell of the application with the token in it, a static file, or a 404.\<close>

datatype web_response =
    Rejected int string | Redirected string | Shell string | StaticFile string | PageNotFound
  | ApiReply "body response" | WebBody "web_body web_reply"

definition as_body :: "('b \<Rightarrow> web_body) \<Rightarrow> 'b web_reply \<Rightarrow> web_response" where
  "as_body f r = WebBody (map_web_reply f r)"

definition as_change :: "('b \<Rightarrow> web_body) \<Rightarrow> 'b web_reply \<times> 'r web \<Rightarrow> web_response \<times> 'r web" where
  "as_change f r = (as_body f (fst r), snd r)"

definition serve_page :: "config \<Rightarrow> string \<Rightarrow> web_response" where
  "serve_page cf p =
     (if p = ''/'' \<or> p = ''/index.html'' then Shell (wc_AuthToken cf)
      else if TrimPrefix p ''/'' \<in> set (wc_files cf) then StaticFile (TrimPrefix p ''/'')
      else if isAssetPath p then PageNotFound
      else Shell (wc_AuthToken cf))"

definition handleDaemonStatus :: "config \<Rightarrow> view option \<Rightarrow> time \<Rightarrow> ('z http_request_scheme) \<Rightarrow> daemonStatusResponse web_reply" where
  "handleDaemonStatus cf v now rq =
     (if hq_Method rq \<noteq> ''GET'' \<and> hq_Method rq \<noteq> ''HEAD'' then not_allowed
      else if hq_Method rq = ''HEAD'' then WebEmpty 200
      else WebReply 200 (daemon_status (wc_redact cf) (wc_Local cf) (wc_GOOS cf) v now))"

definition web_handle ::
  "config \<Rightarrow> view option \<Rightarrow> 'r outside \<Rightarrow> web_request \<Rightarrow> web_route \<Rightarrow> 'r web \<Rightarrow> web_response \<times> 'r web" where
  "web_handle cf v od rq r wb =
     (let d = sv_db (wb_server wb); en = od_env od; m = hq_Method rq in
      case r of
        W_DaemonStatus \<Rightarrow> (as_body WB_Status (handleDaemonStatus cf v (en_now en) rq), wb)
      | W_Overview \<Rightarrow> (as_body WB_Overview (handleOverview (wc_Agent cf) rq d), wb)
      | W_AssetTree \<Rightarrow> (as_body WB_Tree (handleAssetTree rq d), wb)
      | W_Assets \<Rightarrow> (as_body WB_Assets (handleAssets rq d), wb)
      | W_Tools \<Rightarrow> (as_body WB_Tools (handleTools rq d), wb)
      | W_AvailableTools \<Rightarrow> (as_body WB_ToolInfos (handleAvailableTools (wc_Available cf) (wc_Registry cf) rq), wb)
      | W_ScanStatus \<Rightarrow> (as_body WB_ScanStatus (handleScanStatus rq wb), wb)
      | W_Grouped \<Rightarrow> (as_body WB_Groups (handleFindingsGrouped rq d), wb)
      | W_Findings \<Rightarrow> (as_body WB_Findings (handleFindings (wc_uuid cf) rq d), wb)
      | W_Finding \<Rightarrow>
          (if HasSuffix (hq_Path rq) ''/status''
           then as_change WB_Updated (on_db (handleUpdateFindingStatus en rq) wb)
           else (as_body WB_Finding (handleFindingDetail rq d), wb))
      | W_Targets \<Rightarrow>
          (if m = ''GET'' then (as_body WB_Targets (handleTargets rq d), wb)
           else if m = ''POST'' then as_change WB_NewTarget (on_db (handleCreateTarget en (od_fresh od 0) rq) wb)
           else (WebBody not_allowed, wb))
      | W_Target \<Rightarrow>
          (if m = ''GET'' then (as_body WB_TargetDetail (handleTargetDetail rq d), wb)
           else if m = ''DELETE'' then as_change WB_Deleted (on_db (handleDeleteTarget rq) wb)
           else (WebBody not_allowed, wb))
      | W_Schedule \<Rightarrow> (WebBody (WebReply 410 WB_Gone), wb)
      | W_Scans \<Rightarrow>
          (if m = ''GET'' then (as_body WB_Scans (handleScans rq d), wb)
           else if m = ''POST'' then as_change WB_Started (handleCreateScan (wc_Registry cf) rq wb)
           else (WebBody not_allowed, wb))
      | W_Scan \<Rightarrow>
          (if HasSuffix (hq_Path rq) ''/logs'' then (as_body WB_Logs (handleScanLogs rq d), wb)
           else if m = ''GET'' then (as_body WB_Scan (handleScanDetail rq d), wb)
           else if m = ''DELETE'' then as_change WB_Ok (handleCancelScan en rq wb)
           else (WebBody not_allowed, wb))
      | W_Api \<Rightarrow> (case serve od (http_request.truncate rq) (wb_server wb) of
            (x, sv) \<Rightarrow> (ApiReply x, wb\<lparr>wb_server := sv\<rparr>))
      | W_Page \<Rightarrow> (serve_page cf (hq_Path rq), wb))"

text \<open>The multiplexer redirects a request whose path is not clean, except for CONNECT.\<close>

definition web_serve ::
  "config \<Rightarrow> view option \<Rightarrow> 'r outside \<Rightarrow> web_request \<Rightarrow> 'r web \<Rightarrow> web_response \<times> 'r web" where
  "web_serve cf v od rq wb =
     (case middleware cf rq of
        Some (code, msg) \<Rightarrow> (Rejected code msg, wb)
      | None \<Rightarrow>
          if hq_Method rq \<noteq> ''CONNECT'' \<and> cleanPath (hq_Path rq) \<noteq> hq_Path rq
          then (Redirected (cleanPath (hq_Path rq)), wb)
          else web_handle cf v od rq (NewServer_mux (hq_Path rq)) wb)"

text \<open>A step: a request; work of a background scan on the database, through the operations of the
  stores; the return of a background scan; or work of another process or of the scheduler.\<close>

inductive web_step :: "config \<Rightarrow> 'r rrule_lib \<Rightarrow> 'r web \<Rightarrow> 'r web \<Rightarrow> bool" for cf lib where
  ws_request: "en_lib (od_env od) = lib \<Longrightarrow> web_serve cf v od rq wb = (x, wb') \<Longrightarrow> web_step cf lib wb wb'"
| ws_work: "scan_store_step (sv_db (wb_server wb)) d \<Longrightarrow>
    web_step cf lib wb (wb\<lparr>wb_server := (wb_server wb)\<lparr>sv_db := d\<rparr>\<rparr>)"
| ws_config: "config_step lib (sv_db (wb_server wb)) d \<Longrightarrow>
    web_step cf lib wb (wb\<lparr>wb_server := (wb_server wb)\<lparr>sv_db := d\<rparr>\<rparr>)"
| ws_return: "k \<in> fst ` set (wb_jobs wb) \<Longrightarrow> web_step cf lib wb (scan_returned k wb)"

inductive_cases web_step_elim: "web_step cf lib wb wb'"

definition new_web :: "'r server \<Rightarrow> 'r web" where
  "new_web sv = \<lparr>wb_server = sv, wb_runningScan = [], wb_cancelFunc = None, wb_jobs = [], wb_next = 0\<rparr>"

end
