(* ===== verification/WebProps.thy ===== *)
theory WebProps
  imports WebServe ApiInv
begin

text \<open>
  What the dashboard guarantees: who reaches it, at most one background scan, the invariants of
  the store through every step, and the contracts of its handlers.
\<close>

section \<open>The gate\<close>

lemma HasPrefix_weaken: "HasPrefix s (p @ q) \<Longrightarrow> HasPrefix s p"
  by (auto simp: HasPrefix_iff)

lemma not_below_api:
  assumes "\<not> HasPrefix p ''/api/''"
  shows "take 5 q = ''/api/'' \<Longrightarrow> p \<noteq> q" "take 5 q = ''/api/'' \<Longrightarrow> \<not> HasPrefix p q"
proof -
  show "\<not> HasPrefix p q" if "take 5 q = ''/api/''"
    using assms that HasPrefix_weaken [of p "take 5 q" "drop 5 q"] by (metis append_take_drop_id)
  then show "p \<noteq> q" if "take 5 q = ''/api/''" using that by (auto simp: HasPrefix_iff)
qed

lemma api_route: "NewServer_mux p \<noteq> W_Page \<Longrightarrow> HasPrefix p ''/api/''"
  by (rule ccontr) (simp add: NewServer_mux_def api_pattern_def not_below_api)

lemma page_route: "web_handle cf v od rq W_Page wb = (serve_page cf (hq_Path rq), wb)"
  by (simp add: web_handle_def Let_def)

lemma serve_page_shape: "serve_page cf p \<in> {Shell (wc_AuthToken cf), StaticFile (TrimPrefix p ''/''), PageNotFound}"
  by (auto simp: serve_page_def)

text \<open>C31: Who reaches the data. When a token is set, a request that changes the state of the server or gets
  an answer from a handler named the loopback host in its Host header, carried the bearer token, and,
  unless its method only reads, came from the dashboard's own origin: by its Origin header, or
  without one by a Referer that is the origin or below it.\<close>

theorem gate:
  assumes "web_serve cf v od rq wb = (x, wb')" "wc_AuthToken cf \<noteq> []"
    and "wb' \<noteq> wb \<or> (\<exists>b. x = WebBody b) \<or> (\<exists>b. x = ApiReply b)"
  shows "wq_Host rq \<in> {''127.0.0.1:'' @ Itoa (wc_Port cf), ''localhost:'' @ Itoa (wc_Port cf)} \<and>
    wq_Authorization rq = ''Bearer '' @ wc_AuthToken cf \<and>
    (hq_Method rq \<in> {''GET'', ''HEAD'', ''OPTIONS''} \<or>
     (\<exists>a \<in> {''http://127.0.0.1:'' @ Itoa (wc_Port cf), ''http://localhost:'' @ Itoa (wc_Port cf)}.
        wq_Origin rq = a \<or> wq_Origin rq = [] \<and> (wq_Referer rq = a \<or> (\<exists>r. wq_Referer rq = a @ ''/'' @ r))))"
proof -
  have m: "middleware cf rq = None"
    using assms(1,3) by (auto simp: web_serve_def split: option.splits prod.splits)
  have "NewServer_mux (hq_Path rq) \<noteq> W_Page"
    using assms(1,3) m serve_page_shape [of cf "hq_Path rq"]
    by (auto simp: web_serve_def page_route split: if_splits)
  then have "HasPrefix (hq_Path rq) ''/api/''" by (rule api_route)
  then have "wq_Authorization rq = ''Bearer '' @ wc_AuthToken cf"
    using m assms(2) by (auto simp: middleware_def requireToken_def split: option.splits if_splits)
  moreover have "wq_Host rq \<in> {''127.0.0.1:'' @ Itoa (wc_Port cf), ''localhost:'' @ Itoa (wc_Port cf)}"
    using m by (auto simp: middleware_def validateHost_def allowedHosts_def split: option.splits if_splits)
  moreover have "validateOrigin (allowedOrigins (wc_Port cf)) rq = None"
    using m by (auto simp: middleware_def split: option.splits)
  then have "hq_Method rq \<in> {''GET'', ''HEAD'', ''OPTIONS''} \<or>
     (\<exists>a \<in> {''http://127.0.0.1:'' @ Itoa (wc_Port cf), ''http://localhost:'' @ Itoa (wc_Port cf)}.
        wq_Origin rq = a \<or> wq_Origin rq = [] \<and> (wq_Referer rq = a \<or> (\<exists>r. wq_Referer rq = a @ ''/'' @ r)))"
    by (auto simp: validateOrigin_def allowedOrigins_def originAllowed_def refererAllowed_def HasPrefix_iff split: if_splits)
  ultimately show ?thesis by blast
qed

definition ex_config :: config where
  "ex_config = \<lparr>wc_Port = 1, wc_AuthToken = ''secret'', wc_Agent = \<lparr>ai_Version = ''1'', ai_DBPath = ''db'', ai_DBSizeBytes = 0,
     ai_TargetsCount = 0\<rparr>, wc_Registry = Some [], wc_Available = (\<lambda>_. True), wc_uuid = (\<lambda>_. True), wc_files = [],
     wc_GOOS = ''linux'', wc_Local = (\<lambda>_. 0), wc_redact = id\<rparr>"

definition ex_http :: "string \<Rightarrow> string \<Rightarrow> web_request" where
  "ex_http m path = \<lparr>hq_Method = m, hq_Path = path, hq_Query = (\<lambda>_. []), hq_ActiveAt = None, hq_Horizon = None,
     hq_CreateSchedule = None, hq_UpdateSchedule = None, hq_Bulk = None, hq_CreateTemplate = None,
     hq_UpdateTemplate = None, hq_CreateBlackout = None, hq_UpdateBlackout = None, hq_Defaults = None, hq_AdHoc = None,
     wq_Host = ''localhost:1'', wq_Origin = ''http://localhost:1'', wq_Referer = [], wq_Authorization = ''Bearer secret'',
     wq_CreateTarget = None, wq_FindingStatus = None, wq_CreateScan = None\<rparr>"

lemma gate_witness:
  "\<exists>x. web_serve ex_config None ex_outside (ex_http ''GET'' ''/api/v1/targets'') (new_web (ex_server ex_db)) = (x, new_web (ex_server ex_db)) \<and>
     wq_Authorization (ex_http ''GET'' ''/api/v1/targets'') = ''Bearer secret''"
proof -
  let ?r = "web_serve ex_config None ex_outside (ex_http ''GET'' ''/api/v1/targets'') (new_web (ex_server ex_db))"
  obtain x wb' where r: "?r = (x, wb')" by fastforce
  have m: "middleware ex_config (ex_http ''GET'' ''/api/v1/targets'') = None" by code_simp
  have c: "cleanPath ''/api/v1/targets'' = ''/api/v1/targets''" by code_simp
  have t: "NewServer_mux ''/api/v1/targets'' = W_Targets" by code_simp
  have p: "hq_Path (ex_http ''GET'' ''/api/v1/targets'') = ''/api/v1/targets''"
    "hq_Method (ex_http ''GET'' ''/api/v1/targets'') = ''GET''" by (simp_all add: ex_http_def)
  have "?r = (as_body WB_Targets (handleTargets (ex_http ''GET'' ''/api/v1/targets'') ex_db), new_web (ex_server ex_db))"
    unfolding web_serve_def m option.case p c t web_handle_def Let_def web_route.case
    by (simp add: new_web_def ex_server_def)
  then have w: "wb' = new_web (ex_server ex_db) \<and> (\<exists>b. x = WebBody b)" using r by (simp add: as_body_def)
  then show ?thesis using gate [OF r] r by (auto simp: ex_config_def)
qed

text \<open>The shell of the application hands the token to every request that names the loopback host: the token
  keeps other sites' pages out, not other programs on the machine.\<close>

lemma shell_hands_out_token:
  assumes "wq_Host rq \<in> set (allowedHosts (wc_Port cf))" "hq_Method rq = ''GET''" "hq_Path rq = ''/''"
  shows "web_serve cf v od rq wb = (Shell (wc_AuthToken cf), wb)"
proof -
  have "cleanPath ''/'' = ''/''" "NewServer_mux ''/'' = W_Page" by code_simp+
  then show ?thesis using assms
    by (simp add: web_serve_def middleware_def validateHost_def validateOrigin_def requireToken_def page_route serve_page_def)
qed

section \<open>The background scan\<close>

definition job_inv :: "'r web \<Rightarrow> bool" where
  "job_inv wb \<longleftrightarrow> wb_jobs wb = [] \<and> wb_runningScan wb = [] \<and> wb_cancelFunc wb = None \<or>
     (\<exists>k j. wb_jobs wb = [(k, j)] \<and> wb_runningScan wb = ''starting'' \<and> wb_cancelFunc wb = Some k)"

lemma job_inv_server [simp]: "job_inv (wb\<lparr>wb_server := sv\<rparr>) = job_inv wb"
  by (simp add: job_inv_def)

lemma on_db_server: "\<exists>sv. snd (on_db f wb) = wb\<lparr>wb_server := sv\<rparr>"
  by (auto simp: on_db_def split: prod.splits)

lemma job_inv_on_db [simp]: "job_inv (snd (on_db f wb)) = job_inv wb"
  using on_db_server [of f wb] by auto

lemma job_inv_create: "job_inv wb \<Longrightarrow> job_inv (snd (handleCreateScan reg rq wb))"
  by (auto simp: handleCreateScan_def start_scan_def job_inv_def not_allowed_def Let_def split: option.splits)

lemma job_inv_cancel: "job_inv wb \<Longrightarrow> job_inv (snd (handleCancelScan en rq wb))"
proof -
  assume j: "job_inv wb"
  have "job_inv (cancel_job k wb)" for k using j by (auto simp: job_inv_def cancel_job_def)
  then show ?thesis using j by (simp add: handleCancelScan_def Let_def split: option.split)
qed

lemma job_inv_handle: "job_inv wb \<Longrightarrow> job_inv (snd (web_handle cf v od rq r wb))"
  by (cases r) (simp_all add: web_handle_def Let_def as_change_def job_inv_create job_inv_cancel split: prod.split)

lemma job_inv_serve: "job_inv wb \<Longrightarrow> job_inv (snd (web_serve cf v od rq wb))"
  by (simp add: web_serve_def job_inv_handle split: option.split prod.split)

lemma job_inv_return: "k \<in> fst ` set (wb_jobs wb) \<Longrightarrow> job_inv wb \<Longrightarrow> job_inv (scan_returned k wb)"
  by (auto simp: job_inv_def scan_returned_def)

lemma job_inv_step: "web_step cf lib wb wb' \<Longrightarrow> job_inv wb \<Longrightarrow> job_inv wb'"
proof (induction rule: web_step.induct)
  case (ws_request od v rq wb x wb')
  then show ?case using job_inv_serve [of wb cf v od rq] by simp
qed (simp_all add: job_inv_return)

lemma job_inv_reachable: "(web_step cf lib)\<^sup>*\<^sup>* (new_web sv) wb \<Longrightarrow> job_inv wb"
proof (induction rule: rtranclp_induct)
  case base
  then show ?case by (simp add: job_inv_def new_web_def)
qed (rule job_inv_step)

text \<open>C32: One background scan. However requests, the end of scans and other work interleave, the
  dashboard has at most one scan of its own running; it is marked as running exactly while it runs,
  and the function that cancels is that of this scan.\<close>

theorem one_background_scan:
  assumes "(web_step cf lib)\<^sup>*\<^sup>* (new_web sv) wb"
  shows "length (wb_jobs wb) \<le> 1 \<and> (wb_runningScan wb = [] \<longleftrightarrow> wb_jobs wb = []) \<and>
    (case wb_jobs wb of [] \<Rightarrow> wb_cancelFunc wb = None | j # _ \<Rightarrow> wb_cancelFunc wb = Some (fst j))"
proof -
  have "job_inv wb" using assms by (rule job_inv_reachable)
  then show ?thesis by (auto simp: job_inv_def)
qed

definition ex_scanning :: "db \<Rightarrow> (time \<times> duration) web" where
  "ex_scanning d = snd (web_serve ex_config None ex_outside
     ((ex_http ''POST'' ''/api/v1/scans'')\<lparr>wq_CreateScan := Some \<lparr>cn_TargetID = ''t1'', cn_Type = ''quick'', cn_Tools = [],
        cn_RateLimit = 0, cn_Timeout = 0\<rparr>\<rparr>) (new_web (ex_server d)))"

lemma ex_scanning_reachable: "(web_step ex_config simple_lib)\<^sup>*\<^sup>* (new_web (ex_server d)) (ex_scanning d)"
proof -
  have "web_step ex_config simple_lib (new_web (ex_server d)) (ex_scanning d)"
    unfolding ex_scanning_def by (rule ws_request [of ex_outside]) (simp_all add: ex_outside_def api_env_def prod_eq_iff)
  then show ?thesis by blast
qed

lemma one_background_scan_witness: "length (wb_jobs (ex_scanning ex_db)) = 1 \<and> wb_cancelFunc (ex_scanning ex_db) \<noteq> None"
proof -
  have "wb_jobs (ex_scanning ex_db) \<noteq> []" unfolding ex_scanning_def by code_simp
  with one_background_scan [OF ex_scanning_reachable, of ex_db] show ?thesis
    by (cases "wb_jobs (ex_scanning ex_db)") auto
qed

text \<open>Cancelling the wrong scan. While the dashboard runs a scan of its own, a request to cancel any
  scan whose row says running, for example one of the daemon, is answered with success, but cancels the
  dashboard's own scan and leaves the row it named as it was.\<close>

theorem cancel_hits_own_scan:
  assumes "(web_step cf lib)\<^sup>*\<^sup>* (new_web sv) wb" "wb_jobs wb = [(k, j)]"
    and "hq_Method rq = ''DELETE''" "hq_Path rq = ''/api/v1/scans/'' @ i" "i \<noteq> []"
    and "GetScan (sv_db (wb_server wb)) i = Some s" "sn_Status s = ScanStatusRunning"
  shows "handleCancelScan en rq wb = (WebReply 200 (), wb\<lparr>wb_jobs := [(k, j\<lparr>sj_Cancelled := True\<rparr>)]\<rparr>) \<and>
    GetScan (sv_db (wb_server (snd (handleCancelScan en rq wb)))) i = Some s"
proof -
  have "job_inv wb" using assms(1) by (rule job_inv_reachable)
  then have "wb_cancelFunc wb = Some k" using assms(2) by (auto simp: job_inv_def)
  then have "handleCancelScan en rq wb = (WebReply 200 (), cancel_job k wb)"
    using assms by (simp add: handleCancelScan_def Let_def TrimPrefix_def HasPrefix_iff)
  then show ?thesis using assms(2,6) by (simp add: cancel_job_def)
qed

lemma cancel_hits_own_scan_witness:
  "\<exists>wb s. sn_Status s = ScanStatusRunning \<and> GetScan (sv_db (wb_server wb)) ''s1'' = Some s \<and>
     GetScan (sv_db (wb_server (snd (handleCancelScan api_env (ex_http ''DELETE'' ''/api/v1/scans/s1'') wb)))) ''s1'' = Some s"
proof -
  let ?wb = "ex_scanning (ex_db\<lparr>db_scans := [ex_scan]\<rparr>)"
  have "wb_jobs ?wb \<noteq> []" unfolding ex_scanning_def by code_simp
  then obtain k j where j: "wb_jobs ?wb = [(k, j)]"
    using job_inv_reachable [OF ex_scanning_reachable, of "ex_db\<lparr>db_scans := [ex_scan]\<rparr>"] by (auto simp: job_inv_def)
  have "map_option sn_Status (GetScan (sv_db (wb_server ?wb)) ''s1'') = Some ScanStatusRunning"
    unfolding ex_scanning_def by code_simp
  then obtain s where s: "GetScan (sv_db (wb_server ?wb)) ''s1'' = Some s" "sn_Status s = ScanStatusRunning" by auto
  have "hq_Method (ex_http ''DELETE'' ''/api/v1/scans/s1'') = ''DELETE''"
    "hq_Path (ex_http ''DELETE'' ''/api/v1/scans/s1'') = ''/api/v1/scans/'' @ ''s1''" by (simp_all add: ex_http_def)
  from cancel_hits_own_scan [OF ex_scanning_reachable j this _ s, of api_env] s show ?thesis by blast
qed

section \<open>Invariants of the whole server\<close>

text \<open>An invariant of both groups of store operations is one of every step of the server.\<close>

locale server_invariant = api_invariant +
  assumes scan: "scan_store_step d d' \<Longrightarrow> I d \<Longrightarrow> I d'"
begin

lemma keep_on_db:
  assumes "\<And>d. I d \<Longrightarrow> I (snd (f d))" "I (sv_db (wb_server wb))"
  shows "I (sv_db (wb_server (snd (on_db f wb))))"
  using assms(1) [OF assms(2)] by (cases "f (sv_db (wb_server wb))") (simp add: on_db_def)

lemma keep_typed: "I d \<Longrightarrow> create_target_typed now fresh value typ scope d = Inr d' \<Longrightarrow> I d'"
  by (cases "CreateTarget now fresh [] value (map_of TargetTypes typ) (map_of TargetScopes scope) d")
    (auto simp: create_target_typed_def intro: scan [OF tg_create] split: if_splits)

lemma keep_create_target: "I d \<Longrightarrow> I (snd (handleCreateTarget en fresh rq d))"
  by (simp add: handleCreateTarget_def Let_def keep_typed split: option.split sum.split)

lemma keep_delete_target: "I d \<Longrightarrow> I (snd (handleDeleteTarget rq d))"
  by (auto simp: handleDeleteTarget_def Let_def intro: scan [OF tg_delete] split: option.splits sum.splits)

lemma keep_resolved_at: "I d \<Longrightarrow> I (ignore_err (UpdateFindingResolvedAt now i t d) d)"
  by (auto simp: ignore_err_def intro: scan [OF fi_resolved] split: sum.splits)

lemma keep_finding_status: "I d \<Longrightarrow> I (snd (handleUpdateFindingStatus en rq d))"
  by (auto simp: handleUpdateFindingStatus_def Let_def intro!: keep_resolved_at intro: scan [OF fi_status]
      split: option.splits sum.splits)

lemma keep_cancel: "I (sv_db (wb_server wb)) \<Longrightarrow> I (sv_db (wb_server (snd (handleCancelScan en rq wb))))"
  by (auto simp: handleCancelScan_def Let_def cancel_job_def not_allowed_def on_db_def intro: scan [OF sn_update] split: option.splits)

lemma keep_create_scan: "wb_server (snd (handleCreateScan reg rq wb)) = wb_server wb"
  by (simp add: handleCreateScan_def start_scan_def split: option.split)

lemma keep_web_handle:
  assumes "en_lib (od_env od) = lib" "I (sv_db (wb_server wb))"
  shows "I (sv_db (wb_server (snd (web_handle cf v od rq r wb))))"
  using assms keep_serve [OF assms, of "http_request.truncate rq"]
  by (cases r) (simp_all add: web_handle_def Let_def as_change_def keep_create_scan keep_cancel keep_on_db
      keep_create_target keep_delete_target keep_finding_status case_prod_beta)

lemma keep_web_step: "web_step cf lib wb wb' \<Longrightarrow> I (sv_db (wb_server wb)) \<Longrightarrow> I (sv_db (wb_server wb'))"
proof (induction rule: web_step.induct)
  case (ws_request od v rq wb x wb')
  then show ?case using keep_web_handle [of od wb cf v rq "NewServer_mux (hq_Path rq)"]
    by (auto simp: web_serve_def split: option.splits prod.splits if_splits)
qed (auto simp: scan_returned_def intro: scan step)

lemma keep_web_steps: "(web_step cf lib)\<^sup>*\<^sup>* wb wb' \<Longrightarrow> I (sv_db (wb_server wb)) \<Longrightarrow> I (sv_db (wb_server wb'))"
  by (induction rule: rtranclp_induct) (auto intro: keep_web_step)

end

text \<open>The scan store keeps the configuration tables consistent.\<close>

lemma bo_refs_sets: "bo_refs_ok d b \<longleftrightarrow> (case bo_TargetID b of None \<Rightarrow> True | Some t \<Rightarrow> t \<in> tids d)"
  by (auto simp: bo_refs_ok_def has_target_tids split: option.splits)

lemma ah_refs_sets: "ah_refs_ok d r \<longleftrightarrow> ah_TargetID r \<in> tids d \<and> has_template d (ah_TemplateID r) \<and>
    (case ah_ScanID r of None \<Rightarrow> True | Some i \<Rightarrow> i \<in> sids d)"
  by (auto simp: ah_refs_ok_def has_target_tids has_scan_def sids_def row_None_image split: option.splits)

lemma has_template_same: "db_templates d' = db_templates d \<Longrightarrow> has_template d' t = has_template d t"
  by (simp add: has_template_def split: option.split)

definition keeps_config :: "db \<Rightarrow> db \<Rightarrow> bool" where
  "keeps_config d d' \<longleftrightarrow> db_blackouts d' = db_blackouts d \<and> db_adhoc d' = db_adhoc d \<and> db_defaults d' = db_defaults d \<and>
     db_templates d' = db_templates d \<and> db_schedules d' = db_schedules d \<and> tids d \<subseteq> tids d' \<and> sids d \<subseteq> sids d'"

lemma keeps_config_ok:
  assumes "keeps_config d d'" "config_ok d" "sched_tables_ok d'"
  shows "config_ok d'"
proof -
  have k: "tids d \<subseteq> tids d'" "sids d \<subseteq> sids d'" "has_template d' = has_template d"
    using assms(1) by (auto simp: keeps_config_def fun_eq_iff intro: has_template_same [THEN iffD1] has_template_same [THEN iffD2])
  have "bo_refs_ok d b \<Longrightarrow> bo_refs_ok d' b" "ah_refs_ok d r \<Longrightarrow> ah_refs_ok d' r" for b r
    using k by (auto simp: bo_refs_sets ah_refs_sets split: option.splits)
  then show ?thesis using assms k(3) by (simp add: config_ok_def keeps_config_def)
qed

lemma keeps_config_step:
  assumes "scan_store_step d d'"
  shows "keeps_config d d' \<or> (\<exists>i. DeleteTarget i d = Inr d')"
  using assms
proof (cases rule: scan_store_step.cases)
  case (tg_delete i)
  then show ?thesis by blast
next
  case (tg_last now i sc t)
  then have "keeps_config d d'"
    by (auto simp: keeps_config_def UpdateTargetLastScan_def tids_def sids_def image_update_where split: if_splits)
  then show ?thesis ..
next
  case (sn_update now s)
  then have "keeps_config d d'" by (auto simp: keeps_config_def UpdateScan_def Let_def tids_def sids_def image_update_where)
  then show ?thesis ..
qed (rule disjI1, fastforce simp: keeps_config_def CreateTarget_def CreateScan_def
    CreateToolRun_def UpdateToolRun_def UpsertAsset_def UpdateAssetStatus_def NormalizeAssetStatuses_def
    CreateAssetChange_def UpsertFinding_def UpdateFindingStatus_def UpdateFindingResolvedAt_def SetMeta_def Let_def
    tids_def sids_def split: sum.splits if_splits option.splits)+

lemma config_DeleteTarget:
  assumes ok: "config_ok d" and del: "DeleteTarget i d = Inr d'"
  shows "config_ok d'"
proof -
  let ?s = "gone_scans d i"
  let ?g = "\<lambda>r. r\<lparr>ah_ScanID := clear_opt ?s (ah_ScanID r)\<rparr>"
  note shape = DeleteTarget_shape [OF del]
  have more: "db_blackouts d' = filter (\<lambda>b. bo_TargetID b \<noteq> Some i) (db_blackouts d)"
    "db_adhoc d' = filter (\<lambda>r. ah_TargetID r \<noteq> i) (map ?g (db_adhoc d))" "db_defaults d' = db_defaults d"
    using del by (auto simp: DeleteTarget_def Let_def drop_scans_def drop_assets_def gone_scans_def split: if_splits)
  have "sids d' = sn_ID ` {s \<in> set (db_scans d). sn_ID s \<notin> set ?s}"
    by (simp add: sids_def shape drop_scans_def drop_assets_def)
  then have s: "sids d' = sids d - set ?s" unfolding sids_def by auto
  have t: "tids d' = tids d - {i}" by (auto simp: tids_def shape)
  have tm: "has_template d' v = has_template d v" for v by (rule has_template_same) (simp add: shape)
  have "bo_refs_ok d' b" if "bo_refs_ok d b" "bo_TargetID b \<noteq> Some i" for b
    using that by (auto simp: bo_refs_sets t split: option.splits)
  moreover have "ah_refs_ok d' (?g r)" if "ah_refs_ok d r" "ah_TargetID r \<noteq> i" for r
    using that by (cases "ah_ScanID r") (auto simp: ah_refs_sets t s tm clear_opt_def)
  moreover have "distinct (map ah_ID (db_adhoc d'))" unfolding more
    by (rule distinct_map_filter_key) (use ok in \<open>simp add: config_ok_def o_def\<close>)
  moreover have "distinct (map bo_ID (db_blackouts d'))" unfolding more
    by (rule distinct_map_filter_key) (use ok in \<open>simp add: config_ok_def\<close>)
  moreover have "sched_tables_ok d'" by (rule sched_DeleteTarget [OF _ del]) (use ok in \<open>simp add: config_ok_def\<close>)
  ultimately show ?thesis using ok by (auto simp: config_ok_def more tm)
qed

lemma config_ok_scan: "scan_store_step d d' \<Longrightarrow> config_ok d \<Longrightarrow> config_ok d'"
  using keeps_config_step [of d d'] keeps_config_ok [of d d'] scan_step_sched [of d d'] config_DeleteTarget [of d _ d']
  by (auto simp: config_ok_def)

lemma scan_tables_ok_config: "config_step lib d d' \<Longrightarrow> uniq_ok d \<and> refs_ok d \<Longrightarrow> uniq_ok d' \<and> refs_ok d'"
  by (drule scan_part_step)
    (simp add: scan_part_def uniq_ok_def refs_ok_def asset_refs_def finding_refs_def change_refs_def tids_def aids_def sids_def)

interpretation database: server_invariant lib "\<lambda>d. config_ok d \<and> uniq_ok d \<and> refs_ok d" for lib
  by unfold_locales (use config_ok_step scan_tables_ok_config config_ok_scan scan_step_inv in blast)+



section \<open>The score\<close>

definition of_severity :: "db \<Rightarrow> Severity \<Rightarrow> int" where
  "of_severity d s = int (length (filter (\<lambda>f. fi_Severity f = s) (db_findings d)))"

lemma overview_score:
  assumes "handleOverview agent rq d = WebReply 200 ov"
  shows "ov_SecurityScore ov = max 0 (100 - (25 * of_severity d SeverityCritical + 10 * of_severity d SeverityHigh +
       3 * of_severity d SeverityMedium + of_severity d SeverityLow)) \<and>
    (\<forall>c \<in> set (ov_ScoreBreakdown ov). 0 < cp_Count c \<and> cp_Penalty c = cp_Count c * cp_Weight c) \<and>
    ov_SecurityScore ov = max 0 (100 - sum_list (map cp_Penalty (ov_ScoreBreakdown ov)))"
proof -
  have c: "count_at (CountFindingsBySeverity d) s = of_severity d s" for s
    by (simp add: CountFindingsBySeverity_def count_at_group of_severity_def)
  have n: "0 \<le> of_severity d s" for s by (simp add: of_severity_def)
  have "(ov_SecurityScore ov, ov_ScoreBreakdown ov) = ComputeSecurityScore (CountFindingsBySeverity d)"
    using assms by (auto simp: handleOverview_def not_allowed_def Let_def split: if_splits prod.splits)
  then show ?thesis
    using n [of SeverityCritical] n [of SeverityHigh] n [of SeverityMedium] n [of SeverityLow]
    by (auto simp: ComputeSecurityScore_def score_weights_def score_step_def Let_def c split: if_splits)
qed

text \<open>The security score. The overview's score is a hundred less 25 for every critical finding, 10 for
  every high, 3 for every medium and 1 for every low one, but not below zero; it counts the stored
  findings whatever their status. The breakdown lists the severities that occur, each with a positive
  penalty, and the penalties add up to what is taken off.\<close>

theorem security_score:
  assumes "handleOverview agent rq d = WebReply 200 ov"
  shows "ov_SecurityScore ov = max 0 (100 - (25 * of_severity d SeverityCritical + 10 * of_severity d SeverityHigh +
       3 * of_severity d SeverityMedium + of_severity d SeverityLow)) \<and>
    (\<forall>c \<in> set (ov_ScoreBreakdown ov). 0 < cp_Count c \<and> cp_Penalty c = cp_Count c * cp_Weight c) \<and>
    ov_SecurityScore ov = max 0 (100 - sum_list (map cp_Penalty (ov_ScoreBreakdown ov)))"
  using assms by (rule overview_score)

section \<open>Triage\<close>

lemma GetFinding_unique:
  "distinct (map fi_ID (db_findings d)) \<Longrightarrow> GetFinding d i = Some f \<Longrightarrow> x \<in> set (db_findings d) \<Longrightarrow> fi_ID x = i \<Longrightarrow> x = f"
  by (auto simp: GetFinding_def distinct_map inj_on_def dest: row_mem)

lemma GetFinding_other [simp]: "GetFinding (d\<lparr>db_findings := update_where (\<lambda>f. fi_ID f = i) g (db_findings d)\<rparr>) i = None \<longleftrightarrow> GetFinding d i = None"
  if "\<And>f. fi_ID (g f) = fi_ID f"
  using that by (auto simp: GetFinding_def row_None update_where_def)

definition triaged :: "time \<Rightarrow> FindingStatus \<Rightarrow> Finding \<Rightarrow> Finding \<Rightarrow> Finding" where
  "triaged now st f x = x\<lparr>fi_Status := st,
     fi_ResolvedAt := (if st = FindingStatusResolved then Some (trunc_sec now)
                       else if fi_Status f = FindingStatusResolved then None else fi_ResolvedAt f),
     fi_UpdatedAt := trunc_sec now\<rparr>"

lemma triage_writes:
  assumes "GetFinding d i = Some f" "distinct (map fi_ID (db_findings d))" "UpdateFindingStatus now i st d = Inr d1"
  shows "(if st = FindingStatusResolved then ignore_err (UpdateFindingResolvedAt now i (Some now) d1) d1
          else if fi_Status f = FindingStatusResolved then ignore_err (UpdateFindingResolvedAt now i None d1) d1
          else d1) = d\<lparr>db_findings := map (\<lambda>x. if fi_ID x = i then triaged now st f x else x) (db_findings d)\<rparr>"
proof -
  let ?s = "\<lambda>x. x\<lparr>fi_Status := st, fi_ResolvedAt := (if st = FindingStatusResolved then Some (trunc_sec now) else fi_ResolvedAt x),
      fi_UpdatedAt := trunc_sec now\<rparr>"
  have d1: "d1 = d\<lparr>db_findings := update_where (\<lambda>f. fi_ID f = i) ?s (db_findings d)\<rparr>"
    using assms(1,3) by (simp add: UpdateFindingStatus_def)
  have g: "GetFinding d1 i \<noteq> None" using assms(1) by (simp add: d1)
  have r: "ignore_err (UpdateFindingResolvedAt now i t d1) d1 =
      d\<lparr>db_findings := map (\<lambda>x. if fi_ID x = i then (?s x)\<lparr>fi_ResolvedAt := timePtrUTC t\<rparr> else x) (db_findings d)\<rparr>" for t
  proof -
    have "UpdateFindingResolvedAt now i t d1 = Inr (d1\<lparr>db_findings := update_where (\<lambda>f. fi_ID f = i)
        (\<lambda>f. f\<lparr>fi_ResolvedAt := timePtrUTC t, fi_UpdatedAt := trunc_sec now\<rparr>) (db_findings d1)\<rparr>)"
      using g by (simp add: UpdateFindingResolvedAt_def)
    then show ?thesis by (simp add: ignore_err_def) (simp add: d1 update_where_def)
  qed
  have c: "map h (db_findings d) = map h' (db_findings d)" if "\<And>x. x = f \<or> fi_ID x \<noteq> i \<Longrightarrow> h x = h' x" for h h' :: "Finding \<Rightarrow> Finding"
    using that GetFinding_unique [OF assms(2,1)] by (intro map_cong) auto
  show ?thesis
    unfolding r by (auto simp: d1 update_where_def triaged_def timePtrUTC_def intro!: arg_cong [where f = "\<lambda>l. d\<lparr>db_findings := l\<rparr>"] c)
qed

lemma score_severities:
  "map fi_Severity (db_findings d') = map fi_Severity (db_findings d) \<Longrightarrow> of_severity d' s = of_severity d s"
proof -
  assume "map fi_Severity (db_findings d') = map fi_Severity (db_findings d)"
  then have "length (filter ((=) s) (map fi_Severity (db_findings d'))) = length (filter ((=) s) (map fi_Severity (db_findings d)))" by simp
  then show ?thesis by (simp add: of_severity_def filter_map o_def eq_commute)
qed


lemma ex_overview: "\<exists>ov. handleOverview (wc_Agent ex_config) (ex_http ''GET'' p) d = WebReply 200 ov"
  by (simp add: handleOverview_def Let_def ex_http_def case_prod_beta)

lemma security_score_witness:
  "\<exists>ov. handleOverview (wc_Agent ex_config) (ex_http ''GET'' []) ex_scan_db = WebReply 200 ov \<and>
     ov_SecurityScore ov = max 0 (100 - sum_list (map cp_Penalty (ov_ScoreBreakdown ov)))"
  using ex_overview [of "[]" ex_scan_db] security_score by blast

definition ex_triage :: web_request where
  "ex_triage = (ex_http ''PATCH'' ''/api/v1/findings/f1/status'')\<lparr>wq_FindingStatus := Some ''resolved''\<rparr>"


section \<open>Scan logs\<close>

lemma drop_after_last:
  fixes f :: "'a \<Rightarrow> 'k::linorder"
  assumes "sorted_wrt (<) (map f xs)" "take n xs \<noteq> []"
  shows "filter (\<lambda>x. f (last (take n xs)) < f x) xs = drop n xs"
proof -
  have s: "sorted_wrt (<) (map f (take n xs) @ map f (drop n xs))" using assms(1) by (simp flip: map_append)
  obtain ys y where y: "take n xs = ys @ [y]" using assms(2) by (metis append_butlast_last_id)
  have "filter (\<lambda>x. f (last (take n xs)) < f x) (take n xs) = []"
    using s by (fastforce simp: y sorted_wrt_append filter_empty_conv)
  moreover have "filter (\<lambda>x. f (last (take n xs)) < f x) (drop n xs) = drop n xs"
    using s by (auto simp: y sorted_wrt_append filter_id_conv)
  ultimately show ?thesis by (metis append_take_drop_id append.left_neutral filter_append)
qed

definition lines_after :: "query \<Rightarrow> string \<Rightarrow> db \<Rightarrow> int \<Rightarrow> ScanLog list" where
  "lines_after q i d since = sort_key lg_ID (filter (log_where (log_opts q i since 0)) (db_logs d))"

lemma log_where_limit: "log_where (log_opts q i s lim) = log_where (log_opts q i s 0)"
  by (simp add: fun_eq_iff log_where_def log_opts_def)

lemma log_opts_fields: "lo_Limit (log_opts q i s lim) = lim" "lo_ScanID (log_opts q i s lim) = i"
  by (simp_all add: log_opts_def)

lemma ListScanLogs_page:
  assumes "ListScanLogs d (log_opts q i since lim) = Inr ls" "0 < lim" "lim \<le> 1000"
  shows "ls = take (nat lim) (lines_after q i d since) \<and> i \<noteq> []"
  using assms by (auto simp: ListScanLogs_def Let_def lines_after_def log_where_limit [of q i since lim] log_opts_fields
      split: if_splits)

lemma lines_after_sorted:
  "distinct (map lg_ID (db_logs d)) \<Longrightarrow> sorted_wrt (<) (map lg_ID (lines_after q i d since))"
  unfolding strict_sorted_iff lines_after_def by (simp add: distinct_map_filter_key distinct_sort_map)

lemma lines_after_mono:
  assumes "since \<le> m" "0 < m"
  shows "lines_after q i d m = filter (\<lambda>l. m < lg_ID l) (lines_after q i d since)"
proof -
  have "filter (log_where (log_opts q i m 0)) ls = filter (\<lambda>l. m < lg_ID l) (filter (log_where (log_opts q i since 0)) ls)" for ls
    using assms by (induction ls) (auto simp: log_where_def log_opts_def)
  then show ?thesis by (simp add: lines_after_def filter_sort)
qed

text \<open>C35: Following a scan's log. A page holds the first lines after the cursor, in order, and the next
  cursor continues exactly where the page ends: the lines after the old cursor are those of the page
  followed by the lines after the new one. When the reply says that there are no more lines, none is left;
  otherwise the cursor has moved, so a client that follows it sees every line once and comes to an end.\<close>

theorem log_cursor:
  assumes "handleScanLogs rq d = WebReply 200 r" "distinct (map lg_ID (db_logs d))" "\<forall>l \<in> set (db_logs d). 0 < lg_ID l"
    and "i = TrimSuffix (TrimPrefix (hq_Path rq) ''/api/v1/scans/'') ''/logs''"
    and "since = parseInt64Query (hq_Query rq) ''since'' 0"
  shows "lines_after (hq_Query rq) i d since = lr_Lines r @ lines_after (hq_Query rq) i d (lr_Next r) \<and>
    length (lr_Lines r) \<le> 1000 \<and>
    (if lr_HasMore r then since < lr_Next r else lines_after (hq_Query rq) i d (lr_Next r) = [])"
proof -
  let ?q = "hq_Query rq"
  let ?all = "lines_after ?q i d since"
  let ?lim0 = "parseIntQuery ?q ''limit'' 200"
  let ?lim = "if ?lim0 > 1000 then 1000 else ?lim0"
  have i: "i \<noteq> []" and l0: "0 < ?lim0" and r: "r = logs_page since ?lim (take (nat ?lim) ?all)"
    using assms(1) unfolding assms(4,5)
    by (auto simp: handleScanLogs_def not_allowed_def Let_def split: if_splits sum.splits dest: ListScanLogs_page)
  have len: "length (take (nat ?lim) ?all) \<le> 1000" by (simp add: min.coboundedI2)
  have pos: "0 < lg_ID l \<and> since < lg_ID l" if "l \<in> set ?all" for l
    using that assms(3) by (auto simp: lines_after_def log_where_def log_opts_def)
  show ?thesis
  proof (cases "take (nat ?lim) ?all = []")
    case True
    then have "?all = []" using l0 by (auto simp: take_eq_Nil split: if_splits)
    then show ?thesis by (simp add: r logs_page_def)
  next
    case False
    let ?m = "lg_ID (last (take (nat ?lim) ?all))"
    have "last (take (nat ?lim) ?all) \<in> set ?all" using False last_in_set in_set_takeD by fast
    then have m: "0 < ?m" "since < ?m" using pos by auto
    have rest: "lines_after ?q i d ?m = drop (nat ?lim) ?all"
      using lines_after_mono [of since ?m ?q i d] drop_after_last [OF lines_after_sorted [OF assms(2)] False] m by simp
    have n: "lr_Next r = ?m" "lr_Lines r = take (nat ?lim) ?all" using False by (simp_all add: r logs_page_def)
    have "drop (nat ?lim) ?all = []" if "\<not> lr_HasMore r"
      using that False l0 by (simp add: r logs_page_def min_def split: if_splits)
    then show ?thesis using rest m len n by auto
  qed
qed

definition ex_logs_db :: db where
  "ex_logs_db = ex_db\<lparr>db_scans := [ex_scan], db_logs := [ex_log_line\<lparr>lg_ID := 1\<rparr>, ex_log_line\<lparr>lg_ID := 2\<rparr>]\<rparr>"

lemma log_cursor_witness:
  "\<exists>r. handleScanLogs (ex_http ''GET'' ''/api/v1/scans/s1/logs'') ex_logs_db = WebReply 200 r \<and>
     lines_after (\<lambda>_. []) ''s1'' ex_logs_db 0 = lr_Lines r @ lines_after (\<lambda>_. []) ''s1'' ex_logs_db (lr_Next r)"
proof -
  let ?rq = "ex_http ''GET'' ''/api/v1/scans/s1/logs''"
  have "(case handleScanLogs ?rq ex_logs_db of WebReply n _ \<Rightarrow> n = 200 | _ \<Rightarrow> False)" by code_simp
  then obtain r where r: "handleScanLogs ?rq ex_logs_db = WebReply 200 r" by (auto split: web_reply.splits)
  have i: "''s1'' = TrimSuffix (TrimPrefix (hq_Path ?rq) ''/api/v1/scans/'') ''/logs''" by code_simp
  have s: "0 = parseInt64Query (hq_Query ?rq) ''since'' 0" by code_simp
  have "distinct (map lg_ID (db_logs ex_logs_db))" "\<forall>l \<in> set (db_logs ex_logs_db). 0 < lg_ID l"
    by (simp_all add: ex_logs_db_def)
  from log_cursor [OF r this i s] r show ?thesis by (auto simp: ex_http_def)
qed

section \<open>The asset tree\<close>

text \<open>The assets of a node and of everything below it; the assets that a list has after (or at) the
  asset that is their parent.\<close>

fun node_assets :: "assetTreeNode \<Rightarrow> Asset list" where
  "node_assets (Node a cs n) = a # concat (map node_assets cs)"

fun listed_late :: "string list \<Rightarrow> Asset list \<Rightarrow> Asset list" where
  "listed_late seen [] = []"
| "listed_late seen (a # as) =
     (if as_ParentID a \<noteq> [] \<and> as_ParentID a \<in> set (as_ID a # seen) then [a] else [])
     @ listed_late (as_ID a # seen) as"

definition tree_assets :: "assetTreeNode list \<Rightarrow> Asset list" where
  "tree_assets ns = concat (map node_assets ns)"

lemma tree_assets_simps [simp]:
  "tree_assets [] = []" "tree_assets (ns @ ms) = tree_assets ns @ tree_assets ms"
  "tree_assets [n] = node_assets n" "node_assets (add_child c n) = node_assets n @ node_assets c"
  by (simp_all add: tree_assets_def add_child_def, cases n, simp)

lemma listed_late_in: "b \<in> set (listed_late seen xs) \<Longrightarrow> b \<in> set xs"
  by (induction xs arbitrary: seen) (auto split: if_splits)

text \<open>The node of an unfinished asset: its part of the tree so far.\<close>

definition unfinished :: "(string \<times> assetTreeNode) list \<Rightarrow> Asset \<Rightarrow> Asset list" where
  "unfinished m a = (case map_of m (as_ID a) of None \<Rightarrow> [] | Some n \<Rightarrow> node_assets n)"

lemma place_asset_complete:
  assumes "listed_late seen as = []" "distinct (map as_ID as)" "set seen \<inter> as_ID ` set as = {}"
    and "dom (map_of m) = set seen \<union> as_ID ` set as"
  shows "mset (tree_assets (snd (fold place_asset as (m, roots)))) =
    mset (tree_assets roots) + mset (concat (map (unfinished m) as))"
  using assms
proof (induction as arbitrary: seen m roots)
  case (Cons a as)
  from Cons.prems obtain n where n: "map_of m (as_ID a) = Some n" by (metis UnI2 domD image_eqI list.set_intros(1))
  let ?p = "as_ParentID a"
  show ?case
  proof (cases "?p \<noteq> [] \<and> map_of m ?p \<noteq> None")
    case True
    then obtain q where q: "map_of m ?p = Some q" by auto
    have late: "?p \<notin> set (as_ID a # seen)" using Cons.prems(1) True by (auto split: if_splits)
    then have "?p \<in> as_ID ` set as" using q Cons.prems(4) by auto
    then obtain ys b zs where b: "as = ys @ b # zs" "as_ID b = ?p" by (auto dest: split_list)
    let ?m = "AList.update ?p (add_child n q) m"
    have s: "place_asset a (m, roots) = (?m, roots)" using n q True by (simp add: place_asset_def)
    have other: "unfinished ?m c = unfinished m c" if "c \<in> set (ys @ zs)" for c
    proof -
      have "as_ID c \<noteq> ?p" using that Cons.prems(2) b by (auto simp: image_iff)
      then show ?thesis by (simp add: unfinished_def update_conv')
    qed
    have "concat (map (unfinished ?m) as) = concat (map (unfinished m) ys) @ (node_assets q @ node_assets n)
        @ concat (map (unfinished m) zs)"
      using other by (auto simp: b unfinished_def update_conv' cong: map_cong)
    then have "mset (concat (map (unfinished ?m) as)) = mset (concat (map (unfinished m) (a # as)))"
      using n q by (simp add: b unfinished_def)
    moreover have "mset (tree_assets (snd (fold place_asset as (?m, roots)))) =
        mset (tree_assets roots) + mset (concat (map (unfinished ?m) as))"
    proof (rule Cons.IH [of "as_ID a # seen"])
      have "dom (map_of ?m) = dom (map_of m)" using q by (auto simp: update_conv')
      then show "dom (map_of ?m) = set (as_ID a # seen) \<union> as_ID ` set as" using Cons.prems(4) by simp
    qed (use Cons.prems in \<open>auto split: if_splits\<close>)
    ultimately show ?thesis by (simp add: s)
  next
    case False
    then have s: "place_asset a (m, roots) = (m, roots @ [n])" using n by (auto simp: place_asset_def)
    have "mset (tree_assets (snd (fold place_asset as (m, roots @ [n])))) =
        mset (tree_assets (roots @ [n])) + mset (concat (map (unfinished m) as))"
      by (rule Cons.IH [of "as_ID a # seen"]) (use Cons.prems in \<open>auto split: if_splits\<close>)
    moreover have "unfinished m a = node_assets n" using n by (simp add: unfinished_def)
    ultimately show ?thesis by (simp add: s)
  qed
qed simp

lemma place_asset_loses:
  assumes "b \<notin> set (tree_assets roots)" "\<forall>c \<in> set as. c = b \<or> b \<notin> set (unfinished m c)"
    and "distinct (map as_ID as)" "b \<in> set as \<longrightarrow> b \<in> set (listed_late seen as)" "set seen \<inter> as_ID ` set as = {}"
    and "as_ID ` set as \<subseteq> dom (map_of m)" "set seen \<subseteq> dom (map_of m)"
  shows "b \<notin> set (tree_assets (snd (fold place_asset as (m, roots))))"
  using assms
proof (induction as arbitrary: seen m roots)
  case (Cons a as)
  from Cons.prems obtain n where n: "map_of m (as_ID a) = Some n" by auto
  let ?p = "as_ParentID a"
  have gone: "a = b \<Longrightarrow> b \<notin> set as" using Cons.prems(3) by auto
  have later: "b \<in> set as \<longrightarrow> b \<in> set (listed_late (as_ID a # seen) as)"
    using Cons.prems(4) gone listed_late_in [of b] by (auto split: if_splits)
  show ?case
  proof (cases "?p \<noteq> [] \<and> map_of m ?p \<noteq> None")
    case True
    then obtain q where q: "map_of m ?p = Some q" by auto
    let ?m = "AList.update ?p (add_child n q) m"
    have s: "place_asset a (m, roots) = (?m, roots)" using n q True by (simp add: place_asset_def)
    have "\<forall>c \<in> set as. c = b \<or> b \<notin> set (unfinished ?m c)"
    proof
      fix c assume c: "c \<in> set as"
      show "c = b \<or> b \<notin> set (unfinished ?m c)"
      proof (cases "as_ID c = ?p")
        case True
        have "a \<noteq> b"
        proof
          assume "a = b"
          then have "?p \<in> set (as_ID a # seen)"
            using Cons.prems(4) gone listed_late_in [of b "as_ID a # seen" as] by (auto split: if_splits)
          moreover have "?p \<in> as_ID ` set as" using c True by (metis imageI)
          ultimately show False using Cons.prems(3,5) by auto
        qed
        then have "b \<notin> set (node_assets n)" using Cons.prems(2) n by (auto simp: unfinished_def)
        then show ?thesis using Cons.prems(2) c True q by (auto simp: unfinished_def update_conv')
      next
        case False
        then show ?thesis using Cons.prems(2) c by (auto simp: unfinished_def update_conv')
      qed
    qed
    with Cons.prems later show ?thesis
      unfolding fold_simps s by (intro Cons.IH [of _ _ "as_ID a # seen"]) (auto simp: update_conv' n)
  next
    case False
    then have s: "place_asset a (m, roots) = (m, roots @ [n])" using n by (auto simp: place_asset_def)
    have "a \<noteq> b"
    proof
      assume "a = b"
      then have "?p \<noteq> [] \<and> ?p \<in> set (as_ID a # seen)"
        using Cons.prems(4) gone listed_late_in [of b "as_ID a # seen" as] by (auto split: if_splits)
      then show False using False Cons.prems(7) n by auto
    qed
    then have "b \<notin> set (tree_assets (roots @ [n]))" using Cons.prems(1,2) n by (auto simp: unfinished_def)
    with Cons.prems later show ?thesis
      unfolding fold_simps s by (intro Cons.IH [of _ _ "as_ID a # seen"]) (auto simp: n)
  qed
qed simp


definition ex_tree_db :: "bool \<Rightarrow> db" where
  "ex_tree_db late = ex_db\<lparr>db_assets :=
     (if late then [ex_asset, ex_asset\<lparr>as_ID := ''a2'', as_Value := ''www.example.com'', as_ParentID := ''a1''\<rparr>]
      else [ex_asset\<lparr>as_ID := ''a2'', as_Value := ''www.example.com'', as_ParentID := ''a1''\<rparr>, ex_asset])\<rparr>"


end
