(* ===== verification/Bootstrap.thy ===== *)
theory Bootstrap
  imports Api Windows Startup
begin

text \<open>
  What a process does to the store before its scheduler starts: the one-shot migration of the old
  schedule file (\<open>internal/daemon/intervalsched/migrate_legacy.go\<close>), the built-in templates
  (\<open>internal/daemon/seed_templates.go\<close>) and their order in \<open>internal/cli/appcore.go\<close>. Durations of the
  old file arrive parsed, \<open>None\<close> being a text that does not parse; the clock is read once.
\<close>

section \<open>The old configuration\<close>

record legacyScheduleConfigWindow =
  lw_Enabled :: bool
  lw_Start :: string
  lw_End :: string
  lw_Timezone :: string

record legacyScheduleConfig =
  lc_Enabled :: bool
  lc_FullScanInterval :: "duration option"
  lc_QuickCheckInterval :: "duration option"
  lc_Jitter :: "duration option"
  lc_RunOnStart :: bool
  lc_QuickCheckTools :: "string list"
  lc_MaintenanceWindow :: legacyScheduleConfigWindow

text \<open>The two files of the state directory, as \<open>os.Stat\<close>, the read and the decoder find them.\<close>

datatype legacy_source = NoSource | SourceStatFails | SourceUnreadable | Source legacyScheduleConfig

datatype legacy_sentinel = NoSentinel | SentinelStatFails | Sentinel

record state_dir =
  dir_source :: legacy_source
  dir_sentinel :: legacy_sentinel

record MigrationReport =
  mr_TemplateID :: string
  mr_TargetsMigrated :: int
  mr_SchedulesCreated :: int
  mr_SkippedReason :: string

datatype bootstrap_error =
    ErrStatSentinel | ErrStatSource | ErrLoadLegacy | ErrParseInterval | ErrInvalidLegacyInterval
  | ErrCreateDefault store_error | ErrDefaults store_error | ErrCreateSchedule string store_error
  | ErrRename | ErrSeed string store_error

definition durationToRRule :: "duration \<Rightarrow> (bootstrap_error, string) result" where
  "durationToRRule d =
     (if d < minute then Inl ErrInvalidLegacyInterval
      else if d = 15 * minute then Inr ''FREQ=MINUTELY;INTERVAL=15''
      else if d = hour then Inr ''FREQ=HOURLY''
      else if d = 6 * hour then Inr ''FREQ=HOURLY;INTERVAL=6''
      else if d = 24 * hour then Inr ''FREQ=DAILY''
      else if d = 7 * 24 * hour then Inr ''FREQ=WEEKLY''
      else if d = 30 * 24 * hour then Inr ''FREQ=MONTHLY''
      else Inr ''FREQ=DAILY'')"

definition legacyToolsToConfig :: "string list \<Rightarrow> ToolConfig" where
  "legacyToolsToConfig tools =
     put_all (map (\<lambda>n. (n, JObj []))
       (filter (\<lambda>n. map_of RegisteredToolParams n \<noteq> None) (map (\<lambda>n. ToLower (TrimSpace n)) tools))) []"

definition legacyWindowToMaintenance :: "legacyScheduleConfigWindow \<Rightarrow> MaintenanceWindow option" where
  "legacyWindowToMaintenance w =
     (if \<not> lw_Enabled w then None
      else case ParseTimeOfDay (lw_Start w) of
        Inl _ \<Rightarrow> None
      | Inr s \<Rightarrow>
          (case ParseTimeOfDay (lw_End w) of
             Inl _ \<Rightarrow> None
           | Inr e \<Rightarrow>
               let startMins = tod_Hour s * 60 + tod_Minute s; endMins = tod_Hour e * 60 + tod_Minute e in
               Some \<lparr>mw_RRule = ''FREQ=DAILY;BYHOUR='' @ Itoa (tod_Hour s) @ '';BYMINUTE='' @ Itoa (tod_Minute s),
                 mw_DurationSec = (if endMins > startMins then (endMins - startMins) * 60
                                   else ((24 * 60 - startMins) + endMins) * 60),
                 mw_Timezone = (if lw_Timezone w = [] then ''UTC'' else lw_Timezone w)\<rparr>))"

definition computeInitialNextRun :: "legacyScheduleConfig \<Rightarrow> time \<Rightarrow> time" where
  "computeInitialNextRun cfg now =
     (if lc_RunOnStart cfg then now
      else case lc_FullScanInterval cfg of
        None \<Rightarrow> now + 24 * hour
      | Some d \<Rightarrow> if d \<le> 0 then now + 24 * hour else now + d)"

section \<open>The migration\<close>

definition legacy_timezone :: "legacyScheduleConfig \<Rightarrow> string" where
  "legacy_timezone cfg =
     (let tz = lw_Timezone (lc_MaintenanceWindow cfg) in if tz = [] then ''UTC'' else tz)"

definition migrated_template :: "legacyScheduleConfig \<Rightarrow> string \<Rightarrow> Template" where
  "migrated_template cfg rule =
     \<lparr>tm_ID = [], tm_Name = ''default'', tm_Description = ''migrated from schedule.config.json'', tm_RRule = rule,
      tm_Timezone = legacy_timezone cfg, tm_ToolConfig = legacyToolsToConfig (lc_QuickCheckTools cfg),
      tm_MaintenanceWindow = legacyWindowToMaintenance (lc_MaintenanceWindow cfg), tm_IsSystem = True,
      tm_CreatedAt = zero_time, tm_UpdatedAt = zero_time\<rparr>"

definition migrated_defaults :: "legacyScheduleConfig \<Rightarrow> string \<Rightarrow> string \<Rightarrow> ScheduleDefaults \<Rightarrow> ScheduleDefaults" where
  "migrated_defaults cfg rule tmplID x =
     x\<lparr>sd_DefaultTemplateID := Some tmplID, sd_DefaultRRule := rule, sd_DefaultTimezone := legacy_timezone cfg,
       sd_RunOnStart := lc_RunOnStart cfg,
       sd_JitterSeconds := (case lc_Jitter cfg of
           Some j \<Rightarrow> if j > 0 then j div second else sd_JitterSeconds x | None \<Rightarrow> sd_JitterSeconds x),
       sd_DefaultMaintenanceWindow := (case legacyWindowToMaintenance (lc_MaintenanceWindow cfg) of
           None \<Rightarrow> sd_DefaultMaintenanceWindow x | Some w \<Rightarrow> Some w)\<rparr>"

definition migrated_schedule :: "legacyScheduleConfig \<Rightarrow> string \<Rightarrow> string \<Rightarrow> time \<Rightarrow> Target \<Rightarrow> Schedule" where
  "migrated_schedule cfg rule tmplID now t =
     \<lparr>sch_ID = [], sch_TargetID = tg_ID t, sch_Name = ''default'', sch_RRule = rule, sch_DTStart = now,
      sch_Timezone = legacy_timezone cfg, sch_TemplateID = Some tmplID, sch_ToolConfig = [], sch_Overrides = [],
      sch_MaintenanceWindow = None, sch_Enabled = True, sch_NextRunAt = Some (computeInitialNextRun cfg now),
      sch_LastRunAt = None, sch_LastRunStatus = None, sch_LastScanID = None,
      sch_CreatedAt = zero_time, sch_UpdatedAt = zero_time\<rparr>"

text \<open>The loop over the targets; the number of schedules made so far picks the next identifier.\<close>

definition migrate_target ::
  "'r rrule_lib \<Rightarrow> time \<Rightarrow> (nat \<Rightarrow> string) \<Rightarrow> legacyScheduleConfig \<Rightarrow> string \<Rightarrow> string \<Rightarrow> Target \<Rightarrow> nat \<times> db
   \<Rightarrow> (bootstrap_error, nat \<times> db) result" where
  "migrate_target lib now fresh cfg rule tmplID t st =
     (if \<not> tg_Enabled t then Inr st
      else case sched_Create lib now (fresh (Suc (fst st))) (migrated_schedule cfg rule tmplID now t) (snd st) of
        Inl e \<Rightarrow> Inl (ErrCreateSchedule (tg_ID t) e)
      | Inr d \<Rightarrow> Inr (Suc (fst st), d))"

definition migrate_tx ::
  "'r rrule_lib \<Rightarrow> time \<Rightarrow> (nat \<Rightarrow> string) \<Rightarrow> legacyScheduleConfig \<Rightarrow> string \<Rightarrow> Target list \<Rightarrow> db
   \<Rightarrow> (bootstrap_error, MigrationReport \<times> db) result" where
  "migrate_tx lib now fresh cfg rule targets d =
     (case tmpl_Create lib now (fresh 0) (migrated_template cfg rule) d of
        Inl e \<Rightarrow> Inl (ErrCreateDefault e)
      | Inr d1 \<Rightarrow>
          (case def_Get d1 of
             Inl e \<Rightarrow> Inl (ErrDefaults e)
           | Inr x \<Rightarrow>
               (case def_Update now (migrated_defaults cfg rule (fresh 0) x) d1 of
                  Inl e \<Rightarrow> Inl (ErrDefaults e)
                | Inr d2 \<Rightarrow>
                    (case foldR (migrate_target lib now fresh cfg rule (fresh 0)) targets (0, d2) of
                       Inl e \<Rightarrow> Inl e
                     | Inr (n, d3) \<Rightarrow> Inr (\<lparr>mr_TemplateID = fresh 0, mr_TargetsMigrated = int n,
                         mr_SchedulesCreated = int n, mr_SkippedReason = []\<rparr>, d3)))))"

definition skipped :: "string \<Rightarrow> MigrationReport" where
  "skipped reason = \<lparr>mr_TemplateID = [], mr_TargetsMigrated = 0, mr_SchedulesCreated = 0, mr_SkippedReason = reason\<rparr>"

text \<open>\<open>renamed\<close> tells whether the rename of the source to the sentinel succeeds.\<close>

definition MigrateLegacyScheduleConfig ::
  "'r rrule_lib \<Rightarrow> time \<Rightarrow> (nat \<Rightarrow> string) \<Rightarrow> bool \<Rightarrow> state_dir \<Rightarrow> db
   \<Rightarrow> (bootstrap_error, MigrationReport) result \<times> state_dir \<times> db" where
  "MigrateLegacyScheduleConfig lib now fresh renamed dir d =
     (case dir_sentinel dir of
        Sentinel \<Rightarrow> (Inr (skipped ''already_migrated''), dir, d)
      | SentinelStatFails \<Rightarrow> (Inl ErrStatSentinel, dir, d)
      | NoSentinel \<Rightarrow>
          (case dir_source dir of
             NoSource \<Rightarrow> (Inr (skipped ''no_legacy_file''), dir, d)
           | SourceStatFails \<Rightarrow> (Inl ErrStatSource, dir, d)
           | SourceUnreadable \<Rightarrow> (Inl ErrLoadLegacy, dir, d)
           | Source cfg \<Rightarrow>
               (case lc_FullScanInterval cfg of
                  None \<Rightarrow> (Inl ErrParseInterval, dir, d)
                | Some full \<Rightarrow>
                    (case durationToRRule full of
                       Inl e \<Rightarrow> (Inl e, dir, d)
                     | Inr rule \<Rightarrow>
                         (case Transact (migrate_tx lib now fresh cfg rule (ListTargets d)) d of
                            (Inl e, d') \<Rightarrow> (Inl e, dir, d')
                          | (Inr report, d') \<Rightarrow>
                              if renamed then (Inr report, \<lparr>dir_source = NoSource, dir_sentinel = Sentinel\<rparr>, d')
                              else (Inl ErrRename, dir, d'))))))"

section \<open>The built-in templates\<close>

record BuiltinTemplate =
  bt_Name :: string
  bt_Description :: string
  bt_RecommendedFor :: string
  bt_RRule :: string
  bt_Timezone :: string
  bt_ToolConfig :: ToolConfig

definition fastToolConfig :: ToolConfig where
  "fastToolConfig =
     (let tc = SetTool encode_subfinder [] ''subfinder'' DefaultSubfinderParams;
          tc = SetTool encode_dnsx tc ''dnsx'' DefaultDnsxParams
      in SetTool encode_httpx tc ''httpx'' DefaultHttpxParams)"

definition pipelineToolConfig :: "NaabuParams \<Rightarrow> string list \<Rightarrow> ToolConfig" where
  "pipelineToolConfig naabu severities =
     (let tc = SetTool encode_subfinder [] ''subfinder'' DefaultSubfinderParams;
          tc = SetTool encode_dnsx tc ''dnsx'' DefaultDnsxParams;
          tc = SetTool encode_naabu tc ''naabu'' naabu;
          tc = SetTool encode_httpx tc ''httpx'' DefaultHttpxParams
      in SetTool encode_nuclei tc ''nuclei'' (DefaultNucleiParams\<lparr>nu_Severity := severities\<rparr>))"

definition defaultToolConfig :: ToolConfig where
  "defaultToolConfig = pipelineToolConfig DefaultNaabuParams [''critical'', ''high'']"

definition deepToolConfig :: ToolConfig where
  "deepToolConfig = pipelineToolConfig (DefaultNaabuParams\<lparr>na_Ports := ''top1000''\<rparr>)
     [''critical'', ''high'', ''medium'', ''low'', ''info'']"

definition BuiltinTemplates :: "BuiltinTemplate list" where
  "BuiltinTemplates =
     [\<lparr>bt_Name = ''Default'',
       bt_Description = ''Discovery + resolution + port scan (top 100) + HTTP probe + Nuclei (critical/high). '' @
         ''Recommended starting point for most targets.'',
       bt_RecommendedFor = ''general-purpose daily scans'', bt_RRule = ''FREQ=DAILY;BYHOUR=2'', bt_Timezone = ''UTC'',
       bt_ToolConfig = defaultToolConfig\<rparr>,
      \<lparr>bt_Name = ''Fast'',
       bt_Description = ''Quick check: subdomain discovery + DNS resolution + HTTP probe. '' @
         ''Skips port scan and vulnerability scan. Useful for monitoring asset surface '' @
         ''without spending time on detection.'',
       bt_RecommendedFor = ''frequent surface-area monitoring'', bt_RRule = ''FREQ=DAILY;BYHOUR=0,6,12,18'',
       bt_Timezone = ''UTC'', bt_ToolConfig = fastToolConfig\<rparr>,
      \<lparr>bt_Name = ''Deep'',
       bt_Description = ''Full pipeline: discovery + resolution + port scan (top 1000) + HTTP probe + '' @
         ''Nuclei against all severities. Higher coverage, longer runtime. Recommended for '' @
         ''high-value targets on a weekly cadence.'',
       bt_RecommendedFor = ''high-value targets, weekly cadence'', bt_RRule = ''FREQ=WEEKLY;BYDAY=SU;BYHOUR=2'',
       bt_Timezone = ''UTC'', bt_ToolConfig = deepToolConfig\<rparr>]"

record SeedReport =
  sr_Created :: int
  sr_AlreadyPresent :: int
  sr_Names :: "string list"

definition builtin_row :: "BuiltinTemplate \<Rightarrow> Template" where
  "builtin_row b =
     \<lparr>tm_ID = [], tm_Name = bt_Name b, tm_Description = bt_Description b, tm_RRule = bt_RRule b,
      tm_Timezone = bt_Timezone b, tm_ToolConfig = bt_ToolConfig b, tm_MaintenanceWindow = None, tm_IsSystem = True,
      tm_CreatedAt = zero_time, tm_UpdatedAt = zero_time\<rparr>"

definition seed_one ::
  "'r rrule_lib \<Rightarrow> time \<Rightarrow> (string \<Rightarrow> string) \<Rightarrow> BuiltinTemplate \<Rightarrow> SeedReport \<times> db
   \<Rightarrow> (bootstrap_error, SeedReport \<times> db) result" where
  "seed_one lib now fresh b st =
     (case tmpl_GetByName (snd st) (bt_Name b) of
        Some _ \<Rightarrow> Inr ((fst st)\<lparr>sr_AlreadyPresent := sr_AlreadyPresent (fst st) + 1\<rparr>, snd st)
      | None \<Rightarrow>
          (case tmpl_Create lib now (fresh (bt_Name b)) (builtin_row b) (snd st) of
             Inl e \<Rightarrow>
               if e = ErrAlreadyExists
               then Inr ((fst st)\<lparr>sr_AlreadyPresent := sr_AlreadyPresent (fst st) + 1\<rparr>, snd st)
               else Inl (ErrSeed (bt_Name b) e)
           | Inr d \<Rightarrow> Inr ((fst st)\<lparr>sr_Created := sr_Created (fst st) + 1\<rparr>, d)))"

definition SeedBuiltinTemplates ::
  "'r rrule_lib \<Rightarrow> time \<Rightarrow> (string \<Rightarrow> string) \<Rightarrow> db \<Rightarrow> (bootstrap_error, SeedReport) result \<times> db" where
  "SeedBuiltinTemplates lib now fresh d =
     Transact (\<lambda>d. foldR (seed_one lib now fresh) BuiltinTemplates
       (\<lparr>sr_Created = 0, sr_AlreadyPresent = 0, sr_Names = map bt_Name BuiltinTemplates\<rparr>, d)) d"

section \<open>The start of a process\<close>

definition bootstrap_store ::
  "'r rrule_lib \<Rightarrow> time \<Rightarrow> (nat \<Rightarrow> string) \<Rightarrow> (string \<Rightarrow> string) \<Rightarrow> bool \<Rightarrow> state_dir \<Rightarrow> db
   \<Rightarrow> (bootstrap_error, unit) result \<times> state_dir \<times> db" where
  "bootstrap_store lib now fresh seed_fresh renamed dir d =
     (case MigrateLegacyScheduleConfig lib now fresh renamed dir d of
        (Inl e, dir', d') \<Rightarrow> (Inl e, dir', d')
      | (Inr _, dir', d') \<Rightarrow>
          (case SeedBuiltinTemplates lib now seed_fresh d' of
             (Inl e, d'') \<Rightarrow> (Inl e, dir', d'')
           | (Inr _, d'') \<Rightarrow> (Inr (), dir', d'')))"

section \<open>What the migration does\<close>

definition enabled_targets :: "db \<Rightarrow> Target list" where
  "enabled_targets d = filter tg_Enabled (ListTargets d)"

definition migrated_rows ::
  "time \<Rightarrow> (nat \<Rightarrow> string) \<Rightarrow> legacyScheduleConfig \<Rightarrow> string \<Rightarrow> nat \<Rightarrow> Target list \<Rightarrow> Schedule list" where
  "migrated_rows now fresh cfg rule n ts =
     map (\<lambda>(k, t). sched_row (sched_prepared now (fresh (Suc k)) (migrated_schedule cfg rule (fresh 0) now t))) (enumerate n ts)"

lemma sched_Create_row:
  "sched_Create lib now fresh s d = Inr d' \<Longrightarrow>
   d' = d\<lparr>db_schedules := db_schedules d @ [sched_row (sched_prepared now fresh s)]\<rparr>"
  by (auto simp: sched_Create_def Let_def split: if_splits sum.splits)

lemma migrate_targets_rows:
  "foldR (migrate_target lib now fresh cfg rule (fresh 0)) ts (n, d) = Inr (m, d') \<Longrightarrow>
   d' = d\<lparr>db_schedules := db_schedules d @ migrated_rows now fresh cfg rule n (filter tg_Enabled ts)\<rparr> \<and>
   m = n + length (filter tg_Enabled ts)"
proof (induction ts arbitrary: n d)
  case (Cons t ts)
  show ?case
  proof (cases "tg_Enabled t")
    case True
    obtain st where st: "migrate_target lib now fresh cfg rule (fresh 0) t (n, d) = Inr st"
      "foldR (migrate_target lib now fresh cfg rule (fresh 0)) ts st = Inr (m, d')"
      using Cons.prems by (auto split: sum.splits)
    from st(1) True obtain d1 where c: "sched_Create lib now (fresh (Suc n)) (migrated_schedule cfg rule (fresh 0) now t) d = Inr d1"
      and "st = (Suc n, d1)" by (auto simp: migrate_target_def split: sum.splits)
    note c = c st(2) [unfolded \<open>st = (Suc n, d1)\<close>]
    from Cons.IH [OF c(2)] sched_Create_row [OF c(1)] True show ?thesis
      by (simp add: migrated_rows_def)
  qed (use Cons in \<open>simp add: migrate_target_def\<close>)
qed (simp add: migrated_rows_def)

lemma migrate_tx_effect:
  assumes "migrate_tx lib now fresh cfg rule (ListTargets d) d = Inr (r, d')"
  shows "\<exists>x. db_defaults d = Some x \<and>
    d' = d\<lparr>db_templates := db_templates d @ [tmpl_row (tmpl_prepared now (fresh 0) (migrated_template cfg rule))],
      db_schedules := db_schedules d @ migrated_rows now fresh cfg rule 0 (enabled_targets d),
      db_defaults := Some ((migrated_defaults cfg rule (fresh 0) x)
        \<lparr>sd_DefaultTemplateID := nullableString (Some (fresh 0)), sd_UpdatedAt := trunc_sec now\<rparr>)\<rparr> \<and>
    tm_Name (migrated_template cfg rule) \<notin> tm_Name ` set (db_templates d) \<and>
    r = \<lparr>mr_TemplateID = fresh 0, mr_TargetsMigrated = int (length (enabled_targets d)),
      mr_SchedulesCreated = int (length (enabled_targets d)), mr_SkippedReason = []\<rparr>"
proof -
  obtain d1 x d2 n where t: "tmpl_Create lib now (fresh 0) (migrated_template cfg rule) d = Inr d1"
    and x: "def_Get d1 = Inr x" "def_Update now (migrated_defaults cfg rule (fresh 0) x) d1 = Inr d2"
    and f: "foldR (migrate_target lib now fresh cfg rule (fresh 0)) (ListTargets d) (0, d2) = Inr (n, d')"
    and r: "r = \<lparr>mr_TemplateID = fresh 0, mr_TargetsMigrated = int n, mr_SchedulesCreated = int n, mr_SkippedReason = []\<rparr>"
    using assms by (auto simp: migrate_tx_def split: sum.splits)
  have d1: "d1 = d\<lparr>db_templates := db_templates d @ [tmpl_row (tmpl_prepared now (fresh 0) (migrated_template cfg rule))]\<rparr>"
    and nm: "tm_Name (migrated_template cfg rule) \<notin> tm_Name ` set (db_templates d)"
    using t by (auto simp: tmpl_Create_def Let_def list_ex_iff tmpl_prepared_def split: if_splits sum.splits)
  have d2: "d2 = d1\<lparr>db_defaults := Some ((migrated_defaults cfg rule (fresh 0) x)
        \<lparr>sd_DefaultTemplateID := nullableString (Some (fresh 0)), sd_UpdatedAt := trunc_sec now\<rparr>)\<rparr>"
    using x(2) by (auto simp: def_Update_def Let_def migrated_defaults_def split: if_splits sum.splits option.splits)
  have "db_defaults d = Some x" using x(1) by (auto simp: def_Get_def d1 split: option.splits)
  then show ?thesis using migrate_targets_rows [OF f] nm by (simp add: d1 d2 r enabled_targets_def)
qed

lemma migrated_name [simp]: "tm_Name (migrated_template cfg rule) = ''default''"
  by (simp add: migrated_template_def)


text \<open>C38: A failed rename stops every later start. When the transaction of the migration is committed and the
  rename of the file then fails, the file is still there: as long as the template it made exists,
  every later start tries to create it again and fails before the scheduler is built.\<close>

theorem failed_rename_blocks_start:
  assumes "MigrateLegacyScheduleConfig lib now fresh renamed dir d = (Inl ErrRename, dir', d')"
    and "tmpl_GetByName d2 ''default'' \<noteq> None"
  shows "dir' = dir \<and> tmpl_GetByName d' ''default'' \<noteq> None \<and>
    (\<exists>e. bootstrap_store lib2 now2 fresh2 seed_fresh renamed2 dir' d2 = (Inl (ErrCreateDefault e), dir, d2))"
proof -
  have s: "dir_sentinel dir = NoSentinel"
    using assms by (auto simp: MigrateLegacyScheduleConfig_def split: legacy_sentinel.splits)
  then obtain cfg where cfg: "dir_source dir = Source cfg"
    using assms by (auto simp: MigrateLegacyScheduleConfig_def split: legacy_source.splits)
  then obtain full rule where fr: "lc_FullScanInterval cfg = Some full" "durationToRRule full = Inr rule"
    using assms s by (auto simp: MigrateLegacyScheduleConfig_def durationToRRule_def split: option.splits if_splits)
  have tx_err: "migrate_tx lib now fresh cfg rule ts d \<noteq> Inl ErrRename" for ts
  proof -
    have "foldR (migrate_target lib now fresh cfg rule (fresh 0)) ts st \<noteq> Inl ErrRename" for ts st
      by (induction ts arbitrary: st) (auto simp: migrate_target_def split: sum.splits)
    then show ?thesis by (auto simp: migrate_tx_def split: sum.splits)
  qed
  then obtain r where t: "migrate_tx lib now fresh cfg rule (ListTargets d) d = Inr (r, d')" and dir': "dir' = dir"
    using assms(1) s cfg fr
    by (auto simp: MigrateLegacyScheduleConfig_def Transact_def split: sum.splits prod.splits if_splits)
  have d': "\<exists>t \<in> set (db_templates d'). tm_Name t = ''default''"
    using migrate_tx_effect [OF t] by (auto simp: tmpl_prepared_def tmpl_row_def)
  have "\<exists>t \<in> set (db_templates d2). tm_Name t = ''default''"
    using assms(2) by (auto simp: tmpl_GetByName_def find_None_iff)
  then have "\<exists>e. tmpl_Create lib2 now2 (fresh2 0) (migrated_template cfg rule) d2 = Inl e"
    by (auto simp: tmpl_Create_def Let_def list_ex_iff tmpl_prepared_def tmpl_row_def split: sum.splits)
  then have "\<exists>e. bootstrap_store lib2 now2 fresh2 seed_fresh renamed2 dir' d2 = (Inl (ErrCreateDefault e), dir, d2)"
    using s cfg fr by (auto simp: bootstrap_store_def MigrateLegacyScheduleConfig_def Transact_def migrate_tx_def dir')
  then show ?thesis using dir' d' by (auto simp: tmpl_GetByName_def find_None_iff)
qed

section \<open>What the seed does\<close>

lemma builtin_names: "map bt_Name BuiltinTemplates = [''Default'', ''Fast'', ''Deep'']"
  by (simp add: BuiltinTemplates_def)

lemma GetByName_None: "tmpl_GetByName d n = None \<longleftrightarrow> n \<notin> tm_Name ` set (db_templates d)"
  by (auto simp: tmpl_GetByName_def find_None_iff)

lemma validate_no_conflict: "validateTemplateInput lib now t \<noteq> Inl ErrAlreadyExists"
  by (auto simp: validateTemplateInput_def lift_rrule_def lift_tool_def bindR_Inl_iff split: sum.splits)

lemma seed_row_fields [simp]:
  "tm_Name (tmpl_prepared now f t) = tm_Name t" "tm_Name (builtin_row b) = bt_Name b"
  "tmpl_newkey f (builtin_row b) = f" "tm_IsSystem (tmpl_row (tmpl_prepared now f (builtin_row b)))"
  by (simp_all add: tmpl_prepared_def tmpl_row_def builtin_row_def tmpl_newkey_def)

lemma seed_one_fresh:
  assumes "seed_one lib now fresh b (r, d) = Inr (r', d')" "fresh (bt_Name b) \<notin> tm_ID ` set (db_templates d)"
  shows "if bt_Name b \<in> tm_Name ` set (db_templates d)
    then d' = d \<and> r' = r\<lparr>sr_AlreadyPresent := sr_AlreadyPresent r + 1\<rparr>
    else d' = d\<lparr>db_templates := db_templates d @ [tmpl_row (tmpl_prepared now (fresh (bt_Name b)) (builtin_row b))]\<rparr> \<and>
      r' = r\<lparr>sr_Created := sr_Created r + 1\<rparr>"
proof (cases "bt_Name b \<in> tm_Name ` set (db_templates d)")
  case True
  then have "tmpl_GetByName d (bt_Name b) \<noteq> None" by (simp add: GetByName_None)
  then show ?thesis using True assms(1) by (auto simp: seed_one_def)
next
  case False
  then have "tmpl_GetByName d (bt_Name b) = None" by (simp add: GetByName_None)
  moreover have "\<not> list_ex (\<lambda>x. tm_ID x = fresh (bt_Name b) \<or> tm_Name x = bt_Name b) (db_templates d)"
    using False assms(2) by (auto simp: list_ex_iff image_iff)
  ultimately show ?thesis using False assms validate_no_conflict
    by (auto simp: seed_one_def tmpl_Create_def Let_def split: sum.splits if_splits)
qed

definition seed_rows :: "time \<Rightarrow> (string \<Rightarrow> string) \<Rightarrow> BuiltinTemplate list \<Rightarrow> db \<Rightarrow> Template list" where
  "seed_rows now fresh bs d =
     map (\<lambda>b. tmpl_row (tmpl_prepared now (fresh (bt_Name b)) (builtin_row b)))
       (filter (\<lambda>b. bt_Name b \<notin> tm_Name ` set (db_templates d)) bs)"

lemma seed_loop:
  assumes "foldR (seed_one lib now fresh) bs (r, d) = Inr (r', d')" "distinct (map bt_Name bs)" "inj fresh"
    and "fresh ` bt_Name ` set bs \<inter> tm_ID ` set (db_templates d) = {}"
  shows "d' = d\<lparr>db_templates := db_templates d @ seed_rows now fresh bs d\<rparr> \<and>
    r' = r\<lparr>sr_Created := sr_Created r + int (length (seed_rows now fresh bs d)),
      sr_AlreadyPresent := sr_AlreadyPresent r + (int (length bs) - int (length (seed_rows now fresh bs d)))\<rparr>"
  using assms
proof (induction bs arbitrary: r d)
  case (Cons b bs)
  obtain r1 d1 where s: "seed_one lib now fresh b (r, d) = Inr (r1, d1)"
    "foldR (seed_one lib now fresh) bs (r1, d1) = Inr (r', d')"
    using Cons.prems(1) by (auto split: sum.splits)
  have f: "fresh (bt_Name b) \<notin> tm_ID ` set (db_templates d)" using Cons.prems(4) by auto
  show ?case
  proof (cases "bt_Name b \<in> tm_Name ` set (db_templates d)")
    case True
    then have "d1 = d" "r1 = r\<lparr>sr_AlreadyPresent := sr_AlreadyPresent r + 1\<rparr>" using seed_one_fresh [OF s(1) f] by simp_all
    with Cons.IH [OF s(2)] Cons.prems True show ?thesis by (auto simp: seed_rows_def)
  next
    case False
    let ?t = "tmpl_row (tmpl_prepared now (fresh (bt_Name b)) (builtin_row b))"
    have d1: "d1 = d\<lparr>db_templates := db_templates d @ [?t]\<rparr>" "r1 = r\<lparr>sr_Created := sr_Created r + 1\<rparr>"
      using seed_one_fresh [OF s(1) f] False by simp_all
    have "fresh (bt_Name b) \<notin> fresh ` bt_Name ` set bs" using Cons.prems(2,3) by (auto dest: injD)
    then have "fresh ` bt_Name ` set bs \<inter> tm_ID ` set (db_templates d1) = {}"
      using Cons.prems(4) by (auto simp: d1 seed_row_fields)
    moreover have "seed_rows now fresh bs d1 = seed_rows now fresh bs d"
    proof -
      have "bt_Name x \<noteq> bt_Name b" if "x \<in> set bs" for x using Cons.prems(2) that by (metis distinct.simps(2) image_eqI list.map(2) list.set_map)
      then show ?thesis by (auto simp: seed_rows_def d1 intro!: arg_cong [where f = "map _"] filter_cong)
    qed
    ultimately show ?thesis using Cons.IH [OF s(2)] Cons.prems(2,3) False by (auto simp: seed_rows_def d1)
  qed
qed (simp add: seed_rows_def)

text \<open>C39: Seeding. With fresh identifiers, a successful seed adds exactly the built-in templates whose name is
  not taken, as system templates, leaves every other row as it is, and reports what it did; a second
  seed, whenever it runs, finds all three and changes nothing.\<close>

theorem seed_exact:
  assumes "SeedBuiltinTemplates lib now fresh d = (Inr r, d')" "inj fresh"
    and "fresh ` {''Default'', ''Fast'', ''Deep''} \<inter> tm_ID ` set (db_templates d) = {}"
  shows "d' = d\<lparr>db_templates := db_templates d @ seed_rows now fresh BuiltinTemplates d\<rparr> \<and>
    map tm_Name (seed_rows now fresh BuiltinTemplates d) =
      filter (\<lambda>n. n \<notin> tm_Name ` set (db_templates d)) [''Default'', ''Fast'', ''Deep''] \<and>
    (\<forall>t \<in> set (seed_rows now fresh BuiltinTemplates d). tm_IsSystem t) \<and>
    sr_Created r = int (length (seed_rows now fresh BuiltinTemplates d)) \<and> sr_Created r + sr_AlreadyPresent r = 3 \<and>
    SeedBuiltinTemplates lib2 now2 fresh2 d' =
      (Inr \<lparr>sr_Created = 0, sr_AlreadyPresent = 3, sr_Names = [''Default'', ''Fast'', ''Deep'']\<rparr>, d')"
proof -
  let ?b = "BuiltinTemplates" and ?r = "\<lparr>sr_Created = 0, sr_AlreadyPresent = 0, sr_Names = map bt_Name BuiltinTemplates\<rparr>"
  have f: "foldR (seed_one lib now fresh) ?b (?r, d) = Inr (r, d')"
    using assms(1) by (auto simp: SeedBuiltinTemplates_def Transact_def split: sum.splits prod.splits)
  have n: "bt_Name ` set ?b = {''Default'', ''Fast'', ''Deep''}" "length ?b = 3"
    by (auto simp: BuiltinTemplates_def)
  have e: "d' = d\<lparr>db_templates := db_templates d @ seed_rows now fresh ?b d\<rparr>"
    "sr_Created r = int (length (seed_rows now fresh ?b d))" "sr_Created r + sr_AlreadyPresent r = 3"
    using seed_loop [OF f _ assms(2)] assms(3) unfolding n(1) by (auto simp: builtin_names n(2))
  have nm: "map tm_Name (seed_rows now fresh ?b d) = filter (\<lambda>n. n \<notin> tm_Name ` set (db_templates d)) [''Default'', ''Fast'', ''Deep'']"
    unfolding builtin_names [symmetric] seed_rows_def by (simp add: filter_map o_def seed_row_fields)
  have "bt_Name b \<in> tm_Name ` set (db_templates d')" if "b \<in> set ?b" for b
  proof (cases "bt_Name b \<in> tm_Name ` set (db_templates d)")
    case False
    then have "tmpl_row (tmpl_prepared now (fresh (bt_Name b)) (builtin_row b)) \<in> set (seed_rows now fresh ?b d)"
      using that by (auto simp: seed_rows_def)
    then show ?thesis by (auto simp: e(1) image_iff intro!: bexI)
  qed (simp add: e(1) image_Un)
  then have one: "seed_one lib2 now2 fresh2 b (x, d') = Inr (x\<lparr>sr_AlreadyPresent := sr_AlreadyPresent x + 1\<rparr>, d')"
    if "b \<in> set ?b" for b x
    using that GetByName_None [of d' "bt_Name b"] by (auto simp: seed_one_def)
  have "foldR (seed_one lib2 now2 fresh2) bs (x, d') =
      Inr (x\<lparr>sr_AlreadyPresent := sr_AlreadyPresent x + int (length bs)\<rparr>, d')" if "set bs \<subseteq> set ?b" for bs x
    using that by (induction bs arbitrary: x) (auto simp: one)
  then have "SeedBuiltinTemplates lib2 now2 fresh2 d' =
      (Inr \<lparr>sr_Created = 0, sr_AlreadyPresent = 3, sr_Names = [''Default'', ''Fast'', ''Deep'']\<rparr>, d')"
    by (simp add: SeedBuiltinTemplates_def Transact_def builtin_names n(2))
  moreover have "\<forall>t \<in> set (seed_rows now fresh ?b d). tm_IsSystem t" by (auto simp: seed_rows_def seed_row_fields)
  ultimately show ?thesis using e nm by blast
qed

section \<open>Maintenance windows\<close>

lemma legacy_window_duration:
  assumes "legacyWindowToMaintenance w = Some m" "ParseTimeOfDay (lw_Start w) = Inr s" "ParseTimeOfDay (lw_End w) = Inr e"
  shows "seconds (mw_DurationSec m) =
    minute * (if tod_mins s < tod_mins e then tod_mins e - tod_mins s else 1440 - tod_mins s + tod_mins e)"
proof -
  have "mw_DurationSec m = 60 * (if tod_mins s < tod_mins e then tod_mins e - tod_mins s else 1440 - tod_mins s + tod_mins e)"
    using assms by (auto simp: legacyWindowToMaintenance_def Let_def tod_mins_def split: if_splits)
  moreover have "0 \<le> tod_mins s" "tod_mins s < 1440" "0 \<le> tod_mins e" "tod_mins e < 1440"
    using ParseTimeOfDay_valid [OF assms(2)] ParseTimeOfDay_valid [OF assms(3)] by (simp_all add: tod_mins_range)
  ultimately show ?thesis by (simp add: seconds_eq minute_def)
qed

text \<open>Daily occurrences at a minute of the day cover exactly a span of minutes after it.\<close>

lemma daily_cover:
  assumes "fixed_zone loc" "\<forall>u \<ge> t - day. occurs lib r u \<longleftrightarrow> local_time loc u mod day = minute * a"
    and "0 \<le> a" "a < 1440" "n \<le> 1440"
  shows "(\<exists>u. occurs lib r u \<and> u \<le> t \<and> t < u + minute * n) \<longleftrightarrow> (local_time loc t - minute * a) mod day < minute * n"
proof -
  let ?l = "local_time loc t" and ?k = "(local_time loc t - minute * a) mod day"
  have loc: "local_time loc u = ?l - (t - u)" for u
  proof -
    have "loc u = loc t" using assms(1) unfolding fixed_zone_def by blast
    then show ?thesis by (simp add: local_time_def)
  qed
  have n: "minute * n \<le> day" using minute_le [OF assms(5)] by (simp add: hour_minute)
  have a: "0 \<le> minute * a" "minute * a < day" using assms(3,4) by (auto simp: hour_minute minute_less)
  show ?thesis
  proof
    assume "\<exists>u. occurs lib r u \<and> u \<le> t \<and> t < u + minute * n"
    then obtain u where u: "occurs lib r u" "u \<le> t" "t < u + minute * n" by blast
    then have "(?l - (t - u)) mod day = minute * a" using assms(2) n loc [of u] by simp
    then have "?l - minute * a = day * ((?l - (t - u)) div day) + (t - u)"
      using mult_div_mod_eq [of day "?l - (t - u)"] by linarith
    then have "?k = t - u" using u n by (simp add: mod_mult_self4)
    then show "?k < minute * n" using u by simp
  next
    assume k: "?k < minute * n"
    have "?l - ?k = day * ((?l - minute * a) div day) + minute * a"
      using mult_div_mod_eq [of day "?l - minute * a"] by linarith
    then have "local_time loc (t - ?k) mod day = minute * a" using loc [of "t - ?k"] a by simp
    moreover have "0 \<le> ?k" "t - day \<le> t - ?k" by (simp_all add: less_imp_le)
    ultimately have "occurs lib r (t - ?k)" using assms(2) by blast
    then show "\<exists>u. occurs lib r u \<and> u \<le> t \<and> t < u + minute * n"
      using k \<open>0 \<le> ?k\<close> by (intro exI [of _ "t - ?k"]) simp
  qed
qed

lemma window_span:
  assumes "0 \<le> a" "a < 1440" "0 \<le> b" "b < 1440"
  shows "(l - minute * a) mod day < minute * (if a < b then b - a else 1440 - a + b) \<longleftrightarrow>
    (if a < b then a \<le> l mod day div minute \<and> l mod day div minute < b
     else a \<le> l mod day div minute \<or> l mod day div minute < b)"
proof -
  define x where "x = l mod day"
  have x: "0 \<le> x" "x < day" by (simp_all add: x_def)
  have d: "day = minute * 1440" by (simp add: hour_minute)
  have q: "minute * q \<le> x \<longleftrightarrow> q \<le> x div minute" for q
  proof
    assume "minute * q \<le> x"
    then show "q \<le> x div minute"
      using minute_less [of "x div minute" q] div_mod_minute [of x] by (cases "q \<le> x div minute") auto
  next
    assume "q \<le> x div minute"
    then show "minute * q \<le> x" using minute_le [of q "x div minute"] div_mod_minute [of x] by linarith
  qed
  have m: "(l - minute * a) mod day = (if a \<le> x div minute then x - minute * a else x - minute * a + day)"
  proof -
    have "(l - minute * a) mod day = (x - minute * a) mod day" by (simp add: x_def mod_diff_left_eq)
    moreover have "minute * a < day" "0 \<le> minute * a" using assms d minute_less [of a 1440] duration_pos(2) by (linarith, simp)
    moreover have "(x - minute * a) mod day = (x - minute * a + day) mod day" by simp
    ultimately show ?thesis using x q [of a] by (auto simp: mod_pos_pos_trivial simp del: mod_add_self2)
  qed
  have lt: "x < minute * q \<longleftrightarrow> x div minute < q" for q using q [of q] by linarith
  have "x - minute * a < minute * c \<longleftrightarrow> x div minute < a + c" for c
    using lt [of "a + c"] by (simp add: distrib_left algebra_simps)
  moreover have "x - minute * a + day < minute * c \<longleftrightarrow> x div minute < a + c - 1440" for c
    using lt [of "a + c - 1440"] by (simp add: d algebra_simps)
  moreover have "0 \<le> x div minute" "x div minute < 1440" using x lt [of 1440] d by (simp_all add: pos_imp_zdiv_nonneg_iff)
  ultimately show ?thesis using assms by (auto simp: m x_def [symmetric])
qed


text \<open>No maintenance window has an effect: neither the tick nor the computation of the next run reads the
  window of the schedule, of its template or of the defaults.\<close>

lemma dispatched:
  "fst (Dispatch j p) = (dispatch_check p \<and> \<not> wp_stopped p \<and> length (wp_jobs p) < wp_cap p)"
  by (auto simp: Dispatch_def dispatch_send_def)

lemma maintenance_window_unused:
  "fst (tick_one en now (s\<lparr>sch_MaintenanceWindow := m\<rparr>) st) = fst (tick_one en now s st)"
  "ComputeNextRunAt (wd :: 'a world) x (s\<lparr>sch_MaintenanceWindow := m\<rparr>) (map_option (\<lambda>t. t\<lparr>tm_MaintenanceWindow := m'\<rparr>) tmpl) =
   ComputeNextRunAt wd x s tmpl"
proof -
  show "fst (tick_one en now (s\<lparr>sch_MaintenanceWindow := m\<rparr>) st) = fst (tick_one en now s st)"
    by (simp add: tick_one_def Let_def case_prod_beta dispatched)
  show "ComputeNextRunAt wd x (s\<lparr>sch_MaintenanceWindow := m\<rparr>) (map_option (\<lambda>t. t\<lparr>tm_MaintenanceWindow := m'\<rparr>) tmpl) =
      ComputeNextRunAt wd x s tmpl"
  proof -
    let ?s = "s\<lparr>sch_MaintenanceWindow := m\<rparr>" and ?t = "map_option (\<lambda>t. t\<lparr>tm_MaintenanceWindow := m'\<rparr>) tmpl"
    have tc: "resolveToolConfig ?s ?t df = resolveToolConfig s tmpl df" for df
      by (cases tmpl) (simp_all add: resolveToolConfig_def)
    have "tmplRRule ?t = tmplRRule tmpl" "tmplTimezone ?t = tmplTimezone tmpl" by (cases tmpl; simp add: tmplRRule_def tmplTimezone_def)+
    then have "schedule_rule lib df t ?s ?t = schedule_rule lib df t s tmpl" for lib :: "'a rrule_lib" and df t
      by (cases "resolveToolConfig s tmpl df")
        (simp_all add: schedule_rule_def ResolveEffectiveConfig_def Let_def tc cong: option.case_cong if_cong)
    then show ?thesis
      by (simp add: ComputeNextRunAt_def split: sum.split option.split prod.split)
  qed
qed

section \<open>Witnesses\<close>

definition ex_legacy :: legacyScheduleConfig where
  "ex_legacy = \<lparr>lc_Enabled = True, lc_FullScanInterval = Some day, lc_QuickCheckInterval = None, lc_Jitter = Some minute,
     lc_RunOnStart = True, lc_QuickCheckTools = [''httpx'', ''ping''],
     lc_MaintenanceWindow = \<lparr>lw_Enabled = True, lw_Start = ''22:30'', lw_End = ''06:00'', lw_Timezone = ''UTC''\<rparr>\<rparr>"

definition ex_legacy_dir :: state_dir where
  "ex_legacy_dir = \<lparr>dir_source = Source ex_legacy, dir_sentinel = NoSentinel\<rparr>"

abbreviation ex_names :: "nat \<Rightarrow> string" where "ex_names n \<equiv> replicate (Suc n) CHR ''x''"


lemma failed_rename_blocks_start_witness:
  "\<exists>dir' d' e. MigrateLegacyScheduleConfig simple_lib 0 ex_names False ex_legacy_dir ex_db = (Inl ErrRename, dir', d') \<and>
     bootstrap_store simple_lib 5 ex_names id True dir' d' = (Inl (ErrCreateDefault e), ex_legacy_dir, d')"
proof -
  let ?m = "MigrateLegacyScheduleConfig simple_lib 0 ex_names False ex_legacy_dir ex_db"
  have "fst ?m = Inl ErrRename \<and> tmpl_GetByName (snd (snd ?m)) ''default'' \<noteq> None" by code_simp
  then obtain dir' d' where m: "?m = (Inl ErrRename, dir', d')" "tmpl_GetByName d' ''default'' \<noteq> None"
    by (cases ?m) auto
  then show ?thesis using failed_rename_blocks_start [OF m, of simple_lib 5 ex_names id True] by blast
qed

text \<open>A library that reads every rule as the daily one.\<close>

definition daily_lib :: "(time \<times> duration) rrule_lib" where
  "daily_lib = simple_lib\<lparr>StrToROption := (\<lambda>s. Some (simple_opt DAILY))\<rparr>"

lemma seed_exact_witness:
  "\<exists>r d'. SeedBuiltinTemplates daily_lib 0 id ex_db = (Inr r, d') \<and> sr_Created r = 3 \<and>
     SeedBuiltinTemplates daily_lib 5 id d' =
       (Inr \<lparr>sr_Created = 0, sr_AlreadyPresent = 3, sr_Names = [''Default'', ''Fast'', ''Deep'']\<rparr>, d')"
proof -
  let ?m = "SeedBuiltinTemplates daily_lib 0 id ex_db"
  have "is_ok (fst ?m)" by code_simp
  then obtain r d' where m: "?m = (Inr r, d')" by (cases ?m) (auto simp: is_ok_def split: sum.splits)
  have "db_templates ex_db = []" by (simp add: ex_db_def empty_db_def)
  then have n: "length (seed_rows 0 id BuiltinTemplates ex_db) = 3"
    by (simp add: seed_rows_def BuiltinTemplates_def)
  have "id ` {''Default'', ''Fast'', ''Deep''} \<inter> tm_ID ` set (db_templates ex_db) = {}"
    by (simp add: ex_db_def empty_db_def)
  from seed_exact [OF m inj_on_id this, of daily_lib 5 id] m n show ?thesis by auto
qed


end
