(* ===== verification/Spec2Isabelle.thy ===== *)
theory Spec2Isabelle
  imports Windows PipelineStore ApiProps WebProps Bootstrap
begin

text \<open>
  Surfbot agent: a verification library of its scheduler, stores, scan pipeline and interfaces.
\<close>

end
